(* ===== verification/Prelude.thy ===== *)
theory Prelude
  imports Main
begin

text \<open>
  Shared vocabulary of the VolunteerHub development.  The program is JavaScript: its
  persisted collections are JSON arrays searched with \<open>Array.prototype.find\<close> and
  mutated in place through the object that \<open>find\<close> returned.  This theory gives the
  list operations that model exactly that (\<open>find\<close> of Main and \<open>update_first\<close>),
  the JavaScript truthiness tests the code relies on (\<open>x || 0\<close>, \<open>if (userId)\<close>),
  the decimal rendering \<open>String(n)\<close> of a number used to make identifiers, and the
  lemmas on them that the component theories share.
\<close>

named_theorems store_simps "equations that evaluate the storage model on concrete states"

type_synonym uid = string
type_synonym timestamp = nat

subsection \<open>JavaScript truthiness\<close>

text \<open>A string is truthy iff it is not empty; \<open>null\<close> and \<open>undefined\<close> are \<open>None\<close>.\<close>

definition truthy_str :: "string \<Rightarrow> bool" where
  "truthy_str s \<longleftrightarrow> s \<noteq> []"

fun truthy_id :: "string option \<Rightarrow> bool" where
  "truthy_id None = False"
| "truthy_id (Some s) = truthy_str s"

text \<open>
  A numeric field that may be absent or \<open>NaN\<close> is an \<open>int option\<close>; \<open>x || 0\<close> reads
  it as \<open>0\<close> when it is absent, and \<open>if (x)\<close> tests it non-zero.
\<close>

fun or_zero :: "int option \<Rightarrow> int" where
  "or_zero None = 0"
| "or_zero (Some n) = n"

fun truthy_num :: "int option \<Rightarrow> bool" where
  "truthy_num None = False"
| "truthy_num (Some n) = (n \<noteq> 0)"

subsection \<open>In-place mutation of the first match\<close>

text \<open>
  \<open>const x = xs.find(p); x.f = v;\<close> mutates the first element satisfying \<open>p\<close>; with no
  match nothing changes.
\<close>

fun update_first :: "('a \<Rightarrow> bool) \<Rightarrow> ('a \<Rightarrow> 'a) \<Rightarrow> 'a list \<Rightarrow> 'a list" where
  "update_first P f [] = []"
| "update_first P f (x # xs) = (if P x then f x # xs else x # update_first P f xs)"

subsection \<open>\<open>String(n)\<close> for a natural number\<close>

fun digit_string :: "nat \<Rightarrow> string" where
  "digit_string n =
     (if n < 10 then [char_of (48 + n)]
      else digit_string (n div 10) @ [char_of (48 + n mod 10)])"

declare digit_string.simps [simp del]

subsection \<open>Lemmas on \<open>update_first\<close> and \<open>find\<close>\<close>

lemma length_update_first [simp]: "length (update_first P f xs) = length xs"
  by (induction xs) auto

lemma update_first_no_match:
  "\<not> (\<exists>x\<in>set xs. P x) \<Longrightarrow> update_first P f xs = xs"
  by (induction xs) auto

lemma update_first_find_None [simp]:
  "find P xs = None \<Longrightarrow> update_first P f xs = xs"
  by (induction xs) (auto split: if_splits)

lemma map_update_first_inv:
  "(\<And>x. P x \<Longrightarrow> g (f x) = g x) \<Longrightarrow> map g (update_first P f xs) = map g xs"
  by (induction xs) auto

lemma set_update_first:
  "y \<in> set (update_first P f xs) \<Longrightarrow> y \<in> set xs \<or> (\<exists>x\<in>set xs. P x \<and> y = f x)"
  by (induction xs) (auto split: if_splits)

lemma update_first_preserves:
  assumes "\<forall>x\<in>set xs. I x"
    and "\<And>x. x \<in> set xs \<Longrightarrow> P x \<Longrightarrow> I (f x)"
  shows "\<forall>y\<in>set (update_first P f xs). I y"
  using assms by (blast dest: set_update_first)

lemma update_first_preserves_found:
  assumes "\<forall>x\<in>set xs. I x"
    and "\<And>x. find P xs = Some x \<Longrightarrow> I (f x)"
  shows "\<forall>y\<in>set (update_first P f xs). I y"
  using assms by (induction xs) auto

text \<open>
  The lookup a mutation is made through: searching by a key that the mutation keeps finds
  the mutated element under the same key and the untouched one under any other key.
\<close>

lemma find_update_first_key:
  assumes "\<And>x. key (f x) = key x"
  shows "find (\<lambda>x. key x = k') (update_first (\<lambda>x. key x = k) f xs) =
    (if k' = k then map_option f (find (\<lambda>x. key x = k) xs) else find (\<lambda>x. key x = k') xs)"
  using assms by (induction xs) auto

lemma find_Some_in_set: "find P xs = Some x \<Longrightarrow> x \<in> set xs \<and> P x"
  by (induction xs) (auto split: if_splits)

lemma find_None_iff': "find P xs = None \<longleftrightarrow> (\<forall>x\<in>set xs. \<not> P x)"
  by (induction xs) auto

text \<open>A sum over the collection changes by exactly what the mutation changes.\<close>

lemma sum_update_first:
  fixes g :: "'a \<Rightarrow> int"
  shows "sum_list (map g (update_first P f xs)) =
    sum_list (map g xs) + (case find P xs of None \<Rightarrow> 0 | Some x \<Rightarrow> g (f x) - g x)"
  by (induction xs) auto

lemma find_append_left:
  "find P xs = Some x \<Longrightarrow> find P (xs @ ys) = Some x"
  by (induction xs) (auto split: if_splits)

lemma find_append_None:
  "find P xs = None \<Longrightarrow> find P (xs @ ys) = find P ys"
  by (induction xs) (auto split: if_splits)

lemma update_first_append_left:
  "\<exists>x\<in>set xs. P x \<Longrightarrow> update_first P f (xs @ ys) = update_first P f xs @ ys"
  by (induction xs) auto

text \<open>
  The two facts an upsert needs: a mutation through one lookup leaves a lookup by another
  key alone when it does not touch that element, and it is found under its new key when
  every element with that key would have matched.
\<close>

lemma find_update_first_miss:
  assumes "find (\<lambda>u. key u = k) xs = Some x" and "\<not> P x" and "\<And>y. P y \<Longrightarrow> key (f y) \<noteq> k"
  shows "find (\<lambda>u. key u = k) (update_first P f xs) = Some x"
  using assms by (induction xs) (auto split: if_splits)

lemma find_update_first_hit:
  assumes "find P xs = Some x" and "\<And>y. key y = k \<Longrightarrow> P y" and "key (f x) = k"
  shows "find (\<lambda>u. key u = k) (update_first P f xs) = Some (f x)"
  using assms by (induction xs) (auto split: if_splits)

text \<open>
  On a collection whose keys are distinct, the mutation through \<open>find\<close> by key is the
  replacement \<open>xs.map(x => x.id === k ? f(x) : x)\<close> that the React caches perform.
\<close>

lemma update_first_distinct_map:
  "distinct (map key xs) \<Longrightarrow>
   update_first (\<lambda>x. key x = k) f xs = map (\<lambda>x. if key x = k then f x else x) xs"
proof (induction xs)
  case (Cons x xs)
  then have "map (\<lambda>y. if key y = k then f y else y) xs = xs" if "key x = k"
    using that Cons.prems by (intro map_idI) (auto simp: image_iff)
  with Cons show ?case by auto
qed simp

lemma find_distinct_key:
  "distinct (map key xs) \<Longrightarrow> x \<in> set xs \<Longrightarrow> key x = k \<Longrightarrow> find (\<lambda>y. key y = k) xs = Some x"
  by (induction xs) (auto simp: image_iff)

lemmas find_lemmas = find_Some_in_set find_None_iff' find_update_first_key

text \<open>\<open>xs.map(f).filter(m => m !== null)\<close> is \<open>List.map_filter\<close>; its elements.\<close>

lemma in_set_map_filter [simp]: "y \<in> set (List.map_filter f xs) \<longleftrightarrow> (\<exists>x\<in>set xs. f x = Some y)"
  by (induction xs) (auto split: option.split)

text \<open>Removing the \<open>i\<close>-th element (\<open>filter((_, j) => j !== i)\<close>, and a settled request).\<close>

lemma set_remove_nth:
  "i < length xs \<Longrightarrow> set xs = insert (xs ! i) (set (take i xs @ drop (Suc i) xs))"
  by (subst (1) id_take_nth_drop [of i xs]) auto

lemma length_filter_remove_nth:
  "i < length xs \<Longrightarrow>
    length (filter P xs) = length (filter P (take i xs @ drop (Suc i) xs)) + (if P (xs ! i) then 1 else 0)"
  by (subst id_take_nth_drop [of i xs]) simp_all

end
