(* ===== verification/Store.thy ===== *)
theory Store
  imports Complex_Main Prelude
begin

text \<open>
  The data model of \<open>src/Volonter-Hub-main/src/services/mockApi.js\<close>: the records kept
  in the three \<open>localStorage\<close> collections (users, tasks, chat messages), the task
  status strings, the errors the API throws, and the lookups by identifier that every
  operation starts with.  A JSON array of objects is a list of records; a field that the
  objects may lack is an \<open>option\<close>.
\<close>

subsection \<open>Roles and task statuses\<close>

datatype role = ADMIN | USER

text \<open>
  The status is stored as a string and \<open>updateTaskStatus\<close> accepts any string.  The six
  strings the application uses are constructors; every other string is kept as
  \<open>Other\<close>.
\<close>

datatype status = PENDING | OPEN | IN_PROGRESS | REVIEW | DONE | REJECTED | Other string

definition status_of_string :: "string \<Rightarrow> status" where
  "status_of_string s =
    (if s = ''PENDING'' then PENDING
     else if s = ''OPEN'' then OPEN
     else if s = ''IN_PROGRESS'' then IN_PROGRESS
     else if s = ''REVIEW'' then REVIEW
     else if s = ''DONE'' then DONE
     else if s = ''REJECTED'' then REJECTED
     else Other s)"

fun status_string :: "status \<Rightarrow> string" where
  "status_string PENDING = ''PENDING''"
| "status_string OPEN = ''OPEN''"
| "status_string IN_PROGRESS = ''IN_PROGRESS''"
| "status_string REVIEW = ''REVIEW''"
| "status_string DONE = ''DONE''"
| "status_string REJECTED = ''REJECTED''"
| "status_string (Other s) = s"

text \<open>A status value is canonical when it is what its string parses to.\<close>

definition canonical_status :: "status \<Rightarrow> bool" where
  "canonical_status st \<longleftrightarrow> status_of_string (status_string st) = st"

subsection \<open>Records\<close>

record user =
  user_id :: uid
  login :: string
  password :: string
  role :: role
  user_name :: string
  email :: "string option"
  phone :: "string option"
  contact_info :: "string option"
  user_points :: "int option"

text \<open>The completion report posted by \<open>CompleteTaskModal\<close>: \<open>{description, imageUrl}\<close>.\<close>

record report =
  report_description :: string
  report_image_url :: string

text \<open>A point \<open>{ lat, lng }\<close> as the client code passes it around.\<close>

record coords =
  lat :: real
  lng :: real

text \<open>
  A stored task.  \<open>phone\<close> and \<open>contactInfo\<close> are copied from the create form by the
  \<open>...taskData\<close> spread of \<open>createTask\<close>; the seeded tasks have neither.  The
  coordinates \<open>latitude\<close> and \<open>longitude\<close> are JavaScript numbers, modelled as reals
  (no rounding, no \<open>NaN\<close>): the seeded tasks carry their city's, a migrated task its new
  city's, and a created task the point chosen in the form.
\<close>

record task =
  task_id :: string
  title :: string
  description :: string
  city :: string
  address :: string
  image_url :: "string option"
  images :: "string list"
  status :: status
  created_by :: uid
  assigned_to :: "uid option"
  task_points :: "int option"
  report :: "report option"
  created_at :: timestamp
  task_phone :: "string option"
  task_contact_info :: "string option"
  latitude :: "real option"
  longitude :: "real option"

record message =
  msg_id :: string
  msg_task_id :: string
  sender_id :: uid
  msg_text :: string
  msg_timestamp :: timestamp

text \<open>The three collections of \<open>STORAGE_KEYS\<close>, each a JSON array.\<close>

record store =
  users :: "user list"
  tasks :: "task list"
  chat_messages :: "message list"

subsection \<open>Errors\<close>

text \<open>Every \<open>throw new Error(...)\<close> of \<open>mockApi\<close> and of the contexts that call it (the Russian messages rendered in English).\<close>

datatype api_error =
    TaskNotFound        \<comment> \<open>"task not found" (updateTaskStatus)\<close>
  | TaskAlreadyTaken    \<comment> \<open>"task already taken by another volunteer"\<close>
  | InvalidCredentials  \<comment> \<open>"wrong login or password" (login)\<close>
  | LoginExists         \<comment> \<open>"a user with this login exists" (register)\<close>
  | UserNotFound        \<comment> \<open>"user not found" (updateUser)\<close>
  | NotAuthorized       \<comment> \<open>"user not authorised" (TaskContext)\<close>

type_synonym 'a result = "api_error + 'a"

subsection \<open>Lookups\<close>

definition find_task :: "string \<Rightarrow> store \<Rightarrow> task option" where
  "find_task k st = find (\<lambda>t. task_id t = k) (tasks st)"

definition find_user :: "uid \<Rightarrow> user list \<Rightarrow> user option" where
  "find_user k us = find (\<lambda>u. user_id u = k) us"

text \<open>The balance of a user as the ledger reads it: \<open>(u.points || 0)\<close>; \<open>0\<close> for a missing user.\<close>

definition balance :: "user list \<Rightarrow> uid \<Rightarrow> int" where
  "balance us k = (case find_user k us of None \<Rightarrow> 0 | Some u \<Rightarrow> or_zero (user_points u))"

definition total_points :: "user list \<Rightarrow> int" where
  "total_points us = sum_list (map (\<lambda>u. or_zero (user_points u)) us)"

subsection \<open>Object spread on users\<close>

text \<open>
  \<open>{...user, ...patch}\<close> (\<open>updateUser\<close>) and \<open>Object.assign(user, patch)\<close>
  (\<open>seedData\<close>) overwrite exactly the keys the patch object has.  A patch is a user
  whose every field may be absent.
\<close>

record user_patch =
  patch_id :: "uid option"
  patch_login :: "string option"
  patch_password :: "string option"
  patch_role :: "role option"
  patch_name :: "string option"
  patch_email :: "string option"
  patch_phone :: "string option"
  patch_contact_info :: "string option"
  patch_points :: "int option"

fun override :: "'a option \<Rightarrow> 'a \<Rightarrow> 'a" where
  "override None x = x"
| "override (Some v) x = v"

definition apply_patch :: "user_patch \<Rightarrow> user \<Rightarrow> user" where
  "apply_patch p u =
    u\<lparr>user_id := override (patch_id p) (user_id u),
      login := override (patch_login p) (login u),
      password := override (patch_password p) (password u),
      role := override (patch_role p) (role u),
      user_name := override (patch_name p) (user_name u),
      email := (case patch_email p of None \<Rightarrow> email u | Some e \<Rightarrow> Some e),
      phone := (case patch_phone p of None \<Rightarrow> phone u | Some e \<Rightarrow> Some e),
      contact_info := (case patch_contact_info p of None \<Rightarrow> contact_info u | Some e \<Rightarrow> Some e),
      user_points := (case patch_points p of None \<Rightarrow> user_points u | Some n \<Rightarrow> Some n)\<rparr>"

text \<open>A user object used as a patch: its absent keys are the patch's absent keys.\<close>

definition user_as_patch :: "user \<Rightarrow> user_patch" where
  "user_as_patch u =
    \<lparr>patch_id = Some (user_id u), patch_login = Some (login u), patch_password = Some (password u),
     patch_role = Some (role u), patch_name = Some (user_name u), patch_email = email u,
     patch_phone = phone u, patch_contact_info = contact_info u, patch_points = user_points u\<rparr>"

subsection \<open>Lemmas\<close>

lemma status_string_of_string: "status_string (status_of_string s) = s"
  by (simp add: status_of_string_def)

lemma balance_update_other:
  assumes "\<And>u. user_id (f u) = user_id u" and "k' \<noteq> k"
  shows "balance (update_first (\<lambda>u. user_id u = k) f us) k' = balance us k'"
  using assms by (simp add: balance_def find_user_def find_update_first_key)

lemma balance_update_same:
  assumes "\<And>u. user_id (f u) = user_id u" and "find_user k us = Some u"
  shows "balance (update_first (\<lambda>u. user_id u = k) f us) k = or_zero (user_points (f u))"
  using assms by (simp add: balance_def find_user_def find_update_first_key)

lemma total_points_update:
  "total_points (update_first P f us) =
    total_points us + (case find P us of None \<Rightarrow> 0
                       | Some u \<Rightarrow> or_zero (user_points (f u)) - or_zero (user_points u))"
  unfolding total_points_def by (rule sum_update_first)

lemmas lookup_defs [store_simps] = find_task_def find_user_def balance_def

end
