(* ===== verification/Seed.thy ===== *)
theory Seed
  imports Store
begin

text \<open>
  The initialisation that \<open>mockApi.js\<close> runs every time the module is loaded
  (\<open>seedData()\<close>, lines 26--167): the default accounts and tasks, the migration of
  Russian city names in stored tasks to Kazakh ones, and the upsert of the default
  accounts into the stored user list with \<open>Object.assign\<close>.  The source's Cyrillic
  literals (names, cities, titles) are written in an ASCII transliteration; the code
  only compares them for equality, which the renaming preserves.  A default task carries its
  city's coordinates, and a migrated task gets those of its new city from the API's
  table \<open>cityCoordinates\<close>.
\<close>

subsection \<open>Default data\<close>

definition default_users :: "user list" where
  "default_users =
    [\<lparr>user_id = ''1'', login = ''admin'', password = ''admin'', role = ADMIN,
      user_name = ''Administrator'', email = Some ''admin@platform.ru'',
      phone = None, contact_info = None, user_points = None\<rparr>,
     \<lparr>user_id = ''2'', login = ''user1'', password = ''123'', role = USER,
      user_name = ''Ivan Petrov'', email = Some ''user1@platform.ru'',
      phone = None, contact_info = None, user_points = Some 200\<rparr>,
     \<lparr>user_id = ''3'', login = ''user2'', password = ''123'', role = USER,
      user_name = ''Mariya Ivanova'', email = Some ''user2@platform.ru'',
      phone = None, contact_info = None, user_points = Some 200\<rparr>]"

definition seed_task ::
  "string \<Rightarrow> string \<Rightarrow> string \<Rightarrow> status \<Rightarrow> uid option \<Rightarrow> timestamp \<Rightarrow> int \<Rightarrow> task" where
  "seed_task k ttl c s a t0 p =
    \<lparr>task_id = k, title = ttl, description = ttl, city = c, address = '''',
     image_url = Some ''https://images.unsplash.com'', images = [], status = s,
     created_by = ''3'', assigned_to = a, task_points = Some p, report = None, created_at = t0,
     task_phone = None, task_contact_info = None, latitude = None, longitude = None\<rparr>"

text \<open>Lines 68--69, 82--83, 97--98 and 111--112: the coordinates written into a seeded task.\<close>

definition at_point :: "real \<Rightarrow> real \<Rightarrow> task \<Rightarrow> task" where
  [simp]: "at_point la lo t = t\<lparr>latitude := Some la, longitude := Some lo\<rparr>"

definition default_tasks :: "timestamp \<Rightarrow> task list" where
  "default_tasks now =
    [at_point 43.2220 76.8512 (seed_task ''1'' ''Help cleaning an apartment'' ''Almaty'' OPEN None (now - 86400000 * 2) 50),
     at_point 51.1694 71.4491 (seed_task ''2'' ''Grocery delivery'' ''Astana'' PENDING None (now - 86400000) 30),
     at_point 42.3419 69.5901 (seed_task ''3'' ''Help with repairs'' ''Shymkent'' DONE (Some ''2'') (now - 86400000 * 5) 75),
     at_point 43.2220 76.8512 (seed_task ''4'' ''Walking a dog'' ''Almaty'' OPEN None (now - 3600000) 25)]"

text \<open>Lines 11--24: the API's own table of city coordinates (names transliterated).\<close>

definition api_cityCoordinates :: "(string \<times> coords) list" where
  "api_cityCoordinates =
    [(''Almaty'', \<lparr>lat = 43.2220, lng = 76.8512\<rparr>),
     (''Astana'', \<lparr>lat = 51.1694, lng = 71.4491\<rparr>),
     (''Shymkent'', \<lparr>lat = 42.3419, lng = 69.5901\<rparr>),
     (''Aktobe'', \<lparr>lat = 50.2833, lng = 57.1667\<rparr>),
     (''Karaganda'', \<lparr>lat = 49.8014, lng = 73.1059\<rparr>),
     (''Taraz'', \<lparr>lat = 42.9000, lng = 71.3667\<rparr>),
     (''Pavlodar'', \<lparr>lat = 52.3000, lng = 76.9500\<rparr>),
     (''Ust-Kamenogorsk'', \<lparr>lat = 49.9500, lng = 82.6167\<rparr>),
     (''Semey'', \<lparr>lat = 50.4111, lng = 80.2275\<rparr>),
     (''Kostanay'', \<lparr>lat = 53.2167, lng = 63.6333\<rparr>),
     (''Kyzylorda'', \<lparr>lat = 44.8500, lng = 65.5167\<rparr>),
     (''Petropavlovsk'', \<lparr>lat = 54.8667, lng = 69.1500\<rparr>)]"

text \<open>Line 135: \<open>cityCoordinates[newCity] || cityCoordinates['Almaty']\<close>.\<close>

definition api_city_coords :: "string \<Rightarrow> coords" where
  "api_city_coords c =
    (case map_of api_cityCoordinates c of Some p \<Rightarrow> p | None \<Rightarrow> the (map_of api_cityCoordinates ''Almaty''))"

subsection \<open>City migration (lines 119--148)\<close>

definition city_map :: "string \<Rightarrow> string option" where
  "city_map c =
    (if c = ''Moskva'' then Some ''Almaty''
     else if c = ''Sankt-Peterburg'' then Some ''Astana''
     else if c = ''Kazan'' then Some ''Shymkent''
     else if c = ''Novosibirsk'' then Some ''Karaganda''
     else if c = ''Ekaterinburg'' then Some ''Aktobe''
     else if c = ''Nizhniy Novgorod'' then Some ''Pavlodar''
     else if c = ''Krasnodar'' then Some ''Taraz''
     else None)"

text \<open>\<open>String.prototype.replace\<close> with a string pattern: the first occurrence only.\<close>

fun replace_first :: "string \<Rightarrow> string \<Rightarrow> string \<Rightarrow> string" where
  "replace_first pat r [] = (if pat = [] then r else [])"
| "replace_first pat r (c # cs) =
     (if take (length pat) (c # cs) = pat then r @ drop (length pat) (c # cs)
      else c # replace_first pat r cs)"

definition migrate_task :: "task \<Rightarrow> task" where
  "migrate_task t =
    (case city_map (city t) of
       None \<Rightarrow> t
     | Some c \<Rightarrow> t\<lparr>city := c,
                   latitude := Some (lat (api_city_coords c)), longitude := Some (lng (api_city_coords c)),
                   address := (if truthy_str (address t) then replace_first (city t) c (address t)
                               else c)\<rparr>)"

subsection \<open>Upsert of the default accounts (lines 150--157)\<close>

definition upsert_user :: "user \<Rightarrow> user list \<Rightarrow> user list" where
  "upsert_user d us =
    (case find (\<lambda>u. user_id u = user_id d \<or> login u = login d) us of
       Some _ \<Rightarrow> update_first (\<lambda>u. user_id u = user_id d \<or> login u = login d)
                   (apply_patch (user_as_patch d)) us
     | None \<Rightarrow> us @ [d])"

definition seedData :: "timestamp \<Rightarrow> store \<Rightarrow> store" where
  "seedData now st =
    (let ts = (if tasks st \<noteq> [] then map migrate_task (tasks st) else tasks st);
         us = fold upsert_user default_users (users st);
         ts' = (if ts = [] then default_tasks now else ts)
     in st\<lparr>users := us, tasks := ts'\<rparr>)"

text \<open>The state of a first visit: empty storage, then \<open>seedData()\<close>.\<close>

definition empty_store :: store where
  "empty_store = \<lparr>users = [], tasks = [], chat_messages = []\<rparr>"

definition first_visit :: "timestamp \<Rightarrow> store" where
  "first_visit now = seedData now empty_store"

subsection \<open>Lemmas\<close>

lemma first_visit_eq:
  "first_visit now = \<lparr>users = default_users, tasks = default_tasks now, chat_messages = []\<rparr>"
  by (simp add: first_visit_def seedData_def empty_store_def Let_def upsert_user_def default_users_def)

lemmas seed_simps = first_visit_eq default_tasks_def seed_task_def find_task_def find_user_def
  default_users_def truthy_str_def balance_def

lemma apply_patch_user_as_patch [simp]:
  "user_id (apply_patch (user_as_patch d) u) = user_id d"
  "login (apply_patch (user_as_patch d) u) = login d"
  "user_points (apply_patch (user_as_patch d) u) =
     (case user_points d of None \<Rightarrow> user_points u | Some n \<Rightarrow> Some n)"
  by (simp_all add: apply_patch_def user_as_patch_def)

lemma upsert_user_hit:
  "\<exists>y. find_user (user_id d) (upsert_user d us) = Some y \<and> login y = login d \<and>
       (user_points d \<noteq> None \<longrightarrow> user_points y = user_points d)"
proof (cases "find (\<lambda>u. user_id u = user_id d \<or> login u = login d) us")
  case None
  then have "find_user (user_id d) us = None"
    by (auto simp: find_user_def find_None_iff')
  with None show ?thesis
    by (simp add: upsert_user_def find_user_def find_append_None)
next
  case (Some x)
  have "find_user (user_id d) (upsert_user d us) = Some (apply_patch (user_as_patch d) x)"
    using Some find_update_first_hit [OF Some, of user_id "user_id d" "apply_patch (user_as_patch d)"]
    by (simp add: upsert_user_def find_user_def)
  then show ?thesis by (auto split: option.split)
qed

lemma upsert_user_keep:
  assumes "find_user k us = Some x" and "k \<noteq> user_id d" and "login x \<noteq> login d"
  shows "find_user k (upsert_user d us) = Some x"
proof (cases "find (\<lambda>u. user_id u = user_id d \<or> login u = login d) us")
  case None
  with assms(1) show ?thesis
    by (simp add: upsert_user_def find_user_def find_append_left)
next
  case (Some y)
  have "find (\<lambda>u. user_id u = k) (update_first (\<lambda>u. user_id u = user_id d \<or> login u = login d)
          (apply_patch (user_as_patch d)) us) = Some x"
    using assms find_Some_in_set [of "\<lambda>u. user_id u = k" us x]
    by (intro find_update_first_miss) (auto simp: find_user_def)
  with Some show ?thesis by (simp add: upsert_user_def find_user_def)
qed

text \<open>C12: Every load of the API module resets the balances of the two seeded volunteer accounts (ids 2 and 3) to 200, whatever the stored ledger held: Object.assign copies the default points over the stored ones.\<close>

theorem seed_resets_points:
  "balance (users (seedData now st)) ''2'' = 200 \<and> balance (users (seedData now st)) ''3'' = 200"
proof -
  let ?us0 = "upsert_user (default_users ! 0) (users st)"
  let ?us1 = "upsert_user (default_users ! 1) ?us0"
  have fold: "users (seedData now st) = upsert_user (default_users ! 2) ?us1"
    by (simp add: seedData_def Let_def default_users_def)
  obtain y where y: "find_user ''2'' ?us1 = Some y" and ly: "login y = ''user1''"
    and py: "user_points y = Some 200"
    using upsert_user_hit [of "default_users ! 1" ?us0] by (auto simp: default_users_def)
  obtain z where z: "find_user ''3'' (upsert_user (default_users ! 2) ?us1) = Some z"
    and pz: "user_points z = Some 200"
    using upsert_user_hit [of "default_users ! 2" ?us1] by (auto simp: default_users_def)
  have "find_user ''2'' (upsert_user (default_users ! 2) ?us1) = Some y"
    using upsert_user_keep [OF y] ly by (simp add: default_users_def)
  with py z pz fold show ?thesis by (simp add: balance_def)
qed

end
