(* ===== verification/Lifecycle.thy ===== *)
theory Lifecycle
  imports Seed
begin

text \<open>
  The task lifecycle and the points ledger, fused in \<open>mockApi.js\<close> as they are in the
  source: \<open>getTasks\<close>, \<open>createTask\<close> (escrow of the task's points from the creator),
  \<open>updateTaskStatus\<close> (claim, report, payout on \<open>DONE\<close>) and \<open>abandonTask\<close>
  (penalty moved from the volunteer to the creator).  Each operation takes the store it
  reads from \<open>localStorage\<close> and returns the store it writes back; a \<open>throw\<close> is an
  \<open>Inl\<close> and writes nothing.
\<close>

subsection \<open>getTasks\<close>

definition getTasks :: "uid \<Rightarrow> role \<Rightarrow> store \<Rightarrow> task list" where
  "getTasks user_id' role' st = tasks st"

subsection \<open>createTask\<close>

text \<open>
  The object the form passes (\<open>CreateTaskForm\<close> through \<open>TaskContext.createTask\<close>,
  which adds \<open>createdBy\<close>).  \<open>points\<close> is \<open>parseInt\<close> of the form field, so it is
  an integer or \<open>NaN\<close> (\<open>None\<close>).
\<close>

record task_data =
  data_title :: string
  data_description :: string
  data_city :: string
  data_address :: string
  data_image_url :: "string option"
  data_images :: "string list option"
  data_points :: "int option"
  data_created_by :: uid
  data_phone :: "string option"
  data_contact_info :: "string option"
  data_latitude :: "real option"
  data_longitude :: "real option"

text \<open>\<open>creator.points >= pointsToDeduct\<close>: an absent balance compares false.\<close>

fun can_deduct :: "int option \<Rightarrow> int \<Rightarrow> bool" where
  "can_deduct None d = False"
| "can_deduct (Some b) d = (d \<le> b)"

definition deduct :: "int \<Rightarrow> user \<Rightarrow> user" where
  "deduct d u = u\<lparr>user_points := map_option (\<lambda>b. b - d) (user_points u)\<rparr>"

text \<open>Lines 222--230: the escrow of the task's points, skipped when the balance is short.\<close>

definition escrow :: "task_data \<Rightarrow> user list \<Rightarrow> user list" where
  "escrow d us =
    (case find_user (data_created_by d) us of
       None \<Rightarrow> us
     | Some c \<Rightarrow>
         (let ded = or_zero (data_points d) in
          if can_deduct (user_points c) ded
          then update_first (\<lambda>u. user_id u = data_created_by d) (deduct ded) us
          else us))"

text \<open>Lines 232--245: the new task, \<open>{id: String(Date.now()), ...taskData, ...}\<close>.\<close>

definition new_task :: "timestamp \<Rightarrow> task_data \<Rightarrow> task" where
  "new_task now d =
    \<lparr>task_id = digit_string now,
     title = data_title d,
     description = data_description d,
     city = data_city d,
     address = (if truthy_str (data_address d) then data_address d
                else if truthy_str (data_city d) then data_city d else ''''),
     image_url = data_image_url d,
     images = (case data_images d of
                 Some is \<Rightarrow> is
               | None \<Rightarrow> (case data_image_url d of
                            Some u \<Rightarrow> if truthy_str u then [u] else []
                          | None \<Rightarrow> [])),
     status = PENDING,
     created_by = data_created_by d,
     assigned_to = None,
     task_points = data_points d,
     report = None,
     created_at = now,
     task_phone = data_phone d,
     task_contact_info = data_contact_info d,
     latitude = data_latitude d,
     longitude = data_longitude d\<rparr>"

definition createTask :: "timestamp \<Rightarrow> task_data \<Rightarrow> store \<Rightarrow> store \<times> task" where
  "createTask now d st =
    (let t = new_task now d
     in (st\<lparr>users := escrow d (users st), tasks := tasks st @ [t]\<rparr>, t))"

subsection \<open>updateTaskStatus\<close>

text \<open>
  Lines 260--272: the fields written on the task object.  The claim check of line 264
  happens after \<open>task.status = status\<close>, but the throw skips \<open>setItem\<close>, so the
  store is unchanged on that path.
\<close>

definition claim_conflict :: "status \<Rightarrow> uid option \<Rightarrow> task \<Rightarrow> bool" where
  "claim_conflict s uid t \<longleftrightarrow>
     s = IN_PROGRESS \<and> truthy_id uid \<and> truthy_id (assigned_to t) \<and> assigned_to t \<noteq> uid"

definition set_status :: "status \<Rightarrow> uid option \<Rightarrow> report option \<Rightarrow> task \<Rightarrow> task" where
  "set_status s uid rep t =
    (let t1 = t\<lparr>status := s\<rparr>;
         t2 = (if s = IN_PROGRESS \<and> truthy_id uid then t1\<lparr>assigned_to := uid\<rparr> else t1)
     in if s = REVIEW \<and> rep \<noteq> None then t2\<lparr>report := rep\<rparr> else t2)"

text \<open>Lines 274--283: the payout to \<open>task.assignedTo || userId\<close>.\<close>

definition payee :: "task \<Rightarrow> uid option \<Rightarrow> uid option" where
  "payee t uid = (if truthy_id (assigned_to t) then assigned_to t else uid)"

definition credit :: "int \<Rightarrow> user \<Rightarrow> user" where
  "credit p u = u\<lparr>user_points := Some (or_zero (user_points u) + p)\<rparr>"

definition payout :: "task \<Rightarrow> uid option \<Rightarrow> user list \<Rightarrow> user list" where
  "payout t uid us =
    (case payee t uid of
       None \<Rightarrow> us
     | Some v \<Rightarrow>
         (if find_user v us \<noteq> None \<and> truthy_num (task_points t)
          then update_first (\<lambda>u. user_id u = v) (credit (or_zero (task_points t))) us
          else us))"

definition updateTaskStatus ::
  "string \<Rightarrow> string \<Rightarrow> uid option \<Rightarrow> report option \<Rightarrow> store \<Rightarrow> (store \<times> task) result" where
  "updateTaskStatus k s uid rep st =
    (case find_task k st of
       None \<Rightarrow> Inl TaskNotFound
     | Some t \<Rightarrow>
         (let s' = status_of_string s in
          if claim_conflict s' uid t then Inl TaskAlreadyTaken
          else
            (let t' = set_status s' uid rep t;
                 us' = (if s' = DONE then payout t' uid (users st) else users st)
             in Inr (st\<lparr>users := us',
                        tasks := update_first (\<lambda>x. task_id x = k) (set_status s' uid rep) (tasks st)\<rparr>,
                     t'))))"

subsection \<open>abandonTask\<close>

text \<open>Lines 301--305: \<open>Math.floor(points * 0.5)\<close> and the clamped debit.\<close>

definition penalty :: "task \<Rightarrow> int" where
  "penalty t = or_zero (task_points t) div 2"

definition debit_clamped :: "int \<Rightarrow> user \<Rightarrow> user" where
  "debit_clamped p u = u\<lparr>user_points := Some (max 0 (or_zero (user_points u) - p))\<rparr>"

definition reopen :: "task \<Rightarrow> task" where
  "reopen t = t\<lparr>status := OPEN, assigned_to := None\<rparr>"

text \<open>
  Lines 289--322.  The volunteer and the creator are looked up before either is written,
  but \<open>find\<close> returns the stored object, so when they are the same user the credit
  sees the debit: the two mutations are sequential.  A missing task or an empty
  volunteer id writes nothing and throws nothing.
\<close>

definition abandonTask :: "string \<Rightarrow> uid \<Rightarrow> store \<Rightarrow> store \<times> task option" where
  "abandonTask k vid st =
    (case find_task k st of
       None \<Rightarrow> (st, None)
     | Some t \<Rightarrow>
         (if \<not> truthy_str vid then (st, Some t)
          else
            (let p = penalty t;
                 us1 = update_first (\<lambda>u. user_id u = vid) (debit_clamped p) (users st);
                 us2 = update_first (\<lambda>u. user_id u = created_by t) (credit p) us1
             in (st\<lparr>users := us2, tasks := update_first (\<lambda>x. task_id x = k) reopen (tasks st)\<rparr>,
                 Some (reopen t)))))"

subsection \<open>Properties\<close>

text \<open>C1: A task made by createTask is PENDING with no assignee, and it is appended to the task collection.\<close>

theorem createTask_pending:
  "status (snd (createTask now d st)) = PENDING \<and>
   assigned_to (snd (createTask now d st)) = None \<and>
   tasks (fst (createTask now d st)) = tasks st @ [snd (createTask now d st)]"
  by (simp add: createTask_def new_task_def Let_def)

lemma user_id_ops [simp]:
  "user_id (deduct d u) = user_id u" "user_id (credit p u) = user_id u"
  "user_id (debit_clamped p u) = user_id u"
  by (simp_all add: deduct_def credit_def debit_clamped_def)

lemma set_status_fields [simp]:
  "task_id (set_status s uid rep t) = task_id t"
  "status (set_status s uid rep t) = s"
  "assigned_to (set_status s uid rep t) = (if s = IN_PROGRESS \<and> truthy_id uid then uid else assigned_to t)"
  "task_points (set_status s uid rep t) = task_points t"
  "created_by (set_status s uid rep t) = created_by t"
  by (simp_all add: set_status_def Let_def)

lemma reopen_fields [simp]:
  "task_id (reopen t) = task_id t" "status (reopen t) = OPEN" "assigned_to (reopen t) = None"
  "task_points (reopen t) = task_points t" "created_by (reopen t) = created_by t"
  by (simp_all add: reopen_def)

lemma find_task_update:
  assumes "\<And>x. task_id (f x) = task_id x"
    and "tasks st' = update_first (\<lambda>x. task_id x = k) f (tasks st)"
  shows "find_task k st' = map_option f (find_task k st)"
  using assms by (simp add: find_task_def find_update_first_key)

lemma status_of_string_simps [simp]:
  "status_of_string ''IN_PROGRESS'' = IN_PROGRESS" "status_of_string ''DONE'' = DONE"
  "status_of_string ''OPEN'' = OPEN" "status_of_string ''REVIEW'' = REVIEW"
  "status_of_string ''PENDING'' = PENDING" "status_of_string ''REJECTED'' = REJECTED"
  by (simp_all add: status_of_string_def)

lemma updateTaskStatus_found:
  assumes "find_task k st = Some t" and "\<not> claim_conflict (status_of_string s) uid t"
  shows "updateTaskStatus k s uid rep st =
    Inr (st\<lparr>users := (if status_of_string s = DONE then payout (set_status (status_of_string s) uid rep t) uid (users st) else users st),
            tasks := update_first (\<lambda>x. task_id x = k) (set_status (status_of_string s) uid rep) (tasks st)\<rparr>,
         set_status (status_of_string s) uid rep t)"
  using assms by (simp add: updateTaskStatus_def Let_def)

text \<open>C2: createTask escrows the task's points from its creator: the creator's balance drops by the parsed points exactly when the creator exists and has at least that many, and no other balance changes.\<close>

theorem createTask_balance:
  "balance (users (fst (createTask now d st))) k =
     balance (users st) k -
     (if k = data_created_by d \<and>
         (case find_user k (users st) of None \<Rightarrow> False
          | Some c \<Rightarrow> can_deduct (user_points c) (or_zero (data_points d)))
      then or_zero (data_points d) else 0)"
proof (cases "find_user (data_created_by d) (users st)")
  case None
  then show ?thesis by (auto simp: createTask_def escrow_def Let_def)
next
  case (Some c)
  show ?thesis
  proof (cases "can_deduct (user_points c) (or_zero (data_points d))")
    case True
    then obtain b where "user_points c = Some b" by (cases "user_points c") auto
    with Some True show ?thesis
      by (auto simp: createTask_def escrow_def Let_def balance_update_other balance_update_same deduct_def)
         (simp add: balance_def)
  next
    case False
    with Some show ?thesis by (auto simp: createTask_def escrow_def Let_def)
  qed
qed

text \<open>C3: Claiming a task that nobody holds (transition to IN_PROGRESS with a non-empty actor id) succeeds, records the actor as assignee, stores the updated task and leaves every balance alone.\<close>

theorem claim_unassigned:
  assumes "find_task k st = Some t" and "\<not> truthy_id (assigned_to t)" and "truthy_str a"
  shows "\<exists>st'. updateTaskStatus k ''IN_PROGRESS'' (Some a) None st =
      Inr (st', t\<lparr>status := IN_PROGRESS, assigned_to := Some a\<rparr>) \<and>
    find_task k st' = Some (t\<lparr>status := IN_PROGRESS, assigned_to := Some a\<rparr>) \<and> users st' = users st"
proof -
  have nc: "\<not> claim_conflict IN_PROGRESS (Some a) t"
    using assms(2) by (simp add: claim_conflict_def)
  have eq: "set_status IN_PROGRESS (Some a) None t = t\<lparr>status := IN_PROGRESS, assigned_to := Some a\<rparr>"
    using assms(3) by (simp add: set_status_def)
  show ?thesis
    using updateTaskStatus_found [OF assms(1), of "''IN_PROGRESS''" "Some a" None] nc eq
      find_task_update [of "set_status IN_PROGRESS (Some a) None"] assms(1)
    by auto
qed

text \<open>C4: Claiming a task that another user already holds fails with the already-taken error.\<close>

theorem claim_taken:
  assumes "find_task k st = Some t" and "assigned_to t = Some b" and "truthy_str b"
    and "truthy_str a" and "a \<noteq> b"
  shows "updateTaskStatus k ''IN_PROGRESS'' (Some a) rep st = Inl TaskAlreadyTaken"
  using assms by (simp add: updateTaskStatus_def claim_conflict_def Let_def)

lemma or_zero_not_truthy: "\<not> truthy_num x \<Longrightarrow> or_zero x = 0"
  by (cases x) auto

lemma find_user_update_keep:
  assumes "\<And>x. user_id (f x) = user_id x"
  shows "find_user w (update_first (\<lambda>u. user_id u = k) f us) \<noteq> None \<longleftrightarrow> find_user w us \<noteq> None"
  using assms by (simp add: find_user_def find_update_first_key)

lemma payout_balance:
  assumes "payee t uid = Some v" and "find_user v us \<noteq> None"
  shows "balance (payout t uid us) w = balance us w + (if w = v then or_zero (task_points t) else 0)"
proof (cases "truthy_num (task_points t)")
  case True
  from assms(2) obtain u where u: "find_user v us = Some u" by auto
  show ?thesis
  proof (cases "w = v")
    case True
    with \<open>truthy_num (task_points t)\<close> assms u show ?thesis
      by (simp add: payout_def balance_update_same credit_def) (simp add: balance_def)
  next
    case False
    with \<open>truthy_num (task_points t)\<close> assms show ?thesis
      by (simp add: payout_def balance_update_other)
  qed
next
  case False
  then show ?thesis by (auto simp: payout_def or_zero_not_truthy split: option.split)
qed

lemma find_user_payout:
  "find_user w (payout t uid us) = None \<longleftrightarrow> find_user w us = None"
  by (auto simp: payout_def find_user_def find_update_first_key split: option.split)

lemma done_result:
  assumes "find_task k st = Some t" and "assigned_to t = Some v" and "truthy_str v"
    and "find_user v (users st) \<noteq> None"
  shows "\<exists>st'. updateTaskStatus k ''DONE'' uid rep st = Inr (st', set_status DONE uid rep t) \<and>
    find_task k st' = Some (set_status DONE uid rep t) \<and>
    (\<forall>w. balance (users st') w = balance (users st) w + (if w = v then or_zero (task_points t) else 0)) \<and>
    find_user v (users st') \<noteq> None"
proof -
  have nc: "\<not> claim_conflict DONE uid t" by (simp add: claim_conflict_def)
  have pay: "payee (set_status DONE uid rep t) uid = Some v"
    using assms(2,3) by (simp add: payee_def)
  let ?st' = "st\<lparr>users := payout (set_status DONE uid rep t) uid (users st),
                 tasks := update_first (\<lambda>x. task_id x = k) (set_status DONE uid rep) (tasks st)\<rparr>"
  have "updateTaskStatus k ''DONE'' uid rep st = Inr (?st', set_status DONE uid rep t)"
    using updateTaskStatus_found [OF assms(1), of "''DONE''" uid rep] nc by simp
  moreover have "find_task k ?st' = Some (set_status DONE uid rep t)"
    using find_task_update [of "set_status DONE uid rep" ?st' k st] assms(1) by simp
  moreover have "\<forall>w. balance (users ?st') w = balance (users st) w + (if w = v then or_zero (task_points t) else 0)"
    using payout_balance [OF pay assms(4)] by simp
  moreover have "find_user v (users ?st') \<noteq> None"
    using assms(4) find_user_payout [of v "set_status DONE uid rep t" uid "users st"] by simp
  ultimately show ?thesis by blast
qed

text \<open>C5: Setting a task to DONE credits exactly the task's points to the assigned volunteer and changes no other balance.\<close>

theorem done_pays_assignee:
  assumes "find_task k st = Some t" and "assigned_to t = Some v" and "truthy_str v"
    and "find_user v (users st) \<noteq> None"
  shows "\<exists>st' t'. updateTaskStatus k ''DONE'' uid rep st = Inr (st', t') \<and>
    balance (users st') v = balance (users st) v + or_zero (task_points t) \<and>
    (\<forall>w. w \<noteq> v \<longrightarrow> balance (users st') w = balance (users st) w)"
  using done_result [OF assms, of uid rep] by auto

text \<open>C8: DONE is not guarded against repetition: setting an already completed task to DONE a second time pays the volunteer the task's points a second time.\<close>

theorem done_twice_pays_twice:
  assumes "find_task k st = Some t" and "assigned_to t = Some v" and "truthy_str v"
    and "find_user v (users st) \<noteq> None"
    and "updateTaskStatus k ''DONE'' uid rep st = Inr (st1, t1)"
  shows "\<exists>st2 t2. updateTaskStatus k ''DONE'' uid rep st1 = Inr (st2, t2) \<and>
    balance (users st2) v = balance (users st) v + 2 * or_zero (task_points t)"
proof -
  obtain st' where r: "updateTaskStatus k ''DONE'' uid rep st = Inr (st', set_status DONE uid rep t)"
    and f: "find_task k st' = Some (set_status DONE uid rep t)"
    and b: "\<forall>w. balance (users st') w = balance (users st) w + (if w = v then or_zero (task_points t) else 0)"
    and e: "find_user v (users st') \<noteq> None"
    using done_result [OF assms(1-4), of uid rep] by blast
  have "st1 = st'" using r assms(5) by simp
  have a: "assigned_to (set_status DONE uid rep t) = Some v" using assms(2) by simp
  from done_result [OF f a assms(3) e, of uid rep] \<open>st1 = st'\<close> b show ?thesis by auto
qed

lemma abandon_found:
  assumes "find_task k st = Some t" and "truthy_str v"
  shows "abandonTask k v st =
    (st\<lparr>users := update_first (\<lambda>u. user_id u = created_by t) (credit (penalty t))
                   (update_first (\<lambda>u. user_id u = v) (debit_clamped (penalty t)) (users st)),
        tasks := update_first (\<lambda>x. task_id x = k) reopen (tasks st)\<rparr>, Some (reopen t))"
  using assms by (simp add: abandonTask_def Let_def)

text \<open>C6: Abandoning a task debits half its points (rounded down) from the volunteer, clamped at zero, credits the full penalty to the creator, and reopens the task with no assignee.\<close>

theorem abandon_balances:
  assumes "find_task k st = Some t" and "truthy_str v" and "v \<noteq> created_by t"
    and "find_user v (users st) \<noteq> None" and "find_user (created_by t) (users st) \<noteq> None"
  shows "balance (users (fst (abandonTask k v st))) v = max 0 (balance (users st) v - penalty t) \<and>
    balance (users (fst (abandonTask k v st))) (created_by t) = balance (users st) (created_by t) + penalty t \<and>
    find_task k (fst (abandonTask k v st)) = Some (reopen t)"
proof -
  obtain u where u: "find_user v (users st) = Some u" using assms(4) by auto
  obtain c where c: "find_user (created_by t) (users st) = Some c" using assms(5) by auto
  let ?us1 = "update_first (\<lambda>u. user_id u = v) (debit_clamped (penalty t)) (users st)"
  have c1: "find_user (created_by t) ?us1 = Some c"
    using c assms(3) by (simp add: find_user_def find_update_first_key)
  have "balance (users (fst (abandonTask k v st))) v = balance ?us1 v"
    using assms(1-3) by (simp add: abandon_found balance_update_other)
  also have "\<dots> = max 0 (balance (users st) v - penalty t)"
    using u by (simp add: balance_update_same debit_clamped_def) (simp add: balance_def)
  finally have 1: "balance (users (fst (abandonTask k v st))) v = max 0 (balance (users st) v - penalty t)" .
  have "balance (users (fst (abandonTask k v st))) (created_by t) = or_zero (user_points c) + penalty t"
    using assms(1,2) c1 by (simp add: abandon_found balance_update_same credit_def)
  also have "\<dots> = balance (users st) (created_by t) + penalty t"
    using c by (simp add: balance_def)
  finally have 2: "balance (users (fst (abandonTask k v st))) (created_by t) = balance (users st) (created_by t) + penalty t" .
  have 3: "find_task k (fst (abandonTask k v st)) = Some (reopen t)"
    using assms(1,2) find_task_update [of reopen "fst (abandonTask k v st)" k st] by (simp add: abandon_found)
  from 1 2 3 show ?thesis by blast
qed

text \<open>C7: Abandoning does not conserve points: the total of all balances grows by the part of the penalty that clamping did not take from the volunteer.\<close>

theorem abandon_total:
  assumes "find_task k st = Some t" and "truthy_str v"
    and "find_user v (users st) \<noteq> None" and "find_user (created_by t) (users st) \<noteq> None"
  shows "total_points (users (fst (abandonTask k v st))) =
    total_points (users st) + penalty t - (balance (users st) v - max 0 (balance (users st) v - penalty t))"
proof -
  obtain u where u: "find_user v (users st) = Some u" using assms(3) by auto
  let ?us1 = "update_first (\<lambda>u. user_id u = v) (debit_clamped (penalty t)) (users st)"
  obtain c where c: "find_user (created_by t) ?us1 = Some c"
    using assms(4) find_user_update_keep [of "debit_clamped (penalty t)" "created_by t" v "users st"] by auto
  have t1: "total_points ?us1 = total_points (users st) + (max 0 (or_zero (user_points u) - penalty t) - or_zero (user_points u))"
    using u by (simp add: total_points_update find_user_def debit_clamped_def)
  have "total_points (users (fst (abandonTask k v st))) = total_points ?us1 + penalty t"
    using assms(1,2) c by (simp add: abandon_found total_points_update find_user_def credit_def)
  with t1 u show ?thesis by (simp add: balance_def)
qed

text \<open>C9: updateTaskStatus fails exactly in two cases, and with the matching error: the task id is unknown (not found), or the new status is IN_PROGRESS, the caller passes a non-empty user id a, and the task already has a non-empty assignee b different from a (already taken).  A claim without a user id, onto an empty assignee, or by the assignee itself never fails.\<close>

theorem updateTaskStatus_errors:
  "updateTaskStatus k s uid rep st = Inl e \<longleftrightarrow>
    (find_task k st = None \<and> e = TaskNotFound) \<or>
    (\<exists>t a b. find_task k st = Some t \<and> status_of_string s = IN_PROGRESS \<and>
       uid = Some a \<and> a \<noteq> [] \<and> assigned_to t = Some b \<and> b \<noteq> [] \<and> b \<noteq> a \<and> e = TaskAlreadyTaken)"
proof -
  have "claim_conflict x uid t \<longleftrightarrow>
      (\<exists>a b. x = IN_PROGRESS \<and> uid = Some a \<and> a \<noteq> [] \<and> assigned_to t = Some b \<and> b \<noteq> [] \<and> b \<noteq> a)" for x t
    by (cases uid; cases "assigned_to t") (auto simp: claim_conflict_def truthy_str_def)
  then show ?thesis
    by (auto simp: updateTaskStatus_def Let_def split: option.splits)
qed

text \<open>C10: No transition table is enforced: from any current status, every status string other than a claim is written to the task as given, including the way back from DONE to OPEN.\<close>

theorem status_unrestricted:
  assumes "find_task k st = Some t" and "status_of_string s \<noteq> IN_PROGRESS"
  shows "\<exists>st' t'. updateTaskStatus k s uid rep st = Inr (st', t') \<and>
    find_task k st' = Some t' \<and> status t' = status_of_string s \<and> assigned_to t' = assigned_to t"
proof -
  have nc: "\<not> claim_conflict (status_of_string s) uid t"
    using assms(2) by (simp add: claim_conflict_def)
  let ?st' = "st\<lparr>users := (if status_of_string s = DONE then payout (set_status (status_of_string s) uid rep t) uid (users st) else users st),
            tasks := update_first (\<lambda>x. task_id x = k) (set_status (status_of_string s) uid rep) (tasks st)\<rparr>"
  have "find_task k ?st' = Some (set_status (status_of_string s) uid rep t)"
    using find_task_update [of "set_status (status_of_string s) uid rep" ?st' k st] assms(1) by simp
  then show ?thesis
    using updateTaskStatus_found [OF assms(1) nc, of rep] assms(2) by auto
qed

text \<open>C11: abandonTask never reports a missing task: for an unknown id it writes nothing and returns no task, where the specification promises a not-found error.\<close>

theorem abandon_missing_task:
  "find_task k st = None \<Longrightarrow> abandonTask k v st = (st, None)"
  by (simp add: abandonTask_def)

subsection \<open>Witnesses\<close>

text \<open>
  Each hypothesis-carrying property applied to the store of a first visit (the seeded
  accounts 1 (admin), 2 and 3, and the seeded tasks 1--4) at the time stamp 1000000000.
\<close>

theorem claim_unassigned_witness:
  "find_task ''1'' (first_visit 1000000000) = Some (hd (default_tasks 1000000000)) \<and> \<not> truthy_id (assigned_to (hd (default_tasks 1000000000))) \<and> truthy_str ''2'' \<and>
   (\<exists>st'. updateTaskStatus ''1'' ''IN_PROGRESS'' (Some ''2'') None (first_visit 1000000000) =
      Inr (st', (hd (default_tasks 1000000000))\<lparr>status := IN_PROGRESS, assigned_to := Some ''2''\<rparr>) \<and>
    find_task ''1'' st' = Some ((hd (default_tasks 1000000000))\<lparr>status := IN_PROGRESS, assigned_to := Some ''2''\<rparr>) \<and>
    users st' = users (first_visit 1000000000))"
proof -
  have h1: "find_task ''1'' (first_visit 1000000000) = Some (hd (default_tasks 1000000000))" by (simp add: seed_simps)
  have h2: "\<not> truthy_id (assigned_to (hd (default_tasks 1000000000)))" by (simp add: seed_simps)
  have h3: "truthy_str ''2''" by (simp add: truthy_str_def)
  show ?thesis using h1 h2 h3 claim_unassigned [OF h1 h2 h3] by blast
qed

theorem claim_taken_witness:
  "find_task ''3'' (first_visit 1000000000) = Some (default_tasks 1000000000 ! 2) \<and> assigned_to (default_tasks 1000000000 ! 2) = Some ''2'' \<and> truthy_str ''2'' \<and>
   truthy_str ''3'' \<and> ''3'' \<noteq> ''2'' \<and>
   updateTaskStatus ''3'' ''IN_PROGRESS'' (Some ''3'') None (first_visit 1000000000) = Inl TaskAlreadyTaken"
proof -
  have h1: "find_task ''3'' (first_visit 1000000000) = Some (default_tasks 1000000000 ! 2)" by (simp add: seed_simps)
  have h2: "assigned_to (default_tasks 1000000000 ! 2) = Some ''2''" by (simp add: seed_simps)
  have h3: "truthy_str ''2''" "truthy_str ''3''" by (simp_all add: truthy_str_def)
  have h4: "''3'' \<noteq> ''2''" by simp
  show ?thesis using h1 h2 h3 h4 claim_taken [OF h1 h2 h3(1) h3(2) h4] by blast
qed

theorem done_pays_assignee_witness:
  "find_task ''3'' (first_visit 1000000000) = Some (default_tasks 1000000000 ! 2) \<and> assigned_to (default_tasks 1000000000 ! 2) = Some ''2'' \<and> truthy_str ''2'' \<and>
   find_user ''2'' (users (first_visit 1000000000)) \<noteq> None \<and>
   (\<exists>st' t'. updateTaskStatus ''3'' ''DONE'' (Some ''1'') None (first_visit 1000000000) = Inr (st', t') \<and>
      balance (users st') ''2'' = balance (users (first_visit 1000000000)) ''2'' + or_zero (task_points (default_tasks 1000000000 ! 2)) \<and>
      (\<forall>w. w \<noteq> ''2'' \<longrightarrow> balance (users st') w = balance (users (first_visit 1000000000)) w))"
proof -
  have h1: "find_task ''3'' (first_visit 1000000000) = Some (default_tasks 1000000000 ! 2)" by (simp add: seed_simps)
  have h2: "assigned_to (default_tasks 1000000000 ! 2) = Some ''2''" by (simp add: seed_simps)
  have h3: "truthy_str ''2''" by (simp add: truthy_str_def)
  have h4: "find_user ''2'' (users (first_visit 1000000000)) \<noteq> None" by (simp add: seed_simps)
  show ?thesis using h1 h2 h3 h4 done_pays_assignee [OF h1 h2 h3 h4, of "Some ''1''" None] by blast
qed

theorem done_twice_pays_twice_witness:
  "\<exists>st1 t1. find_task ''3'' (first_visit 1000000000) = Some (default_tasks 1000000000 ! 2) \<and> assigned_to (default_tasks 1000000000 ! 2) = Some ''2'' \<and> truthy_str ''2'' \<and>
   find_user ''2'' (users (first_visit 1000000000)) \<noteq> None \<and>
   updateTaskStatus ''3'' ''DONE'' (Some ''1'') None (first_visit 1000000000) = Inr (st1, t1) \<and>
   (\<exists>st2 t2. updateTaskStatus ''3'' ''DONE'' (Some ''1'') None st1 = Inr (st2, t2) \<and>
      balance (users st2) ''2'' = balance (users (first_visit 1000000000)) ''2'' + 2 * or_zero (task_points (default_tasks 1000000000 ! 2)))"
proof -
  have h1: "find_task ''3'' (first_visit 1000000000) = Some (default_tasks 1000000000 ! 2)" by (simp add: seed_simps)
  have h2: "assigned_to (default_tasks 1000000000 ! 2) = Some ''2''" by (simp add: seed_simps)
  have h3: "truthy_str ''2''" by (simp add: truthy_str_def)
  have h4: "find_user ''2'' (users (first_visit 1000000000)) \<noteq> None" by (simp add: seed_simps)
  obtain st1 t1 where h5: "updateTaskStatus ''3'' ''DONE'' (Some ''1'') None (first_visit 1000000000) = Inr (st1, t1)"
    using done_result [OF h1 h2 h3 h4, of "Some ''1''" None] by blast
  show ?thesis using h1 h2 h3 h4 h5 done_twice_pays_twice [OF h1 h2 h3 h4 h5] by blast
qed

theorem abandon_balances_witness:
  "find_task ''1'' (first_visit 1000000000) = Some (hd (default_tasks 1000000000)) \<and> truthy_str ''2'' \<and> ''2'' \<noteq> created_by (hd (default_tasks 1000000000)) \<and>
   find_user ''2'' (users (first_visit 1000000000)) \<noteq> None \<and> find_user (created_by (hd (default_tasks 1000000000))) (users (first_visit 1000000000)) \<noteq> None \<and>
   balance (users (fst (abandonTask ''1'' ''2'' (first_visit 1000000000)))) ''2'' = max 0 (balance (users (first_visit 1000000000)) ''2'' - penalty (hd (default_tasks 1000000000))) \<and>
   balance (users (fst (abandonTask ''1'' ''2'' (first_visit 1000000000)))) (created_by (hd (default_tasks 1000000000))) = balance (users (first_visit 1000000000)) (created_by (hd (default_tasks 1000000000))) + penalty (hd (default_tasks 1000000000)) \<and>
   find_task ''1'' (fst (abandonTask ''1'' ''2'' (first_visit 1000000000))) = Some (reopen (hd (default_tasks 1000000000)))"
proof -
  have h1: "find_task ''1'' (first_visit 1000000000) = Some (hd (default_tasks 1000000000))" by (simp add: seed_simps)
  have h2: "truthy_str ''2''" by (simp add: truthy_str_def)
  have h3: "''2'' \<noteq> created_by (hd (default_tasks 1000000000))" by (simp add: seed_simps)
  have h4: "find_user ''2'' (users (first_visit 1000000000)) \<noteq> None" by (simp add: seed_simps)
  have h5: "find_user (created_by (hd (default_tasks 1000000000))) (users (first_visit 1000000000)) \<noteq> None" by (simp add: seed_simps)
  show ?thesis using h1 h2 h3 h4 h5 abandon_balances [OF h1 h2 h3 h4 h5] by blast
qed

theorem abandon_total_witness:
  "find_task ''1'' (first_visit 1000000000) = Some (hd (default_tasks 1000000000)) \<and> truthy_str ''2'' \<and>
   find_user ''2'' (users (first_visit 1000000000)) \<noteq> None \<and> find_user (created_by (hd (default_tasks 1000000000))) (users (first_visit 1000000000)) \<noteq> None \<and>
   total_points (users (fst (abandonTask ''1'' ''2'' (first_visit 1000000000)))) =
     total_points (users (first_visit 1000000000)) + penalty (hd (default_tasks 1000000000)) - (balance (users (first_visit 1000000000)) ''2'' - max 0 (balance (users (first_visit 1000000000)) ''2'' - penalty (hd (default_tasks 1000000000))))"
proof -
  have h1: "find_task ''1'' (first_visit 1000000000) = Some (hd (default_tasks 1000000000))" by (simp add: seed_simps)
  have h2: "truthy_str ''2''" by (simp add: truthy_str_def)
  have h3: "find_user ''2'' (users (first_visit 1000000000)) \<noteq> None" by (simp add: seed_simps)
  have h4: "find_user (created_by (hd (default_tasks 1000000000))) (users (first_visit 1000000000)) \<noteq> None" by (simp add: seed_simps)
  show ?thesis using h1 h2 h3 h4 abandon_total [OF h1 h2 h3 h4] by blast
qed

theorem status_unrestricted_witness:
  "find_task ''3'' (first_visit 1000000000) = Some (default_tasks 1000000000 ! 2) \<and> status_of_string ''OPEN'' \<noteq> IN_PROGRESS \<and>
   (\<exists>st' t'. updateTaskStatus ''3'' ''OPEN'' (Some ''1'') None (first_visit 1000000000) = Inr (st', t') \<and>
      find_task ''3'' st' = Some t' \<and> status t' = status_of_string ''OPEN'' \<and>
      assigned_to t' = assigned_to (default_tasks 1000000000 ! 2))"
proof -
  have h1: "find_task ''3'' (first_visit 1000000000) = Some (default_tasks 1000000000 ! 2)" by (simp add: seed_simps)
  have h2: "status_of_string ''OPEN'' \<noteq> IN_PROGRESS" by simp
  show ?thesis using h1 h2 status_unrestricted [OF h1 h2, of "Some ''1''" None] by blast
qed

theorem abandon_missing_task_witness:
  "find_task ''99'' (first_visit 1000000000) = None \<and> abandonTask ''99'' ''2'' (first_visit 1000000000) = ((first_visit 1000000000), None)"
proof -
  have h: "find_task ''99'' (first_visit 1000000000) = None" by (simp add: seed_simps)
  show ?thesis using h abandon_missing_task [OF h] by blast
qed

end
