(* ===== verification/Ledger.thy ===== *)
theory Ledger
  imports Lifecycle
begin

text \<open>
  The points ledger as the specification describes it (spec section 4.2): a partial map
  from user ids to balances, changed by three kinds of booking -- a debit that is skipped
  when the balance is short (creation escrow), a credit (completion payout, abandonment
  refund), and a debit clamped at zero (abandonment penalty).  The abstraction
  \<open>ledger_of\<close> reads the ledger off the stored user list the way the code reads a
  balance (\<open>users.find\<close> by id, \<open>points || 0\<close>); the refinement lemmas show that each
  operation of \<open>mockApi.js\<close> changes the abstraction exactly by the abstract booking.
  The invariant \<open>ledger_nonneg\<close> (no negative balance, no negative task reward) is
  proved for every operation that writes balances.
\<close>

type_synonym ledger = "uid \<rightharpoonup> int"

definition ledger_of :: "user list \<Rightarrow> ledger" where
  "ledger_of us k = map_option (\<lambda>u. or_zero (user_points u)) (find_user k us)"

definition l_debit_if_enough :: "ledger \<Rightarrow> uid \<Rightarrow> int \<Rightarrow> ledger" where
  "l_debit_if_enough L k d =
    (case L k of None \<Rightarrow> L | Some b \<Rightarrow> if d \<le> b then L(k \<mapsto> b - d) else L)"

definition l_credit :: "ledger \<Rightarrow> uid \<Rightarrow> int \<Rightarrow> ledger" where
  "l_credit L k p = (case L k of None \<Rightarrow> L | Some b \<Rightarrow> L(k \<mapsto> b + p))"

definition l_debit_clamped :: "ledger \<Rightarrow> uid \<Rightarrow> int \<Rightarrow> ledger" where
  "l_debit_clamped L k p = (case L k of None \<Rightarrow> L | Some b \<Rightarrow> L(k \<mapsto> max 0 (b - p)))"

text \<open>The abstract effect of each lifecycle operation on the ledger.\<close>

definition l_abandon :: "ledger \<Rightarrow> uid \<Rightarrow> uid \<Rightarrow> int \<Rightarrow> ledger" where
  "l_abandon L v c p = l_credit (l_debit_clamped L v p) c p"

definition l_payout :: "ledger \<Rightarrow> uid option \<Rightarrow> int \<Rightarrow> ledger" where
  "l_payout L v p = (case v of None \<Rightarrow> L | Some k \<Rightarrow> l_credit L k p)"

definition ledger_nonneg :: "store \<Rightarrow> bool" where
  "ledger_nonneg st \<longleftrightarrow>
     (\<forall>u\<in>set (users st). 0 \<le> or_zero (user_points u)) \<and>
     (\<forall>t\<in>set (tasks st). 0 \<le> or_zero (task_points t))"

subsection \<open>The abstraction under one mutation\<close>

lemma ledger_of_update:
  assumes "\<And>u. user_id (f u) = user_id u"
  shows "ledger_of (update_first (\<lambda>u. user_id u = k) f us) =
    (case find_user k us of None \<Rightarrow> ledger_of us
     | Some u \<Rightarrow> (ledger_of us)(k \<mapsto> or_zero (user_points (f u))))"
  using assms
  by (auto simp: ledger_of_def find_user_def find_update_first_key fun_eq_iff split: option.split)

lemma ledger_of_None: "find_user k us = None \<Longrightarrow> ledger_of us k = None"
  by (simp add: ledger_of_def)

lemma ledger_of_Some: "find_user k us = Some u \<Longrightarrow> ledger_of us k = Some (or_zero (user_points u))"
  by (simp add: ledger_of_def)

subsection \<open>Refinement of the lifecycle operations\<close>

lemma ledger_of_credit:
  "ledger_of (update_first (\<lambda>u. user_id u = k) (credit p) us) = l_credit (ledger_of us) k p"
  by (auto simp: ledger_of_update l_credit_def ledger_of_def credit_def split: option.split)

lemma ledger_of_debit_clamped:
  "ledger_of (update_first (\<lambda>u. user_id u = k) (debit_clamped p) us) = l_debit_clamped (ledger_of us) k p"
  by (auto simp: ledger_of_update l_debit_clamped_def ledger_of_def debit_clamped_def split: option.split)

lemma escrow_refines:
  assumes "0 \<le> or_zero (data_points d)"
  shows "ledger_of (escrow d us) = l_debit_if_enough (ledger_of us) (data_created_by d) (or_zero (data_points d))"
proof (cases "find_user (data_created_by d) us")
  case None
  then show ?thesis by (simp add: escrow_def l_debit_if_enough_def ledger_of_None)
next
  case (Some u)
  show ?thesis
  proof (cases "user_points u")
    case None
    with Some assms show ?thesis
      by (auto simp: escrow_def l_debit_if_enough_def ledger_of_Some Let_def fun_upd_idem)
  next
    case (Some b)
    with \<open>find_user (data_created_by d) us = Some u\<close> show ?thesis
      by (auto simp: escrow_def l_debit_if_enough_def ledger_of_Some ledger_of_update deduct_def Let_def)
  qed
qed

text \<open>For a non-negative reward, createTask refines the abstract escrow booking: the creator's balance is debited by the reward if it covers it, and otherwise the ledger is unchanged.\<close>

theorem createTask_refines:
  assumes "0 \<le> or_zero (data_points d)"
  shows "ledger_of (users (fst (createTask now d st))) =
    l_debit_if_enough (ledger_of (users st)) (data_created_by d) (or_zero (data_points d))"
  using escrow_refines [OF assms, of "users st"] by (simp add: createTask_def Let_def)

lemma payout_refines:
  "ledger_of (payout t uid us) = l_payout (ledger_of us) (payee t uid) (or_zero (task_points t))"
proof (cases "payee t uid")
  case None
  then show ?thesis by (simp add: payout_def l_payout_def)
next
  case (Some v)
  show ?thesis
  proof (cases "find_user v us")
    case None
    with Some show ?thesis by (simp add: payout_def l_payout_def l_credit_def ledger_of_None)
  next
    case (Some u)
    with \<open>payee t uid = Some v\<close> show ?thesis
      by (auto simp: payout_def l_payout_def ledger_of_credit or_zero_not_truthy l_credit_def
            ledger_of_Some fun_upd_idem)
  qed
qed

text \<open>C13: abandonTask refines the abstract ledger booking: the clamped debit of the penalty from the volunteer followed by the credit of the full penalty to the creator (applied in this order, so that a volunteer who is also the creator sees both), and nothing else.\<close>

theorem abandon_refines:
  "ledger_of (users (fst (abandonTask k v st))) =
    (case find_task k st of None \<Rightarrow> ledger_of (users st)
     | Some t \<Rightarrow> if truthy_str v then l_abandon (ledger_of (users st)) v (created_by t) (penalty t)
                 else ledger_of (users st))"
  by (auto simp: abandonTask_def Let_def l_abandon_def ledger_of_credit ledger_of_debit_clamped
        split: option.split)

text \<open>C15: A successful updateTaskStatus changes the abstract ledger only on a transition to DONE, and then by a credit of the task's points to the assignee, falling back to the acting user.\<close>

theorem updateTaskStatus_refines:
  assumes "updateTaskStatus k s uid rep st = Inr (st', t')"
  shows "ledger_of (users st') =
    (if status_of_string s = DONE then l_payout (ledger_of (users st)) (payee t' uid) (or_zero (task_points t'))
     else ledger_of (users st))"
  using assms by (auto simp: updateTaskStatus_def Let_def payout_refines split: option.splits if_splits)

subsection \<open>No negative balance\<close>

lemma createTask_nonneg:
  assumes "0 \<le> or_zero (data_points d)" and "ledger_nonneg st"
  shows "ledger_nonneg (fst (createTask now d st))"
proof -
  have u: "\<forall>u\<in>set (users st). 0 \<le> or_zero (user_points u)" using assms(2) by (simp add: ledger_nonneg_def)
  have "\<forall>u\<in>set (escrow d (users st)). 0 \<le> or_zero (user_points u)"
  proof (cases "find_user (data_created_by d) (users st)")
    case None
    with u show ?thesis by (simp add: escrow_def)
  next
    case (Some c)
    show ?thesis
    proof (cases "can_deduct (user_points c) (or_zero (data_points d))")
      case True
      have "\<forall>y\<in>set (update_first (\<lambda>u. user_id u = data_created_by d) (deduct (or_zero (data_points d))) (users st)).
              0 \<le> or_zero (user_points y)"
      proof (rule update_first_preserves_found [OF u])
        fix x assume "find (\<lambda>u. user_id u = data_created_by d) (users st) = Some x"
        with Some have "x = c" by (simp add: find_user_def)
        with True show "0 \<le> or_zero (user_points (deduct (or_zero (data_points d)) x))"
          by (cases "user_points c") (auto simp: deduct_def)
      qed
      with Some True show ?thesis by (simp add: escrow_def Let_def)
    next
      case False
      with Some u show ?thesis by (simp add: escrow_def Let_def)
    qed
  qed
  with assms show ?thesis
    by (simp add: createTask_def Let_def ledger_nonneg_def new_task_def)
qed

lemma updateTaskStatus_nonneg:
  assumes "ledger_nonneg st" and "updateTaskStatus k s uid rep st = Inr (st', t')"
  shows "ledger_nonneg st'"
proof -
  from assms(2) obtain t where t: "find_task k st = Some t"
    and nc: "\<not> claim_conflict (status_of_string s) uid t"
    by (auto simp: updateTaskStatus_def Let_def split: option.splits if_splits)
  have tp: "0 \<le> or_zero (task_points t)"
    using t assms(1) find_Some_in_set [of _ "tasks st" t] by (auto simp: ledger_nonneg_def find_task_def)
  have u: "\<forall>u\<in>set (users st). 0 \<le> or_zero (user_points u)" using assms(1) by (simp add: ledger_nonneg_def)
  have pay: "\<forall>u\<in>set (payout (set_status (status_of_string s) uid rep t) uid (users st)). 0 \<le> or_zero (user_points u)"
    using u tp by (auto simp: payout_def credit_def split: option.split dest!: set_update_first)
  have ts: "\<forall>x\<in>set (update_first (\<lambda>x. task_id x = k) (set_status (status_of_string s) uid rep) (tasks st)).
      0 \<le> or_zero (task_points x)"
    using assms(1) by (auto simp: ledger_nonneg_def dest!: set_update_first)
  from assms(2) t nc have "st' = st\<lparr>users := (if status_of_string s = DONE then payout (set_status (status_of_string s) uid rep t) uid (users st) else users st),
            tasks := update_first (\<lambda>x. task_id x = k) (set_status (status_of_string s) uid rep) (tasks st)\<rparr>"
    by (simp add: updateTaskStatus_def Let_def)
  with pay u ts show ?thesis by (simp add: ledger_nonneg_def)
qed

lemma abandon_nonneg:
  assumes "ledger_nonneg st"
  shows "ledger_nonneg (fst (abandonTask k v st))"
proof (cases "find_task k st")
  case None
  with assms show ?thesis by (simp add: abandonTask_def)
next
  case (Some t)
  have tp: "0 \<le> penalty t"
    using Some assms find_Some_in_set [of _ "tasks st" t] by (auto simp: ledger_nonneg_def find_task_def penalty_def)
  have u: "\<forall>u\<in>set (users st). 0 \<le> or_zero (user_points u)" using assms by (simp add: ledger_nonneg_def)
  have u1: "\<forall>u\<in>set (update_first (\<lambda>u. user_id u = v) (debit_clamped (penalty t)) (users st)). 0 \<le> or_zero (user_points u)"
    using u by (auto simp: debit_clamped_def dest!: set_update_first)
  have u2: "\<forall>u\<in>set (update_first (\<lambda>u. user_id u = created_by t) (credit (penalty t))
              (update_first (\<lambda>u. user_id u = v) (debit_clamped (penalty t)) (users st))). 0 \<le> or_zero (user_points u)"
    by (rule update_first_preserves [OF u1]) (use u1 tp in \<open>auto simp: credit_def\<close>)
  have ts: "\<forall>x\<in>set (update_first (\<lambda>x. task_id x = k) reopen (tasks st)). 0 \<le> or_zero (task_points x)"
    using assms by (auto simp: ledger_nonneg_def dest!: set_update_first)
  show ?thesis
    using Some u2 ts assms by (auto simp: abandonTask_def Let_def ledger_nonneg_def)
qed

subsection \<open>Witnesses\<close>

theorem createTask_refines_witness:
  "0 \<le> or_zero (data_points \<lparr>data_title = ''Help'', data_description = ''Help'', data_city = ''Almaty'', data_address = '''', data_image_url = None, data_images = Some [], data_points = Some 50, data_created_by = ''2'', data_phone = None, data_contact_info = None, data_latitude = None, data_longitude = None\<rparr>) \<and>
   ledger_of (users (fst (createTask 1000000000 \<lparr>data_title = ''Help'', data_description = ''Help'', data_city = ''Almaty'', data_address = '''', data_image_url = None, data_images = Some [], data_points = Some 50, data_created_by = ''2'', data_phone = None, data_contact_info = None, data_latitude = None, data_longitude = None\<rparr> (first_visit 1000000000)))) =
     l_debit_if_enough (ledger_of (users (first_visit 1000000000))) (data_created_by \<lparr>data_title = ''Help'', data_description = ''Help'', data_city = ''Almaty'', data_address = '''', data_image_url = None, data_images = Some [], data_points = Some 50, data_created_by = ''2'', data_phone = None, data_contact_info = None, data_latitude = None, data_longitude = None\<rparr>) (or_zero (data_points \<lparr>data_title = ''Help'', data_description = ''Help'', data_city = ''Almaty'', data_address = '''', data_image_url = None, data_images = Some [], data_points = Some 50, data_created_by = ''2'', data_phone = None, data_contact_info = None, data_latitude = None, data_longitude = None\<rparr>))"
proof -
  have h: "0 \<le> or_zero (data_points \<lparr>data_title = ''Help'', data_description = ''Help'', data_city = ''Almaty'', data_address = '''', data_image_url = None, data_images = Some [], data_points = Some 50, data_created_by = ''2'', data_phone = None, data_contact_info = None, data_latitude = None, data_longitude = None\<rparr>)" by simp
  show ?thesis using h createTask_refines [OF h, of 1000000000 "(first_visit 1000000000)"] by blast
qed

theorem updateTaskStatus_refines_witness:
  "\<exists>st' t'. updateTaskStatus ''3'' ''DONE'' (Some ''1'') None (first_visit 1000000000) = Inr (st', t') \<and>
   ledger_of (users st') = l_payout (ledger_of (users (first_visit 1000000000))) (payee t' (Some ''1'')) (or_zero (task_points t'))"
proof -
  have h1: "find_task ''3'' (first_visit 1000000000) = Some (default_tasks 1000000000 ! 2)" by (simp add: seed_simps)
  have h2: "assigned_to (default_tasks 1000000000 ! 2) = Some ''2''" by (simp add: seed_simps)
  have h3: "truthy_str ''2''" by (simp add: truthy_str_def)
  have h4: "find_user ''2'' (users (first_visit 1000000000)) \<noteq> None" by (simp add: seed_simps)
  obtain st' t' where r: "updateTaskStatus ''3'' ''DONE'' (Some ''1'') None (first_visit 1000000000) = Inr (st', t')"
    using done_result [OF h1 h2 h3 h4, of "Some ''1''" None] by blast
  show ?thesis using r updateTaskStatus_refines [OF r] by simp
qed

end
