(* ===== verification/Auth.thy ===== *)
theory Auth
  imports Ledger
begin

text \<open>
  The account operations of \<open>mockApi.js\<close>: \<open>login\<close> (lines 170--181), \<open>register\<close>
  (183--203), \<open>getUsers\<close> (211--215) and \<open>updateUser\<close> (324--341).  Every user
  object they return has its \<open>password\<close> key removed
  (\<open>const {password: _, ...rest} = user\<close>); that object is the record
  \<open>public_user\<close>, which has no password field.
\<close>

subsection \<open>Users without password\<close>

record public_user =
  pub_id :: uid
  pub_login :: string
  pub_role :: role
  pub_name :: string
  pub_email :: "string option"
  pub_phone :: "string option"
  pub_contact_info :: "string option"
  pub_points :: "int option"

definition strip_password :: "user \<Rightarrow> public_user" where
  "strip_password u =
    \<lparr>pub_id = user_id u, pub_login = login u, pub_role = role u, pub_name = user_name u,
     pub_email = email u, pub_phone = phone u, pub_contact_info = contact_info u,
     pub_points = user_points u\<rparr>"

subsection \<open>login\<close>

text \<open>\<open>(u.login === login || u.email === login) && u.password === password\<close>\<close>

definition credentials_match :: "string \<Rightarrow> string \<Rightarrow> user \<Rightarrow> bool" where
  "credentials_match l p u \<longleftrightarrow> (login u = l \<or> email u = Some l) \<and> password u = p"

definition login_api :: "string \<Rightarrow> string \<Rightarrow> store \<Rightarrow> public_user result" where
  "login_api l p st =
    (case find (credentials_match l p) (users st) of
       None \<Rightarrow> Inl InvalidCredentials
     | Some u \<Rightarrow> Inr (strip_password u))"

subsection \<open>register\<close>

text \<open>The object of the registration form (\<open>Register.jsx\<close>, lines 6--11).\<close>

record register_data =
  reg_login :: string
  reg_password :: string
  reg_name :: string
  reg_email :: string

definition new_user :: "timestamp \<Rightarrow> register_data \<Rightarrow> user" where
  "new_user now d =
    \<lparr>user_id = digit_string now, login = reg_login d, password = reg_password d, role = USER,
     user_name = reg_name d, email = Some (reg_email d), phone = None, contact_info = None,
     user_points = Some 200\<rparr>"

definition register :: "timestamp \<Rightarrow> register_data \<Rightarrow> store \<Rightarrow> (store \<times> public_user) result" where
  "register now d st =
    (if find (\<lambda>u. login u = reg_login d) (users st) \<noteq> None then Inl LoginExists
     else Inr (st\<lparr>users := users st @ [new_user now d]\<rparr>, strip_password (new_user now d)))"

subsection \<open>getUsers and updateUser\<close>

definition getUsers :: "store \<Rightarrow> public_user list" where
  "getUsers st = map strip_password (users st)"

text \<open>\<open>users[findIndex(...)] = {...users[i], ...userData}\<close>: the first user with the id.\<close>

definition updateUser :: "uid \<Rightarrow> user_patch \<Rightarrow> store \<Rightarrow> (store \<times> public_user) result" where
  "updateUser k p st =
    (case find_user k (users st) of
       None \<Rightarrow> Inl UserNotFound
     | Some u \<Rightarrow> Inr (st\<lparr>users := update_first (\<lambda>x. user_id x = k) (apply_patch p) (users st)\<rparr>,
                     strip_password (apply_patch p u)))"

text \<open>The patch the profile page sends (\<open>Profile.jsx\<close>, lines 12--17 and 36--41).\<close>

definition profile_patch :: "string \<Rightarrow> string \<Rightarrow> string \<Rightarrow> string \<Rightarrow> user_patch" where
  "profile_patch n e ph c =
    \<lparr>patch_id = None, patch_login = None, patch_password = None, patch_role = None,
     patch_name = Some n, patch_email = Some e, patch_phone = Some ph,
     patch_contact_info = Some c, patch_points = None\<rparr>"

text \<open>A patch that writes only the \<open>points\<close> key: what any caller of \<open>updateUser\<close> may send.\<close>

definition points_patch :: "int \<Rightarrow> user_patch" where
  "points_patch n = \<lparr>patch_id = None, patch_login = None, patch_password = None, patch_role = None,
     patch_name = None, patch_email = None, patch_phone = None, patch_contact_info = None, patch_points = Some n\<rparr>"

subsection \<open>Properties\<close>

text \<open>C16: login fails, with the invalid-credentials error, exactly when no stored user has the given string as login or as e-mail together with the given password; it succeeds exactly with the first stored user (by position) whose login or e-mail is the given string and whose password is the given one, returned without its password.\<close>

theorem login_result:
  "(login_api l p st = Inl e \<longleftrightarrow>
      e = InvalidCredentials \<and> (\<forall>u\<in>set (users st). \<not> ((login u = l \<or> email u = Some l) \<and> password u = p))) \<and>
   (login_api l p st = Inr pu \<longleftrightarrow>
      (\<exists>i<length (users st). (login (users st ! i) = l \<or> email (users st ! i) = Some l) \<and>
         password (users st ! i) = p \<and> pu = strip_password (users st ! i) \<and>
         (\<forall>j<i. \<not> ((login (users st ! j) = l \<or> email (users st ! j) = Some l) \<and> password (users st ! j) = p))))"
proof
  show "login_api l p st = Inl e \<longleftrightarrow>
      e = InvalidCredentials \<and> (\<forall>u\<in>set (users st). \<not> ((login u = l \<or> email u = Some l) \<and> password u = p))"
  proof (cases "find (credentials_match l p) (users st)")
    case (Some u)
    then have "u \<in> set (users st) \<and> credentials_match l p u" by (auto simp: find_Some_iff)
    then show ?thesis using Some by (auto simp: login_api_def credentials_match_def)
  next
    case None
    then have "\<forall>u\<in>set (users st). \<not> credentials_match l p u" by (simp add: find_None_iff')
    then show ?thesis using None by (auto simp: login_api_def credentials_match_def)
  qed
  have "login_api l p st = Inr pu \<longleftrightarrow> (\<exists>u. find (credentials_match l p) (users st) = Some u \<and> pu = strip_password u)"
    by (auto simp: login_api_def split: option.split)
  then show "login_api l p st = Inr pu \<longleftrightarrow>
      (\<exists>i<length (users st). (login (users st ! i) = l \<or> email (users st ! i) = Some l) \<and>
         password (users st ! i) = p \<and> pu = strip_password (users st ! i) \<and>
         (\<forall>j<i. \<not> ((login (users st ! j) = l \<or> email (users st ! j) = Some l) \<and> password (users st ! j) = p)))"
    by (auto simp: find_Some_iff credentials_match_def)
qed

text \<open>C17: After a successful registration, logging in with the registered login and password succeeds and returns the registered user, provided no older account has that login as its e-mail with the same password.\<close>

theorem register_login_roundtrip:
  assumes "register now d st = Inr (st', pu)"
    and "\<forall>u\<in>set (users st). \<not> (email u = Some (reg_login d) \<and> password u = reg_password d)"
  shows "login_api (reg_login d) (reg_password d) st' = Inr pu"
proof -
  have nologin: "\<forall>u\<in>set (users st). login u \<noteq> reg_login d"
    using assms(1) by (auto simp: register_def find_None_iff' split: if_splits)
  have st': "st' = st\<lparr>users := users st @ [new_user now d]\<rparr>" and pu: "pu = strip_password (new_user now d)"
    using assms(1) by (auto simp: register_def split: if_splits)
  have "find (credentials_match (reg_login d) (reg_password d)) (users st) = None"
    using nologin assms(2) by (auto simp: find_None_iff' credentials_match_def)
  then have "find (credentials_match (reg_login d) (reg_password d)) (users st') = Some (new_user now d)"
    by (simp add: st' find_append_None credentials_match_def new_user_def)
  then show ?thesis by (simp add: login_api_def pu)
qed

text \<open>The profile update the Profile page sends (name, e-mail, phone, contact) leaves every balance of the ledger unchanged.\<close>

theorem updateUser_profile_keeps_ledger:
  assumes "updateUser k (profile_patch n e ph c) st = Inr (st', pu)"
  shows "ledger_of (users st') = ledger_of (users st)"
proof -
  have keep: "user_id (apply_patch (profile_patch n e ph c) u) = user_id u"
    "user_points (apply_patch (profile_patch n e ph c) u) = user_points u" for u
    by (simp_all add: apply_patch_def profile_patch_def)
  from assms obtain u where u: "find_user k (users st) = Some u"
    and st': "st' = st\<lparr>users := update_first (\<lambda>x. user_id x = k) (apply_patch (profile_patch n e ph c)) (users st)\<rparr>"
    by (auto simp: updateUser_def split: option.splits)
  show ?thesis
    using u keep by (simp add: st' ledger_of_update [where f = "apply_patch (profile_patch n e ph c)"] ledger_of_Some fun_upd_idem)
qed

text \<open>C19: updateUser accepts any patch: a patch with a points key sets an existing user's balance to any value, negative included, bypassing the ledger.\<close>

theorem updateUser_sets_any_balance:
  assumes "find_user k (users st) \<noteq> None"
  shows "\<exists>st' pu. updateUser k (points_patch n) st = Inr (st', pu) \<and> balance (users st') k = n"
proof -
  from assms obtain u where u: "find_user k (users st) = Some u" by auto
  have keep: "user_id (apply_patch (points_patch n) x) = user_id x" for x
    by (simp add: apply_patch_def points_patch_def)
  have "balance (update_first (\<lambda>x. user_id x = k) (apply_patch (points_patch n)) (users st)) k = n"
    using balance_update_same [of "apply_patch (points_patch n)", OF keep u]
    by (simp add: apply_patch_def points_patch_def)
  with u show ?thesis by (simp add: updateUser_def)
qed

subsection \<open>Witnesses\<close>

theorem login_result_witness:
  "login_api ''user1'' ''123'' (first_visit 1000000000) = Inr (strip_password (default_users ! 1)) \<and>
   login_api ''admin@platform.ru'' ''admin'' (first_visit 1000000000) = Inr (strip_password (default_users ! 0)) \<and>
   login_api ''user1'' ''bad'' (first_visit 1000000000) = Inl InvalidCredentials"
proof -
  have f1: "\<exists>i<length (users (first_visit 1000000000)).
      (login (users (first_visit 1000000000) ! i) = ''user1'' \<or> email (users (first_visit 1000000000) ! i) = Some ''user1'') \<and>
      password (users (first_visit 1000000000) ! i) = ''123'' \<and>
      strip_password (default_users ! 1) = strip_password (users (first_visit 1000000000) ! i) \<and>
      (\<forall>j<i. \<not> ((login (users (first_visit 1000000000) ! j) = ''user1'' \<or>
                   email (users (first_visit 1000000000) ! j) = Some ''user1'') \<and>
                  password (users (first_visit 1000000000) ! j) = ''123''))"
    by (rule exI [of _ 1]) (simp add: seed_simps less_Suc_eq)
  have f2: "\<exists>i<length (users (first_visit 1000000000)).
      (login (users (first_visit 1000000000) ! i) = ''admin@platform.ru'' \<or>
       email (users (first_visit 1000000000) ! i) = Some ''admin@platform.ru'') \<and>
      password (users (first_visit 1000000000) ! i) = ''admin'' \<and>
      strip_password (default_users ! 0) = strip_password (users (first_visit 1000000000) ! i) \<and>
      (\<forall>j<i. \<not> ((login (users (first_visit 1000000000) ! j) = ''admin@platform.ru'' \<or>
                   email (users (first_visit 1000000000) ! j) = Some ''admin@platform.ru'') \<and>
                  password (users (first_visit 1000000000) ! j) = ''admin''))"
    by (rule exI [of _ 0]) (simp add: seed_simps)
  have f3: "\<forall>u\<in>set (users (first_visit 1000000000)).
      \<not> ((login u = ''user1'' \<or> email u = Some ''user1'') \<and> password u = ''bad'')"
    by (simp add: seed_simps)
  show ?thesis
    using login_result [of "''user1''" "''123''" "(first_visit 1000000000)" InvalidCredentials "strip_password (default_users ! 1)"]
      login_result [of "''admin@platform.ru''" "''admin''" "(first_visit 1000000000)" InvalidCredentials "strip_password (default_users ! 0)"]
      login_result [of "''user1''" "''bad''" "(first_visit 1000000000)" InvalidCredentials "strip_password (default_users ! 1)"]
      f1 f2 f3 by blast
qed

theorem register_login_roundtrip_witness:
  "\<exists>st' pu. register 1000000000 \<lparr>reg_login = ''anna'', reg_password = ''pw'', reg_name = ''Anna'', reg_email = ''anna@mail.kz''\<rparr> (first_visit 1000000000) = Inr (st', pu) \<and>
   (\<forall>u\<in>set (users (first_visit 1000000000)). \<not> (email u = Some (reg_login \<lparr>reg_login = ''anna'', reg_password = ''pw'', reg_name = ''Anna'', reg_email = ''anna@mail.kz''\<rparr>) \<and> password u = reg_password \<lparr>reg_login = ''anna'', reg_password = ''pw'', reg_name = ''Anna'', reg_email = ''anna@mail.kz''\<rparr>)) \<and>
   login_api (reg_login \<lparr>reg_login = ''anna'', reg_password = ''pw'', reg_name = ''Anna'', reg_email = ''anna@mail.kz''\<rparr>) (reg_password \<lparr>reg_login = ''anna'', reg_password = ''pw'', reg_name = ''Anna'', reg_email = ''anna@mail.kz''\<rparr>) st' = Inr pu"
proof -
  have r: "register 1000000000 \<lparr>reg_login = ''anna'', reg_password = ''pw'', reg_name = ''Anna'', reg_email = ''anna@mail.kz''\<rparr> (first_visit 1000000000) =
      Inr ((first_visit 1000000000)\<lparr>users := users (first_visit 1000000000) @ [new_user 1000000000 \<lparr>reg_login = ''anna'', reg_password = ''pw'', reg_name = ''Anna'', reg_email = ''anna@mail.kz''\<rparr>]\<rparr>, strip_password (new_user 1000000000 \<lparr>reg_login = ''anna'', reg_password = ''pw'', reg_name = ''Anna'', reg_email = ''anna@mail.kz''\<rparr>))"
    by (simp add: register_def seed_simps)
  have h: "\<forall>u\<in>set (users (first_visit 1000000000)). \<not> (email u = Some (reg_login \<lparr>reg_login = ''anna'', reg_password = ''pw'', reg_name = ''Anna'', reg_email = ''anna@mail.kz''\<rparr>) \<and> password u = reg_password \<lparr>reg_login = ''anna'', reg_password = ''pw'', reg_name = ''Anna'', reg_email = ''anna@mail.kz''\<rparr>)"
    by (simp add: seed_simps)
  show ?thesis using r h register_login_roundtrip [OF r h] by blast
qed

theorem updateUser_profile_keeps_ledger_witness:
  "\<exists>st' pu. updateUser ''2'' (profile_patch ''Ivan'' ''ivan@mail.kz'' ''+7 700'' ''tg'') (first_visit 1000000000) = Inr (st', pu) \<and>
     ledger_of (users st') = ledger_of (users (first_visit 1000000000))"
proof -
  obtain st' pu where r: "updateUser ''2'' (profile_patch ''Ivan'' ''ivan@mail.kz'' ''+7 700'' ''tg'') (first_visit 1000000000) = Inr (st', pu)"
    by (simp add: updateUser_def seed_simps)
  show ?thesis using r updateUser_profile_keeps_ledger [OF r] by blast
qed

theorem updateUser_sets_any_balance_witness:
  "find_user ''2'' (users (first_visit 1000000000)) \<noteq> None \<and>
   (\<exists>st' pu. updateUser ''2'' (points_patch (-5)) (first_visit 1000000000) = Inr (st', pu) \<and> balance (users st') ''2'' = -5)"
proof -
  have h: "find_user ''2'' (users (first_visit 1000000000)) \<noteq> None" by (simp add: seed_simps)
  show ?thesis using h updateUser_sets_any_balance [OF h, of "-5"] by blast
qed

end
