(* ===== verification/Chat.thy ===== *)
theory Chat
  imports Auth "HOL-Library.Multiset"
begin

text \<open>
  The chat between a task's creator and its volunteer.  The API part is
  \<open>getChatMessages\<close> and \<open>sendChatMessage\<close> of \<open>mockApi.js\<close> (lines 343--361): the
  messages of one task, ordered by their time stamps with JavaScript's stable
  \<open>Array.prototype.sort\<close> (here \<open>sort_key\<close>, which is stable), and an append with a
  fresh \<open>String(Date.now())\<close> id.  The view part is what \<open>ChatSidebar.jsx\<close> and
  \<open>Chat.jsx\<close> compute from the store: the tasks that have a chat, the partner of the
  current user, the last message, and the send handler that trims the text and
  drops blank messages.  Time stamps are the milliseconds the ISO strings denote.
\<close>

subsection \<open>API\<close>

text \<open>The object the views pass to \<open>sendChatMessage\<close>: \<open>{taskId, senderId, text, timestamp}\<close>.\<close>

record chat_data =
  cd_task_id :: string
  cd_sender :: uid
  cd_text :: string
  cd_timestamp :: timestamp

definition getChatMessages :: "string \<Rightarrow> store \<Rightarrow> message list" where
  "getChatMessages k st = sort_key msg_timestamp (filter (\<lambda>m. msg_task_id m = k) (chat_messages st))"

definition sendChatMessage :: "timestamp \<Rightarrow> chat_data \<Rightarrow> store \<Rightarrow> store \<times> message" where
  "sendChatMessage now d st =
    (let m = \<lparr>msg_id = digit_string now, msg_task_id = cd_task_id d, sender_id = cd_sender d,
              msg_text = cd_text d, msg_timestamp = cd_timestamp d\<rparr>
     in (st\<lparr>chat_messages := chat_messages st @ [m]\<rparr>, m))"

subsection \<open>Views\<close>

text \<open>\<open>String.prototype.trim\<close> on the ASCII white space characters.\<close>

definition js_space :: "char \<Rightarrow> bool" where
  "js_space c \<longleftrightarrow> of_char c \<in> {9, 10, 11, 12, 13, 32 :: nat}"

definition trim :: "string \<Rightarrow> string" where
  "trim s = rev (dropWhile js_space (rev (dropWhile js_space s)))"

text \<open>
  \<open>ChatSidebar.handleSendMessage\<close> (lines 75--104): nothing is sent for a blank text or
  without a user; otherwise the trimmed text is sent with the handler's own clock
  reading \<open>ts\<close> as time stamp, while the API takes its id from its clock reading
  \<open>now\<close> after its delay.
\<close>

definition sidebar_send ::
  "timestamp \<Rightarrow> timestamp \<Rightarrow> public_user option \<Rightarrow> string \<Rightarrow> string \<Rightarrow> store \<Rightarrow> store \<times> message option" where
  "sidebar_send ts now user k txt st =
    (if trim txt = [] then (st, None)
     else case user of
       None \<Rightarrow> (st, None)
     | Some u \<Rightarrow>
         (let (st', m) = sendChatMessage now
                \<lparr>cd_task_id = k, cd_sender = pub_id u, cd_text = trim txt, cd_timestamp = ts\<rparr> st
          in (st', Some m)))"

text \<open>The tasks that have a chat in the sidebar (\<open>userTasks\<close>, lines 18--23).\<close>

definition chat_task :: "uid \<Rightarrow> task \<Rightarrow> bool" where
  "chat_task me t \<longleftrightarrow>
     (created_by t = me \<or> assigned_to t = Some me) \<and> status t \<noteq> PENDING \<and> status t \<noteq> REJECTED \<and>
     (truthy_id (assigned_to t) \<or> created_by t = me)"

definition chat_tasks :: "uid \<Rightarrow> task list \<Rightarrow> task list" where
  "chat_tasks me ts = filter (chat_task me) ts"

text \<open>\<open>getOtherUser\<close> (lines 106--115): the creator talks to the volunteer, anyone else to the creator.\<close>

definition other_user :: "uid \<Rightarrow> task \<Rightarrow> uid option" where
  "other_user me t =
    (if me = created_by t then (if truthy_id (assigned_to t) then assigned_to t else None)
     else Some (created_by t))"

text \<open>The preview of a chat: \<open>taskMessages[taskMessages.length - 1]\<close>, or \<open>null\<close>.\<close>

definition last_message :: "string \<Rightarrow> store \<Rightarrow> message option" where
  "last_message k st = (let ms = getChatMessages k st in if ms = [] then None else Some (last ms))"

subsection \<open>Lemmas\<close>

lemma sort_key_append_max:
  assumes "\<forall>y\<in>set xs. f y \<le> f x"
  shows "sort_key f (xs @ [x]) = sort_key f xs @ [x]"
proof (rule properties_for_sort_key)
  show "mset (sort_key f xs @ [x]) = mset (xs @ [x])" by simp
next
  fix k
  have "filter (\<lambda>y. f k = f y) (sort_key f xs) = filter (\<lambda>y. f k = f y) xs"
    using sort_key_stable [of f "f k" xs] by (simp add: eq_commute)
  then show "filter (\<lambda>y. f k = f y) (sort_key f xs @ [x]) = filter (\<lambda>y. f k = f y) (xs @ [x])"
    by simp
next
  show "sorted (map f (sort_key f xs @ [x]))"
    using assms by (simp add: sorted_append)
qed

lemma sendChatMessage_eq:
  assumes "sendChatMessage now d st = (st', m)"
  shows "st' = st\<lparr>chat_messages := chat_messages st @ [m]\<rparr>"
    and "msg_task_id m = cd_task_id d" "msg_timestamp m = cd_timestamp d" "sender_id m = cd_sender d"
    and "msg_text m = cd_text d"
  using assms by (auto simp: sendChatMessage_def Let_def)

lemma getChatMessages_send:
  assumes "sendChatMessage now d st = (st', m)"
    and "\<forall>m'\<in>set (getChatMessages (cd_task_id d) st). msg_timestamp m' \<le> cd_timestamp d"
  shows "getChatMessages (cd_task_id d) st' = getChatMessages (cd_task_id d) st @ [m]"
  using assms(2) sendChatMessage_eq [OF assms(1)]
    sort_key_append_max [of "filter (\<lambda>x. msg_task_id x = cd_task_id d) (chat_messages st)" msg_timestamp m]
  by (simp add: getChatMessages_def)

text \<open>C20: getChatMessages returns exactly the messages of the task, each as often as it is stored, ordered by time stamp.\<close>

theorem getChatMessages_spec:
  "mset (getChatMessages k st) = mset (filter (\<lambda>m. msg_task_id m = k) (chat_messages st)) \<and>
   sorted (map msg_timestamp (getChatMessages k st)) \<and>
   (\<forall>m\<in>set (getChatMessages k st). msg_task_id m = k)"
  by (simp add: getChatMessages_def)

text \<open>C21: After sendChatMessage, the task's chat holds the new message, and it is the last one shown (the sidebar's preview) when its time stamp is not older than the task's earlier messages; the chats of other tasks are unchanged.\<close>

theorem send_then_get:
  assumes "sendChatMessage now d st = (st', m)"
  shows "m \<in> set (getChatMessages (cd_task_id d) st') \<and>
    ((\<forall>m'\<in>set (getChatMessages (cd_task_id d) st). msg_timestamp m' \<le> cd_timestamp d) \<longrightarrow>
       last_message (cd_task_id d) st' = Some m) \<and>
    (\<forall>k. k \<noteq> cd_task_id d \<longrightarrow> getChatMessages k st' = getChatMessages k st)"
proof -
  note eq = sendChatMessage_eq [OF assms]
  have "last_message (cd_task_id d) st' = Some m"
    if "\<forall>m'\<in>set (getChatMessages (cd_task_id d) st). msg_timestamp m' \<le> cd_timestamp d"
    using getChatMessages_send [OF assms that] by (simp add: last_message_def)
  then show ?thesis using eq by (auto simp: getChatMessages_def)
qed

text \<open>The sidebar never stores a blank message, and what it stores is the trimmed text, sent by the current user to the selected task.\<close>

theorem sidebar_send_trimmed:
  "sidebar_send ts now user k txt st = (st', Some m) \<Longrightarrow>
   msg_text m = trim txt \<and> msg_text m \<noteq> [] \<and> msg_task_id m = k \<and>
   (\<exists>u. user = Some u \<and> sender_id m = pub_id u) \<and> chat_messages st' = chat_messages st @ [m]"
  by (auto simp: sidebar_send_def sendChatMessage_def Let_def split: if_splits option.splits)

subsection \<open>Witnesses\<close>

theorem getChatMessages_spec_witness:
  "mset (getChatMessages ''1'' (fst (sendChatMessage 5 \<lparr>cd_task_id = ''1'', cd_sender = ''2'', cd_text = ''hello'', cd_timestamp = 5\<rparr> (first_visit 1000000000)))) =
     mset (filter (\<lambda>m. msg_task_id m = ''1'') (chat_messages (fst (sendChatMessage 5 \<lparr>cd_task_id = ''1'', cd_sender = ''2'', cd_text = ''hello'', cd_timestamp = 5\<rparr> (first_visit 1000000000))))) \<and>
   sorted (map msg_timestamp (getChatMessages ''1'' (fst (sendChatMessage 5 \<lparr>cd_task_id = ''1'', cd_sender = ''2'', cd_text = ''hello'', cd_timestamp = 5\<rparr> (first_visit 1000000000))))) \<and>
   length (getChatMessages ''1'' (fst (sendChatMessage 5 \<lparr>cd_task_id = ''1'', cd_sender = ''2'', cd_text = ''hello'', cd_timestamp = 5\<rparr> (first_visit 1000000000)))) = 1"
proof -
  have "length (getChatMessages ''1'' (fst (sendChatMessage 5 \<lparr>cd_task_id = ''1'', cd_sender = ''2'', cd_text = ''hello'', cd_timestamp = 5\<rparr> (first_visit 1000000000)))) = 1"
    by (simp add: getChatMessages_def sendChatMessage_def seed_simps Let_def)
  then show ?thesis
    using getChatMessages_spec [of "''1''" "fst (sendChatMessage 5 \<lparr>cd_task_id = ''1'', cd_sender = ''2'', cd_text = ''hello'', cd_timestamp = 5\<rparr> (first_visit 1000000000))"] by blast
qed

theorem send_then_get_witness:
  "\<exists>st' m. sendChatMessage 7 \<lparr>cd_task_id = ''1'', cd_sender = ''3'', cd_text = ''hi'', cd_timestamp = 7\<rparr> (fst (sendChatMessage 5 \<lparr>cd_task_id = ''1'', cd_sender = ''2'', cd_text = ''hello'', cd_timestamp = 5\<rparr> (first_visit 1000000000))) = (st', m) \<and>
   (\<forall>m'\<in>set (getChatMessages (cd_task_id \<lparr>cd_task_id = ''1'', cd_sender = ''3'', cd_text = ''hi'', cd_timestamp = 7\<rparr>) (fst (sendChatMessage 5 \<lparr>cd_task_id = ''1'', cd_sender = ''2'', cd_text = ''hello'', cd_timestamp = 5\<rparr> (first_visit 1000000000)))). msg_timestamp m' \<le> cd_timestamp \<lparr>cd_task_id = ''1'', cd_sender = ''3'', cd_text = ''hi'', cd_timestamp = 7\<rparr>) \<and>
   m \<in> set (getChatMessages (cd_task_id \<lparr>cd_task_id = ''1'', cd_sender = ''3'', cd_text = ''hi'', cd_timestamp = 7\<rparr>) st') \<and> last_message (cd_task_id \<lparr>cd_task_id = ''1'', cd_sender = ''3'', cd_text = ''hi'', cd_timestamp = 7\<rparr>) st' = Some m"
proof -
  obtain st' m where r: "sendChatMessage 7 \<lparr>cd_task_id = ''1'', cd_sender = ''3'', cd_text = ''hi'', cd_timestamp = 7\<rparr> (fst (sendChatMessage 5 \<lparr>cd_task_id = ''1'', cd_sender = ''2'', cd_text = ''hello'', cd_timestamp = 5\<rparr> (first_visit 1000000000))) = (st', m)"
    by (cases "sendChatMessage 7 \<lparr>cd_task_id = ''1'', cd_sender = ''3'', cd_text = ''hi'', cd_timestamp = 7\<rparr> (fst (sendChatMessage 5 \<lparr>cd_task_id = ''1'', cd_sender = ''2'', cd_text = ''hello'', cd_timestamp = 5\<rparr> (first_visit 1000000000)))") blast
  have h: "\<forall>m'\<in>set (getChatMessages (cd_task_id \<lparr>cd_task_id = ''1'', cd_sender = ''3'', cd_text = ''hi'', cd_timestamp = 7\<rparr>) (fst (sendChatMessage 5 \<lparr>cd_task_id = ''1'', cd_sender = ''2'', cd_text = ''hello'', cd_timestamp = 5\<rparr> (first_visit 1000000000)))). msg_timestamp m' \<le> cd_timestamp \<lparr>cd_task_id = ''1'', cd_sender = ''3'', cd_text = ''hi'', cd_timestamp = 7\<rparr>"
    by (simp add: getChatMessages_def sendChatMessage_def seed_simps Let_def)
  show ?thesis using r h send_then_get [OF r] by blast
qed

theorem sidebar_send_trimmed_witness:
  "\<exists>st' m. sidebar_send 9 9 (Some (strip_password (default_users ! 1))) ''1'' '' hi  '' (first_visit 1000000000) = (st', Some m) \<and>
   msg_text m = trim '' hi  '' \<and> msg_text m \<noteq> []"
proof -
  have "trim '' hi  '' = ''hi''" by (simp add: trim_def js_space_def)
  then obtain st' m where r: "sidebar_send 9 9 (Some (strip_password (default_users ! 1))) ''1'' '' hi  '' (first_visit 1000000000) = (st', Some m)"
    by (simp add: sidebar_send_def sendChatMessage_def Let_def)
  show ?thesis using r sidebar_send_trimmed [OF r] by blast
qed

end
