(* ===== verification/Session.thy ===== *)
theory Session
  imports Chat
begin

text \<open>
  The two React contexts that sit between the pages and \<open>mockApi\<close>:
  \<open>src/src/contexts/AuthContext.jsx\<close> (the signed-in user, mirrored in the
  \<open>localStorage\<close> key \<open>currentUser\<close>) and \<open>src/src/contexts/TaskContext.jsx\<close> (a
  cache of the task list that every mutation patches locally instead of refetching).
  A session is the client state of one browser tab; every context operation takes the
  store and the session and returns both, so that a call that both writes the store
  and patches the cache is one step.  Asynchrony is sequential here: the \<open>await\<close>s of
  one handler run in the order they are written, and the effect that refetches the
  tasks when the user changes (\<open>fetchTasks\<close>) is a step of its own.
\<close>

subsection \<open>State\<close>

text \<open>
  \<open>cached_tasks\<close> holds \<open>task option\<close>: \<open>abandonTask\<close> of the context writes
  the \<open>task\<close> field of the API's answer into the cache, and that field is
  \<open>undefined\<close> (\<open>None\<close>) when the store has no such task.
\<close>

record session =
  cur_user :: "public_user option"
  saved_user :: "public_user option"
  cached_tasks :: "task option list"

subsection \<open>AuthContext\<close>

text \<open>Lines 14--24: on mount the saved user becomes the current one.\<close>

definition auth_init :: "session \<Rightarrow> session" where
  "auth_init s = s\<lparr>cur_user := saved_user s\<rparr>"

text \<open>\<open>setUser(u); localStorage.setItem('currentUser', JSON.stringify(u))\<close>\<close>

definition set_user :: "public_user option \<Rightarrow> session \<Rightarrow> session" where
  "set_user u s = s\<lparr>cur_user := u, saved_user := u\<rparr>"

text \<open>
  Lines 26--35.  \<open>userData.role || ...\<close>: the stored role is never empty in this model
  (\<open>role\<close> is \<open>ADMIN\<close> or \<open>USER\<close>), so the user the API returns is kept as it is.
\<close>

definition ctx_login :: "string \<Rightarrow> string \<Rightarrow> store \<Rightarrow> session \<Rightarrow> (session \<times> public_user) result" where
  "ctx_login l p st s =
    (case login_api l p st of
       Inl e \<Rightarrow> Inl e
     | Inr u \<Rightarrow> Inr (set_user (Some u) s, u))"

text \<open>Lines 37--42.\<close>

definition ctx_register ::
  "timestamp \<Rightarrow> register_data \<Rightarrow> store \<Rightarrow> session \<Rightarrow> (store \<times> session \<times> public_user) result" where
  "ctx_register now d st s =
    (case register now d st of
       Inl e \<Rightarrow> Inl e
     | Inr (st', u) \<Rightarrow> Inr (st', set_user (Some u) s, u))"

text \<open>Lines 44--47.\<close>

definition ctx_logout :: "session \<Rightarrow> session" where
  "ctx_logout s = set_user None s"

text \<open>
  Lines 49--66: reread the signed-in user from \<open>getUsers\<close>, keeping the role the session
  had.  Without a signed-in user, or when the user is no longer stored, nothing changes.
\<close>

definition refreshUser :: "store \<Rightarrow> session \<Rightarrow> session" where
  "refreshUser st s =
    (case cur_user s of
       None \<Rightarrow> s
     | Some cu \<Rightarrow>
         (if \<not> truthy_str (pub_id cu) then s
          else
            (case find (\<lambda>u. pub_id u = pub_id cu) (getUsers st) of
               None \<Rightarrow> s
             | Some u \<Rightarrow> set_user (Some (u\<lparr>pub_role := pub_role cu\<rparr>)) s)))"

text \<open>Lines 68--83: \<open>role: user?.role || updatedUser.role\<close>.\<close>

definition ctx_updateUser ::
  "uid \<Rightarrow> user_patch \<Rightarrow> store \<Rightarrow> session \<Rightarrow> (store \<times> session \<times> public_user) result" where
  "ctx_updateUser k p st s =
    (case updateUser k p st of
       Inl e \<Rightarrow> Inl e
     | Inr (st', u) \<Rightarrow>
         (let u' = u\<lparr>pub_role := (case cur_user s of Some cu \<Rightarrow> pub_role cu | None \<Rightarrow> pub_role u)\<rparr>
          in Inr (st', set_user (Some u') s, u')))"

definition isAdmin :: "session \<Rightarrow> bool" where
  "isAdmin s \<longleftrightarrow> map_option pub_role (cur_user s) = Some ADMIN"

definition isUser :: "session \<Rightarrow> bool" where
  "isUser s \<longleftrightarrow> map_option pub_role (cur_user s) = Some USER"

subsection \<open>TaskContext\<close>

text \<open>Lines 15--31: the effect run whenever the user object changes.\<close>

definition fetchTasks :: "store \<Rightarrow> session \<Rightarrow> session" where
  "fetchTasks st s =
    (case cur_user s of
       None \<Rightarrow> s\<lparr>cached_tasks := []\<rparr>
     | Some u \<Rightarrow> s\<lparr>cached_tasks := map Some (getTasks (pub_id u) (pub_role u) st)\<rparr>)"

text \<open>\<open>if (!user?.id) throw new Error(...)\<close>: the signed-in id, when there is a truthy one.\<close>

definition session_uid :: "session \<Rightarrow> uid option" where
  "session_uid s =
    (case cur_user s of
       None \<Rightarrow> None
     | Some u \<Rightarrow> if truthy_str (pub_id u) then Some (pub_id u) else None)"

text \<open>\<open>prev.map(t => t.id === taskId ? x : t)\<close>\<close>

definition cache_replace :: "string \<Rightarrow> task option \<Rightarrow> task option list \<Rightarrow> task option list" where
  "cache_replace k x c =
    map (\<lambda>e. case e of None \<Rightarrow> None | Some t \<Rightarrow> if task_id t = k then x else Some t) c"

text \<open>Lines 33--43: \<open>createdBy\<close> is overwritten with the session's id.\<close>

definition ctx_createTask ::
  "timestamp \<Rightarrow> task_data \<Rightarrow> store \<Rightarrow> session \<Rightarrow> (store \<times> session \<times> task) result" where
  "ctx_createTask now d st s =
    (case session_uid s of
       None \<Rightarrow> Inl NotAuthorized
     | Some me \<Rightarrow>
         (let (st', t) = createTask now (d\<lparr>data_created_by := me\<rparr>) st;
              s1 = s\<lparr>cached_tasks := cached_tasks s @ [Some t]\<rparr>
          in Inr (st', refreshUser st' s1, t)))"

text \<open>Lines 45--56: the user is refreshed only when the status string is \<open>'DONE'\<close>.\<close>

definition ctx_updateTaskStatus ::
  "string \<Rightarrow> string \<Rightarrow> report option \<Rightarrow> store \<Rightarrow> session \<Rightarrow> (store \<times> session \<times> task) result" where
  "ctx_updateTaskStatus k stat rep st s =
    (case session_uid s of
       None \<Rightarrow> Inl NotAuthorized
     | Some me \<Rightarrow>
         (case updateTaskStatus k stat (Some me) rep st of
            Inl e \<Rightarrow> Inl e
          | Inr (st', t') \<Rightarrow>
              (let s1 = s\<lparr>cached_tasks := cache_replace k (Some t') (cached_tasks s)\<rparr>
               in Inr (st', if stat = ''DONE'' then refreshUser st' s1 else s1, t'))))"

text \<open>Lines 58--66.\<close>

definition ctx_abandonTask :: "string \<Rightarrow> store \<Rightarrow> session \<Rightarrow> (store \<times> session) result" where
  "ctx_abandonTask k st s =
    (case session_uid s of
       None \<Rightarrow> Inl NotAuthorized
     | Some me \<Rightarrow>
         (let (st', t) = abandonTask k me st;
              s1 = s\<lparr>cached_tasks := cache_replace k t (cached_tasks s)\<rparr>
          in Inr (st', refreshUser st' s1)))"


subsection \<open>Cache coherence and the displayed balance\<close>

text \<open>
  The cache is coherent with the store when it holds exactly the stored tasks, in order,
  and the task ids are distinct, which is what makes the local \<open>prev.map\<close> agree with
  the API's \<open>find\<close>.  The balance the navbar shows is fresh when the session's user
  carries the points that the store holds for that id.
\<close>

definition coherent :: "store \<Rightarrow> session \<Rightarrow> bool" where
  "coherent st s \<longleftrightarrow> cached_tasks s = map Some (tasks st) \<and> distinct (map task_id (tasks st))"

definition points_fresh :: "store \<Rightarrow> session \<Rightarrow> bool" where
  "points_fresh st s \<longleftrightarrow>
    (case cur_user s of
       None \<Rightarrow> True
     | Some cu \<Rightarrow> (case find_user (pub_id cu) (users st) of
                    None \<Rightarrow> True
                  | Some u \<Rightarrow> pub_points cu = user_points u))"

lemma session_simps [simp]:
  "cached_tasks (set_user u s) = cached_tasks s" "cur_user (set_user u s) = u"
  "cached_tasks (refreshUser st s) = cached_tasks s"
  by (simp_all add: set_user_def refreshUser_def split: option.split)

lemma find_map_strip:
  "find (\<lambda>u. pub_id u = k) (map strip_password us) = map_option strip_password (find_user k us)"
  by (induction us) (simp_all add: find_user_def strip_password_def)

lemma cache_replace_update:
  assumes "distinct (map task_id xs)" and "find (\<lambda>x. task_id x = k) xs = Some t"
    and "\<And>x. task_id (f x) = task_id x"
  shows "cache_replace k (Some (f t)) (map Some xs) = map Some (update_first (\<lambda>x. task_id x = k) f xs)"
proof -
  have "\<And>x. x \<in> set xs \<Longrightarrow> task_id x = k \<Longrightarrow> x = t"
    using assms(1,2) find_distinct_key [of task_id xs] by fastforce
  then show ?thesis
    by (simp add: cache_replace_def update_first_distinct_map [OF assms(1)])
qed

lemma cache_replace_miss:
  "find (\<lambda>x. task_id x = k) xs = None \<Longrightarrow> cache_replace k y (map Some xs) = map Some xs"
  by (simp add: cache_replace_def find_None_iff' map_idI)

lemma distinct_update_first:
  "(\<And>x. task_id (f x) = task_id x) \<Longrightarrow>
   distinct (map task_id (update_first P f xs)) = distinct (map task_id xs)"
  by (simp add: map_update_first_inv)

lemma updateTaskStatus_Inr:
  assumes "updateTaskStatus k s uid rep st = Inr (st', t')"
  obtains t where "find_task k st = Some t" "t' = set_status (status_of_string s) uid rep t"
    "tasks st' = update_first (\<lambda>x. task_id x = k) (set_status (status_of_string s) uid rep) (tasks st)"
    "users st' = (if status_of_string s = DONE then payout t' uid (users st) else users st)"
  using assms by (auto simp: updateTaskStatus_def Let_def split: option.splits if_splits)


lemma find_user_Some_id: "find_user k us = Some u \<Longrightarrow> user_id u = k"
  unfolding find_user_def by (auto dest: find_Some_in_set)

lemma session_uid_Some: "session_uid s = Some me \<Longrightarrow> truthy_str me \<and> map_option pub_id (cur_user s) = Some me"
  by (auto simp: session_uid_def split: option.splits if_splits)

lemma coherent_update:
  assumes "coherent st s" and "ctx_updateTaskStatus k stat rep st s = Inr (st', s', t')"
  shows "coherent st' s'"
proof -
  obtain me where me: "session_uid s = Some me"
    using assms(2) by (cases "session_uid s") (auto simp: ctx_updateTaskStatus_def)
  obtain st1 where r: "updateTaskStatus k stat (Some me) rep st = Inr (st1, t')"
    and s': "s' = (let s1 = s\<lparr>cached_tasks := cache_replace k (Some t') (cached_tasks s)\<rparr>
                   in if stat = ''DONE'' then refreshUser st1 s1 else s1)" and "st' = st1"
    using assms(2) me by (auto simp: ctx_updateTaskStatus_def Let_def split: sum.splits)
  obtain t where "find_task k st = Some t"
    and "t' = set_status (status_of_string stat) (Some me) rep t"
    and "tasks st1 = update_first (\<lambda>x. task_id x = k) (set_status (status_of_string stat) (Some me) rep) (tasks st)"
    by (rule updateTaskStatus_Inr [OF r])
  with assms(1) s' \<open>st' = st1\<close> show ?thesis
    by (simp add: coherent_def Let_def find_task_def cache_replace_update distinct_update_first)
qed

lemma coherent_abandon:
  assumes "coherent st s" and "ctx_abandonTask k st s = Inr (st', s')"
  shows "coherent st' s'"
proof -
  obtain me where me: "session_uid s = Some me"
    using assms(2) by (cases "session_uid s") (auto simp: ctx_abandonTask_def)
  then have tr: "truthy_str me" by (simp add: session_uid_Some)
  have r: "st' = fst (abandonTask k me st)"
    "s' = refreshUser st' (s\<lparr>cached_tasks := cache_replace k (snd (abandonTask k me st)) (cached_tasks s)\<rparr>)"
    using assms(2) me by (auto simp: ctx_abandonTask_def split: prod.splits)
  show ?thesis
  proof (cases "find_task k st")
    case None
    with assms(1) r show ?thesis
      by (simp add: abandonTask_def coherent_def find_task_def cache_replace_miss)
  next
    case (Some t)
    have "cache_replace k (Some (reopen t)) (map Some (tasks st)) =
          map Some (update_first (\<lambda>x. task_id x = k) reopen (tasks st))"
      using assms(1) Some by (intro cache_replace_update) (simp_all add: coherent_def find_task_def)
    with assms(1) r Some tr show ?thesis
      by (simp add: abandonTask_def coherent_def Let_def distinct_update_first)
  qed
qed

lemma coherent_create:
  assumes "coherent st s" and "digit_string now \<notin> set (map task_id (tasks st))"
    and "ctx_createTask now d st s = Inr (st', s', t)"
  shows "coherent st' s'"
proof -
  obtain me where me: "session_uid s = Some me"
    using assms(3) by (cases "session_uid s") (auto simp: ctx_createTask_def)
  with assms show ?thesis
    by (auto simp: ctx_createTask_def coherent_def createTask_def new_task_def Let_def)
qed

lemma refresh_fresh:
  assumes "session_uid s = Some me"
  shows "points_fresh st (refreshUser st s)"
proof -
  obtain cu where cu: "cur_user s = Some cu" "pub_id cu = me" "truthy_str me"
    using assms by (auto simp: session_uid_def split: option.splits if_splits)
  show ?thesis
  proof (cases "find_user me (users st)")
    case (Some a)
    then have "user_id a = me" by (rule find_user_Some_id)
    with cu Some show ?thesis
      by (simp add: refreshUser_def getUsers_def find_map_strip points_fresh_def strip_password_def)
  qed (use cu in \<open>simp add: refreshUser_def getUsers_def find_map_strip points_fresh_def\<close>)
qed

lemma points_fresh_cache [simp]:
  "points_fresh st (s\<lparr>cached_tasks := c\<rparr>) = points_fresh st s"
  by (simp add: points_fresh_def)

lemma status_of_string_DONE: "status_of_string x = DONE \<Longrightarrow> x = ''DONE''"
  by (simp add: status_of_string_def split: if_splits)


lemma updateTaskStatus_users:
  "updateTaskStatus k s uid rep st = Inr (st', t') \<Longrightarrow> status_of_string s \<noteq> DONE \<Longrightarrow> users st' = users st"
  by (auto simp: updateTaskStatus_def Let_def split: option.splits if_splits)

lemma session_uid_cache [simp]: "session_uid (s\<lparr>cached_tasks := c\<rparr>) = session_uid s"
  by (simp add: session_uid_def)

lemma points_fresh_users:
  assumes "users st' = users st" shows "points_fresh st' s = points_fresh st s"
  unfolding points_fresh_def assms ..

lemma fresh_update:
  assumes "points_fresh st s" and "ctx_updateTaskStatus k stat rep st s = Inr (st', s', t')"
  shows "points_fresh st' s'"
proof -
  obtain me where me: "session_uid s = Some me"
    using assms(2) by (cases "session_uid s") (auto simp: ctx_updateTaskStatus_def)
  obtain st1 where r: "updateTaskStatus k stat (Some me) rep st = Inr (st1, t')"
    and s': "s' = (let s1 = s\<lparr>cached_tasks := cache_replace k (Some t') (cached_tasks s)\<rparr>
                   in if stat = ''DONE'' then refreshUser st1 s1 else s1)" and "st' = st1"
    using assms(2) me by (auto simp: ctx_updateTaskStatus_def Let_def split: sum.splits)
  show ?thesis
  proof (cases "stat = ''DONE''")
    case True
    with s' me \<open>st' = st1\<close> show ?thesis by (simp add: Let_def refresh_fresh)
  next
    case False
    then have ne: "status_of_string stat \<noteq> DONE" by (auto dest: status_of_string_DONE)
    have "users st1 = users st" using updateTaskStatus_users [OF r ne] .
    from points_fresh_users [OF this] False s' assms(1) \<open>st' = st1\<close> show ?thesis by (simp add: Let_def)
  qed
qed

lemma fresh_abandon:
  assumes "ctx_abandonTask k st s = Inr (st', s')"
  shows "points_fresh st' s'"
proof -
  obtain me where me: "session_uid s = Some me"
    using assms by (cases "session_uid s") (auto simp: ctx_abandonTask_def)
  with assms show ?thesis by (auto simp: ctx_abandonTask_def split: prod.splits intro: refresh_fresh)
qed

lemma fresh_create:
  assumes "ctx_createTask now d st s = Inr (st', s', t)"
  shows "points_fresh st' s'"
proof -
  obtain me where me: "session_uid s = Some me"
    using assms by (cases "session_uid s") (auto simp: ctx_createTask_def)
  with assms show ?thesis by (auto simp: ctx_createTask_def Let_def split: prod.splits intro: refresh_fresh)
qed

subsection \<open>Properties\<close>

text \<open>C23: The task cache of TaskContext stays equal to the stored task list (ids distinct) across createTask (with a fresh id), updateTaskStatus and abandonTask of the context, although each patches the cache locally instead of refetching.\<close>

theorem task_cache_coherent:
  "(coherent st s \<and> ctx_updateTaskStatus k stat rep st s = Inr (st', s', t) \<longrightarrow> coherent st' s') \<and>
   (coherent st s \<and> ctx_abandonTask k st s = Inr (st', s') \<longrightarrow> coherent st' s') \<and>
   (coherent st s \<and> digit_string now \<notin> set (map task_id (tasks st)) \<and>
    ctx_createTask now d st s = Inr (st', s', t) \<longrightarrow> coherent st' s')"
  using coherent_update coherent_abandon coherent_create by blast

text \<open>C24: After each task operation of the context the balance shown for the signed-in user is the one the store holds for that user, provided it was before the operation.\<close>

theorem shown_points_fresh:
  "(points_fresh st s \<and> ctx_updateTaskStatus k stat rep st s = Inr (st', s', t) \<longrightarrow> points_fresh st' s') \<and>
   (ctx_abandonTask k st s = Inr (st', s') \<longrightarrow> points_fresh st' s') \<and>
   (ctx_createTask now d st s = Inr (st', s', t) \<longrightarrow> points_fresh st' s')"
  using fresh_update fresh_abandon fresh_create by blast

subsection \<open>Witnesses\<close>

theorem task_cache_coherent_witness:
  "(\<exists>st' s' t. ctx_updateTaskStatus ''1'' ''IN_PROGRESS'' None (first_visit 1000000000)
      \<lparr>cur_user = Some (strip_password (default_users ! 1)), saved_user = Some (strip_password (default_users ! 1)),
       cached_tasks = map Some (tasks (first_visit 1000000000))\<rparr> = Inr (st', s', t) \<and> coherent st' s') \<and>
   (\<exists>st' s'. ctx_abandonTask ''3'' (first_visit 1000000000)
      \<lparr>cur_user = Some (strip_password (default_users ! 1)), saved_user = Some (strip_password (default_users ! 1)),
       cached_tasks = map Some (tasks (first_visit 1000000000))\<rparr> = Inr (st', s') \<and> coherent st' s') \<and>
   (\<exists>st' s' t. ctx_createTask 1000000001
      \<lparr>data_title = ''t'', data_description = ''d'', data_city = ''Almaty'', data_address = '''',
       data_image_url = None, data_images = None, data_points = Some 20, data_created_by = '''', data_phone = None, data_contact_info = None, data_latitude = None, data_longitude = None\<rparr>
      (first_visit 1000000000)
      \<lparr>cur_user = Some (strip_password (default_users ! 1)), saved_user = Some (strip_password (default_users ! 1)),
       cached_tasks = map Some (tasks (first_visit 1000000000))\<rparr> = Inr (st', s', t) \<and> coherent st' s')"
  (is "(\<exists>st' s' t. ?U = _ \<and> _) \<and> (\<exists>st' s'. ?A = _ \<and> _) \<and> (\<exists>st' s' t. ?C = _ \<and> _)")
proof -
  have c: "coherent (first_visit 1000000000)
     \<lparr>cur_user = Some (strip_password (default_users ! 1)), saved_user = Some (strip_password (default_users ! 1)),
      cached_tasks = map Some (tasks (first_visit 1000000000))\<rparr>"
    by (simp add: coherent_def seed_simps)
  have f: "digit_string 1000000001 \<notin> set (map task_id (tasks (first_visit 1000000000)))"
    by (simp add: seed_simps digit_string.simps)
  obtain st1 s1 t1 where u: "?U = Inr (st1, s1, t1)"
    by (simp add: ctx_updateTaskStatus_def session_uid_def seed_simps strip_password_def
        updateTaskStatus_def claim_conflict_def Let_def)
  obtain st2 s2 where a: "?A = Inr (st2, s2)"
    by (simp add: ctx_abandonTask_def session_uid_def seed_simps strip_password_def case_prod_beta)
  obtain st3 s3 t3 where cr: "?C = Inr (st3, s3, t3)"
    by (simp add: ctx_createTask_def session_uid_def seed_simps strip_password_def case_prod_beta Let_def)
  have "coherent st1 s1" using task_cache_coherent c u by blast
  moreover have "coherent st2 s2" using task_cache_coherent c a by blast
  moreover have "coherent st3 s3" using task_cache_coherent c f cr by blast
  ultimately show ?thesis using u a cr by blast
qed

theorem shown_points_fresh_witness:
  "\<exists>st' s' t. ctx_updateTaskStatus ''3'' ''DONE'' None (first_visit 1000000000)
      \<lparr>cur_user = Some (strip_password (default_users ! 1)), saved_user = Some (strip_password (default_users ! 1)),
       cached_tasks = []\<rparr> = Inr (st', s', t) \<and> points_fresh st' s'"
  (is "\<exists>st' s' t. ?U = _ \<and> _")
proof -
  have p: "points_fresh (first_visit 1000000000)
      \<lparr>cur_user = Some (strip_password (default_users ! 1)), saved_user = Some (strip_password (default_users ! 1)),
       cached_tasks = []\<rparr>"
    by (simp add: points_fresh_def seed_simps strip_password_def)
  obtain st1 s1 t1 where u: "?U = Inr (st1, s1, t1)"
    by (simp add: ctx_updateTaskStatus_def session_uid_def seed_simps strip_password_def
        updateTaskStatus_def claim_conflict_def Let_def)
  have "points_fresh st1 s1" using shown_points_fresh p u by blast
  then show ?thesis using u by blast
qed

end
