(* ===== verification/TaskCard.thy ===== *)
theory TaskCard
  imports Session
begin

text \<open>
  The task card (\<open>src/Volonter-Hub-main/src/components/TaskCard.jsx\<close>) and the details
  modal it opens (\<open>TaskDetailsModal.jsx\<close>).  The card decides from the session and the
  task which buttons to render, and each button's handler is one call of the
  \<open>TaskContext\<close> operations of \<open>Session\<close>.  \<open>window.confirm\<close> is an argument
  (\<open>True\<close> for OK); a handler that catches an error (\<open>alert\<close>) leaves store and session
  as they were, which is the \<open>Inl\<close> of the context call.  The Cyrillic labels are
  transliterated.
\<close>

subsection \<open>Status labels\<close>

text \<open>Lines 8--15 and 75: \<open>statusLabels[task.status] || statusLabels.PENDING\<close>.\<close>

definition status_label :: "status \<Rightarrow> string" where
  "status_label s =
    (case s of
       PENDING \<Rightarrow> ''Na proverke''
     | OPEN \<Rightarrow> ''Poisk volontera''
     | IN_PROGRESS \<Rightarrow> ''V rabote''
     | REVIEW \<Rightarrow> ''Proverka otcheta''
     | DONE \<Rightarrow> ''Vypolneno''
     | REJECTED \<Rightarrow> ''Otkloneno''
     | Other x \<Rightarrow> ''Na proverke'')"

subsection \<open>Handlers\<close>

text \<open>Lines 24--73.\<close>

definition handleTakeTask :: "task \<Rightarrow> store \<Rightarrow> session \<Rightarrow> (store \<times> session \<times> task) result" where
  "handleTakeTask t = ctx_updateTaskStatus (task_id t) ''IN_PROGRESS'' None"

text \<open>\<open>Math.floor(task.points * 0.5)\<close>, shown in the confirmation; \<open>NaN\<close> without points.\<close>

definition card_penalty :: "task \<Rightarrow> int option" where
  "card_penalty t = map_option (\<lambda>p. p div 2) (task_points t)"

definition handleAbandonClick :: "bool \<Rightarrow> task \<Rightarrow> store \<Rightarrow> session \<Rightarrow> (store \<times> session) result" where
  "handleAbandonClick confirmed t st s =
    (if confirmed then ctx_abandonTask (task_id t) st s else Inr (st, s))"

definition handleSubmitReport ::
  "task \<Rightarrow> report \<Rightarrow> store \<Rightarrow> session \<Rightarrow> (store \<times> session \<times> task) result" where
  "handleSubmitReport t rep = ctx_updateTaskStatus (task_id t) ''REVIEW'' (Some rep)"

definition handleApprove :: "task \<Rightarrow> store \<Rightarrow> session \<Rightarrow> (store \<times> session \<times> task) result" where
  "handleApprove t = ctx_updateTaskStatus (task_id t) ''OPEN'' None"

definition handleReject :: "task \<Rightarrow> store \<Rightarrow> session \<Rightarrow> (store \<times> session \<times> task) result" where
  "handleReject t = ctx_updateTaskStatus (task_id t) ''REJECTED'' None"

text \<open>
  Lines 66--71: on OK the task goes back to \<open>IN_PROGRESS\<close>, \<open>"the assignee stays the
  same"\<close> says the comment; the call passes the admin's id as the actor.
\<close>

definition handleRejectReport :: "bool \<Rightarrow> task \<Rightarrow> store \<Rightarrow> session \<Rightarrow> (store \<times> session) result" where
  "handleRejectReport confirmed t st s =
    (if confirmed
     then (case ctx_updateTaskStatus (task_id t) ''IN_PROGRESS'' None st s of
             Inl e \<Rightarrow> Inl e
           | Inr (st', s', t') \<Rightarrow> Inr (st', s'))
     else Inr (st, s))"

definition handleConfirmCompletion :: "task \<Rightarrow> store \<Rightarrow> session \<Rightarrow> (store \<times> session \<times> task) result" where
  "handleConfirmCompletion t = ctx_updateTaskStatus (task_id t) ''DONE'' None"

subsection \<open>What the card renders\<close>

text \<open>
  \<open>x === user?.id\<close>: with no user the right side is \<open>undefined\<close>, which no stored id
  equals (the API writes \<open>assignedTo: null\<close>, never leaves it \<open>undefined\<close>).
\<close>

definition is_me :: "uid option \<Rightarrow> session \<Rightarrow> bool" where
  "is_me x s \<longleftrightarrow> (case cur_user s of None \<Rightarrow> False | Some u \<Rightarrow> x = Some (pub_id u))"

text \<open>Lines 78--81.\<close>

definition is_admin_user :: "session \<Rightarrow> bool" where
  "is_admin_user s \<longleftrightarrow> map_option pub_role (cur_user s) = Some ADMIN \<or> isAdmin s"

definition is_pending_status :: "task \<Rightarrow> bool" where
  "is_pending_status t \<longleftrightarrow> status t = PENDING \<or> status_label (status t) = ''Na proverke''"

definition is_review_status :: "task \<Rightarrow> bool" where
  "is_review_status t \<longleftrightarrow> status t = REVIEW \<or> status_label (status t) = ''Proverka otcheta''"

text \<open>Line 125: the report block.\<close>

definition show_report :: "session \<Rightarrow> task \<Rightarrow> bool" where
  "show_report s t \<longleftrightarrow>
     report t \<noteq> None \<and> (isAdmin s \<or> is_me (Some (created_by t)) s \<or> is_me (assigned_to t) s)"

text \<open>Lines 158 and 180: approve/reject, and confirm/reject-report.\<close>

definition show_moderation :: "session \<Rightarrow> task \<Rightarrow> bool" where
  "show_moderation s t \<longleftrightarrow>
     is_admin_user s \<and> (status t = PENDING \<or> status_label (status t) = ''Na proverke'')"

definition show_review_actions :: "session \<Rightarrow> task \<Rightarrow> bool" where
  "show_review_actions s t \<longleftrightarrow>
     is_admin_user s \<and> (status t = REVIEW \<or> status_label (status t) = ''Proverka otcheta'')"

text \<open>Lines 214--257: the volunteer's buttons, the chat link and the publication date.\<close>

definition show_take :: "session \<Rightarrow> task \<Rightarrow> bool" where
  "show_take s t \<longleftrightarrow>
     isUser s \<and> status t = OPEN \<and> \<not> is_me (Some (created_by t)) s \<and> \<not> truthy_id (assigned_to t)"

definition show_taken :: "session \<Rightarrow> task \<Rightarrow> bool" where
  "show_taken s t \<longleftrightarrow>
     isUser s \<and> status t = OPEN \<and> truthy_id (assigned_to t) \<and> \<not> is_me (assigned_to t) s"

definition show_progress_actions :: "session \<Rightarrow> task \<Rightarrow> bool" where
  "show_progress_actions s t \<longleftrightarrow> isUser s \<and> is_me (assigned_to t) s \<and> status t = IN_PROGRESS"

definition show_chat :: "session \<Rightarrow> task \<Rightarrow> bool" where
  "show_chat s t \<longleftrightarrow>
     isUser s \<and> truthy_id (assigned_to t) \<and> (is_me (Some (created_by t)) s \<or> is_me (assigned_to t) s)"

definition show_published :: "session \<Rightarrow> task \<Rightarrow> bool" where
  "show_published s t \<longleftrightarrow> isUser s \<and> is_me (Some (created_by t)) s"

subsection \<open>TaskDetailsModal\<close>

text \<open>Lines 9--31: the creator and volunteer looked up in \<open>getUsers\<close>.\<close>

definition creator_info :: "store \<Rightarrow> task \<Rightarrow> public_user option" where
  "creator_info st t =
    (if truthy_str (created_by t) then find (\<lambda>u. pub_id u = created_by t) (getUsers st) else None)"

definition volunteer_info :: "store \<Rightarrow> task \<Rightarrow> public_user option" where
  "volunteer_info st t =
    (case assigned_to t of
       None \<Rightarrow> None
     | Some v \<Rightarrow> if truthy_str v then find (\<lambda>u. pub_id u = v) (getUsers st) else None)"

text \<open>Lines 39 and 44.\<close>

definition can_see_creator_contacts :: "bool \<Rightarrow> session \<Rightarrow> task \<Rightarrow> bool" where
  "can_see_creator_contacts adm s t \<longleftrightarrow>
     adm \<or> is_me (assigned_to t) s \<or> is_me (Some (created_by t)) s"

definition can_see_volunteer_contacts :: "bool \<Rightarrow> session \<Rightarrow> task \<Rightarrow> bool" where
  "can_see_volunteer_contacts adm s t \<longleftrightarrow> adm \<or> is_me (Some (created_by t)) s"

text \<open>
  Lines 148--190: the creator card shows the creator's name, the phone and contact that
  were typed into the task's form, and the creator's e-mail, each only when truthy.
\<close>

definition shown_str :: "string option \<Rightarrow> string option" where
  "shown_str x = (case x of Some v \<Rightarrow> if truthy_str v then Some v else None | None \<Rightarrow> None)"

definition creator_card ::
  "store \<Rightarrow> session \<Rightarrow> task \<Rightarrow> (string \<times> string option \<times> string option \<times> string option) option" where
  "creator_card st s t =
    (case creator_info st t of
       None \<Rightarrow> None
     | Some c \<Rightarrow>
         if can_see_creator_contacts (isAdmin s) s t
         then Some (pub_name c, shown_str (task_phone t), shown_str (task_contact_info t), shown_str (pub_email c))
         else None)"

text \<open>Lines 194--215.\<close>

definition volunteer_card :: "store \<Rightarrow> session \<Rightarrow> task \<Rightarrow> (string \<times> string option) option" where
  "volunteer_card st s t =
    (case volunteer_info st t of
       None \<Rightarrow> None
     | Some v \<Rightarrow>
         if can_see_volunteer_contacts (isAdmin s) s t \<and> truthy_id (assigned_to t)
         then Some (pub_name v, shown_str (pub_email v))
         else None)"


subsection \<open>Properties\<close>

lemma ctx_update_found:
  assumes "session_uid s = Some me" and "find_task k st = Some t"
    and "\<not> claim_conflict (status_of_string stat) (Some me) t"
  shows "ctx_updateTaskStatus k stat rep st s =
    (let t' = set_status (status_of_string stat) (Some me) rep t;
         st' = st\<lparr>users := (if status_of_string stat = DONE then payout t' (Some me) (users st) else users st),
                  tasks := update_first (\<lambda>x. task_id x = k) (set_status (status_of_string stat) (Some me) rep) (tasks st)\<rparr>;
         s1 = s\<lparr>cached_tasks := cache_replace k (Some t') (cached_tasks s)\<rparr>
     in Inr (st', if stat = ''DONE'' then refreshUser st' s1 else s1, t'))"
  using assms by (simp add: ctx_updateTaskStatus_def updateTaskStatus_found Let_def)

text \<open>C25: The admin's reject-report button is shown on a task under review, and pressing it (and confirming) always fails with the already-taken error when a volunteer other than the admin holds the task, so a report can never be sent back for rework.\<close>

theorem reject_report_fails:
  assumes "session_uid s = Some a" and "isAdmin s" and "find_task (task_id t) st = Some t"
    and "status t = REVIEW" and "assigned_to t = Some v" and "truthy_str v" and "v \<noteq> a"
  shows "show_review_actions s t \<and> handleRejectReport True t st s = Inl TaskAlreadyTaken"
proof -
  have "truthy_str a" using assms(1) by (simp add: session_uid_Some)
  with assms show ?thesis
    by (simp add: show_review_actions_def is_admin_user_def handleRejectReport_def
        ctx_updateTaskStatus_def updateTaskStatus_def claim_conflict_def Let_def)
qed

lemma handleTakeTask_found:
  assumes "\<not> truthy_id (assigned_to t)" and "session_uid s = Some me"
    and "find_task (task_id t) st = Some t"
  shows "\<exists>st' s'. handleTakeTask t st s = Inr (st', s', t\<lparr>status := IN_PROGRESS, assigned_to := Some me\<rparr>) \<and>
    find_task (task_id t) st' = Some (t\<lparr>status := IN_PROGRESS, assigned_to := Some me\<rparr>) \<and>
    users st' = users st"
proof -
  have me: "truthy_str me" using assms(2) by (simp add: session_uid_Some)
  have nc: "\<not> claim_conflict IN_PROGRESS (Some me) t"
    using assms(1) by (simp add: claim_conflict_def)
  have eq: "set_status IN_PROGRESS (Some me) None t = t\<lparr>status := IN_PROGRESS, assigned_to := Some me\<rparr>"
    using me by (simp add: set_status_def)
  let ?st' = "st\<lparr>tasks := update_first (\<lambda>x. task_id x = task_id t) (set_status IN_PROGRESS (Some me) None) (tasks st)\<rparr>"
  have "find_task (task_id t) ?st' = Some (set_status IN_PROGRESS (Some me) None t)"
    using find_task_update [of "set_status IN_PROGRESS (Some me) None" ?st' "task_id t" st] assms(3) by simp
  then show ?thesis
    using ctx_update_found [OF assms(2,3), of "''IN_PROGRESS''" None] nc eq
    by (simp add: handleTakeTask_def Let_def)
qed

text \<open>When the card offers a signed-in volunteer the take button for the stored task, pressing it succeeds: the task becomes IN_PROGRESS assigned to that volunteer, both in the store and in the result, and no balance changes.\<close>

theorem take_button_succeeds:
  assumes "show_take s t" and "session_uid s = Some me" and "find_task (task_id t) st = Some t"
  shows "\<exists>st' s'. handleTakeTask t st s = Inr (st', s', t\<lparr>status := IN_PROGRESS, assigned_to := Some me\<rparr>) \<and>
    find_task (task_id t) st' = Some (t\<lparr>status := IN_PROGRESS, assigned_to := Some me\<rparr>) \<and>
    users st' = users st"
proof -
  from assms(1) have "\<not> truthy_id (assigned_to t)" by (simp add: show_take_def)
  from handleTakeTask_found [OF this assms(2,3)] show ?thesis .
qed

lemma creator_info_Some:
  "creator_info st t \<noteq> None \<longleftrightarrow> truthy_str (created_by t) \<and> find_user (created_by t) (users st) \<noteq> None"
  by (simp add: creator_info_def getUsers_def find_map_strip)

lemma volunteer_info_Some:
  "volunteer_info st t \<noteq> None \<longleftrightarrow> truthy_id (assigned_to t) \<and> find_user (the (assigned_to t)) (users st) \<noteq> None"
  by (cases "assigned_to t") (simp_all add: volunteer_info_def getUsers_def find_map_strip)

text \<open>C27: The details modal shows the creator's contacts exactly when the creator is stored and the viewer is an admin, the creator or the assignee; it shows the volunteer's contacts exactly when the task has a stored assignee and the viewer is an admin or the creator.\<close>

theorem contacts_visibility:
  "(creator_card st s t \<noteq> None \<longleftrightarrow>
      truthy_str (created_by t) \<and> find_user (created_by t) (users st) \<noteq> None \<and>
      (isAdmin s \<or> is_me (Some (created_by t)) s \<or> is_me (assigned_to t) s)) \<and>
   (volunteer_card st s t \<noteq> None \<longleftrightarrow>
      truthy_id (assigned_to t) \<and> find_user (the (assigned_to t)) (users st) \<noteq> None \<and>
      (isAdmin s \<or> is_me (Some (created_by t)) s))"
proof (intro conjI)
  show "(creator_card st s t \<noteq> None) = (truthy_str (created_by t) \<and> find_user (created_by t) (users st) \<noteq> None \<and>
      (isAdmin s \<or> is_me (Some (created_by t)) s \<or> is_me (assigned_to t) s))"
    using creator_info_Some [of st t]
    by (cases "creator_info st t") (auto simp: creator_card_def can_see_creator_contacts_def)
  show "(volunteer_card st s t \<noteq> None) = (truthy_id (assigned_to t) \<and> find_user (the (assigned_to t)) (users st) \<noteq> None \<and>
      (isAdmin s \<or> is_me (Some (created_by t)) s))"
    using volunteer_info_Some [of st t]
    by (cases "volunteer_info st t") (auto simp: volunteer_card_def can_see_volunteer_contacts_def)
qed

text \<open>For an admin the moderation buttons (approve/reject) appear exactly on PENDING tasks and on tasks whose status string is not one of the six known ones, which the label table shows as pending.\<close>

theorem moderation_buttons:
  "show_moderation s t \<longleftrightarrow> is_admin_user s \<and> (status t = PENDING \<or> (\<exists>x. status t = Other x))"
  by (cases "status t") (simp_all add: show_moderation_def status_label_def)


subsection \<open>Witnesses\<close>

theorem reject_report_fails_witness:
  "show_review_actions \<lparr>cur_user = Some (strip_password (default_users ! 0)), saved_user = None, cached_tasks = []\<rparr>
     (seed_task ''5'' ''Help'' ''Almaty'' REVIEW (Some ''2'') 0 10) \<and>
   handleRejectReport True (seed_task ''5'' ''Help'' ''Almaty'' REVIEW (Some ''2'') 0 10)
     \<lparr>users = default_users, tasks = [seed_task ''5'' ''Help'' ''Almaty'' REVIEW (Some ''2'') 0 10], chat_messages = []\<rparr>
     \<lparr>cur_user = Some (strip_password (default_users ! 0)), saved_user = None, cached_tasks = []\<rparr> =
   Inl TaskAlreadyTaken"
proof -
  have h1: "session_uid \<lparr>cur_user = Some (strip_password (default_users ! 0)), saved_user = None, cached_tasks = []\<rparr> = Some ''1''"
    by (simp add: session_uid_def default_users_def strip_password_def truthy_str_def)
  have h2: "isAdmin \<lparr>cur_user = Some (strip_password (default_users ! 0)), saved_user = None, cached_tasks = []\<rparr>"
    by (simp add: isAdmin_def default_users_def strip_password_def)
  have h3: "find_task (task_id (seed_task ''5'' ''Help'' ''Almaty'' REVIEW (Some ''2'') 0 10))
     \<lparr>users = default_users, tasks = [seed_task ''5'' ''Help'' ''Almaty'' REVIEW (Some ''2'') 0 10], chat_messages = []\<rparr> =
     Some (seed_task ''5'' ''Help'' ''Almaty'' REVIEW (Some ''2'') 0 10)"
    by (simp add: find_task_def seed_task_def)
  have h4: "status (seed_task ''5'' ''Help'' ''Almaty'' REVIEW (Some ''2'') 0 10) = REVIEW"
    "assigned_to (seed_task ''5'' ''Help'' ''Almaty'' REVIEW (Some ''2'') 0 10) = Some ''2''"
    "truthy_str ''2''" "''2'' \<noteq> ''1''"
    by (simp_all add: seed_task_def truthy_str_def)
  show ?thesis using reject_report_fails [OF h1 h2 h3 h4] .
qed

theorem take_button_succeeds_witness:
  "\<exists>st' s'. handleTakeTask (hd (default_tasks 1000000000)) (first_visit 1000000000)
      \<lparr>cur_user = Some (strip_password (default_users ! 1)), saved_user = None, cached_tasks = []\<rparr> =
      Inr (st', s', (hd (default_tasks 1000000000))\<lparr>status := IN_PROGRESS, assigned_to := Some ''2''\<rparr>) \<and>
    find_task (task_id (hd (default_tasks 1000000000))) st' =
      Some ((hd (default_tasks 1000000000))\<lparr>status := IN_PROGRESS, assigned_to := Some ''2''\<rparr>) \<and>
    users st' = users (first_visit 1000000000)"
proof -
  have h1: "show_take \<lparr>cur_user = Some (strip_password (default_users ! 1)), saved_user = None, cached_tasks = []\<rparr>
      (hd (default_tasks 1000000000))"
    by (simp add: show_take_def isUser_def is_me_def seed_simps strip_password_def)
  have h2: "session_uid \<lparr>cur_user = Some (strip_password (default_users ! 1)), saved_user = None, cached_tasks = []\<rparr> = Some ''2''"
    by (simp add: session_uid_def default_users_def strip_password_def truthy_str_def)
  have h3: "find_task (task_id (hd (default_tasks 1000000000))) (first_visit 1000000000) = Some (hd (default_tasks 1000000000))"
    by (simp add: seed_simps)
  show ?thesis using take_button_succeeds [OF h1 h2 h3] .
qed

end
