(* ===== verification/Dashboards.thy ===== *)
theory Dashboards
  imports TaskCard
begin

text \<open>
  The dashboards (\<open>src/Volonter-Hub-main/src/components/dashboards/UserDashboard.jsx\<close>,
  \<open>AdminDashboard.jsx\<close>) and the page that picks one (\<open>src/Volonter-Hub-main/src/pages/Dashboard.jsx\<close>).
  They read the \<open>tasks\<close> array of \<open>TaskContext\<close>, here a \<open>task list\<close> whose entries are
  all defined (the cache of a coherent session, \<open>Session.coherent\<close>), and the signed-in user.
  The feed's distance sort is modelled up to the haversine distance itself: the sort is
  over a given key \<open>dkey\<close> of any linear order (the distances in km) that reads a
  \<open>null\<close> distance as 0, as the comparator \<open>a.distance - b.distance\<close> does.  The \<open>distance\<close> and \<open>coordinates\<close> fields the feed
  adds to each task for display are dropped.
\<close>

subsection \<open>UserDashboard\<close>

text \<open>Lines 46, 49, 72--74 and 121--123: the four filters of the tabs.\<close>

definition my_created_tasks :: "session \<Rightarrow> task list \<Rightarrow> task list" where
  "my_created_tasks s ts = filter (\<lambda>t. is_me (Some (created_by t)) s) ts"

definition my_in_progress_tasks :: "session \<Rightarrow> task list \<Rightarrow> task list" where
  "my_in_progress_tasks s ts = filter (\<lambda>t. is_me (assigned_to t) s \<and> status t = IN_PROGRESS) ts"

definition available_raw :: "session \<Rightarrow> task list \<Rightarrow> task list" where
  "available_raw s ts =
     filter (\<lambda>t. status t = OPEN \<and> \<not> is_me (Some (created_by t)) s \<and> \<not> truthy_id (assigned_to t)) ts"

definition all_my_tasks :: "session \<Rightarrow> task list \<Rightarrow> task list" where
  "all_my_tasks s ts = filter (\<lambda>t. is_me (Some (created_by t)) s \<or> is_me (assigned_to t) s) ts"

text \<open>Line 42: the three sort buttons.\<close>

datatype sort_mode = SortDistance | SortPoints | SortNewest

text \<open>
  Lines 77--118.  \<open>loc\<close> says whether \<open>userLocation\<close> is set (the geolocation effect of
  lines 52--69 sets it to the device position or to Almaty).  \<open>Array.prototype.sort\<close>
  is stable, as \<open>sort_key\<close> is; a descending comparator \<open>b.x - a.x\<close> is an ascending
  sort on \<open>- x\<close>.  \<open>new Date(createdAt)\<close> is the creation time.
\<close>

definition available_tasks ::
  "sort_mode \<Rightarrow> bool \<Rightarrow> (task \<Rightarrow> 'd::linorder) \<Rightarrow> session \<Rightarrow> task list \<Rightarrow> task list" where
  "available_tasks m loc dkey s ts =
    (if \<not> loc then available_raw s ts
     else (case m of
             SortDistance \<Rightarrow> sort_key dkey (available_raw s ts)
           | SortPoints \<Rightarrow> sort_key (\<lambda>t. - or_zero (task_points t)) (available_raw s ts)
           | SortNewest \<Rightarrow> sort_key (\<lambda>t. - int (created_at t)) (available_raw s ts)))"

text \<open>Line 41 and lines 212--437: the list each tab renders.\<close>

datatype tab = Feed | My | InProgress

definition tab_tasks ::
  "tab \<Rightarrow> sort_mode \<Rightarrow> bool \<Rightarrow> (task \<Rightarrow> 'd::linorder) \<Rightarrow> session \<Rightarrow> task list \<Rightarrow> task list" where
  "tab_tasks tb m loc dkey s ts =
    (case tb of
       Feed \<Rightarrow> available_tasks m loc dkey s ts
     | My \<Rightarrow> my_created_tasks s ts
     | InProgress \<Rightarrow> my_in_progress_tasks s ts)"

text \<open>Lines 146--156: the header's balance and counters, \<open>user.points || 0\<close>.\<close>

definition user_header :: "session \<Rightarrow> task list \<Rightarrow> (int \<times> nat \<times> nat) option" where
  "user_header s ts =
    (case cur_user s of
       None \<Rightarrow> None
     | Some u \<Rightarrow> Some (or_zero (pub_points u), length (my_in_progress_tasks s ts), length (my_created_tasks s ts)))"

subsection \<open>AdminDashboard\<close>

text \<open>Lines 44--46 and 110--129: the moderation lists and the statistics.\<close>

definition pending_tasks :: "task list \<Rightarrow> task list" where
  "pending_tasks ts = filter (\<lambda>t. status t = PENDING) ts"

definition review_tasks :: "task list \<Rightarrow> task list" where
  "review_tasks ts = filter (\<lambda>t. status t = REVIEW) ts"

definition admin_stats :: "task list \<Rightarrow> nat \<times> nat \<times> nat \<times> nat" where
  "admin_stats ts =
    (length ts, length (pending_tasks ts), length (review_tasks ts), length (filter (\<lambda>t. status t = OPEN) ts))"

text \<open>
  Lines 26--42: the admin's own handlers catch the error, so a failure changes nothing.
  The dashboard renders \<open>TaskCard\<close>s, whose buttons call the card's handlers; these two
  are not wired to any button.
\<close>

definition admin_update :: "string \<Rightarrow> string \<Rightarrow> store \<Rightarrow> session \<Rightarrow> store \<times> session" where
  "admin_update stat k st s =
    (case ctx_updateTaskStatus k stat None st s of
       Inl e \<Rightarrow> (st, s)
     | Inr (st', s', t) \<Rightarrow> (st', s'))"

definition admin_handleApprove :: "string \<Rightarrow> store \<Rightarrow> session \<Rightarrow> store \<times> session" where
  "admin_handleApprove = admin_update ''OPEN''"

definition admin_handleReject :: "string \<Rightarrow> store \<Rightarrow> session \<Rightarrow> store \<times> session" where
  "admin_handleReject = admin_update ''REJECTED''"

subsection \<open>Dashboard page\<close>

text \<open>Lines 19--49: which dashboard is rendered.\<close>

datatype dashboard_view = NoDashboard | AdminView | UserView

definition dashboard_view :: "session \<Rightarrow> dashboard_view" where
  "dashboard_view s =
    (if cur_user s = None then NoDashboard else if isAdmin s then AdminView else UserView)"

text \<open>
  Lines 23--28: handlers the page passes as props, with lower-case status strings.  The
  dashboards ignore those props (they call \<open>useTasks\<close> themselves), so the handlers are
  dead code; called, they would write statuses that are none of the six.
\<close>

definition legacy_take :: "string \<Rightarrow> store \<Rightarrow> session \<Rightarrow> (store \<times> session \<times> task) result" where
  "legacy_take k = ctx_updateTaskStatus k ''in_progress'' None"

definition legacy_complete :: "string \<Rightarrow> store \<Rightarrow> session \<Rightarrow> (store \<times> session \<times> task) result" where
  "legacy_complete k = ctx_updateTaskStatus k ''pending_approval'' None"

definition legacy_refuse :: "string \<Rightarrow> store \<Rightarrow> session \<Rightarrow> (store \<times> session) result" where
  "legacy_refuse k = ctx_abandonTask k"

definition legacy_approve :: "string \<Rightarrow> store \<Rightarrow> session \<Rightarrow> (store \<times> session \<times> task) result" where
  "legacy_approve k = ctx_updateTaskStatus k ''open'' None"

definition legacy_reject :: "string \<Rightarrow> store \<Rightarrow> session \<Rightarrow> (store \<times> session \<times> task) result" where
  "legacy_reject k = ctx_updateTaskStatus k ''rejected'' None"


subsection \<open>Properties\<close>

lemma set_available_tasks [simp]:
  "set (available_tasks m loc dkey s ts) = set (available_raw s ts)"
  by (cases m) (simp_all add: available_tasks_def)

lemma mset_available_tasks:
  "mset (available_tasks m loc dkey s ts) = mset (available_raw s ts)"
  by (cases m) (simp_all add: available_tasks_def)

text \<open>Every task the feed tab lists, in any sort order, shows the take button on its card to the signed-in volunteer: the dashboard's filter and the card's guard agree.\<close>

theorem feed_is_takeable:
  assumes "isUser s" and "t \<in> set (available_tasks m loc dkey s ts)"
  shows "show_take s t"
  using assms by (simp add: available_raw_def show_take_def)

text \<open>C30: Sorting the feed only reorders the available tasks; by points it lists them by non-increasing points and keeps tasks with equal points in their stored order; by newest it lists them by non-increasing creation time.\<close>

theorem feed_sorting:
  "mset (available_tasks m loc dkey s ts) = mset (available_raw s ts) \<and>
   sorted (map (\<lambda>t. - or_zero (task_points t)) (available_tasks SortPoints True dkey s ts)) \<and>
   filter (\<lambda>t. - or_zero (task_points t) = k) (available_tasks SortPoints True dkey s ts) =
     filter (\<lambda>t. - or_zero (task_points t) = k) (available_raw s ts) \<and>
   sorted (map (\<lambda>t. - int (created_at t)) (available_tasks SortNewest True dkey s ts))"
proof (intro conjI)
  show "mset (available_tasks m loc dkey s ts) = mset (available_raw s ts)"
    by (rule mset_available_tasks)
  show "filter (\<lambda>t. - or_zero (task_points t) = k) (available_tasks SortPoints True dkey s ts) =
     filter (\<lambda>t. - or_zero (task_points t) = k) (available_raw s ts)"
    unfolding available_tasks_def using sort_key_stable [of "\<lambda>t. - or_zero (task_points t)" k] by simp
qed (simp_all add: available_tasks_def)

text \<open>The page's lower-case take handler, if it were called on a stored task, would succeed and write the unknown status "in_progress" without assigning anyone.\<close>

theorem legacy_take_unknown_status:
  assumes "find_task k st = Some t" and "session_uid s = Some me"
  shows "\<exists>st' s' t'. legacy_take k st s = Inr (st', s', t') \<and>
    status t' = Other ''in_progress'' \<and> assigned_to t' = assigned_to t"
proof -
  have "status_of_string ''in_progress'' = Other ''in_progress''" by (simp add: status_of_string_def)
  moreover have "\<not> claim_conflict (Other ''in_progress'') (Some me) t" by (simp add: claim_conflict_def)
  ultimately show ?thesis
    using ctx_update_found [OF assms(2,1), of "''in_progress''" None]
    by (simp add: legacy_take_def Let_def)
qed

subsection \<open>Witnesses\<close>

theorem feed_is_takeable_witness:
  "show_take \<lparr>cur_user = Some (strip_password (default_users ! 1)), saved_user = None, cached_tasks = []\<rparr>
     (hd (default_tasks 1000000000))"
proof -
  have h1: "isUser \<lparr>cur_user = Some (strip_password (default_users ! 1)), saved_user = None, cached_tasks = []\<rparr>"
    by (simp add: isUser_def default_users_def strip_password_def)
  have h2: "hd (default_tasks 1000000000) \<in> set (available_tasks SortPoints True (\<lambda>t. (0::int))
      \<lparr>cur_user = Some (strip_password (default_users ! 1)), saved_user = None, cached_tasks = []\<rparr>
      (default_tasks 1000000000))"
    by (simp add: available_raw_def is_me_def seed_simps strip_password_def)
  show ?thesis using feed_is_takeable [OF h1 h2] .
qed

theorem legacy_take_unknown_status_witness:
  "\<exists>st' s' t'. legacy_take ''1'' (first_visit 1000000000)
      \<lparr>cur_user = Some (strip_password (default_users ! 1)), saved_user = None, cached_tasks = []\<rparr> = Inr (st', s', t') \<and>
    status t' = Other ''in_progress'' \<and> assigned_to t' = None"
proof -
  have h1: "find_task ''1'' (first_visit 1000000000) = Some (hd (default_tasks 1000000000))"
    by (simp add: seed_simps)
  have h2: "session_uid \<lparr>cur_user = Some (strip_password (default_users ! 1)), saved_user = None, cached_tasks = []\<rparr> = Some ''2''"
    by (simp add: session_uid_def default_users_def strip_password_def truthy_str_def)
  have h3: "assigned_to (hd (default_tasks 1000000000)) = None" by (simp add: seed_simps)
  show ?thesis using legacy_take_unknown_status [OF h1 h2] h3 by simp
qed

end
