(* ===== verification/Forms.thy ===== *)
theory Forms
  imports Dashboards
begin

text \<open>
  The forms that feed the API: \<open>LoginForm.jsx\<close>, \<open>Register.jsx\<close>, \<open>Profile.jsx\<close>,
  \<open>CreateTaskForm.jsx\<close> (all under \<open>src/src\<close>) and \<open>CompleteTaskModal.jsx\<close>.  A form is
  a record of its \<open>useState\<close> fields; its submit handler is a function of the form,
  the store and the session.  The browser's constraint validation (\<open>required\<close>,
  \<open>min\<close>, \<open>max\<close> of a number input) runs before \<open>onSubmit\<close> and is modelled as a guard
  that blocks the submission; the \<open>type="email"\<close> and \<open>type="url"\<close> syntax checks are
  not modelled.  The create form's \<open>location\<close> is the point the map last handed over, if any;
  its latitude and longitude go into the new task.
\<close>

subsection \<open>LoginForm\<close>

record login_form =
  lf_login :: string
  lf_password :: string
  lf_error :: "string option"

text \<open>Lines 13--26: a failed login shows one fixed message whatever the cause.\<close>

definition login_submit ::
  "login_form \<Rightarrow> store \<Rightarrow> session \<Rightarrow> login_form \<times> session \<times> string option" where
  "login_submit f st s =
    (case ctx_login (lf_login f) (lf_password f) st s of
       Inl e \<Rightarrow> (f\<lparr>lf_error := Some ''Nevernyi login ili parol''\<rparr>, s, None)
     | Inr (s', u) \<Rightarrow> (f\<lparr>lf_error := None\<rparr>, s', Some ''/dashboard''))"

datatype demo_account = DemoAdmin | DemoUser1 | DemoUser2

text \<open>Lines 68--100: the quick-login buttons fill the two fields.\<close>

definition demo_fill :: "demo_account \<Rightarrow> login_form \<Rightarrow> login_form" where
  "demo_fill a f =
    (case a of
       DemoAdmin \<Rightarrow> f\<lparr>lf_login := ''admin'', lf_password := ''admin''\<rparr>
     | DemoUser1 \<Rightarrow> f\<lparr>lf_login := ''user1'', lf_password := ''123''\<rparr>
     | DemoUser2 \<Rightarrow> f\<lparr>lf_login := ''user2'', lf_password := ''123''\<rparr>)"

subsection \<open>Register\<close>

text \<open>Lines 24--37; the four inputs are \<open>required\<close>.\<close>

definition register_valid :: "register_data \<Rightarrow> bool" where
  "register_valid d \<longleftrightarrow>
     truthy_str (reg_name d) \<and> truthy_str (reg_email d) \<and> truthy_str (reg_login d) \<and> truthy_str (reg_password d)"

definition register_submit ::
  "timestamp \<Rightarrow> register_data \<Rightarrow> store \<Rightarrow> session \<Rightarrow> (store \<times> session \<times> public_user) result option" where
  "register_submit now d st s =
    (if register_valid d then Some (ctx_register now d st s) else None)"

subsection \<open>Profile\<close>

record profile_form =
  pf_name :: string
  pf_email :: string
  pf_phone :: string
  pf_contact_info :: string

text \<open>Lines 20--29: the editor is filled from the user, \<open>user.x || ''\<close>.\<close>

definition str_or_empty :: "string option \<Rightarrow> string" where
  "str_or_empty x = (case x of None \<Rightarrow> '''' | Some v \<Rightarrow> v)"

definition profile_form_of :: "public_user \<Rightarrow> profile_form" where
  "profile_form_of u =
    \<lparr>pf_name = pub_name u, pf_email = str_or_empty (pub_email u),
     pf_phone = str_or_empty (pub_phone u), pf_contact_info = str_or_empty (pub_contact_info u)\<rparr>"

text \<open>Lines 31--48: \<open>updateUserInContext(user.id, formData)\<close>.\<close>

definition profile_submit ::
  "profile_form \<Rightarrow> store \<Rightarrow> session \<Rightarrow> (store \<times> session \<times> public_user) result option" where
  "profile_submit f st s =
    (case cur_user s of
       None \<Rightarrow> None
     | Some u \<Rightarrow> Some (ctx_updateUser (pub_id u)
                        (profile_patch (pf_name f) (pf_email f) (pf_phone f) (pf_contact_info f)) st s))"

subsection \<open>CreateTaskForm\<close>

text \<open>
  Lines 9--18.  \<open>cf_points\<close> is the value of the number input, an integer because the
  input's step is 1; \<open>cf_location\<close> is \<open>location\<close>, the point the map picker last
  reported, \<open>null\<close> until it reports one.
\<close>

record create_form =
  cf_title :: string
  cf_description :: string
  cf_city :: string
  cf_phone :: string
  cf_contact_info :: string
  cf_images :: "string list"
  cf_points :: int
  cf_location :: "coords option"
  cf_address :: string

text \<open>Line 178: \<open>max={user?.points || 1000}\<close>.\<close>

definition points_max :: "session \<Rightarrow> int" where
  "points_max s =
    (case cur_user s of
       None \<Rightarrow> 1000
     | Some u \<Rightarrow> if truthy_num (pub_points u) then or_zero (pub_points u) else 1000)"

text \<open>The inputs marked \<open>required\<close> (lines 71, 85, 132, 145, 180) and the points range.\<close>

definition create_form_valid :: "session \<Rightarrow> create_form \<Rightarrow> bool" where
  "create_form_valid s f \<longleftrightarrow>
     truthy_str (cf_title f) \<and> truthy_str (cf_description f) \<and> truthy_str (cf_city f) \<and>
     truthy_str (cf_phone f) \<and> 1 \<le> cf_points f \<and> cf_points f \<le> points_max s"

text \<open>Lines 36--48: the object passed to \<open>TaskContext.createTask\<close>.\<close>

definition form_task_data :: "create_form \<Rightarrow> task_data" where
  "form_task_data f =
    \<lparr>data_title = cf_title f, data_description = cf_description f, data_city = cf_city f,
     data_address = (if truthy_str (cf_address f) then cf_address f else cf_city f),
     data_image_url = Some (if cf_images f \<noteq> [] then hd (cf_images f)
                            else ''https://images.unsplash.com/photo-1556912172-45b7abe8b7e1?w=400''),
     data_images = Some (cf_images f),
     data_points = Some (cf_points f),
     data_created_by = '''',
     data_phone = Some (cf_phone f),
     data_contact_info = Some (cf_contact_info f),
     data_latitude = map_option lat (cf_location f),
     data_longitude = map_option lng (cf_location f)\<rparr>"

datatype create_outcome = Blocked | LocationMissing | CreateFailed api_error | Created task

text \<open>Lines 24--55.\<close>

definition create_submit ::
  "timestamp \<Rightarrow> create_form \<Rightarrow> store \<Rightarrow> session \<Rightarrow> store \<times> session \<times> create_outcome" where
  "create_submit now f st s =
    (if \<not> create_form_valid s f then (st, s, Blocked)
     else if cf_location f = None then (st, s, LocationMissing)
     else (case ctx_createTask now (form_task_data f) st s of
             Inl e \<Rightarrow> (st, s, CreateFailed e)
           | Inr (st', s', t) \<Rightarrow> (st', s', Created t)))"

subsection \<open>CompleteTaskModal\<close>

text \<open>Lines 9--12 with the two \<open>required\<close> inputs: the report handed to the card.\<close>

definition complete_submit :: "string \<Rightarrow> string \<Rightarrow> report option" where
  "complete_submit d url =
    (if truthy_str d \<and> truthy_str url
     then Some \<lparr>report_description = d, report_image_url = url\<rparr> else None)"


subsection \<open>Properties\<close>

lemma escrow_self:
  assumes "find_user k us = Some c" and "user_points c = Some b" and "data_created_by d = k"
  shows "balance (escrow d us) k =
    (if or_zero (data_points d) \<le> b then b - or_zero (data_points d) else b)"
  using assms by (simp add: escrow_def balance_update_same deduct_def Let_def) (simp add: balance_def)

lemma create_submit_created:
  assumes "create_form_valid s f" and "cf_location f \<noteq> None" and "session_uid s = Some me"
  shows "create_submit now f st s =
    (fst (createTask now ((form_task_data f)\<lparr>data_created_by := me\<rparr>) st),
     refreshUser (fst (createTask now ((form_task_data f)\<lparr>data_created_by := me\<rparr>) st))
       (s\<lparr>cached_tasks := cached_tasks s @ [Some (snd (createTask now ((form_task_data f)\<lparr>data_created_by := me\<rparr>) st))]\<rparr>),
     Created (snd (createTask now ((form_task_data f)\<lparr>data_created_by := me\<rparr>) st)))"
  using assms by (simp add: create_submit_def ctx_createTask_def case_prod_beta Let_def)

lemma create_submit_balance:
  assumes "create_form_valid s f" and "cf_location f \<noteq> None" and "session_uid s = Some me"
    and "find_user me (users st) = Some c" and "user_points c = Some b"
  shows "\<exists>st' s' t. create_submit now f st s = (st', s', Created t) \<and> task_points t = Some (cf_points f) \<and>
    balance (users st') me = (if cf_points f \<le> b then b - cf_points f else b)"
  using create_submit_created [OF assms(1-3), of now st]
    escrow_self [OF assms(4,5), of "(form_task_data f)\<lparr>data_created_by := me\<rparr>"]
  by (simp add: createTask_def new_task_def form_task_data_def Let_def)

text \<open>C32: A volunteer whose balance is 0 passes the form's check with any reward up to 1000 points (the maximum falls back to 1000 on a zero balance), and the task is published with that reward while nothing is deducted.\<close>

theorem zero_balance_free_task:
  assumes "session_uid s = Some me" and "cur_user s = Some u" and "pub_points u = Some 0"
    and "find_user me (users st) = Some c" and "user_points c = Some 0"
    and "truthy_str (cf_title f)" and "truthy_str (cf_description f)" and "truthy_str (cf_city f)"
    and "truthy_str (cf_phone f)" and "1 \<le> cf_points f" and "cf_points f \<le> 1000" and "cf_location f \<noteq> None"
  shows "\<exists>st' s' t. create_submit now f st s = (st', s', Created t) \<and>
    task_points t = Some (cf_points f) \<and> balance (users st') me = 0"
proof -
  have "create_form_valid s f"
    using assms by (simp add: create_form_valid_def points_max_def)
  from create_submit_balance [OF this assms(12,1,4,5), of now] assms(10) show ?thesis by simp
qed

text \<open>When the shown balance is fresh and positive, a form that passes the browser's checks publishes the task and escrows exactly its reward: the creator's stored balance drops by the reward and stays non-negative.\<close>

theorem form_create_escrows:
  assumes "points_fresh st s" and "session_uid s = Some me"
    and "find_user me (users st) = Some c" and "user_points c = Some b" and "b \<noteq> 0"
    and "create_form_valid s f" and "cf_location f \<noteq> None"
  shows "\<exists>st' s' t. create_submit now f st s = (st', s', Created t) \<and>
    balance (users st') me = b - cf_points f \<and> 0 \<le> balance (users st') me"
proof -
  obtain u where u: "cur_user s = Some u" "pub_id u = me"
    using assms(2) by (auto simp: session_uid_def split: option.splits if_splits)
  with assms(1,3,4) have "pub_points u = Some b" by (simp add: points_fresh_def)
  with u assms(5,6) have "cf_points f \<le> b" and "1 \<le> cf_points f"
    by (simp_all add: create_form_valid_def points_max_def)
  with create_submit_balance [OF assms(6,7,2,3,4), of now] show ?thesis by auto
qed


subsection \<open>Witnesses\<close>

theorem zero_balance_free_task_witness:
  "\<exists>st' s' t. create_submit 1000000001 \<lparr>cf_title = ''t'', cf_description = ''d'', cf_city = ''Almaty'', cf_phone = ''+7'', cf_contact_info = '''', cf_images = [], cf_points = 1000, cf_location = Some \<lparr>lat = 43.2220, lng = 76.8512\<rparr>, cf_address = ''''\<rparr>
      \<lparr>users = [\<lparr>user_id = ''9'', login = ''z'', password = ''p'', role = USER, user_name = ''Z'', email = None, phone = None, contact_info = None, user_points = Some 0\<rparr>], tasks = [], chat_messages = []\<rparr> \<lparr>cur_user = Some (strip_password \<lparr>user_id = ''9'', login = ''z'', password = ''p'', role = USER, user_name = ''Z'', email = None, phone = None, contact_info = None, user_points = Some 0\<rparr>), saved_user = None, cached_tasks = []\<rparr> = (st', s', Created t) \<and>
    task_points t = Some 1000 \<and> balance (users st') ''9'' = 0"
proof -
  have h: "session_uid \<lparr>cur_user = Some (strip_password \<lparr>user_id = ''9'', login = ''z'', password = ''p'', role = USER, user_name = ''Z'', email = None, phone = None, contact_info = None, user_points = Some 0\<rparr>), saved_user = None, cached_tasks = []\<rparr> = Some ''9''"
    "cur_user \<lparr>cur_user = Some (strip_password \<lparr>user_id = ''9'', login = ''z'', password = ''p'', role = USER, user_name = ''Z'', email = None, phone = None, contact_info = None, user_points = Some 0\<rparr>), saved_user = None, cached_tasks = []\<rparr> = Some (strip_password \<lparr>user_id = ''9'', login = ''z'', password = ''p'', role = USER, user_name = ''Z'', email = None, phone = None, contact_info = None, user_points = Some 0\<rparr>)"
    "pub_points (strip_password \<lparr>user_id = ''9'', login = ''z'', password = ''p'', role = USER, user_name = ''Z'', email = None, phone = None, contact_info = None, user_points = Some 0\<rparr>) = Some 0"
    "find_user ''9'' (users \<lparr>users = [\<lparr>user_id = ''9'', login = ''z'', password = ''p'', role = USER, user_name = ''Z'', email = None, phone = None, contact_info = None, user_points = Some 0\<rparr>], tasks = [], chat_messages = []\<rparr>) = Some \<lparr>user_id = ''9'', login = ''z'', password = ''p'', role = USER, user_name = ''Z'', email = None, phone = None, contact_info = None, user_points = Some 0\<rparr>"
    "user_points \<lparr>user_id = ''9'', login = ''z'', password = ''p'', role = USER, user_name = ''Z'', email = None, phone = None, contact_info = None, user_points = Some 0\<rparr> = Some 0"
    by (simp_all add: session_uid_def strip_password_def truthy_str_def find_user_def)
  have f: "truthy_str (cf_title \<lparr>cf_title = ''t'', cf_description = ''d'', cf_city = ''Almaty'', cf_phone = ''+7'', cf_contact_info = '''', cf_images = [], cf_points = 1000, cf_location = Some \<lparr>lat = 43.2220, lng = 76.8512\<rparr>, cf_address = ''''\<rparr>)" "truthy_str (cf_description \<lparr>cf_title = ''t'', cf_description = ''d'', cf_city = ''Almaty'', cf_phone = ''+7'', cf_contact_info = '''', cf_images = [], cf_points = 1000, cf_location = Some \<lparr>lat = 43.2220, lng = 76.8512\<rparr>, cf_address = ''''\<rparr>)"
    "truthy_str (cf_city \<lparr>cf_title = ''t'', cf_description = ''d'', cf_city = ''Almaty'', cf_phone = ''+7'', cf_contact_info = '''', cf_images = [], cf_points = 1000, cf_location = Some \<lparr>lat = 43.2220, lng = 76.8512\<rparr>, cf_address = ''''\<rparr>)" "truthy_str (cf_phone \<lparr>cf_title = ''t'', cf_description = ''d'', cf_city = ''Almaty'', cf_phone = ''+7'', cf_contact_info = '''', cf_images = [], cf_points = 1000, cf_location = Some \<lparr>lat = 43.2220, lng = 76.8512\<rparr>, cf_address = ''''\<rparr>)"
    "1 \<le> cf_points \<lparr>cf_title = ''t'', cf_description = ''d'', cf_city = ''Almaty'', cf_phone = ''+7'', cf_contact_info = '''', cf_images = [], cf_points = 1000, cf_location = Some \<lparr>lat = 43.2220, lng = 76.8512\<rparr>, cf_address = ''''\<rparr>" "cf_points \<lparr>cf_title = ''t'', cf_description = ''d'', cf_city = ''Almaty'', cf_phone = ''+7'', cf_contact_info = '''', cf_images = [], cf_points = 1000, cf_location = Some \<lparr>lat = 43.2220, lng = 76.8512\<rparr>, cf_address = ''''\<rparr> \<le> 1000" "cf_location \<lparr>cf_title = ''t'', cf_description = ''d'', cf_city = ''Almaty'', cf_phone = ''+7'', cf_contact_info = '''', cf_images = [], cf_points = 1000, cf_location = Some \<lparr>lat = 43.2220, lng = 76.8512\<rparr>, cf_address = ''''\<rparr> \<noteq> None"
    by (simp_all add: truthy_str_def)
  show ?thesis using zero_balance_free_task [OF h f, of 1000000001] by simp
qed

theorem form_create_escrows_witness:
  "\<exists>st' s' t. create_submit 1000000001 \<lparr>cf_title = ''t'', cf_description = ''d'', cf_city = ''Almaty'', cf_phone = ''+7'', cf_contact_info = '''', cf_images = [], cf_points = 50, cf_location = Some \<lparr>lat = 43.2220, lng = 76.8512\<rparr>, cf_address = ''''\<rparr>
      (first_visit 1000000000) \<lparr>cur_user = Some (strip_password (default_users ! 1)), saved_user = None, cached_tasks = []\<rparr> = (st', s', Created t) \<and>
    balance (users st') ''2'' = 150 \<and> 0 \<le> balance (users st') ''2''"
proof -
  have h1: "points_fresh (first_visit 1000000000) \<lparr>cur_user = Some (strip_password (default_users ! 1)), saved_user = None, cached_tasks = []\<rparr>"
    by (simp add: points_fresh_def seed_simps strip_password_def)
  have h2: "session_uid \<lparr>cur_user = Some (strip_password (default_users ! 1)), saved_user = None, cached_tasks = []\<rparr> = Some ''2''"
    by (simp add: session_uid_def default_users_def strip_password_def truthy_str_def)
  have h3: "find_user ''2'' (users (first_visit 1000000000)) = Some (default_users ! 1)"
    by (simp add: seed_simps)
  have h4: "user_points (default_users ! 1) = Some 200" "(200::int) \<noteq> 0"
    by (simp_all add: default_users_def)
  have h5: "create_form_valid \<lparr>cur_user = Some (strip_password (default_users ! 1)), saved_user = None, cached_tasks = []\<rparr> \<lparr>cf_title = ''t'', cf_description = ''d'', cf_city = ''Almaty'', cf_phone = ''+7'', cf_contact_info = '''', cf_images = [], cf_points = 50, cf_location = Some \<lparr>lat = 43.2220, lng = 76.8512\<rparr>, cf_address = ''''\<rparr>"
    by (simp add: create_form_valid_def points_max_def default_users_def strip_password_def truthy_str_def)
  have h6: "cf_location \<lparr>cf_title = ''t'', cf_description = ''d'', cf_city = ''Almaty'', cf_phone = ''+7'', cf_contact_info = '''', cf_images = [], cf_points = 50, cf_location = Some \<lparr>lat = 43.2220, lng = 76.8512\<rparr>, cf_address = ''''\<rparr> \<noteq> None" by simp
  show ?thesis using form_create_escrows [OF h1 h2 h3 h4 h5 h6, of 1000000001] by simp
qed

end
