(* ===== verification/System.thy ===== *)
theory System
  imports Forms
begin

text \<open>
  The application as a transition system.  A state is the store in \<open>localStorage\<close>
  together with the session of the open tab; a step is one thing a user can do through
  the interface: press a button that a task card renders for a task of the cached list,
  submit a form, send a chat message, log out, let the task list refetch, or reload the
  page (which runs \<open>seedData\<close> again and restores the saved user).  The effect that
  refetches the tasks after the user object changes is folded into the steps that change
  it (login, register, profile) and is also a step of its own.  Reachable states start
  from a first visit.
\<close>

type_synonym app = "store \<times> session"

definition no_session :: session where
  "no_session = \<lparr>cur_user = None, saved_user = None, cached_tasks = []\<rparr>"

inductive ui_step :: "app \<Rightarrow> app \<Rightarrow> bool" where
  take: "Some t \<in> set (cached_tasks s) \<Longrightarrow> show_take s t \<Longrightarrow>
    handleTakeTask t st s = Inr (st', s', t') \<Longrightarrow> ui_step (st, s) (st', s')"
| report: "Some t \<in> set (cached_tasks s) \<Longrightarrow> show_progress_actions s t \<Longrightarrow>
    complete_submit d u = Some rep \<Longrightarrow>
    handleSubmitReport t rep st s = Inr (st', s', t') \<Longrightarrow> ui_step (st, s) (st', s')"
| abandon: "Some t \<in> set (cached_tasks s) \<Longrightarrow> show_progress_actions s t \<Longrightarrow>
    handleAbandonClick True t st s = Inr (st', s') \<Longrightarrow> ui_step (st, s) (st', s')"
| approve: "Some t \<in> set (cached_tasks s) \<Longrightarrow> show_moderation s t \<Longrightarrow>
    handleApprove t st s = Inr (st', s', t') \<Longrightarrow> ui_step (st, s) (st', s')"
| reject: "Some t \<in> set (cached_tasks s) \<Longrightarrow> show_moderation s t \<Longrightarrow>
    handleReject t st s = Inr (st', s', t') \<Longrightarrow> ui_step (st, s) (st', s')"
| confirm: "Some t \<in> set (cached_tasks s) \<Longrightarrow> show_review_actions s t \<Longrightarrow>
    handleConfirmCompletion t st s = Inr (st', s', t') \<Longrightarrow> ui_step (st, s) (st', s')"
| reject_report: "Some t \<in> set (cached_tasks s) \<Longrightarrow> show_review_actions s t \<Longrightarrow>
    handleRejectReport True t st s = Inr (st', s') \<Longrightarrow> ui_step (st, s) (st', s')"
| create: "digit_string now \<notin> set (map task_id (tasks st)) \<Longrightarrow>
    create_submit now f st s = (st', s', Created t) \<Longrightarrow> ui_step (st, s) (st', s')"
| login: "login_submit f st s = (f', s', Some r) \<Longrightarrow> ui_step (st, s) (st, fetchTasks st s')"
| register: "register_submit now d st s = Some (Inr (st', s', u)) \<Longrightarrow>
    ui_step (st, s) (st', fetchTasks st' s')"
| profile: "profile_submit f st s = Some (Inr (st', s', u)) \<Longrightarrow>
    ui_step (st, s) (st', fetchTasks st' s')"
| chat: "sidebar_send ts now (cur_user s) k txt st = (st', Some m) \<Longrightarrow> ui_step (st, s) (st', s)"
| logout: "ui_step (st, s) (st, fetchTasks st (ctx_logout s))"
| refetch: "ui_step (st, s) (st, fetchTasks st s)"
| reload: "ui_step (st, s)
    (seedData now st, fetchTasks (seedData now st) (auth_init (s\<lparr>cached_tasks := []\<rparr>)))"

inductive reach :: "app \<Rightarrow> bool" where
  first_visit: "reach (first_visit now, no_session)"
| step: "reach x \<Longrightarrow> ui_step x y \<Longrightarrow> reach y"

subsection \<open>The invariant\<close>

text \<open>
  The specification's task invariant (\<open>assignedTo\<close> is null unless the task is in
  progress, under review or done), the six known statuses, non-negative balances and
  rewards, distinct task ids, and a cache that is the stored list whenever someone is
  signed in.
\<close>

fun known_status :: "status \<Rightarrow> bool" where
  "known_status (Other x) = False"
| "known_status s = True"

definition task_ok :: "task \<Rightarrow> bool" where
  "task_ok t \<longleftrightarrow> known_status (status t) \<and>
     (status t \<in> {IN_PROGRESS, REVIEW, DONE} \<or> assigned_to t = None)"

definition store_inv :: "store \<Rightarrow> bool" where
  "store_inv st \<longleftrightarrow>
     list_all task_ok (tasks st) \<and> ledger_nonneg st \<and> distinct (map task_id (tasks st))"

definition app_inv :: "app \<Rightarrow> bool" where
  "app_inv x \<longleftrightarrow>
     (let (st, s) = x in
      store_inv st \<and> (cached_tasks s = map Some (tasks st) \<or> (cur_user s = None \<and> cached_tasks s = [])))"


subsection \<open>Preservation\<close>

lemma fetch_inv: "store_inv st \<Longrightarrow> app_inv (st, fetchTasks st s)"
  by (simp add: app_inv_def fetchTasks_def getTasks_def split: option.split)

lemma inv_coherent:
  "app_inv (st, s) \<Longrightarrow> session_uid s = Some me \<Longrightarrow> coherent st s"
  by (auto simp: app_inv_def store_inv_def coherent_def session_uid_def)

lemma inv_found:
  assumes "app_inv (st, s)" and "session_uid s = Some me" and "Some t \<in> set (cached_tasks s)"
  shows "find_task (task_id t) st = Some t \<and> task_ok t"
proof -
  have c: "coherent st s" using inv_coherent [OF assms(1,2)] .
  with assms(3) have "t \<in> set (tasks st)" by (auto simp: coherent_def)
  with c assms(1) show ?thesis
    by (auto simp: coherent_def find_task_def find_distinct_key app_inv_def store_inv_def list_all_iff)
qed

lemma inv_update:
  assumes "app_inv (st, s)" and "ctx_updateTaskStatus k stat rep st s = Inr (st', s', t')"
    and "session_uid s = Some me"
    and "\<And>t. find_task k st = Some t \<Longrightarrow> task_ok (set_status (status_of_string stat) (Some me) rep t)"
  shows "app_inv (st', s')"
proof -
  obtain st1 where r: "updateTaskStatus k stat (Some me) rep st = Inr (st1, t')" and "st' = st1"
    using assms(2,3) by (auto simp: ctx_updateTaskStatus_def Let_def split: sum.splits)
  obtain t where "find_task k st = Some t"
    and ts: "tasks st1 = update_first (\<lambda>x. task_id x = k) (set_status (status_of_string stat) (Some me) rep) (tasks st)"
    by (rule updateTaskStatus_Inr [OF r])
  have "list_all task_ok (tasks st1)"
    using assms(1,4) unfolding ts list_all_iff
    by (intro update_first_preserves_found) (auto simp: app_inv_def store_inv_def list_all_iff find_task_def)
  moreover have "ledger_nonneg st1"
    using updateTaskStatus_nonneg [OF _ r] assms(1) by (simp add: app_inv_def store_inv_def)
  moreover have "coherent st1 s'"
    using coherent_update [OF inv_coherent [OF assms(1,3)]] assms(2) \<open>st' = st1\<close> by blast
  ultimately show ?thesis
    using \<open>st' = st1\<close> by (simp add: app_inv_def store_inv_def coherent_def)
qed


lemma task_ok_reopen [simp]: "task_ok (reopen t)"
  by (simp add: task_ok_def)

lemma inv_abandon:
  assumes "app_inv (st, s)" and "ctx_abandonTask k st s = Inr (st', s')"
  shows "app_inv (st', s')"
proof -
  obtain me where me: "session_uid s = Some me"
    using assms(2) by (cases "session_uid s") (auto simp: ctx_abandonTask_def)
  have st': "st' = fst (abandonTask k me st)"
    using assms(2) me by (auto simp: ctx_abandonTask_def split: prod.splits)
  have "list_all task_ok (tasks st')"
    using assms(1) unfolding st'
    by (auto simp: abandonTask_def Let_def app_inv_def store_inv_def list_all_iff
        dest!: set_update_first split: option.split)
  moreover have "ledger_nonneg st'"
    using abandon_nonneg [of st k me] assms(1) st' by (simp add: app_inv_def store_inv_def)
  moreover have "coherent st' s'"
    using coherent_abandon [OF inv_coherent [OF assms(1) me] assms(2)] .
  ultimately show ?thesis by (simp add: app_inv_def store_inv_def coherent_def)
qed

lemma create_submit_Created:
  assumes "create_submit now f st s = (st', s', Created t)"
  obtains me where "create_form_valid s f" "cf_location f \<noteq> None" "session_uid s = Some me"
    "ctx_createTask now (form_task_data f) st s = Inr (st', s', t)"
  using assms by (cases "session_uid s")
    (auto simp: create_submit_def ctx_createTask_def split: if_splits sum.splits prod.splits)

lemma inv_create:
  assumes "app_inv (st, s)" and "digit_string now \<notin> set (map task_id (tasks st))"
    and "create_submit now f st s = (st', s', Created t)"
  shows "app_inv (st', s')"
proof -
  obtain me where v: "create_form_valid s f" and "cf_location f \<noteq> None" and me: "session_uid s = Some me"
    and c: "ctx_createTask now (form_task_data f) st s = Inr (st', s', t)"
    by (rule create_submit_Created [OF assms(3)])
  have st': "st' = fst (createTask now ((form_task_data f)\<lparr>data_created_by := me\<rparr>) st)"
    using c me by (auto simp: ctx_createTask_def Let_def split: prod.splits)
  have "list_all task_ok (tasks st')"
    using assms(1) by (simp add: st' createTask_def new_task_def Let_def app_inv_def store_inv_def task_ok_def)
  moreover have "ledger_nonneg st'"
    using createTask_nonneg [of "(form_task_data f)\<lparr>data_created_by := me\<rparr>" st now] assms(1) v st'
    by (simp add: app_inv_def store_inv_def form_task_data_def create_form_valid_def)
  moreover have "coherent st' s'"
    using coherent_create [OF inv_coherent [OF assms(1) me] assms(2) c] .
  ultimately show ?thesis by (simp add: app_inv_def store_inv_def coherent_def)
qed

lemma store_inv_users:
  "tasks st' = tasks st \<Longrightarrow> \<forall>u\<in>set (users st'). 0 \<le> or_zero (user_points u) \<Longrightarrow>
   store_inv st \<Longrightarrow> store_inv st'"
  by (simp add: store_inv_def ledger_nonneg_def)

lemma register_submit_ctx: "register_submit now d st s = Some (Inr (st', s', u)) \<Longrightarrow> ctx_register now d st s = Inr (st', s', u)"
  by (simp add: register_submit_def split: if_splits)

lemma ctx_register_Inr: "ctx_register now d st s = Inr (st', s', u) \<Longrightarrow> \<exists>u'. register now d st = Inr (st', u')"
  by (auto simp: ctx_register_def split: sum.splits prod.splits)

lemma register_Inr_store: "register now d st = Inr (st', u') \<Longrightarrow> st' = st\<lparr>users := users st @ [new_user now d]\<rparr>"
  by (simp add: register_def split: if_splits)

lemma inv_register:
  assumes "app_inv (st, s)" and "register_submit now d st s = Some (Inr (st', s', u))"
  shows "store_inv st'"
proof -
  obtain u' where "register now d st = Inr (st', u')"
    using ctx_register_Inr [OF register_submit_ctx [OF assms(2)]] by blast
  then have st': "st' = st\<lparr>users := users st @ [new_user now d]\<rparr>" by (rule register_Inr_store)
  show ?thesis
    by (rule store_inv_users) (use assms(1) st' in \<open>auto simp: app_inv_def store_inv_def ledger_nonneg_def new_user_def\<close>)
qed

lemma ctx_updateUser_Inr: "ctx_updateUser k p st s = Inr (st', s', u) \<Longrightarrow> \<exists>u'. updateUser k p st = Inr (st', u')"
  by (auto simp: ctx_updateUser_def Let_def split: sum.splits prod.splits)

lemma inv_profile:
  assumes "app_inv (st, s)" and "profile_submit f st s = Some (Inr (st', s', u))"
  shows "store_inv st'"
proof -
  let ?p = "profile_patch (pf_name f) (pf_email f) (pf_phone f) (pf_contact_info f)"
  obtain cu where cu: "cur_user s = Some cu"
    using assms(2) by (cases "cur_user s") (simp_all add: profile_submit_def)
  with assms(2) have "ctx_updateUser (pub_id cu) ?p st s = Inr (st', s', u)"
    by (simp add: profile_submit_def)
  then obtain u' where up: "updateUser (pub_id cu) ?p st = Inr (st', u')"
    using ctx_updateUser_Inr by blast
  have st': "st' = st\<lparr>users := update_first (\<lambda>x. user_id x = pub_id cu) (apply_patch ?p) (users st)\<rparr>"
    using up by (auto simp: updateUser_def split: option.splits)
  have "\<forall>x\<in>set (users st'). 0 \<le> or_zero (user_points x)"
    using assms(1) unfolding st'
    by (auto simp: app_inv_def store_inv_def ledger_nonneg_def apply_patch_def profile_patch_def
        dest!: set_update_first)
  then show ?thesis
    by (rule store_inv_users [rotated]) (use assms(1) st' in \<open>simp_all add: app_inv_def\<close>)
qed

lemma inv_chat:
  assumes "app_inv (st, s)" and "sidebar_send ts now u k txt st = (st', Some m)"
  shows "app_inv (st', s)"
proof -
  have "users st' = users st \<and> tasks st' = tasks st"
    using assms(2) by (auto simp: sidebar_send_def sendChatMessage_def Let_def split: if_splits option.splits)
  with assms(1) show ?thesis by (simp add: app_inv_def store_inv_def ledger_nonneg_def)
qed


lemma upsert_nonneg:
  assumes "0 \<le> or_zero (user_points d)" and "\<forall>u\<in>set us. 0 \<le> or_zero (user_points u)"
  shows "\<forall>u\<in>set (upsert_user d us). 0 \<le> or_zero (user_points u)"
  using assms
  by (auto simp: upsert_user_def apply_patch_def user_as_patch_def split: option.splits
      dest!: set_update_first)

lemma fold_upsert_nonneg:
  "\<forall>d\<in>set ds. 0 \<le> or_zero (user_points d) \<Longrightarrow> \<forall>u\<in>set us. 0 \<le> or_zero (user_points u) \<Longrightarrow>
   \<forall>u\<in>set (fold upsert_user ds us). 0 \<le> or_zero (user_points u)"
proof (induction ds arbitrary: us)
  case (Cons d ds)
  have "\<forall>u\<in>set (upsert_user d us). 0 \<le> or_zero (user_points u)"
    by (rule upsert_nonneg) (use Cons.prems in simp_all)
  with Cons.IH [of "upsert_user d us"] Cons.prems(1) show ?case by simp
qed simp

lemma migrate_task_fields [simp]:
  "task_id (migrate_task t) = task_id t" "status (migrate_task t) = status t"
  "assigned_to (migrate_task t) = assigned_to t" "task_points (migrate_task t) = task_points t"
  by (simp_all add: migrate_task_def split: option.split)

lemma task_id_migrate [simp]: "task_id \<circ> migrate_task = task_id"
  by (rule ext) simp

lemma default_tasks_inv:
  "list_all task_ok (default_tasks now) \<and> distinct (map task_id (default_tasks now)) \<and>
   (\<forall>t\<in>set (default_tasks now). 0 \<le> or_zero (task_points t))"
  by (simp add: default_tasks_def seed_task_def task_ok_def)

lemma store_inv_seed:
  assumes "store_inv st"
  shows "store_inv (seedData now st)"
proof -
  have u: "\<forall>u\<in>set (fold upsert_user default_users (users st)). 0 \<le> or_zero (user_points u)"
    using assms by (intro fold_upsert_nonneg) (simp_all add: default_users_def store_inv_def ledger_nonneg_def)
  have m: "map task_id (map migrate_task ts) = map task_id ts" for ts
    by simp
  show ?thesis
  proof (cases "tasks st = []")
    case True
    with u default_tasks_inv [of now] show ?thesis
      by (simp add: seedData_def store_inv_def ledger_nonneg_def)
  next
    case False
    have "list_all task_ok (map migrate_task (tasks st))"
      using assms by (simp add: store_inv_def list_all_iff task_ok_def)
    with False u assms m [of "tasks st"] show ?thesis
      by (simp add: seedData_def store_inv_def ledger_nonneg_def)
  qed
qed

lemma inv_first_visit: "app_inv (first_visit now, no_session)"
proof -
  have "store_inv empty_store" by (simp add: store_inv_def empty_store_def ledger_nonneg_def)
  then have "store_inv (first_visit now)" unfolding first_visit_def by (rule store_inv_seed)
  then show ?thesis by (simp add: app_inv_def no_session_def)
qed


lemma ctx_update_uid:
  "ctx_updateTaskStatus k stat rep st s = Inr r \<Longrightarrow> \<exists>me. session_uid s = Some me"
  by (cases "session_uid s") (auto simp: ctx_updateTaskStatus_def)

lemma inv_card_update:
  assumes "app_inv (st, s)" and "Some t \<in> set (cached_tasks s)"
    and "ctx_updateTaskStatus (task_id t) stat rep st s = Inr (st', s', t')"
    and "\<And>me. task_ok t \<Longrightarrow> task_ok (set_status (status_of_string stat) (Some me) rep t)"
  shows "app_inv (st', s')"
proof -
  obtain me where me: "session_uid s = Some me" using ctx_update_uid [OF assms(3)] by blast
  have f: "find_task (task_id t) st = Some t \<and> task_ok t" using inv_found [OF assms(1) me assms(2)] .
  show ?thesis
    by (rule inv_update [OF assms(1,3) me]) (use f assms(4) in simp)
qed

lemma moderation_pending: "show_moderation s t \<Longrightarrow> task_ok t \<Longrightarrow> status t = PENDING \<and> assigned_to t = None"
  by (cases "status t") (simp_all add: show_moderation_def status_label_def task_ok_def)

lemma app_inv_store: "app_inv (st, s) \<Longrightarrow> store_inv st"
  by (simp add: app_inv_def)

lemma task_ok_progress:
  "x \<in> {IN_PROGRESS, REVIEW, DONE} \<Longrightarrow> task_ok (set_status x uid rep t)"
  by (auto simp: task_ok_def)

lemma inv_take:
  "app_inv (st, s) \<Longrightarrow> Some t \<in> set (cached_tasks s) \<Longrightarrow> handleTakeTask t st s = Inr (st', s', t') \<Longrightarrow>
   app_inv (st', s')"
  unfolding handleTakeTask_def by (erule inv_card_update) (auto simp: task_ok_def)

lemma inv_report:
  "app_inv (st, s) \<Longrightarrow> Some t \<in> set (cached_tasks s) \<Longrightarrow> handleSubmitReport t rep st s = Inr (st', s', t') \<Longrightarrow>
   app_inv (st', s')"
  unfolding handleSubmitReport_def by (erule inv_card_update) (auto simp: task_ok_def)

lemma inv_confirm:
  "app_inv (st, s) \<Longrightarrow> Some t \<in> set (cached_tasks s) \<Longrightarrow> handleConfirmCompletion t st s = Inr (st', s', t') \<Longrightarrow>
   app_inv (st', s')"
  unfolding handleConfirmCompletion_def by (erule inv_card_update) (auto simp: task_ok_def)

lemma inv_moderate:
  assumes "app_inv (st, s)" and "Some t \<in> set (cached_tasks s)" and "show_moderation s t"
    and "stat \<in> {''OPEN'', ''REJECTED''}"
    and "ctx_updateTaskStatus (task_id t) stat None st s = Inr (st', s', t')"
  shows "app_inv (st', s')"
proof (rule inv_card_update [OF assms(1,2,5)])
  fix me assume "task_ok t"
  with moderation_pending [OF assms(3)] assms(4) show "task_ok (set_status (status_of_string stat) (Some me) None t)"
    by (auto simp: task_ok_def)
qed

lemma inv_reject_report:
  assumes "app_inv (st, s)" and "Some t \<in> set (cached_tasks s)"
    and "handleRejectReport True t st s = Inr (st', s')"
  shows "app_inv (st', s')"
proof -
  obtain t' s1 where u: "ctx_updateTaskStatus (task_id t) ''IN_PROGRESS'' None st s = Inr (st', s1, t')"
    and "s' = s1"
    using assms(3) by (auto simp: handleRejectReport_def split: sum.splits prod.splits)
  have "app_inv (st', s1)"
    by (rule inv_card_update [OF assms(1,2) u]) (simp add: task_ok_progress)
  with \<open>s' = s1\<close> show ?thesis by simp
qed

lemma step_inv: "ui_step x y \<Longrightarrow> app_inv x \<Longrightarrow> app_inv y"
proof (induction rule: ui_step.induct)
  case (take t s st st' s' t')
  from take.prems take.hyps(1,3) show ?case by (rule inv_take)
next
  case (report t s d u rep st st' s' t')
  from report.prems report.hyps(1,4) show ?case by (rule inv_report)
next
  case (abandon t s st st' s')
  from abandon.prems abandon.hyps(3) show ?case
    unfolding handleAbandonClick_def by (simp only: if_True) (rule inv_abandon)
next
  case (approve t s st st' s' t')
  show ?case by (rule inv_moderate [OF approve.prems approve.hyps(1,2) _ approve.hyps(3) [unfolded handleApprove_def]]) simp
next
  case (reject t s st st' s' t')
  show ?case by (rule inv_moderate [OF reject.prems reject.hyps(1,2) _ reject.hyps(3) [unfolded handleReject_def]]) simp
next
  case (confirm t s st st' s' t')
  from confirm.prems confirm.hyps(1,3) show ?case by (rule inv_confirm)
next
  case (reject_report t s st st' s')
  from reject_report.prems reject_report.hyps(1,3) show ?case by (rule inv_reject_report)
next
  case (create now st f s st' s' t)
  from create.prems create.hyps show ?case by (rule inv_create)
next
  case (login f st s f' s' r)
  show ?case by (rule fetch_inv [OF app_inv_store [OF login.prems]])
next
  case (register now d st s st' s' u)
  show ?case by (rule fetch_inv [OF inv_register [OF register.prems register.hyps]])
next
  case (profile f st s st' s' u)
  show ?case by (rule fetch_inv [OF inv_profile [OF profile.prems profile.hyps]])
next
  case (chat ts now s k msg st st' m)
  from chat.prems chat.hyps show ?case by (rule inv_chat)
next
  case (logout st s)
  show ?case by (rule fetch_inv [OF app_inv_store [OF logout.prems]])
next
  case (refetch st s)
  show ?case by (rule fetch_inv [OF app_inv_store [OF refetch.prems]])
next
  case (reload st s now)
  show ?case by (rule fetch_inv [OF store_inv_seed [OF app_inv_store [OF reload.prems]]])
qed

lemma reach_inv: "reach x \<Longrightarrow> app_inv x"
proof (induction rule: reach.induct)
  case (first_visit now)
  show ?case by (rule inv_first_visit)
next
  case (step x y)
  from step.hyps(2) step.IH show ?case by (rule step_inv)
qed

subsection \<open>Properties\<close>

lemma known_status_cases: "known_status x \<Longrightarrow> x \<in> {PENDING, OPEN, IN_PROGRESS, REVIEW, DONE, REJECTED}"
  by (cases x) simp_all

text \<open>C34: In every state reachable through the interface, only the six known statuses are stored (the lower-case and unknown status strings that the API would accept never reach the store), a task that is not in progress, under review or done has no assignee (the specification's task invariant), no balance and no reward is negative, task ids are distinct, and a signed-in tab's task cache is the stored list.\<close>

theorem reachable_invariant:
  assumes "reach (st, s)"
  shows "(\<forall>t\<in>set (tasks st). status t \<in> {PENDING, OPEN, IN_PROGRESS, REVIEW, DONE, REJECTED}) \<and>
    (\<forall>t\<in>set (tasks st). status t \<notin> {IN_PROGRESS, REVIEW, DONE} \<longrightarrow> assigned_to t = None) \<and>
    (\<forall>u\<in>set (users st). 0 \<le> or_zero (user_points u)) \<and>
    (\<forall>t\<in>set (tasks st). 0 \<le> or_zero (task_points t)) \<and>
    distinct (map task_id (tasks st)) \<and>
    (cur_user s \<noteq> None \<longrightarrow> cached_tasks s = map Some (tasks st))"
proof -
  have inv: "app_inv (st, s)" by (rule reach_inv [OF assms])
  then have "\<forall>t\<in>set (tasks st). status t \<in> {PENDING, OPEN, IN_PROGRESS, REVIEW, DONE, REJECTED}"
    using known_status_cases by (auto simp: app_inv_def store_inv_def task_ok_def list_all_iff)
  with inv show ?thesis
    by (auto simp: app_inv_def store_inv_def task_ok_def ledger_nonneg_def list_all_iff)
qed

text \<open>C36: From every reachable state, a signed-in volunteer can take any stored task whose card offers the take button: there is a step of the interface after which the task is in progress and assigned to that volunteer.\<close>

theorem take_progress:
  assumes "reach (st, s)" and "session_uid s = Some me" and "t \<in> set (tasks st)" and "show_take s t"
  shows "\<exists>st' s'. ui_step (st, s) (st', s') \<and>
    find_task (task_id t) st' = Some (t\<lparr>status := IN_PROGRESS, assigned_to := Some me\<rparr>)"
proof -
  have inv: "app_inv (st, s)" by (rule reach_inv [OF assms(1)])
  have "cached_tasks s = map Some (tasks st)"
    using inv_coherent [OF inv assms(2)] by (simp add: coherent_def)
  with assms(3) have c: "Some t \<in> set (cached_tasks s)" by simp
  have "find_task (task_id t) st = Some t"
    using inv_found [OF inv assms(2) c] by simp
  moreover have "\<not> truthy_id (assigned_to t)" using assms(4) by (simp add: show_take_def)
  ultimately obtain st' s' where
    r: "handleTakeTask t st s = Inr (st', s', t\<lparr>status := IN_PROGRESS, assigned_to := Some me\<rparr>)"
    and f: "find_task (task_id t) st' = Some (t\<lparr>status := IN_PROGRESS, assigned_to := Some me\<rparr>)"
    using handleTakeTask_found [OF _ assms(2)] by blast
  have "ui_step (st, s) (st', s')" by (rule ui_step.take [OF c assms(4) r])
  with f show ?thesis by blast
qed

subsection \<open>Witnesses\<close>

lemma login_user1_reach:
  "reach (first_visit 1000000000,
     fetchTasks (first_visit 1000000000) (set_user (Some (strip_password (default_users ! 1))) no_session))"
proof -
  have "login_submit \<lparr>lf_login = ''user1'', lf_password = ''123'', lf_error = None\<rparr> (first_visit 1000000000) no_session =
    (\<lparr>lf_login = ''user1'', lf_password = ''123'', lf_error = None\<rparr>,
     set_user (Some (strip_password (default_users ! 1))) no_session, Some ''/dashboard'')"
    by (simp add: login_submit_def ctx_login_def login_api_def seed_simps credentials_match_def)
  then show ?thesis
    by (rule reach.step [OF reach.first_visit ui_step.login])
qed

theorem reachable_invariant_witness:
  "reach (first_visit 1000000000, no_session) \<and> distinct (map task_id (tasks (first_visit 1000000000)))"
proof -
  have r: "reach (first_visit 1000000000, no_session)" by (rule reach.first_visit)
  with reachable_invariant [OF r] show ?thesis by blast
qed

theorem take_progress_witness:
  "\<exists>st' s'. ui_step (first_visit 1000000000,
       fetchTasks (first_visit 1000000000) (set_user (Some (strip_password (default_users ! 1))) no_session))
     (st', s') \<and>
   find_task ''1'' st' = Some ((hd (default_tasks 1000000000))\<lparr>status := IN_PROGRESS, assigned_to := Some ''2''\<rparr>)"
proof -
  have h2: "session_uid (fetchTasks (first_visit 1000000000) (set_user (Some (strip_password (default_users ! 1))) no_session)) = Some ''2''"
    by (simp add: session_uid_def fetchTasks_def set_user_def no_session_def default_users_def strip_password_def truthy_str_def)
  have h3: "hd (default_tasks 1000000000) \<in> set (tasks (first_visit 1000000000))" by (simp add: seed_simps)
  have h4: "show_take (fetchTasks (first_visit 1000000000) (set_user (Some (strip_password (default_users ! 1))) no_session))
      (hd (default_tasks 1000000000))"
    by (simp add: show_take_def isUser_def is_me_def fetchTasks_def set_user_def no_session_def seed_simps strip_password_def)
  have "task_id (hd (default_tasks 1000000000)) = ''1''" by (simp add: seed_simps)
  with take_progress [OF login_user1_reach h2 h3 h4] show ?thesis by simp
qed

end
