(* ===== verification/Shell.thy ===== *)
theory Shell
  imports Session
begin

text \<open>
  The application shell: the routes of \<open>src/src/App.jsx\<close> with their guard
  \<open>PrivateRoute\<close> and the error boundary, the navigation bar (\<open>src/src/components/Navbar.jsx\<close>),
  the theme (\<open>src/src/contexts/ThemeContext.jsx\<close>) and the chat panel's open state
  (\<open>src/Volonter-Hub-main/src/contexts/ChatContext.jsx\<close>).  A route either renders a
  view or navigates to another path; following the navigations is \<open>resolve\<close>, given
  a number of route evaluations.  Paths are matched literally: the router's
  normalisation of a trailing slash and of letter case is not modelled.  The error
  boundary keeps its error across navigations (\<open>app_render\<close>); the theme and chat hooks
  have fallbacks for use outside their providers.
\<close>

subsection \<open>Routes\<close>

datatype private_view = AdminDash | UserDash | CreateTaskPage | ProfilePage | ChatPage string "task option"

datatype view = LoginView | RegisterView | LoadingView | ErrorView | Private private_view

datatype route_out = Render view | Navigate string

text \<open>
  Lines 34--37: \<open>tasks.find(t => t.id === taskId)\<close> over the cached list.  Reading
  \<open>.id\<close> of an \<open>undefined\<close> entry throws; the outer \<open>None\<close> is that \<open>TypeError\<close>.
\<close>

fun cache_find :: "string \<Rightarrow> task option list \<Rightarrow> task option option" where
  "cache_find k [] = Some None"
| "cache_find k (None # c) = None"
| "cache_find k (Some t # c) = (if task_id t = k then Some (Some t) else cache_find k c)"

text \<open>\<open>/chat/:taskId\<close>: one non-empty segment after the prefix.\<close>

definition chat_param :: "string \<Rightarrow> string option" where
  "chat_param p =
    (if take 6 p = ''/chat/'' \<and> drop 6 p \<noteq> [] \<and> CHR ''/'' \<notin> set (drop 6 p) then Some (drop 6 p) else None)"

text \<open>Lines 17--31: \<open>PrivateRoute\<close> sends a visitor without a user to the login page.\<close>

definition private_route :: "session \<Rightarrow> private_view \<Rightarrow> route_out" where
  "private_route s v = (if cur_user s = None then Navigate ''/login'' else Render (Private v))"

text \<open>
  Lines 48--91: \<open>AppContent\<close>, with \<open>loading\<close> the flag of \<open>AuthProvider\<close>.  The
  chat page renders inside the error boundary of lines 101--103 and 113--150, which
  replaces the whole content by the error view when rendering throws.
\<close>

definition app_route :: "bool \<Rightarrow> session \<Rightarrow> string \<Rightarrow> route_out" where
  "app_route loading s p =
    (if loading then Render LoadingView
     else if p = ''/login'' then Render LoginView
     else if p = ''/register'' then Render RegisterView
     else if p = ''/dashboard'' then private_route s (if isAdmin s then AdminDash else UserDash)
     else if p = ''/create-task'' then private_route s CreateTaskPage
     else if p = ''/profile'' then private_route s ProfilePage
     else (case chat_param p of
             Some k \<Rightarrow>
               (if cur_user s = None then Navigate ''/login''
                else (case cache_find k (cached_tasks s) of
                        None \<Rightarrow> Render ErrorView
                      | Some t \<Rightarrow> Render (Private (ChatPage k t))))
           | None \<Rightarrow>
               (if p = ''/'' then Navigate (if cur_user s = None then ''/login'' else ''/dashboard'')
                else Navigate ''/'')))"

text \<open>Following \<open><Navigate>\<close> with at most \<open>n\<close> route evaluations.\<close>

fun resolve :: "nat \<Rightarrow> bool \<Rightarrow> session \<Rightarrow> string \<Rightarrow> view option" where
  "resolve 0 loading s p = None"
| "resolve (Suc n) loading s p =
     (case app_route loading s p of
        Render v \<Rightarrow> Some v
      | Navigate p' \<Rightarrow> resolve n loading s p')"

subsection \<open>Navigation bar\<close>

text \<open>Lines 1--146: the items rendered for the signed-in user or for a visitor.\<close>

datatype nav_item = Brand | FeedLink | CreateLink | ChatToggle | ThemeToggle | ProfileLink
  | UserName string | PointsBadge "int option" | LogoutButton | LoginLink | RegisterLink

definition navbar :: "session \<Rightarrow> nav_item list" where
  "navbar s =
    (case cur_user s of
       None \<Rightarrow> [Brand, LoginLink, RegisterLink]
     | Some u \<Rightarrow>
         (if isAdmin s
          then [Brand, ThemeToggle, ProfileLink, UserName (pub_name u), LogoutButton]
          else [Brand, FeedLink, CreateLink, ChatToggle, ThemeToggle, ProfileLink, UserName (pub_name u),
                PointsBadge (pub_points u), LogoutButton]))"

text \<open>Lines 116--120: \<open>logout(); navigate('/login')\<close>.\<close>

definition navbar_logout :: "session \<Rightarrow> session \<times> string" where
  "navbar_logout s = (ctx_logout s, ''/login'')"

subsection \<open>Theme and chat panel\<close>

record theme_state =
  is_dark :: bool
  saved_theme :: "string option"

text \<open>ThemeContext lines 20--28: dark only when the saved value is \<open>'dark'\<close>.\<close>

definition theme_init :: "string option \<Rightarrow> theme_state" where
  "theme_init saved = \<lparr>is_dark = (saved = Some ''dark''), saved_theme = saved\<rparr>"

text \<open>Lines 31--46: the effect that persists the theme.\<close>

definition theme_effect :: "theme_state \<Rightarrow> theme_state" where
  "theme_effect t = t\<lparr>saved_theme := Some (if is_dark t then ''dark'' else ''light'')\<rparr>"

text \<open>Lines 48--50, followed by the effect that the change triggers.\<close>

definition toggleTheme :: "theme_state \<Rightarrow> theme_state" where
  "toggleTheme t = theme_effect (t\<lparr>is_dark := \<not> is_dark t\<rparr>)"

record chat_panel =
  panel_open :: bool
  unread_count :: nat

text \<open>ChatContext lines 17--26: the panel starts open.\<close>

definition chat_panel_init :: chat_panel where
  "chat_panel_init = \<lparr>panel_open = True, unread_count = 0\<rparr>"

text \<open>Navbar lines 56--70: \<open>setIsOpen(!isOpen)\<close>.\<close>

definition toggle_chat :: "chat_panel \<Rightarrow> chat_panel" where
  "toggle_chat c = c\<lparr>panel_open := \<not> panel_open c\<rparr>"


text \<open>
  ThemeContext lines 5--17 and ChatContext lines 5--15: outside its provider a hook
  returns a fallback, light theme with a toggle that only warns, a closed panel whose
  setter does nothing.  \<open>None\<close> is a missing provider.
\<close>

definition useTheme_dark :: "theme_state option \<Rightarrow> bool" where
  "useTheme_dark t = (case t of None \<Rightarrow> False | Some x \<Rightarrow> is_dark x)"

definition useTheme_toggle :: "theme_state option \<Rightarrow> theme_state option" where
  "useTheme_toggle t = map_option toggleTheme t"

definition useChat_open :: "chat_panel option \<Rightarrow> bool" where
  "useChat_open c = (case c of None \<Rightarrow> False | Some x \<Rightarrow> panel_open x)"

definition useChat_setOpen :: "bool \<Rightarrow> chat_panel option \<Rightarrow> chat_panel option" where
  "useChat_setOpen b c = map_option (\<lambda>x. x\<lparr>panel_open := b\<rparr>) c"

subsection \<open>Error boundary\<close>

text \<open>App.jsx lines 113--121: the boundary's state and \<open>getDerivedStateFromError\<close>.\<close>

record boundary =
  has_error :: bool
  error_msg :: "string option"

definition boundary_init :: boundary where
  "boundary_init = \<lparr>has_error = False, error_msg = None\<rparr>"

definition boundary_catch :: "string \<Rightarrow> boundary \<Rightarrow> boundary" where
  "boundary_catch m b = b\<lparr>has_error := True, error_msg := Some m\<rparr>"

text \<open>Lines 139--142: the reload button clears the state, then the page reloads.\<close>

definition boundary_reset :: "boundary \<Rightarrow> boundary" where
  "boundary_reset b = boundary_init"

text \<open>Line 136: \<open>this.state.error?.message || 'Neizvestnaya oshibka'\<close>.\<close>

definition error_text :: "boundary \<Rightarrow> string" where
  "error_text b = (case error_msg b of Some m \<Rightarrow> if m = [] then ''Neizvestnaya oshibka'' else m
                                      | None \<Rightarrow> ''Neizvestnaya oshibka'')"

text \<open>
  Lines 94--110 and 127--153: \<open>App\<close> renders the routes inside the boundary.  A route
  that throws (the error view of \<open>app_route\<close>, with the message \<open>msg\<close>) sets the
  boundary, and from then on every path shows the error screen until the reload
  button resets it; navigation does not clear it.
\<close>

definition app_render :: "string \<Rightarrow> boundary \<Rightarrow> bool \<Rightarrow> session \<Rightarrow> string \<Rightarrow> boundary \<times> view option" where
  "app_render msg b loading s p =
    (if has_error b then (b, Some ErrorView)
     else (case resolve 3 loading s p of
             Some ErrorView \<Rightarrow> (boundary_catch msg b, Some ErrorView)
           | v \<Rightarrow> (b, v)))"

subsection \<open>Properties\<close>

lemma app_route_login [simp]: "app_route l s ''/login'' = Render (if l then LoadingView else LoginView)"
  by (simp add: app_route_def)

lemma resolve_login: "resolve (Suc n) l s ''/login'' = Some (if l then LoadingView else LoginView)"
  by simp

lemma resolve_dash: "cur_user s \<noteq> None \<Longrightarrow> \<exists>v. resolve (Suc n) l s ''/dashboard'' = Some v"
  by (cases "cur_user s") (simp_all add: app_route_def private_route_def)

lemma resolve_root:
  "\<exists>v. resolve (Suc (Suc n)) l s ''/'' = Some v"
proof (cases "cur_user s")
  case None
  then show ?thesis by (simp add: app_route_def chat_param_def)
next
  case (Some u)
  then show ?thesis by (simp add: app_route_def chat_param_def private_route_def)
qed

lemma app_route_navigate:
  "app_route l s p = Navigate p' \<Longrightarrow>
   p' = ''/login'' \<or> p' = ''/'' \<or> (p' = ''/dashboard'' \<and> cur_user s \<noteq> None)"
  unfolding app_route_def private_route_def
  by (simp split: if_splits option.splits)

lemma app_route_Private:
  "app_route l s p = Render (Private v) \<Longrightarrow> cur_user s \<noteq> None"
  unfolding app_route_def private_route_def
  by (simp split: if_splits option.splits)

text \<open>
  A cache entry left \<open>undefined\<close> by a failed local update makes the chat page throw;
  the boundary then shows the error screen for every path and session until it is
  reset, navigation included.
\<close>

lemma boundary_sticky:
  assumes "cur_user s \<noteq> None" "cached_tasks s = None # c" "\<not> has_error b"
  shows "app_render m b False s ''/chat/1'' = (boundary_catch m b, Some ErrorView) \<and>
         app_render m' (boundary_catch m b) l s' p' = (boundary_catch m b, Some ErrorView) \<and>
         error_text (boundary_catch m b) = (if m = [] then ''Neizvestnaya oshibka'' else m)"
proof -
  have "app_route False s ''/chat/1'' = Render ErrorView"
    using assms(1,2) by (simp add: app_route_def chat_param_def)
  then have "resolve 3 False s ''/chat/1'' = Some ErrorView"
    by (simp add: numeral_3_eq_3)
  then show ?thesis
    using assms(3) by (simp add: app_render_def boundary_catch_def error_text_def)
qed

text \<open>C37: Route resolution always ends: every path, for every session and loading flag, renders a view within three route evaluations (at most two redirects: an unknown path to the root, the root to the login page or the dashboard).\<close>

theorem resolve_renders:
  "\<exists>v. resolve 3 loading s p = Some v"
proof (cases "app_route loading s p")
  case (Render v)
  then show ?thesis by (simp add: numeral_3_eq_3)
next
  case (Navigate p1)
  have "\<exists>v. resolve 2 loading s p1 = Some v"
    using app_route_navigate [OF Navigate]
  proof (elim disjE conjE)
    assume "p1 = ''/''"
    then show ?thesis using resolve_root [of 0 loading s] by (simp add: numeral_2_eq_2)
  next
    assume "p1 = ''/dashboard''" "cur_user s \<noteq> None"
    then show ?thesis using resolve_dash [of s 1 loading] by (simp add: numeral_2_eq_2)
  qed (simp add: numeral_2_eq_2)
  then show ?thesis using Navigate by (simp add: numeral_3_eq_3 numeral_2_eq_2)
qed

text \<open>C38: No private page (dashboards, task creation, profile, chat) is ever rendered without a signed-in user, whatever path is requested and however many redirects are followed.\<close>

theorem private_needs_user:
  "resolve n loading s p = Some (Private v) \<Longrightarrow> cur_user s \<noteq> None"
proof (induction n arbitrary: p)
  case (Suc n)
  then show ?case
    by (cases "app_route loading s p") (auto dest: app_route_Private)
qed simp

subsection \<open>Witnesses\<close>

theorem private_needs_user_witness:
  "resolve 3 False \<lparr>cur_user = Some (strip_password (default_users ! 1)), saved_user = None, cached_tasks = []\<rparr> ''/''
     = Some (Private UserDash) \<and>
   cur_user \<lparr>cur_user = Some (strip_password (default_users ! 1)), saved_user = None, cached_tasks = []\<rparr> \<noteq> None"
proof -
  have r: "resolve 3 False \<lparr>cur_user = Some (strip_password (default_users ! 1)), saved_user = None, cached_tasks = []\<rparr> ''/''
     = Some (Private UserDash)"
    by (simp add: numeral_3_eq_3 app_route_def private_route_def chat_param_def isAdmin_def
        default_users_def strip_password_def)
  show ?thesis using r private_needs_user [OF r] by simp
qed

end
