(* ===== verification/ChatView.thy ===== *)
theory ChatView
  imports Shell
begin

text \<open>
  The chat page of one task, \<open>src/src/components/Chat.jsx\<close>, rendered by the route
  \<open>/chat/:taskId\<close> of \<open>Shell\<close> with the task found in the cache.  Its state is the record
  \<open>chat_view\<close> (the four \<open>useState\<close> hooks); \<open>loadChat\<close> is the effect that runs when
  task or user change, \<open>chat_handleSend\<close> the form's submit handler, and
  \<open>chat_render\<close> what the component shows.  The scroll effect and the formatting of
  time stamps are presentation and not modelled.
\<close>

record chat_view =
  cv_messages :: "message list"
  cv_new :: string
  cv_loading :: bool
  cv_other :: "public_user option"

text \<open>Lines 7--10: the initial state.\<close>

definition chat_init :: chat_view where
  "chat_init = \<lparr>cv_messages = [], cv_new = [], cv_loading = False, cv_other = None\<rparr>"

text \<open>
  Lines 20--27: the partner of the current user, \<open>None\<close> for the early \<open>return\<close> of a
  user who takes no part in the task (the comment says so), \<open>Some oid\<close> otherwise.
\<close>

definition load_partner :: "uid \<Rightarrow> task \<Rightarrow> uid option option" where
  "load_partner me t =
    (if me = created_by t then Some (assigned_to t)
     else if Some me = assigned_to t then Some (Some (created_by t))
     else None)"

text \<open>
  Lines 13--46: \<open>loadChat\<close>.  Without task or user nothing happens.  The
  \<open>finally\<close> clause resets the loading flag on every path, the early return
  included; \<open>setOtherUser\<close> receives \<open>undefined\<close> (\<open>None\<close>) when no user has the id.
\<close>

definition loadChat :: "string \<Rightarrow> task option \<Rightarrow> public_user option \<Rightarrow> store \<Rightarrow> chat_view \<Rightarrow> chat_view" where
  "loadChat k task user st v =
    (case (task, user) of
       (Some t, Some u) \<Rightarrow>
         (case load_partner (pub_id u) t of
            None \<Rightarrow> v\<lparr>cv_loading := False\<rparr>
          | Some oid \<Rightarrow>
              v\<lparr>cv_other := (if truthy_id oid then find (\<lambda>x. Some (pub_id x) = oid) (getUsers st) else cv_other v),
                cv_messages := getChatMessages k st, cv_loading := False\<rparr>)
     | _ \<Rightarrow> v)"

text \<open>
  Lines 52--71: \<open>handleSendMessage\<close>.  A blank text, a missing task or a missing user
  sends nothing; otherwise the trimmed text is stored with the handler's clock
  reading \<open>ts\<close>, appended to the shown messages and the input is cleared.
\<close>

definition chat_handleSend ::
  "timestamp \<Rightarrow> timestamp \<Rightarrow> string \<Rightarrow> task option \<Rightarrow> public_user option \<Rightarrow> store \<Rightarrow> chat_view \<Rightarrow> store \<times> chat_view" where
  "chat_handleSend ts now k task user st v =
    (if trim (cv_new v) = [] \<or> task = None then (st, v)
     else case user of
       None \<Rightarrow> (st, v)
     | Some u \<Rightarrow>
         (let (st', m) = sendChatMessage now
                \<lparr>cd_task_id = k, cd_sender = pub_id u, cd_text = trim (cv_new v), cd_timestamp = ts\<rparr> st
          in (st', v\<lparr>cv_messages := cv_messages v @ [m], cv_new := []\<rparr>)))"

datatype chat_body = BodyLoading | BodyEmpty | Bubbles "(string \<times> bool) list"

datatype chat_screen = TaskNotFound | NotTakenYet | ChatScreen string string string chat_body bool

text \<open>
  Lines 73--172: the rendered screen.  Any user who is not the creator talks to the
  creator (line 81); the header shows the partner's initial and name
  (\<open>otherUser?.name?.[0] || '?'\<close>, \<open>otherUser?.name || 'Polzovatel'\<close>) and the task's
  title; each bubble is a text with its \<open>isOwn\<close> flag; the send button is enabled
  when the trimmed input is not empty.
\<close>

definition chat_render :: "public_user option \<Rightarrow> task option \<Rightarrow> chat_view \<Rightarrow> chat_screen" where
  "chat_render user task v =
    (case (task, user) of
       (Some t, Some u) \<Rightarrow>
         (let oid = (if pub_id u = created_by t then assigned_to t else Some (created_by t)) in
          if \<not> truthy_id oid then NotTakenYet
          else
            (let name = (case cv_other v of Some x \<Rightarrow> pub_name x | None \<Rightarrow> []) in
             ChatScreen (case name of [] \<Rightarrow> ''?'' | c # _ \<Rightarrow> [c])
               (if name = [] then ''Polzovatel'' else name) (title t)
               (if cv_loading v then BodyLoading
                else if cv_messages v = [] then BodyEmpty
                else Bubbles (map (\<lambda>m. (msg_text m, sender_id m = pub_id u)) (cv_messages v)))
               (trim (cv_new v) \<noteq> [])))
     | _ \<Rightarrow> TaskNotFound)"

text \<open>
  \<open>App.jsx\<close> lines 38--45: \<open>ChatPage\<close> renders \<open>Chat\<close> with the route's \<open>taskId\<close> and
  the task found in the cache (\<open>Shell.cache_find\<close>); \<open>Chat\<close> reads the user from
  \<open>useAuth\<close>.  The page as shown once its loading effect has run on the state \<open>v\<close>;
  \<open>None\<close> for the other private views.
\<close>

definition chat_page :: "store \<Rightarrow> session \<Rightarrow> private_view \<Rightarrow> chat_view \<Rightarrow> chat_screen option" where
  "chat_page st s pv v =
    (case pv of
       ChatPage k task \<Rightarrow> Some (chat_render (cur_user s) task (loadChat k task (cur_user s) st v))
     | _ \<Rightarrow> None)"

subsection \<open>Properties\<close>

lemma chat_handleSend_sent:
  assumes "trim (cv_new v) \<noteq> []"
  shows "chat_handleSend ts now k (Some t) (Some u) st v =
    (let (st', m) = sendChatMessage now
           \<lparr>cd_task_id = k, cd_sender = pub_id u, cd_text = trim (cv_new v), cd_timestamp = ts\<rparr> st
     in (st', v\<lparr>cv_messages := cv_messages v @ [m], cv_new := []\<rparr>))"
  using assms by (simp add: chat_handleSend_def)

lemma loadChat_keeps_input: "cv_new (loadChat k task user st v) = cv_new v"
  by (simp add: loadChat_def split: option.splits prod.splits)

text \<open>C39: A signed-in user who is neither the creator nor the volunteer of a task is
  turned away by \<open>loadChat\<close> (it returns early and loads no messages), yet the page
  still shows that user the chat with an enabled send button, and sending stores the
  message in the task's chat under that user's id.\<close>

theorem outsider_can_post:
  assumes "pub_id u \<noteq> created_by t" "assigned_to t \<noteq> Some (pub_id u)" "created_by t \<noteq> []"
    and "trim (cv_new v) \<noteq> []"
  shows "load_partner (pub_id u) t = None \<and>
    cv_messages (loadChat k (Some t) (Some u) st v) = cv_messages v \<and>
    (\<exists>a n b. chat_render (Some u) (Some t) (loadChat k (Some t) (Some u) st v) = ChatScreen a n (title t) b True) \<and>
    (\<exists>m. chat_messages (fst (chat_handleSend ts now k (Some t) (Some u) st (loadChat k (Some t) (Some u) st v)))
           = chat_messages st @ [m] \<and> sender_id m = pub_id u \<and> msg_task_id m = k)"
proof -
  define v' where "v' = loadChat k (Some t) (Some u) st v"
  have lp: "load_partner (pub_id u) t = None"
    using assms(1,2) by (auto simp: load_partner_def)
  then have ms: "cv_messages v' = cv_messages v"
    by (simp add: v'_def loadChat_def)
  have nv: "trim (cv_new v') \<noteq> []"
    using assms(4) by (simp add: v'_def loadChat_keeps_input)
  obtain st' m where sm: "sendChatMessage now
      \<lparr>cd_task_id = k, cd_sender = pub_id u, cd_text = trim (cv_new v'), cd_timestamp = ts\<rparr> st = (st', m)"
    by fastforce
  have "\<exists>a n b. chat_render (Some u) (Some t) v' = ChatScreen a n (title t) b True"
    using assms(1,3) nv by (simp add: chat_render_def Let_def truthy_str_def)
  moreover have "chat_messages (fst (chat_handleSend ts now k (Some t) (Some u) st v')) = chat_messages st @ [m] \<and>
         sender_id m = pub_id u \<and> msg_task_id m = k"
    using chat_handleSend_sent [OF nv] sm sendChatMessage_eq [OF sm] by simp
  ultimately show ?thesis using lp ms unfolding v'_def by blast
qed

text \<open>C40: The page's message list refines the store: if it shows the task's chat as
  \<open>getChatMessages\<close> returns it, it still does after a send whose time stamp is not
  older than the shown messages, whatever the input, task and user.\<close>

theorem chat_view_refines_store:
  assumes "cv_messages v = getChatMessages k st"
    and "\<forall>m\<in>set (getChatMessages k st). msg_timestamp m \<le> ts"
    and "chat_handleSend ts now k task user st v = (st', v')"
  shows "cv_messages v' = getChatMessages k st'"
proof (cases "trim (cv_new v) = [] \<or> task = None \<or> user = None")
  case True
  then have "chat_handleSend ts now k task user st v = (st, v)"
    by (cases user) (auto simp: chat_handleSend_def)
  then have "st' = st \<and> v' = v"
    using assms(3) by simp
  then show ?thesis using assms(1) by simp
next
  case False
  then obtain u where u: "user = Some u" by blast
  obtain st'' m where sm: "sendChatMessage now
      \<lparr>cd_task_id = k, cd_sender = pub_id u, cd_text = trim (cv_new v), cd_timestamp = ts\<rparr> st = (st'', m)"
    by fastforce
  have "st' = st''" "cv_messages v' = cv_messages v @ [m]"
    using assms(3) False u sm by (auto simp: chat_handleSend_def)
  moreover have "getChatMessages k st'' = getChatMessages k st @ [m]"
    using getChatMessages_send [OF sm] assms(2) by simp
  ultimately show ?thesis using assms(1) by simp
qed

text \<open>
  Through the routes: a signed-in outsider who opens \<open>/chat/k\<close> for a cached task gets
  the chat page with an enabled send button once the loading effect has turned them away.
\<close>

lemma outsider_route_chat:
  assumes "cur_user s = Some u" and "cache_find k (cached_tasks s) = Some (Some t)"
    and "k \<noteq> []" and "CHR ''/'' \<notin> set k"
    and "pub_id u \<noteq> created_by t" and "assigned_to t \<noteq> Some (pub_id u)" and "created_by t \<noteq> []"
    and "trim (cv_new v) \<noteq> []"
  shows "app_route False s (''/chat/'' @ k) = Render (Private (ChatPage k (Some t))) \<and>
    (\<exists>a n b. chat_page st s (ChatPage k (Some t)) v = Some (ChatScreen a n (title t) b True))"
proof
  show "app_route False s (''/chat/'' @ k) = Render (Private (ChatPage k (Some t)))"
    using assms(1-4) by (simp add: app_route_def chat_param_def)
  have "load_partner (pub_id u) t = None"
    using assms(5,6) by (auto simp: load_partner_def)
  then show "\<exists>a n b. chat_page st s (ChatPage k (Some t)) v = Some (ChatScreen a n (title t) b True)"
    using assms(1,5,7,8) by (simp add: chat_page_def loadChat_def chat_render_def Let_def truthy_str_def)
qed

subsection \<open>Witnesses\<close>

theorem outsider_can_post_witness:
  "(\<exists>m. chat_messages (fst (chat_handleSend 7 7 ''2''
      (Some (seed_task ''2'' ''Help'' ''Almaty'' IN_PROGRESS (Some ''2'') 0 10))
      (Some \<lparr>pub_id = ''1'', pub_login = ''admin'', pub_role = ADMIN, pub_name = ''Admin'', pub_email = None,
         pub_phone = None, pub_contact_info = None, pub_points = None\<rparr>)
      \<lparr>users = [], tasks = [], chat_messages = []\<rparr>
      (loadChat ''2'' (Some (seed_task ''2'' ''Help'' ''Almaty'' IN_PROGRESS (Some ''2'') 0 10))
         (Some \<lparr>pub_id = ''1'', pub_login = ''admin'', pub_role = ADMIN, pub_name = ''Admin'', pub_email = None,
            pub_phone = None, pub_contact_info = None, pub_points = None\<rparr>)
         \<lparr>users = [], tasks = [], chat_messages = []\<rparr> (chat_init\<lparr>cv_new := ''hi''\<rparr>))))
      = [m] \<and> sender_id m = ''1'')"
proof -
  let ?u = "\<lparr>pub_id = ''1'', pub_login = ''admin'', pub_role = ADMIN, pub_name = ''Admin'', pub_email = None,
         pub_phone = None, pub_contact_info = None, pub_points = None\<rparr>"
  let ?t = "seed_task ''2'' ''Help'' ''Almaty'' IN_PROGRESS (Some ''2'') 0 10"
  have h1: "pub_id ?u \<noteq> created_by ?t" and h2: "assigned_to ?t \<noteq> Some (pub_id ?u)"
    and h3: "created_by ?t \<noteq> []"
    by (simp_all add: seed_task_def)
  have h4: "trim (cv_new (chat_init\<lparr>cv_new := ''hi''\<rparr>)) \<noteq> []"
    by (simp add: chat_init_def trim_def js_space_def)
  have "\<exists>m. chat_messages (fst (chat_handleSend 7 7 ''2'' (Some ?t) (Some ?u) \<lparr>users = [], tasks = [], chat_messages = []\<rparr>
      (loadChat ''2'' (Some ?t) (Some ?u) \<lparr>users = [], tasks = [], chat_messages = []\<rparr> (chat_init\<lparr>cv_new := ''hi''\<rparr>))))
      = chat_messages \<lparr>users = [], tasks = [], chat_messages = []\<rparr> @ [m] \<and> sender_id m = pub_id ?u \<and> msg_task_id m = ''2''"
    using outsider_can_post [OF h1 h2 h3 h4, of "''2''" "\<lparr>users = [], tasks = [], chat_messages = []\<rparr>" 7 7]
    by blast
  then show ?thesis by (simp only: store.select_convs public_user.select_convs append.simps) blast
qed

theorem chat_view_refines_store_witness:
  "cv_messages (snd (chat_handleSend 7 7 ''1'' (Some (seed_task ''1'' ''Help'' ''Almaty'' IN_PROGRESS (Some ''2'') 0 10))
      (Some (strip_password (default_users ! 1))) \<lparr>users = [], tasks = [], chat_messages = []\<rparr>
      (chat_init\<lparr>cv_new := ''hi''\<rparr>)))
   = getChatMessages ''1'' (fst (chat_handleSend 7 7 ''1'' (Some (seed_task ''1'' ''Help'' ''Almaty'' IN_PROGRESS (Some ''2'') 0 10))
      (Some (strip_password (default_users ! 1))) \<lparr>users = [], tasks = [], chat_messages = []\<rparr>
      (chat_init\<lparr>cv_new := ''hi''\<rparr>)))"
proof -
  have e: "cv_messages (chat_init\<lparr>cv_new := ''hi''\<rparr>) = getChatMessages ''1'' \<lparr>users = [], tasks = [], chat_messages = []\<rparr>"
    by (simp add: chat_init_def getChatMessages_def)
  have b: "\<forall>m\<in>set (getChatMessages ''1'' \<lparr>users = [], tasks = [], chat_messages = []\<rparr>). msg_timestamp m \<le> 7"
    by (simp add: getChatMessages_def)
  show ?thesis
    using chat_view_refines_store [OF e b, of 7 "Some (seed_task ''1'' ''Help'' ''Almaty'' IN_PROGRESS (Some ''2'') 0 10)"
        "Some (strip_password (default_users ! 1))"]
    by (metis prod.collapse)
qed

end
