(* ===== verification/Sidebar.thy ===== *)
theory Sidebar
  imports Shell
begin

text \<open>
  The chat sidebar of the volunteer's dashboard,
  \<open>src/Volonter-Hub-main/src/components/ChatSidebar.jsx\<close>.  Its state is the record
  \<open>sidebar\<close>: the list \<open>activeChats\<close> with each chat's last message, the selected
  task, the loaded messages per task and the typed text per task (JavaScript objects
  keyed by task id, here maps).  The effect that fills \<open>activeChats\<close> runs when its
  dependencies \<open>[user, userTasks.length]\<close> change; the record keeps the dependency
  values of its last run.  React compares \<open>user\<close> by reference; the model compares
  the user's value, so it re-runs the effect at most as often as the code does.
  The store-level send and the task filter are \<open>sidebar_send\<close> and \<open>chat_tasks\<close> of
  \<open>Chat\<close>.
\<close>

record chat_entry =
  ce_task_id :: string
  ce_task :: task
  ce_last :: "message option"
  ce_unread :: nat

record sidebar =
  sb_chats :: "chat_entry list"
  sb_selected :: "string option"
  sb_messages :: "string \<rightharpoonup> message list"
  sb_new :: "string \<rightharpoonup> string"
  sb_deps :: "(public_user option \<times> nat) option"

text \<open>Lines 12--15: the initial state; the effect has not run.\<close>

definition sidebar_init :: sidebar where
  "sidebar_init = \<lparr>sb_chats = [], sb_selected = None, sb_messages = Map.empty, sb_new = Map.empty,
     sb_deps = None\<rparr>"

text \<open>Lines 18--23 for a visitor: \<open>user?.id\<close> is \<open>undefined\<close> and no task matches.\<close>

definition user_tasks :: "public_user option \<Rightarrow> task list \<Rightarrow> task list" where
  "user_tasks user ts = (case user of None \<Rightarrow> [] | Some u \<Rightarrow> chat_tasks (pub_id u) ts)"

text \<open>Lines 30--49: one entry per task with its last message and no unread count.\<close>

definition chat_entries :: "task list \<Rightarrow> store \<Rightarrow> chat_entry list" where
  "chat_entries ts st =
    map (\<lambda>t. \<lparr>ce_task_id = task_id t, ce_task = t, ce_last = last_message (task_id t) st, ce_unread = 0\<rparr>) ts"

text \<open>Lines 26--52: \<open>loadChats\<close> returns early without user or without tasks.\<close>

definition sb_loadChats :: "public_user option \<Rightarrow> task list \<Rightarrow> store \<Rightarrow> sidebar \<Rightarrow> sidebar" where
  "sb_loadChats user ts st sb =
    (if user = None \<or> user_tasks user ts = [] then sb
     else sb\<lparr>sb_chats := chat_entries (user_tasks user ts) st\<rparr>)"

text \<open>Lines 26--55: a render runs the effect when the dependencies differ from the last run.\<close>

definition sb_effect :: "public_user option \<Rightarrow> task list \<Rightarrow> store \<Rightarrow> sidebar \<Rightarrow> sidebar" where
  "sb_effect user ts st sb =
    (let d = (user, length (user_tasks user ts)) in
     if sb_deps sb = Some d then sb else (sb_loadChats user ts st sb)\<lparr>sb_deps := Some d\<rparr>)"

text \<open>
  Lines 58--75: \<open>loadMessages\<close>, run when a chat is selected and then every three
  seconds while it stays selected.
\<close>

definition sb_loadMessages :: "store \<Rightarrow> sidebar \<Rightarrow> sidebar" where
  "sb_loadMessages st sb =
    (case sb_selected sb of
       None \<Rightarrow> sb
     | Some k \<Rightarrow> sb\<lparr>sb_messages := (sb_messages sb)(k \<mapsto> getChatMessages k st)\<rparr>)"

text \<open>Line 159 (a chat is clicked) and line 213 (the back button).\<close>

definition sb_select :: "string option \<Rightarrow> sidebar \<Rightarrow> sidebar" where
  "sb_select k sb = sb\<lparr>sb_selected := k\<rparr>"

text \<open>Line 283: typing into the selected chat's input.\<close>

definition sb_input :: "string \<Rightarrow> sidebar \<Rightarrow> sidebar" where
  "sb_input txt sb =
    (case sb_selected sb of None \<Rightarrow> sb | Some k \<Rightarrow> sb\<lparr>sb_new := (sb_new sb)(k \<mapsto> txt)\<rparr>)"

text \<open>
  Lines 77--104: \<open>handleSendMessage\<close>; after the store-level send (\<open>sidebar_send\<close>)
  the message is appended to the task's loaded messages (\<open>prev[taskId] || []\<close>), the
  input is cleared and the chat's preview replaced.
\<close>

definition sb_handleSend ::
  "timestamp \<Rightarrow> timestamp \<Rightarrow> public_user option \<Rightarrow> string \<Rightarrow> string \<Rightarrow> store \<Rightarrow> sidebar \<Rightarrow> store \<times> sidebar" where
  "sb_handleSend ts now user k txt st sb =
    (case sidebar_send ts now user k txt st of
       (st', None) \<Rightarrow> (st', sb)
     | (st', Some m) \<Rightarrow>
         (st', sb\<lparr>sb_messages := (sb_messages sb)(k \<mapsto> (case sb_messages sb k of None \<Rightarrow> [] | Some ms \<Rightarrow> ms) @ [m]),
                  sb_new := (sb_new sb)(k \<mapsto> []),
                  sb_chats := map (\<lambda>c. if ce_task_id c = k then c\<lparr>ce_last := Some m\<rparr> else c) (sb_chats sb)\<rparr>))"

text \<open>Lines 272--276: the form of the open chat sends its typed text (\<open>|| ''\<close>).\<close>

definition sb_submit ::
  "timestamp \<Rightarrow> timestamp \<Rightarrow> public_user option \<Rightarrow> store \<Rightarrow> sidebar \<Rightarrow> store \<times> sidebar" where
  "sb_submit ts now user st sb =
    (case sb_selected sb of
       None \<Rightarrow> (st, sb)
     | Some k \<Rightarrow> sb_handleSend ts now user k (case sb_new sb k of None \<Rightarrow> [] | Some x \<Rightarrow> x) st sb)"

subsection \<open>Rendering\<close>

text \<open>Lines 106--115: the partner's label, \<open>'Volonter'\<close> or \<open>'Sozdatel'\<close>.\<close>

definition partner_name :: "uid \<Rightarrow> task \<Rightarrow> string option" where
  "partner_name me t =
    (case other_user me t of None \<Rightarrow> None
     | Some _ \<Rightarrow> Some (if me = created_by t then ''Volonter'' else ''Sozdatel''))"

text \<open>Lines 174--185: the preview cut after \<open>n\<close> characters (20 on narrow, 30 on wide screens).\<close>

definition preview :: "nat \<Rightarrow> message option \<Rightarrow> string" where
  "preview n lm =
    (case lm of
       None \<Rightarrow> ''Net soobshcheniy''
     | Some m \<Rightarrow> (if length (msg_text m) > n then take n (msg_text m) @ ''...'' else msg_text m))"

text \<open>
  Lines 152--167: one list item: the partner's initial, the task's title, both
  previews and whether the chat is the selected one.
\<close>

definition list_item :: "uid \<Rightarrow> string option \<Rightarrow> chat_entry \<Rightarrow> string \<times> string \<times> string \<times> string \<times> bool" where
  "list_item me sel c =
    ((case partner_name me (ce_task c) of Some (x # _) \<Rightarrow> [x] | _ \<Rightarrow> ''?''),
     title (ce_task c), preview 20 (ce_last c), preview 30 (ce_last c), sel = Some (ce_task_id c))"

text \<open>Lines 117--119: the selected chat, its task and its messages (\<open>|| []\<close>).\<close>

definition selected_task :: "sidebar \<Rightarrow> task option" where
  "selected_task sb = map_option ce_task (find (\<lambda>c. Some (ce_task_id c) = sb_selected sb) (sb_chats sb))"

definition selected_messages :: "sidebar \<Rightarrow> message list" where
  "selected_messages sb =
    (case sb_selected sb of None \<Rightarrow> [] | Some k \<Rightarrow> (case sb_messages sb k of None \<Rightarrow> [] | Some ms \<Rightarrow> ms))"

datatype sidebar_window = NoWindow | ChatWindow string string "(string \<times> bool) list" bool

text \<open>
  Lines 121--298: nothing for a visitor; otherwise the list and, when a chat of the
  list is selected, the chat window with title, partner, bubbles and the send
  button's state (line 289).
\<close>

definition sidebar_render ::
  "public_user option \<Rightarrow> sidebar \<Rightarrow> ((string \<times> string \<times> string \<times> string \<times> bool) list \<times> sidebar_window) option" where
  "sidebar_render user sb =
    (case user of
       None \<Rightarrow> None
     | Some u \<Rightarrow>
         Some (map (list_item (pub_id u) (sb_selected sb)) (sb_chats sb),
               (case (sb_selected sb, selected_task sb) of
                  (Some k, Some t) \<Rightarrow>
                    ChatWindow (title t)
                      (case partner_name (pub_id u) t of Some x \<Rightarrow> x | None \<Rightarrow> ''Polzovatel'')
                      (map (\<lambda>m. (msg_text m, sender_id m = pub_id u)) (selected_messages sb))
                      (case sb_new sb k of None \<Rightarrow> False | Some x \<Rightarrow> trim x \<noteq> [])
                | _ \<Rightarrow> NoWindow)))"

text \<open>Line 136: the close button of the panel.\<close>

definition close_panel :: "chat_panel \<Rightarrow> chat_panel" where
  "close_panel c = c\<lparr>panel_open := False\<rparr>"

subsection \<open>Properties\<close>

lemma getChatMessages_send_other:
  assumes "sendChatMessage now d st = (st', m)" "k \<noteq> cd_task_id d"
  shows "getChatMessages k st' = getChatMessages k st"
  using assms(2) sendChatMessage_eq [OF assms(1)] by (simp add: getChatMessages_def)

lemma sidebar_send_Some:
  assumes "sidebar_send ts now user k txt st = (st', Some m)"
  obtains u where "user = Some u"
    and "sendChatMessage now \<lparr>cd_task_id = k, cd_sender = pub_id u, cd_text = trim txt, cd_timestamp = ts\<rparr> st = (st', m)"
  using assms by (auto simp: sidebar_send_def split: if_splits option.splits prod.splits)

lemma sidebar_send_None: "sidebar_send ts now user k txt st = (st', None) \<Longrightarrow> st' = st"
  by (auto simp: sidebar_send_def split: if_splits option.splits prod.splits)

lemma chat_entries_send:
  assumes "sendChatMessage now d st = (st', m)"
    and "\<forall>m'\<in>set (getChatMessages (cd_task_id d) st). msg_timestamp m' \<le> cd_timestamp d"
  shows "map (\<lambda>c. if ce_task_id c = cd_task_id d then c\<lparr>ce_last := Some m\<rparr> else c) (chat_entries cts st) =
         chat_entries cts st'"
proof -
  have "last_message k st' = (if k = cd_task_id d then Some m else last_message k st)" for k
    using getChatMessages_send [OF assms] getChatMessages_send_other [OF assms(1), of k]
    by (simp add: last_message_def)
  then show ?thesis by (simp add: chat_entries_def)
qed

text \<open>C31: The sidebar's local update after a send (append to the open chat, replace the
  chat's preview) is equivalent to reloading both from the store, as \<open>loadChats\<close> and
  \<open>loadMessages\<close> would, provided the sidebar was fresh before and the message's time
  stamp is not older than the chat's messages.\<close>

theorem sidebar_send_matches_reload:
  assumes "sb_chats sb = chat_entries cts st"
    and "sb_messages sb k = Some (getChatMessages k st)"
    and "\<forall>m\<in>set (getChatMessages k st). msg_timestamp m \<le> ts"
    and "sb_handleSend ts now user k txt st sb = (st', sb')"
  shows "sb_chats sb' = chat_entries cts st' \<and> sb_messages sb' k = Some (getChatMessages k st')"
proof (cases "snd (sidebar_send ts now user k txt st)")
  case None
  then have "sidebar_send ts now user k txt st = (st, None)"
    using sidebar_send_None by (metis prod.collapse)
  then show ?thesis using assms by (simp add: sb_handleSend_def)
next
  case (Some m)
  then obtain st'' where r: "sidebar_send ts now user k txt st = (st'', Some m)"
    by (metis prod.collapse)
  then obtain u where "user = Some u" and sm: "sendChatMessage now
      \<lparr>cd_task_id = k, cd_sender = pub_id u, cd_text = trim txt, cd_timestamp = ts\<rparr> st = (st'', m)"
    by (rule sidebar_send_Some)
  have "st' = st''"
    and "sb' = sb\<lparr>sb_messages := (sb_messages sb)(k \<mapsto> getChatMessages k st @ [m]), sb_new := (sb_new sb)(k \<mapsto> []),
           sb_chats := map (\<lambda>c. if ce_task_id c = k then c\<lparr>ce_last := Some m\<rparr> else c) (chat_entries cts st)\<rparr>"
    using assms(1,2,4) r by (simp_all add: sb_handleSend_def)
  then show ?thesis
    using chat_entries_send [OF sm, of cts] getChatMessages_send [OF sm] assms(3) by simp
qed

text \<open>
  The effect's dependencies are the user and the number of the user's chat tasks:
  when the tasks change but their number does not, the list keeps showing the old
  tasks.  Here the user's only chat task is replaced by another one.
\<close>

lemma sidebar_stale_chats:
  "sb_chats (sb_effect (Some (strip_password (default_users ! 2))) [seed_task ''7'' ''New'' ''Almaty'' OPEN None 0 10]
      \<lparr>users = [], tasks = [], chat_messages = []\<rparr>
      (sb_effect (Some (strip_password (default_users ! 2))) [seed_task ''6'' ''Old'' ''Almaty'' OPEN None 0 10]
         \<lparr>users = [], tasks = [], chat_messages = []\<rparr> sidebar_init))
   = chat_entries [seed_task ''6'' ''Old'' ''Almaty'' OPEN None 0 10] \<lparr>users = [], tasks = [], chat_messages = []\<rparr>"
proof -
  have u: "pub_id (strip_password (default_users ! 2)) = ''3''"
    by (simp add: default_users_def strip_password_def)
  have "user_tasks (Some (strip_password (default_users ! 2))) [seed_task k ttl ''Almaty'' OPEN None 0 10] =
        [seed_task k ttl ''Almaty'' OPEN None 0 10]" for k ttl
    using u by (simp add: user_tasks_def chat_tasks_def chat_task_def seed_task_def)
  then show ?thesis
    by (simp add: sb_effect_def sb_loadChats_def sidebar_init_def)
qed

subsection \<open>Witnesses\<close>

theorem sidebar_send_matches_reload_witness:
  "sb_chats (snd (sb_handleSend 7 7 (Some (strip_password (default_users ! 1))) ''6'' ''hi'' \<lparr>users = [], tasks = [], chat_messages = []\<rparr>
      (sidebar_init\<lparr>sb_chats := chat_entries [seed_task ''6'' ''Old'' ''Almaty'' IN_PROGRESS (Some ''2'') 0 10]
                      \<lparr>users = [], tasks = [], chat_messages = []\<rparr>, sb_messages := [''6'' \<mapsto> []]\<rparr>)))
   = chat_entries [seed_task ''6'' ''Old'' ''Almaty'' IN_PROGRESS (Some ''2'') 0 10]
       (fst (sb_handleSend 7 7 (Some (strip_password (default_users ! 1))) ''6'' ''hi'' \<lparr>users = [], tasks = [], chat_messages = []\<rparr>
         (sidebar_init\<lparr>sb_chats := chat_entries [seed_task ''6'' ''Old'' ''Almaty'' IN_PROGRESS (Some ''2'') 0 10]
                         \<lparr>users = [], tasks = [], chat_messages = []\<rparr>, sb_messages := [''6'' \<mapsto> []]\<rparr>)))"
proof -
  let ?st = "\<lparr>users = [], tasks = [], chat_messages = []\<rparr>"
  let ?sb = "sidebar_init\<lparr>sb_chats := chat_entries [seed_task ''6'' ''Old'' ''Almaty'' IN_PROGRESS (Some ''2'') 0 10] ?st,
                           sb_messages := [''6'' \<mapsto> []]\<rparr>"
  have h1: "sb_chats ?sb = chat_entries [seed_task ''6'' ''Old'' ''Almaty'' IN_PROGRESS (Some ''2'') 0 10] ?st"
    by simp
  have h2: "sb_messages ?sb ''6'' = Some (getChatMessages ''6'' ?st)"
    by (simp add: getChatMessages_def)
  have h3: "\<forall>m\<in>set (getChatMessages ''6'' ?st). msg_timestamp m \<le> 7"
    by (simp add: getChatMessages_def)
  obtain st' sb' where r: "sb_handleSend 7 7 (Some (strip_password (default_users ! 1))) ''6'' ''hi'' ?st ?sb = (st', sb')"
    by (cases "sb_handleSend 7 7 (Some (strip_password (default_users ! 1))) ''6'' ''hi'' ?st ?sb") blast
  have "sb_chats sb' = chat_entries [seed_task ''6'' ''Old'' ''Almaty'' IN_PROGRESS (Some ''2'') 0 10] st'"
    using sidebar_send_matches_reload [OF h1 h2 h3 r] by blast
  then show ?thesis by (simp only: r fst_conv snd_conv)
qed

end
