(* ===== verification/ProfileView.thy ===== *)
theory ProfileView
  imports Forms
begin

text \<open>
  The profile page \<open>src/src/pages/Profile.jsx\<close> as a component: the record
  \<open>profile_page\<close> holds its four \<open>useState\<close> hooks, each event handler maps store,
  session and page state to new ones, and \<open>profile_render\<close> is what it shows.  The
  submit reuses \<open>profile_submit\<close> of \<open>Forms\<close> (the call of the context); the browser's
  \<open>required\<close> attributes on name and e-mail are its guard, the e-mail syntax check of
  \<open>type="email"\<close> is not modelled.  An error is shown as the API error it carries.
\<close>

record profile_page =
  pp_editing :: bool
  pp_loading :: bool
  pp_error :: "api_error option"
  pp_form :: profile_form

text \<open>Lines 9--17.\<close>

definition empty_profile_form :: profile_form where
  "empty_profile_form = \<lparr>pf_name = [], pf_email = [], pf_phone = [], pf_contact_info = []\<rparr>"

definition profile_page_init :: profile_page where
  "profile_page_init = \<lparr>pp_editing = False, pp_loading = False, pp_error = None, pp_form = empty_profile_form\<rparr>"

text \<open>Lines 20--29: the effect that refills the form whenever the user changes.\<close>

definition pp_sync :: "session \<Rightarrow> profile_page \<Rightarrow> profile_page" where
  "pp_sync s p = (case cur_user s of None \<Rightarrow> p | Some u \<Rightarrow> p\<lparr>pp_form := profile_form_of u\<rparr>)"

text \<open>Line 61: the edit button.\<close>

definition pp_edit :: "profile_page \<Rightarrow> profile_page" where
  "pp_edit p = p\<lparr>pp_editing := True\<rparr>"

datatype profile_field = FieldName | FieldEmail | FieldPhone | FieldContact

text \<open>Lines 84, 97, 110 and 123: \<open>setFormData({...formData, x: e.target.value})\<close>.\<close>

definition pp_input :: "profile_field \<Rightarrow> string \<Rightarrow> profile_page \<Rightarrow> profile_page" where
  "pp_input fld v p =
    (let f = pp_form p in
     p\<lparr>pp_form := (case fld of
                     FieldName \<Rightarrow> f\<lparr>pf_name := v\<rparr>
                   | FieldEmail \<Rightarrow> f\<lparr>pf_email := v\<rparr>
                   | FieldPhone \<Rightarrow> f\<lparr>pf_phone := v\<rparr>
                   | FieldContact \<Rightarrow> f\<lparr>pf_contact_info := v\<rparr>)\<rparr>)"

text \<open>Lines 139--148: cancel closes the editor, refills the form and clears the error.\<close>

definition pp_cancel :: "session \<Rightarrow> profile_page \<Rightarrow> profile_page" where
  "pp_cancel s p =
    p\<lparr>pp_editing := False,
      pp_form := (case cur_user s of None \<Rightarrow> empty_profile_form | Some u \<Rightarrow> profile_form_of u),
      pp_error := None\<rparr>"

text \<open>Lines 86 and 99: the inputs the browser requires before it submits.\<close>

definition profile_form_valid :: "profile_form \<Rightarrow> bool" where
  "profile_form_valid f \<longleftrightarrow> pf_name f \<noteq> [] \<and> pf_email f \<noteq> []"

text \<open>
  Lines 31--48: on success the editor closes, on an error the message is shown; the
  \<open>finally\<close> clause clears the loading flag on both paths.  Without a user the page
  shows only its loading text (line 50), so there is no form to submit.
\<close>

definition pp_submit :: "store \<Rightarrow> session \<Rightarrow> profile_page \<Rightarrow> store \<times> session \<times> profile_page" where
  "pp_submit st s p =
    (if \<not> profile_form_valid (pp_form p) then (st, s, p)
     else case profile_submit (pp_form p) st s of
       None \<Rightarrow> (st, s, p)
     | Some (Inl e) \<Rightarrow> (st, s, p\<lparr>pp_error := Some e, pp_loading := False\<rparr>)
     | Some (Inr (st', s', u)) \<Rightarrow> (st', s', p\<lparr>pp_error := None, pp_editing := False, pp_loading := False\<rparr>))"

datatype profile_screen =
    ProfileLoading
  | ProfileEditor "api_error option" profile_form string
  | ProfileCard "api_error option" string string "string option" string int "string option" "string option"

text \<open>
  Lines 50--197: the loading text without a user; the editor with its save label
  (\<open>'Sokhranenie...'\<close> while saving); or the card with the initial (\<open>user.name?.[0] || 'U'\<close>),
  name, e-mail, role label, \<open>user.points || 0\<close>, and phone and contacts only when
  they are truthy.
\<close>

definition profile_render :: "session \<Rightarrow> profile_page \<Rightarrow> profile_screen" where
  "profile_render s p =
    (case cur_user s of
       None \<Rightarrow> ProfileLoading
     | Some u \<Rightarrow>
         (if pp_editing p
          then ProfileEditor (pp_error p) (pp_form p) (if pp_loading p then ''Sokhranenie...'' else ''Sokhranit'')
          else ProfileCard (pp_error p)
                 (case pub_name u of [] \<Rightarrow> ''U'' | c # _ \<Rightarrow> [c]) (pub_name u) (pub_email u)
                 (if pub_role u = ADMIN then ''Administrator'' else ''Volonter'')
                 (or_zero (pub_points u))
                 (if truthy_id (pub_phone u) then pub_phone u else None)
                 (if truthy_id (pub_contact_info u) then pub_contact_info u else None)))"

subsection \<open>Properties\<close>

lemma profile_form_of_patched:
  "profile_form_of (strip_password (apply_patch (profile_patch (pf_name f) (pf_email f) (pf_phone f) (pf_contact_info f)) x)
                      \<lparr>pub_role := r\<rparr>) = f"
  by (simp add: profile_form_of_def strip_password_def apply_patch_def profile_patch_def str_or_empty_def)

text \<open>
  Saving the profile of a stored user closes the editor without error, and the form the
  effect refills from the updated user is exactly the form that was saved: the page's
  values go through \<open>updateUser\<close> and the context and come back unchanged.
\<close>

lemma profile_save_roundtrip:
  assumes "cur_user s = Some u" "find_user (pub_id u) (users st) \<noteq> None"
    and "profile_form_valid (pp_form p)" "pp_submit st s p = (st', s', p')"
  shows "pp_form (pp_sync s' p') = pp_form p \<and> \<not> pp_editing p' \<and> pp_error p' = None"
proof -
  obtain x where x: "find_user (pub_id u) (users st) = Some x" using assms(2) by blast
  let ?f = "pp_form p"
  let ?u' = "(strip_password (apply_patch (profile_patch (pf_name ?f) (pf_email ?f) (pf_phone ?f) (pf_contact_info ?f)) x))
               \<lparr>pub_role := pub_role u\<rparr>"
  have "s' = set_user (Some ?u') s" "\<not> pp_editing p'" "pp_error p' = None"
    using assms(1,3,4) x
    by (auto simp: pp_submit_def profile_submit_def ctx_updateUser_def updateUser_def Let_def)
  then show ?thesis
    using profile_form_of_patched [where f = ?f and x = x and r = "pub_role u"]
    by (simp add: pp_sync_def set_user_def)
qed

end
