(* ===== verification/Details.thy ===== *)
theory Details
  imports TaskCard
begin

text \<open>
  The task details modal \<open>src/Volonter-Hub-main/src/components/TaskDetailsModal.jsx\<close>
  as a whole: what it renders for an open modal, composed from the contact cards of
  \<open>TaskCard\<close> (\<open>creator_card\<close>, \<open>volunteer_card\<close>).  The look-up effect of lines
  9--31 is taken as finished, so the loading line is not shown; the date formatting
  and the image fallbacks of \<open>onError\<close> are presentation.  The card's own state (which
  of its two modals is open) and the body of the card are here as well, so that the
  card opens the modal the way \<open>TaskCard.jsx\<close> does.
\<close>

record details =
  dt_title :: string
  dt_created :: timestamp
  dt_image :: "string option"
  dt_description :: string
  dt_city :: string
  dt_points :: "int option"
  dt_address :: "string option"
  dt_images :: "string list"
  dt_creator :: "(string \<times> string option \<times> string option \<times> string option) option"
  dt_volunteer :: "(string \<times> string option) option"
  dt_report :: "(string \<times> string option) option"

text \<open>Lines 222--240: the report, with the photo link only when its URL is truthy.\<close>

definition report_view :: "task \<Rightarrow> (string \<times> string option) option" where
  "report_view t =
    map_option (\<lambda>r. (report_description r,
                      if truthy_str (report_image_url r) then Some (report_image_url r) else None)) (report t)"

text \<open>
  Lines 33--249: nothing when the modal is closed or has no task; otherwise the title
  and creation time, the photo (\<open>task.imageUrl &&\<close>), description, city and reward, the
  address when truthy, the photo list when non-empty, the two contact cards and the
  report.
\<close>

definition details_render :: "bool \<Rightarrow> store \<Rightarrow> session \<Rightarrow> task option \<Rightarrow> details option" where
  "details_render opn st s task =
    (case task of
       None \<Rightarrow> None
     | Some t \<Rightarrow>
         (if \<not> opn then None
          else Some \<lparr>dt_title = title t, dt_created = created_at t,
                     dt_image = shown_str (image_url t), dt_description = description t,
                     dt_city = city t, dt_points = task_points t,
                     dt_address = (if truthy_str (address t) then Some (address t) else None),
                     dt_images = images t,
                     dt_creator = creator_card st s t, dt_volunteer = volunteer_card st s t,
                     dt_report = report_view t\<rparr>))"

subsection \<open>The card around the modal\<close>

text \<open>\<open>TaskCard.jsx\<close> lines 20--22: which modal is open and the report's loading flag.\<close>

record card_state =
  cs_complete_open :: bool
  cs_details_open :: bool
  cs_loading :: bool

definition card_state_init :: card_state where
  "card_state_init = \<lparr>cs_complete_open = False, cs_details_open = False, cs_loading = False\<rparr>"

text \<open>Lines 26 and 264: the complete button opens the report modal, its close button closes it.\<close>

definition card_open_complete :: "card_state \<Rightarrow> card_state" where
  "card_open_complete c = c\<lparr>cs_complete_open := True\<rparr>"

definition card_close_complete :: "card_state \<Rightarrow> card_state" where
  "card_close_complete c = c\<lparr>cs_complete_open := False\<rparr>"

text \<open>Lines 117 and 271: the title opens the details modal, its close button closes it.\<close>

definition card_open_details :: "card_state \<Rightarrow> card_state" where
  "card_open_details c = c\<lparr>cs_details_open := True\<rparr>"

definition card_close_details :: "card_state \<Rightarrow> card_state" where
  "card_close_details c = c\<lparr>cs_details_open := False\<rparr>"

text \<open>Line 125: the report is shown on the card to admins, the creator and the assignee.\<close>

definition card_report_visible :: "session \<Rightarrow> task \<Rightarrow> bool" where
  "card_report_visible s t \<longleftrightarrow>
     report t \<noteq> None \<and> (isAdmin s \<or> is_me (Some (created_by t)) s \<or> is_me (assigned_to t) s)"

text \<open>
  Lines 94--153: the status label, title, description, the report when visible, the
  city and the reward (\<open>{task.points}\<close>, absent for a task without points).
\<close>

definition card_body ::
  "session \<Rightarrow> task \<Rightarrow> string \<times> string \<times> string \<times> (string \<times> string option) option \<times> string \<times> int option" where
  "card_body s t =
    (status_label (status t), title t, description t,
     (if card_report_visible s t then report_view t else None), city t, task_points t)"

text \<open>Lines 269--275: the details modal of the card, open when the card's flag is set.\<close>

definition card_details :: "store \<Rightarrow> session \<Rightarrow> task \<Rightarrow> card_state \<Rightarrow> details option" where
  "card_details st s t c = details_render (cs_details_open c) st s (Some t)"

subsection \<open>Properties\<close>

text \<open>
  The card hides the report from users who are neither admin, creator nor assignee,
  but the details modal it opens shows the report to everyone (line 222 of the modal
  has no such condition).
\<close>

lemma details_report_unguarded:
  assumes "report t = Some r" "\<not> card_report_visible s t" "cs_details_open c"
  shows "fst (snd (snd (snd (card_body s t)))) = None \<and>
         map_option dt_report (card_details st s t c) = Some (report_view t) \<and> report_view t \<noteq> None"
  using assms by (simp add: card_body_def card_details_def details_render_def report_view_def)

end
