(* ===== verification/UserDash.thy ===== *)
theory UserDash
  imports Complex_Main Dashboards
begin

text \<open>
  The volunteer's dashboard \<open>src/Volonter-Hub-main/src/components/dashboards/UserDashboard.jsx\<close>
  as a component: its state (tab, sort, whether a location is known), the buttons and
  the geolocation effect that change it, and the page it renders, built from the
  filters and sorts of \<open>Dashboards\<close>.  Distances are the haversine values in km, a
  given function \<open>km\<close> of the task (the trigonometry of \<open>calculateDistance\<close> is not
  modelled); a distance of 0 is falsy and shows no badge.  \<open>toFixed(1)\<close> is
  formatting: the kilometre label carries the distance itself.
\<close>

record user_dash =
  ud_tab :: tab
  ud_sort :: sort_mode
  ud_location :: bool

text \<open>Lines 41--43.\<close>

definition ud_init :: user_dash where
  "ud_init = \<lparr>ud_tab = Feed, ud_sort = SortDistance, ud_location = False\<rparr>"

text \<open>Lines 52--69: the position or, on failure or without the API, Almaty; a location is known either way.\<close>

definition ud_locate :: "user_dash \<Rightarrow> user_dash" where
  "ud_locate ud = ud\<lparr>ud_location := True\<rparr>"

text \<open>Lines 277--292: the refresh button; a failure only alerts.\<close>

definition ud_refresh :: "bool \<Rightarrow> user_dash \<Rightarrow> user_dash" where
  "ud_refresh ok ud = (if ok then ud\<lparr>ud_location := True\<rparr> else ud)"

text \<open>Lines 165, 180, 195 and 220, 230, 240: the tab and sort buttons.\<close>

definition ud_set_tab :: "tab \<Rightarrow> user_dash \<Rightarrow> user_dash" where
  "ud_set_tab tb ud = ud\<lparr>ud_tab := tb\<rparr>"

definition ud_set_sort :: "sort_mode \<Rightarrow> user_dash \<Rightarrow> user_dash" where
  "ud_set_sort m ud = ud\<lparr>ud_sort := m\<rparr>"

datatype dist_label = Meters int | Km real

text \<open>
  Lines 332--337, 345--350 and 376--381: \<open>task.distance && (d < 1 ? Math.round(d * 1000)
  + ' m' : d.toFixed(1) + ' km')\<close>; \<open>Math.round\<close> rounds halves up, as \<open>round\<close> does.
\<close>

definition distance_badge :: "real \<Rightarrow> dist_label option" where
  "distance_badge d =
    (if d = 0 then None else if d < 1 then Some (Meters (round (d * 1000))) else Some (Km d))"

text \<open>Lines 355--365: \<open>+{n - k} more\<close> when more than \<open>k\<close> tasks are available.\<close>

definition more_count :: "nat \<Rightarrow> nat \<Rightarrow> nat option" where
  "more_count n k = (if n > k then Some (n - k) else None)"

datatype tab_body =
    FeedEmpty
  | FeedBody "((string \<times> dist_label option) list \<times> (string \<times> dist_label option) list \<times> nat option \<times> nat option) option"
      "(task \<times> dist_label option) list"
  | MineEmpty
  | MineCards "task list"
  | WorkEmpty
  | WorkCards "task list"

datatype dash_screen =
    DashLoading
  | DashPage string "int \<times> nat \<times> nat" "nat option \<times> nat option \<times> nat option" tab tab_body

text \<open>
  Lines 125--452: the loading text while the context loads or without a user;
  otherwise the greeting, the header counters, the tab badges (shown when the list is
  not empty) and the active tab's body.  The feed shows the sort buttons and the map
  section (only with a known location: city chips of the first 3 and 6 tasks and the
  \<open>more\<close> counters) and a card per task with its distance badge; a task carries a
  distance only when the feed was computed with a location (line 78).
\<close>

definition user_dash_render ::
  "bool \<Rightarrow> session \<Rightarrow> task list \<Rightarrow> (task \<Rightarrow> real) \<Rightarrow> user_dash \<Rightarrow> dash_screen" where
  "user_dash_render auth_loading s ts km ud =
    (case (auth_loading, cur_user s, user_header s ts) of
       (False, Some u, Some h) \<Rightarrow>
         (let av = available_tasks (ud_sort ud) (ud_location ud) km s ts;
              mc = my_created_tasks s ts;
              ip = my_in_progress_tasks s ts;
              cnt = (\<lambda>xs. if xs = [] then None else Some (length xs));
              badge = (\<lambda>t. if ud_location ud then distance_badge (km t) else None);
              chips = (\<lambda>k. map (\<lambda>t. (city t, badge t)) (take k av))
          in DashPage (pub_name u) h (cnt av, cnt mc, cnt ip) (ud_tab ud)
               (case ud_tab ud of
                  Feed \<Rightarrow>
                    (if av = [] then FeedEmpty
                     else FeedBody
                            (if ud_location ud
                             then Some (chips 3, chips 6, more_count (length av) 3, more_count (length av) 6)
                             else None)
                            (map (\<lambda>t. (t, badge t)) av))
                | My \<Rightarrow> (if mc = [] then MineEmpty else MineCards mc)
                | InProgress \<Rightarrow> (if ip = [] then WorkEmpty else WorkCards ip)))
     | _ \<Rightarrow> DashLoading)"

subsection \<open>Properties\<close>

lemma round_1000_iff:
  fixes d :: real
  assumes "d < 1"
  shows "round (d * 1000) = 1000 \<longleftrightarrow> 9995 / 10000 \<le> d"
proof -
  have "round (d * 1000) = 1000 \<longleftrightarrow> 1000 \<le> d * 1000 + 1 / 2 \<and> d * 1000 + 1 / 2 < 1001"
    unfolding round_def by (simp add: floor_eq_iff)
  also have "\<dots> \<longleftrightarrow> 9995 / 10000 \<le> d" using assms by auto
  finally show ?thesis .
qed

text \<open>C22: For a distance d >= 0, the metre badge is shown exactly for 0 < d < 1 km, its number lies between 0 and 1000, and it reads "1000 m" exactly for 0.9995 <= d < 1: rounding reaches 1000 just below a kilometre instead of switching to "1.0 km".\<close>

theorem distance_badge_meters:
  assumes "0 \<le> d"
  shows "((\<exists>m. distance_badge d = Some (Meters m)) \<longleftrightarrow> 0 < d \<and> d < 1) \<and>
    (distance_badge d = Some (Meters m) \<longrightarrow> 0 \<le> m \<and> m \<le> 1000) \<and>
    (distance_badge d = Some (Meters 1000) \<longleftrightarrow> 9995 / 10000 \<le> d \<and> d < 1)"
proof (intro conjI impI)
  show "(\<exists>m. distance_badge d = Some (Meters m)) \<longleftrightarrow> 0 < d \<and> d < 1"
    using assms by (auto simp: distance_badge_def)
next
  assume b: "distance_badge d = Some (Meters m)"
  then have d: "d < 1" and m: "m = round (d * 1000)"
    by (auto simp: distance_badge_def split: if_splits)
  have "round (0::real) \<le> round (d * 1000)"
    by (rule round_mono) (use assms in simp)
  moreover have "round (d * 1000) \<le> round (1000::real)"
    by (rule round_mono) (use d in simp)
  ultimately show "0 \<le> m" "m \<le> 1000" using m by simp_all
next
  show "distance_badge d = Some (Meters 1000) \<longleftrightarrow> 9995 / 10000 \<le> d \<and> d < 1"
  proof
    assume "distance_badge d = Some (Meters 1000)"
    then have "d < 1" "round (d * 1000) = 1000" by (auto simp: distance_badge_def split: if_splits)
    then show "9995 / 10000 \<le> d \<and> d < 1" using round_1000_iff by blast
  next
    assume r: "9995 / 10000 \<le> d \<and> d < 1"
    then have "round (d * 1000) = 1000" using round_1000_iff by blast
    moreover have "d \<noteq> 0" using r by auto
    ultimately show "distance_badge d = Some (Meters 1000)" using r by (simp add: distance_badge_def)
  qed
qed

subsection \<open>Witnesses\<close>

theorem distance_badge_meters_witness:
  "distance_badge (9996 / 10000) = Some (Meters 1000) \<and> (0::int) \<le> 1000 \<and> (1000::int) \<le> 1000 \<and>
   9995 / 10000 \<le> (9996 / 10000 :: real) \<and> (9996 / 10000 :: real) < 1"
  using distance_badge_meters [of "9996 / 10000" 1000] by simp

end
