(* ===== verification/AuthPages.thy ===== *)
theory AuthPages
  imports Forms
begin

text \<open>
  The login page \<open>src/src/components/LoginForm.jsx\<close> and the registration page
  \<open>src/src/pages/Register.jsx\<close> as components: the inputs that edit their forms, the
  browser's \<open>required\<close> check before the submit handlers of \<open>Forms\<close>, the navigation
  that follows a success, and the screen each renders.  A submit returns the new
  form, session and store and the path navigated to, if any.
\<close>

subsection \<open>Error messages\<close>

text \<open>The \<open>message\<close> of each \<open>Error\<close> the API and the task context throw (transliterated).\<close>

definition api_message :: "api_error \<Rightarrow> string" where
  "api_message e =
    (case e of
       TaskNotFound \<Rightarrow> ''Zadanie ne naideno''
     | TaskAlreadyTaken \<Rightarrow> ''Zadanie uzhe vzyato drugim volonterom''
     | InvalidCredentials \<Rightarrow> ''Nevernyi login ili parol''
     | LoginExists \<Rightarrow> ''Polzovatel s takim loginom uzhe sushchestvuet''
     | UserNotFound \<Rightarrow> ''Polzovatel ne naiden''
     | NotAuthorized \<Rightarrow> ''Polzovatel ne avtorizovan'')"

subsection \<open>Login page\<close>

datatype login_field = LoginInput | PasswordInput

text \<open>Lines 44 and 54.\<close>

definition lp_input :: "login_field \<Rightarrow> string \<Rightarrow> login_form \<Rightarrow> login_form" where
  "lp_input fld v f = (case fld of LoginInput \<Rightarrow> f\<lparr>lf_login := v\<rparr> | PasswordInput \<Rightarrow> f\<lparr>lf_password := v\<rparr>)"

text \<open>Lines 45 and 55: both inputs are \<open>required\<close>.\<close>

definition login_valid :: "login_form \<Rightarrow> bool" where
  "login_valid f \<longleftrightarrow> lf_login f \<noteq> [] \<and> lf_password f \<noteq> []"

text \<open>Lines 13--26 behind the browser's check.\<close>

definition login_page_submit :: "login_form \<Rightarrow> store \<Rightarrow> session \<Rightarrow> login_form \<times> session \<times> string option" where
  "login_page_submit f st s = (if login_valid f then login_submit f st s else (f, s, None))"

datatype auth_screen = AuthScreen string "string option" string

text \<open>Lines 28--67: title, error and the submit button's label (\<open>'Vkhod...'\<close> while loading).\<close>

definition login_render :: "bool \<Rightarrow> login_form \<Rightarrow> auth_screen" where
  "login_render loading f = AuthScreen ''Vkhod'' (lf_error f) (if loading then ''Vkhod...'' else ''Voiti'')"

subsection \<open>Registration page\<close>

record register_page =
  rp_data :: register_data
  rp_error :: "api_error option"

text \<open>Lines 6--13.\<close>

definition register_page_init :: register_page where
  "register_page_init = \<lparr>rp_data = \<lparr>reg_login = [], reg_password = [], reg_name = [], reg_email = []\<rparr>,
     rp_error = None\<rparr>"

datatype reg_field = RegLogin | RegPassword | RegName | RegEmail

text \<open>Lines 17--22: \<open>[e.target.name]: e.target.value\<close>.\<close>

definition rp_input :: "reg_field \<Rightarrow> string \<Rightarrow> register_page \<Rightarrow> register_page" where
  "rp_input fld v p =
    (let d = rp_data p in
     p\<lparr>rp_data := (case fld of
                     RegLogin \<Rightarrow> d\<lparr>reg_login := v\<rparr>
                   | RegPassword \<Rightarrow> d\<lparr>reg_password := v\<rparr>
                   | RegName \<Rightarrow> d\<lparr>reg_name := v\<rparr>
                   | RegEmail \<Rightarrow> d\<lparr>reg_email := v\<rparr>)\<rparr>)"

text \<open>
  Lines 24--37: the error is cleared, the context registers, and a success navigates
  to the dashboard; a failure shows the API's error.  A blocked submission changes
  nothing.
\<close>

definition rp_submit ::
  "timestamp \<Rightarrow> store \<Rightarrow> session \<Rightarrow> register_page \<Rightarrow> store \<times> session \<times> register_page \<times> string option" where
  "rp_submit now st s p =
    (case register_submit now (rp_data p) st s of
       None \<Rightarrow> (st, s, p, None)
     | Some (Inl e) \<Rightarrow> (st, s, p\<lparr>rp_error := Some e\<rparr>, None)
     | Some (Inr (st', s', u)) \<Rightarrow> (st', s', p\<lparr>rp_error := None\<rparr>, Some ''/dashboard''))"

text \<open>Lines 39--122: \<open>err.message || 'Oshibka registratsii'\<close>; every message is non-empty.\<close>

definition register_render :: "bool \<Rightarrow> register_page \<Rightarrow> auth_screen" where
  "register_render loading p =
    AuthScreen ''Registratsiya'' (map_option api_message (rp_error p))
      (if loading then ''Registratsiya...'' else ''Sozdat akkaunt'')"

subsection \<open>Properties\<close>

text \<open>
  The quick-login button for the first demo volunteer fills a form that passes the
  browser's check, and submitting it signs that user in and navigates to the dashboard,
  on the store of a first visit.
\<close>

lemma demo_user1_login:
  "login_page_submit (demo_fill DemoUser1 \<lparr>lf_login = [], lf_password = [], lf_error = None\<rparr>)
     (first_visit 1000000000) s =
   (\<lparr>lf_login = ''user1'', lf_password = ''123'', lf_error = None\<rparr>,
    set_user (Some (strip_password (default_users ! 1))) s, Some ''/dashboard'')"
  by (simp add: login_page_submit_def login_valid_def demo_fill_def login_submit_def ctx_login_def
      login_api_def seed_simps credentials_match_def)

text \<open>Registering a login that exists leaves store and session as they were and shows the API's message.\<close>

lemma register_taken_login:
  assumes "register_valid (rp_data p)" "\<exists>u\<in>set (users st). login u = reg_login (rp_data p)"
  shows "rp_submit now st s p = (st, s, p\<lparr>rp_error := Some LoginExists\<rparr>, None) \<and>
         register_render False (p\<lparr>rp_error := Some LoginExists\<rparr>) =
           AuthScreen ''Registratsiya'' (Some ''Polzovatel s takim loginom uzhe sushchestvuet'') ''Sozdat akkaunt''"
proof -
  have "find (\<lambda>u. login u = reg_login (rp_data p)) (users st) \<noteq> None"
    using assms(2) by (auto simp: find_None_iff)
  then show ?thesis
    using assms(1) by (simp add: rp_submit_def register_submit_def ctx_register_def register_def
      register_render_def api_message_def)
qed

end
