(* ===== verification/TaskForms.thy ===== *)
theory TaskForms
  imports AuthPages
begin

text \<open>
  The remaining page-level state of the task forms and of the admin's dashboard: the
  create-task page around \<open>create_submit\<close> (its error line, navigation and button),
  the report modal \<open>CompleteTaskModal.jsx\<close> around \<open>complete_submit\<close>, and the user
  list the admin's dashboard loads before it renders.
\<close>

subsection \<open>Create-task page\<close>

text \<open>
  \<open>CreateTaskForm.jsx\<close> lines 24--55: the error line after a submit.  A submission the
  browser blocks does not run the handler, so the old error stays; a missing location
  and a failed \<open>createTask\<close> show their messages; a success navigates to the dashboard.
\<close>

definition create_page_submit ::
  "timestamp \<Rightarrow> create_form \<Rightarrow> string option \<Rightarrow> store \<Rightarrow> session \<Rightarrow> store \<times> session \<times> string option \<times> string option" where
  "create_page_submit now f err st s =
    (case create_submit now f st s of
       (st', s', Blocked) \<Rightarrow> (st', s', err, None)
     | (st', s', LocationMissing) \<Rightarrow> (st', s', Some ''Pozhaluista, vyberite mestopolozhenie zadaniya'', None)
     | (st', s', CreateFailed e) \<Rightarrow> (st', s', Some (api_message e), None)
     | (st', s', Created t) \<Rightarrow> (st', s', None, Some ''/dashboard''))"

text \<open>Lines 184--209: the error line, the submit label and the cancel button's target.\<close>

definition create_page_render :: "bool \<Rightarrow> string option \<Rightarrow> string option \<times> string \<times> string" where
  "create_page_render loading err =
    (err, if loading then ''Sozdanie...'' else ''Opublikovat zadanie'', ''/dashboard'')"

subsection \<open>Report modal\<close>

text \<open>\<open>CompleteTaskModal.jsx\<close> lines 4--5.\<close>

record complete_modal =
  cm_description :: string
  cm_image_url :: string

definition complete_modal_init :: complete_modal where
  "complete_modal_init = \<lparr>cm_description = [], cm_image_url = []\<rparr>"

text \<open>Lines 9--12: the report handed to the card, behind the two required inputs.\<close>

definition complete_modal_submit :: "complete_modal \<Rightarrow> report option" where
  "complete_modal_submit m = complete_submit (cm_description m) (cm_image_url m)"

text \<open>Lines 7 and 14--73: nothing when closed, else the form with its submit label.\<close>

definition complete_modal_render :: "bool \<Rightarrow> bool \<Rightarrow> complete_modal \<Rightarrow> (complete_modal \<times> string) option" where
  "complete_modal_render opn loading m =
    (if \<not> opn then None else Some (m, if loading then ''Otpravka...'' else ''Otpravit otchet''))"

subsection \<open>Admin dashboard loading\<close>

text \<open>\<open>AdminDashboard.jsx\<close> lines 9--10 and 12--24: the users are loaded once; the page shows its loading text until then.\<close>

record admin_state =
  ad_users :: "public_user list"
  ad_loading :: bool

definition admin_state_init :: admin_state where
  "admin_state_init = \<lparr>ad_users = [], ad_loading = True\<rparr>"

definition admin_fetch :: "store \<Rightarrow> admin_state \<Rightarrow> admin_state" where
  "admin_fetch st a = a\<lparr>ad_users := getUsers st, ad_loading := False\<rparr>"

end
