(* ===== verification/Upload.thy ===== *)
theory Upload
  imports Prelude
begin

text \<open>
  The photo widget \<open>src/src/components/ImageUpload.jsx\<close> of the create-task form.
  A drop or a file pick starts one \<open>FileReader\<close> per accepted file; each reader's
  \<open>onload\<close> appends its file later, in any order.  The state is the list of loaded
  images and the list of files whose readers are still running; an event sequence is
  an explicit interleaving of user actions and reader completions.  The cap is
  computed from the images of the last render (\<open>images.length\<close> in the closure), not
  from the files still being read.  A file's preview is its data URL \<open>uf_data\<close>.
\<close>

record upload_file =
  uf_type :: string
  uf_data :: string

record upload =
  up_images :: "upload_file list"
  up_pending :: "upload_file list"
  up_drag :: bool

definition upload_init :: upload where
  "upload_init = \<lparr>up_images = [], up_pending = [], up_drag = False\<rparr>"

text \<open>Line 10: \<open>file.type.startsWith('image/')\<close>.\<close>

definition is_image :: "upload_file \<Rightarrow> bool" where
  "is_image f \<longleftrightarrow> take 6 (uf_type f) = ''image/''"

text \<open>\<open>Array.prototype.slice(0, e)\<close>: a negative end counts from the end of the list.\<close>

definition slice_to :: "'a list \<Rightarrow> int \<Rightarrow> 'a list" where
  "slice_to xs e = (if 0 \<le> e then take (nat e) xs else take (nat (int (length xs) + e)) xs)"

text \<open>Lines 8--24: the accepted files, cut to \<open>maxImages - images.length\<close>, start reading.\<close>

definition handleFiles :: "nat \<Rightarrow> upload_file list \<Rightarrow> upload \<Rightarrow> upload" where
  "handleFiles mx fs u =
    u\<lparr>up_pending := up_pending u @ slice_to (filter is_image fs) (int mx - int (length (up_images u)))\<rparr>"

text \<open>Lines 15--20: reader \<open>i\<close> finishes and its file is appended to the images.\<close>

definition reader_loaded :: "nat \<Rightarrow> upload \<Rightarrow> upload" where
  "reader_loaded i u =
    (if i < length (up_pending u)
     then u\<lparr>up_images := up_images u @ [up_pending u ! i],
            up_pending := take i (up_pending u) @ drop (Suc i) (up_pending u)\<rparr>
     else u)"

text \<open>Lines 52--58: \<open>prev.filter((_, i) => i !== index)\<close>.\<close>

definition removeImage :: "nat \<Rightarrow> upload \<Rightarrow> upload" where
  "removeImage i u = u\<lparr>up_images := take i (up_images u) @ drop (Suc i) (up_images u)\<rparr>"

datatype upload_event = Drop "upload_file list" | Pick "upload_file list" | Loaded nat | Remove nat
  | DragOver | DragLeave

text \<open>
  Lines 26--50: drag events set the highlight; a drop (lines 36--44) or a pick from the
  file dialog (lines 46--50) with at least one file calls \<open>handleFiles\<close>.
\<close>

fun upload_step :: "nat \<Rightarrow> upload_event \<Rightarrow> upload \<Rightarrow> upload" where
  "upload_step mx (Drop fs) u = (let u' = u\<lparr>up_drag := False\<rparr> in if fs = [] then u' else handleFiles mx fs u')"
| "upload_step mx (Pick fs) u = (if fs = [] then u else handleFiles mx fs u)"
| "upload_step mx (Loaded i) u = reader_loaded i u"
| "upload_step mx (Remove i) u = removeImage i u"
| "upload_step mx DragOver u = u\<lparr>up_drag := True\<rparr>"
| "upload_step mx DragLeave u = u\<lparr>up_drag := False\<rparr>"

definition upload_run :: "nat \<Rightarrow> upload_event list \<Rightarrow> upload \<Rightarrow> upload" where
  "upload_run mx es u = fold (upload_step mx) es u"

text \<open>Line 18: what \<open>onImagesChange\<close> hands to the form, the previews.\<close>

definition upload_previews :: "upload \<Rightarrow> string list" where
  "upload_previews u = map uf_data (up_images u)"

text \<open>
  Lines 59--140: the drop zone (highlighted while dragging, with the limit in its hint)
  and, when there are images, each preview with the index its remove button passes.
\<close>

record upload_screen =
  us_highlight :: bool
  us_limit :: nat
  us_previews :: "(string \<times> nat) list"

definition upload_render :: "nat \<Rightarrow> upload \<Rightarrow> upload_screen" where
  "upload_render mx u =
    \<lparr>us_highlight = up_drag u, us_limit = mx,
     us_previews = zip (map uf_data (up_images u)) [0..<length (up_images u)]\<rparr>"

text \<open>An interleaving in which every drop or pick waits until no reader is running.\<close>

fun starts_files :: "upload_event \<Rightarrow> bool" where
  "starts_files (Drop fs) = (fs \<noteq> [])"
| "starts_files (Pick fs) = (fs \<noteq> [])"
| "starts_files _ = False"

fun sequential :: "nat \<Rightarrow> upload_event list \<Rightarrow> upload \<Rightarrow> bool" where
  "sequential mx [] u = True"
| "sequential mx (e # es) u = ((starts_files e \<longrightarrow> up_pending u = []) \<and> sequential mx es (upload_step mx e u))"

subsection \<open>Properties\<close>

lemma length_slice_to_le: "0 \<le> e \<Longrightarrow> length (slice_to xs e) \<le> nat e"
  by (simp add: slice_to_def)

text \<open>Loaded and pending files together stay within the cap, for every step that does not start reading while readers run.\<close>

lemma upload_step_bound:
  assumes "length (up_images u) + length (up_pending u) \<le> mx"
    and "starts_files e \<longrightarrow> up_pending u = []"
  shows "length (up_images (upload_step mx e u)) + length (up_pending (upload_step mx e u)) \<le> mx"
proof (cases e)
  case (Drop fs)
  show ?thesis
  proof (cases "fs = []")
    case False
    have "length (slice_to (filter is_image fs) (int mx - int (length (up_images u)))) \<le> mx - length (up_images u)"
      using length_slice_to_le [of "int mx - int (length (up_images u))" "filter is_image fs"] assms(1) by linarith
    then show ?thesis using Drop False assms by (simp add: handleFiles_def Let_def)
  qed (use Drop assms in simp)
next
  case (Pick fs)
  show ?thesis
  proof (cases "fs = []")
    case False
    have "length (slice_to (filter is_image fs) (int mx - int (length (up_images u)))) \<le> mx - length (up_images u)"
      using length_slice_to_le [of "int mx - int (length (up_images u))" "filter is_image fs"] assms(1) by linarith
    then show ?thesis using Pick False assms by (simp add: handleFiles_def)
  qed (use Pick assms in simp)
next
  case (Loaded i)
  then show ?thesis using assms(1) by (auto simp: reader_loaded_def min_def)
next
  case (Remove i)
  then show ?thesis using assms(1) by (simp add: removeImage_def)
qed (use assms in simp_all)

text \<open>C28: When no drop or pick starts while earlier files are still being read, the widget never hands the form more than \<open>maxImages\<close> photos, whatever the files, removals and reading order.\<close>

theorem upload_sequential_bound:
  assumes "sequential mx es u" and "length (up_images u) + length (up_pending u) \<le> mx"
  shows "length (upload_previews (upload_run mx es u)) \<le> mx"
proof -
  have "length (up_images (fold (upload_step mx) es u)) + length (up_pending (fold (upload_step mx) es u)) \<le> mx"
    using assms
  proof (induction es arbitrary: u)
    case (Cons e es)
    then show ?case using upload_step_bound [of u mx e] by simp
  qed simp
  then show ?thesis by (simp add: upload_run_def upload_previews_def)
qed

text \<open>
  Two drops of five photos before the first five have been read: the second drop
  still sees no loaded image and starts five more readers, so the form receives ten
  photos although the widget says at most five.
\<close>

lemma upload_overlap_exceeds:
  "length (upload_previews (upload_run 5
     ([Drop (replicate 5 \<lparr>uf_type = ''image/png'', uf_data = ''p''\<rparr>),
       Drop (replicate 5 \<lparr>uf_type = ''image/png'', uf_data = ''p''\<rparr>)] @ replicate 10 (Loaded 0))
     upload_init)) = 10"
  by (simp add: upload_run_def upload_init_def handleFiles_def slice_to_def is_image_def reader_loaded_def
      upload_previews_def numeral_eq_Suc)

subsection \<open>Witnesses\<close>

theorem upload_sequential_bound_witness:
  "sequential 5 ([Drop (replicate 5 \<lparr>uf_type = ''image/png'', uf_data = ''p''\<rparr>)] @ replicate 5 (Loaded 0) @
                  [Drop (replicate 5 \<lparr>uf_type = ''image/png'', uf_data = ''p''\<rparr>)]) upload_init \<and>
   length (upload_previews (upload_run 5 ([Drop (replicate 5 \<lparr>uf_type = ''image/png'', uf_data = ''p''\<rparr>)] @
      replicate 5 (Loaded 0) @ [Drop (replicate 5 \<lparr>uf_type = ''image/png'', uf_data = ''p''\<rparr>)]) upload_init)) \<le> 5"
proof -
  have sq: "sequential 5 ([Drop (replicate 5 \<lparr>uf_type = ''image/png'', uf_data = ''p''\<rparr>)] @ replicate 5 (Loaded 0) @
                  [Drop (replicate 5 \<lparr>uf_type = ''image/png'', uf_data = ''p''\<rparr>)]) upload_init"
    by (simp add: upload_init_def handleFiles_def slice_to_def is_image_def reader_loaded_def numeral_eq_Suc)
  have "length (up_images upload_init) + length (up_pending upload_init) \<le> 5"
    by (simp add: upload_init_def)
  from upload_sequential_bound [OF sq this] sq show ?thesis by simp
qed

end
