(* ===== verification/Geo.thy ===== *)
theory Geo
  imports Complex_Main Seed
begin

text \<open>
  Coordinates and great-circle distances: \<open>src/Volonter-Hub-main/src/utils/geolocation.js\<close>
  (\<open>BASE_COORDS\<close>, \<open>deg2rad\<close>, \<open>getDistanceFromLatLonInKm\<close>, \<open>getUserLocation\<close>) and the
  copy of the haversine formula \<open>calculateDistance\<close> with its city table in
  \<open>UserDashboard.jsx\<close>, together with the coordinates the volunteer's feed gives each
  task (\<open>task_geo_of\<close> reads a stored task's coordinates).  JavaScript numbers are reals: the model has no rounding error, no \<open>NaN\<close> and no
  signed zero; \<open>Math.atan2\<close> is \<open>atan2\<close> below on finite arguments.  A coordinate field
  of a task that is absent or 0 is falsy in JavaScript; a stored field is a
  \<open>real option\<close> and \<open>truthy_real\<close> is the test \<open>if (x)\<close> on it.
\<close>

text \<open>\<open>geolocation.js\<close> line 2: the centre of Kazakhstan.\<close>

definition BASE_COORDS :: coords where
  "BASE_COORDS = \<lparr>lat = 48, lng = 66\<rparr>"

text \<open>Lines 5--7.\<close>

definition deg2rad :: "real \<Rightarrow> real" where
  "deg2rad d = d * (pi / 180)"

text \<open>\<open>Math.atan2(y, x)\<close>, the angle of the point \<open>(x, y)\<close> in \<open>(-pi, pi]\<close>; \<open>atan2(0, 0) = 0\<close>.\<close>

definition atan2 :: "real \<Rightarrow> real \<Rightarrow> real" where
  "atan2 y x =
    (if 0 < x then arctan (y / x)
     else if x < 0 then (if 0 \<le> y then arctan (y / x) + pi else arctan (y / x) - pi)
     else if 0 < y then pi / 2 else if y < 0 then - (pi / 2) else 0)"

text \<open>\<open>parseFloat(x.toFixed(1))\<close> on a non-negative number: the nearest tenth, halves up.\<close>

definition round1 :: "real \<Rightarrow> real" where
  "round1 x = real_of_int (round (x * 10)) / 10"

text \<open>A number read with \<open>if (x)\<close>: absent (\<open>undefined\<close>, \<open>null\<close>) and 0 are falsy.\<close>

fun truthy_real :: "real option \<Rightarrow> bool" where
  "truthy_real None = False"
| "truthy_real (Some x) = (x \<noteq> 0)"

text \<open>
  \<open>geolocation.js\<close> lines 10--25: a zero coordinate is falsy, so a point on the equator
  or on the prime meridian gets no distance (\<open>null\<close>).
\<close>

definition getDistanceFromLatLonInKm :: "real \<Rightarrow> real \<Rightarrow> real \<Rightarrow> real \<Rightarrow> real option" where
  "getDistanceFromLatLonInKm lat1 lon1 lat2 lon2 =
    (if lat1 = 0 \<or> lon1 = 0 \<or> lat2 = 0 \<or> lon2 = 0 then None
     else
       (let R = 6371;
            dLat = deg2rad (lat2 - lat1);
            dLon = deg2rad (lon2 - lon1);
            a = sin (dLat / 2) * sin (dLat / 2) +
                cos (deg2rad lat1) * cos (deg2rad lat2) * sin (dLon / 2) * sin (dLon / 2);
            c = 2 * atan2 (sqrt a) (sqrt (1 - a))
        in Some (round1 (R * c))))"

text \<open>Lines 28--47: the browser's position, or \<open>BASE_COORDS\<close> without geolocation or on refusal.\<close>

definition getUserLocation :: "coords option \<Rightarrow> coords" where
  "getUserLocation pos = (case pos of Some p \<Rightarrow> p | None \<Rightarrow> BASE_COORDS)"

subsection \<open>The feed's distances (\<open>UserDashboard.jsx\<close>)\<close>

text \<open>Lines 10--23, the city names transliterated as in the seed.\<close>

definition cityCoordinates :: "(string \<times> coords) list" where
  "cityCoordinates =
    [(''Almaty'', \<lparr>lat = 43.2220, lng = 76.8512\<rparr>),
     (''Astana'', \<lparr>lat = 51.1694, lng = 71.4491\<rparr>),
     (''Shymkent'', \<lparr>lat = 42.3419, lng = 69.5901\<rparr>),
     (''Aktobe'', \<lparr>lat = 50.2833, lng = 57.1667\<rparr>),
     (''Karaganda'', \<lparr>lat = 49.8014, lng = 73.1059\<rparr>),
     (''Taraz'', \<lparr>lat = 42.9000, lng = 71.3667\<rparr>),
     (''Pavlodar'', \<lparr>lat = 52.3000, lng = 76.9500\<rparr>),
     (''Ust-Kamenogorsk'', \<lparr>lat = 49.9500, lng = 82.6167\<rparr>),
     (''Semey'', \<lparr>lat = 50.4111, lng = 80.2275\<rparr>),
     (''Kostanay'', \<lparr>lat = 53.2167, lng = 63.6333\<rparr>),
     (''Kyzylorda'', \<lparr>lat = 44.8500, lng = 65.5167\<rparr>),
     (''Petropavlovsk'', \<lparr>lat = 54.8667, lng = 69.1500\<rparr>)]"

text \<open>\<open>cityCoordinates[c] || cityCoordinates['Almaty']\<close>.\<close>

definition city_or_almaty :: "string \<Rightarrow> coords" where
  "city_or_almaty c =
    (case map_of cityCoordinates c of Some p \<Rightarrow> p | None \<Rightarrow> the (map_of cityCoordinates ''Almaty''))"

text \<open>Lines 26--36.\<close>

definition calculateDistance :: "real \<Rightarrow> real \<Rightarrow> real \<Rightarrow> real \<Rightarrow> real" where
  "calculateDistance lat1 lng1 lat2 lng2 =
    (let R = 6371;
         dLat = (lat2 - lat1) * pi / 180;
         dLng = (lng2 - lng1) * pi / 180;
         a = sin (dLat / 2) * sin (dLat / 2) +
             cos (lat1 * pi / 180) * cos (lat2 * pi / 180) *
             sin (dLng / 2) * sin (dLng / 2);
         c = 2 * atan2 (sqrt a) (sqrt (1 - a))
     in R * c)"

text \<open>
  Lines 52--68: the browser's position, or Almaty's coordinates when geolocation is
  missing or refused.
\<close>

definition dash_location :: "coords option \<Rightarrow> coords" where
  "dash_location pos = (case pos of Some p \<Rightarrow> p | None \<Rightarrow> city_or_almaty ''Almaty'')"

text \<open>
  The location fields of a task object as the feed and the map read them: the numbers
  \<open>latitude\<close> and \<open>longitude\<close>, and the \<open>lat\<close> and \<open>lng\<close> of a \<open>coordinates\<close> object,
  which only the feed's items carry (line 103).
\<close>

record task_geo =
  tg_latitude :: "real option"
  tg_longitude :: "real option"
  tg_coord_lat :: "real option"
  tg_coord_lng :: "real option"

text \<open>
  Lines 83--86 on a stored task: its \<open>latitude\<close> and \<open>longitude\<close>; no API operation
  writes a \<open>coordinates\<close> object, so a stored task has none.
\<close>

definition task_geo_of :: "task \<Rightarrow> task_geo" where
  "task_geo_of t =
    \<lparr>tg_latitude = latitude t, tg_longitude = longitude t, tg_coord_lat = None, tg_coord_lng = None\<rparr>"

text \<open>Lines 80--90: the task's own coordinates, else the migrated ones, else its city's.\<close>

definition task_coords :: "task_geo \<Rightarrow> task \<Rightarrow> coords" where
  "task_coords g t =
    (if truthy_real (tg_latitude g) \<and> truthy_real (tg_longitude g)
     then \<lparr>lat = the (tg_latitude g), lng = the (tg_longitude g)\<rparr>
     else if truthy_real (tg_coord_lat g) \<and> truthy_real (tg_coord_lng g)
     then \<lparr>lat = the (tg_coord_lat g), lng = the (tg_coord_lng g)\<rparr>
     else city_or_almaty (city t))"

text \<open>Lines 92--101: a distance only for non-zero coordinates, else \<open>null\<close>.\<close>

definition feed_distance :: "coords \<Rightarrow> task_geo \<Rightarrow> task \<Rightarrow> real option" where
  "feed_distance u g t =
    (let c = task_coords g t in
     if lat c \<noteq> 0 \<and> lng c \<noteq> 0 then Some (calculateDistance (lat u) (lng u) (lat c) (lng c)) else None)"

text \<open>Line 107, \<open>a.distance - b.distance\<close>: \<open>null\<close> counts as 0 in the subtraction.\<close>

definition feed_key :: "coords \<Rightarrow> (task \<Rightarrow> task_geo) \<Rightarrow> task \<Rightarrow> real" where
  "feed_key u geo t = (case feed_distance u (geo t) t of Some d \<Rightarrow> d | None \<Rightarrow> 0)"

subsection \<open>Properties\<close>

lemma cos_mul_cos_half:
  fixes p q :: real
  shows "cos p * cos q = cos ((q - p) / 2) ^ 2 - sin ((p + q) / 2) ^ 2"
proof -
  have p: "p = (p + q) / 2 - (q - p) / 2" and q: "q = (p + q) / 2 + (q - p) / 2" by (simp_all add: field_simps)
  have "cos p * cos q = cos ((p + q) / 2 - (q - p) / 2) * cos ((p + q) / 2 + (q - p) / 2)"
    using p q by simp
  also have "\<dots> = cos ((p + q) / 2) ^ 2 * cos ((q - p) / 2) ^ 2 - sin ((p + q) / 2) ^ 2 * sin ((q - p) / 2) ^ 2"
    unfolding cos_diff cos_add by (simp add: power2_eq_square algebra_simps)
  also have "\<dots> = cos ((q - p) / 2) ^ 2 - sin ((p + q) / 2) ^ 2"
    unfolding cos_squared_eq [of "(p + q) / 2"] sin_squared_eq [of "(q - p) / 2"] by (simp add: algebra_simps)
  finally show ?thesis .
qed

lemma hav_bounds:
  fixes p q x :: real
  defines "a \<equiv> sin ((q - p) / 2) * sin ((q - p) / 2) + cos p * cos q * sin x * sin x"
  shows "0 \<le> a \<and> a \<le> 1"
proof -
  define t where "t = sin x ^ 2"
  define A where "A = sin ((q - p) / 2) ^ 2"
  define B where "B = cos ((p + q) / 2) ^ 2"
  have t: "0 \<le> t" "t \<le> 1" unfolding t_def by (simp_all add: abs_square_le_1 abs_sin_le_one)
  have A: "0 \<le> A" "A \<le> 1" unfolding A_def by (simp_all add: abs_square_le_1 abs_sin_le_one)
  have B: "0 \<le> B" "B \<le> 1" unfolding B_def by (simp_all add: abs_square_le_1 abs_cos_le_one)
  have "a = (1 - t) * A + t * B"
    unfolding a_def t_def A_def B_def cos_mul_cos_half cos_squared_eq
    by (simp add: power2_eq_square algebra_simps)
  moreover have "0 \<le> (1 - t) * A + t * B" using t A B by simp
  moreover have "(1 - t) * A + t * B \<le> (1 - t) * 1 + t * 1"
    using t A B by (intro add_mono mult_left_mono) simp_all
  ultimately show ?thesis by simp
qed

lemma atan2_sqrt_bounds:
  assumes "0 \<le> a" "a \<le> 1"
  shows "0 \<le> atan2 (sqrt a) (sqrt (1 - a)) \<and> atan2 (sqrt a) (sqrt (1 - a)) \<le> pi / 2"
proof (cases "a = 1")
  case True
  then show ?thesis by (simp add: atan2_def)
next
  case False
  then have "0 < sqrt (1 - a)" using assms by simp
  moreover have "arctan (sqrt a / sqrt (1 - a)) < pi / 2" by (rule arctan_ubound)
  moreover have "0 \<le> arctan (sqrt a / sqrt (1 - a))" using assms by (simp add: arctan_less_zero_iff [symmetric] not_less)
  ultimately show ?thesis by (simp add: atan2_def)
qed

lemma atan2_half_angle:
  fixes x :: real
  assumes "\<bar>x\<bar> < pi / 2"
  shows "atan2 (sqrt (sin x * sin x)) (sqrt (1 - sin x * sin x)) = \<bar>x\<bar>"
proof -
  have c: "0 < cos x" using assms by (intro cos_gt_zero_pi) auto
  have "sqrt (1 - sin x * sin x) = cos x"
    using c sin_squared_eq [of x] by (simp add: power2_eq_square)
  moreover have "sqrt (sin x * sin x) = \<bar>sin x\<bar>" by (simp flip: power2_eq_square)
  moreover have "\<bar>sin x\<bar> / cos x = tan \<bar>x\<bar>"
  proof (cases "0 \<le> x")
    case True
    then have "0 \<le> sin x" using assms by (intro sin_ge_zero) auto
    then show ?thesis using True by (simp add: tan_def)
  next
    case False
    then have "0 \<le> sin (- x)" using assms by (intro sin_ge_zero) auto
    then show ?thesis using False by (simp add: tan_def)
  qed
  moreover have "arctan (tan \<bar>x\<bar>) = \<bar>x\<bar>" using assms by (intro arctan_tan) auto
  ultimately show ?thesis using c by (simp add: atan2_def)
qed

text \<open>C14: The haversine distance of the feed lies between 0 and half the earth's circumference (6371 pi km) for any two points, and between two points on one meridian less than 180 degrees apart it is the arc length 6371 |lat2 - lat1| pi / 180 km: the degrees are converted to radians, the haversine term stays in [0, 1], and atan2 returns the half central angle.\<close>

theorem calculateDistance_correct:
  "0 \<le> calculateDistance lat1 lng1 lat2 lng2 \<and> calculateDistance lat1 lng1 lat2 lng2 \<le> 6371 * pi \<and>
   (lng1 = lng2 \<and> \<bar>lat2 - lat1\<bar> < 180 \<longrightarrow>
      calculateDistance lat1 lng1 lat2 lng2 = 6371 * (\<bar>lat2 - lat1\<bar> * pi / 180))"
proof (intro conjI impI)
  let ?p = "lat1 * pi / 180" and ?q = "lat2 * pi / 180" and ?x = "(lng2 - lng1) * pi / 180 / 2"
  have e: "(lat2 - lat1) * pi / 180 / 2 = (?q - ?p) / 2" by (simp add: field_simps)
  from hav_bounds [of ?q ?p ?x]
  have "0 \<le> sin ((?q - ?p) / 2) * sin ((?q - ?p) / 2) + cos ?p * cos ?q * sin ?x * sin ?x \<and>
        sin ((?q - ?p) / 2) * sin ((?q - ?p) / 2) + cos ?p * cos ?q * sin ?x * sin ?x \<le> 1" by simp
  then have "0 \<le> calculateDistance lat1 lng1 lat2 lng2 \<and> calculateDistance lat1 lng1 lat2 lng2 \<le> 6371 * pi"
    using atan2_sqrt_bounds unfolding calculateDistance_def Let_def e by fastforce
  then show "0 \<le> calculateDistance lat1 lng1 lat2 lng2" "calculateDistance lat1 lng1 lat2 lng2 \<le> 6371 * pi"
    by simp_all
next
  assume m: "lng1 = lng2 \<and> \<bar>lat2 - lat1\<bar> < 180"
  let ?h = "(lat2 - lat1) * pi / 180 / 2"
  have "\<bar>?h\<bar> = \<bar>lat2 - lat1\<bar> * pi / 360" by (simp add: abs_mult abs_divide)
  also have "\<dots> < 180 * pi / 360" using m by (intro divide_strict_right_mono mult_strict_right_mono) simp_all
  finally have h: "\<bar>?h\<bar> < pi / 2" by simp
  have "calculateDistance lat1 lng1 lat2 lng2 = 6371 * (2 * atan2 (sqrt (sin ?h * sin ?h)) (sqrt (1 - sin ?h * sin ?h)))"
    using m by (simp add: calculateDistance_def Let_def)
  also have "\<dots> = 6371 * (2 * \<bar>?h\<bar>)" by (subst atan2_half_angle [OF h]) (rule refl)
  also have "\<dots> = 6371 * (\<bar>lat2 - lat1\<bar> * pi / 180)" by (simp add: abs_mult abs_divide)
  finally show "calculateDistance lat1 lng1 lat2 lng2 = 6371 * (\<bar>lat2 - lat1\<bar> * pi / 180)" .
qed

lemma calculateDistance_same: "calculateDistance la lo la lo = 0"
  by (simp add: calculateDistance_def atan2_def)

lemma sin_half_deg_swap: "sin ((a - b) * pi / 180 / 2) = - sin ((b - a) * pi / 180 / 2)"
proof -
  have "(a - b) * pi / 180 / 2 = - ((b - a) * pi / 180 / 2)" by (simp add: field_simps)
  then show ?thesis by simp
qed

lemma calculateDistance_sym: "calculateDistance lat1 lng1 lat2 lng2 = calculateDistance lat2 lng2 lat1 lng1"
  using sin_half_deg_swap [of lat1 lat2] sin_half_deg_swap [of lng1 lng2]
  by (simp add: calculateDistance_def Let_def algebra_simps)

lemma getDistance_calculateDistance:
  "getDistanceFromLatLonInKm lat1 lon1 lat2 lon2 =
    (if lat1 = 0 \<or> lon1 = 0 \<or> lat2 = 0 \<or> lon2 = 0 then None
     else Some (round1 (calculateDistance lat1 lon1 lat2 lon2)))"
  by (simp add: getDistanceFromLatLonInKm_def calculateDistance_def deg2rad_def Let_def)

lemma getDistance_equator: "getDistanceFromLatLonInKm 0 lon1 lat2 lon2 = None"
  by (simp add: getDistanceFromLatLonInKm_def)

lemma city_or_almaty_nonzero: "lat (city_or_almaty c) \<noteq> 0 \<and> lng (city_or_almaty c) \<noteq> 0"
  by (simp add: city_or_almaty_def cityCoordinates_def split: option.split)

text \<open>The API's table (\<open>mockApi.js\<close>) and the dashboard's copy are the same.\<close>

lemma city_tables_agree: "cityCoordinates = api_cityCoordinates"
  by (simp add: cityCoordinates_def api_cityCoordinates_def)

lemma city_or_almaty_api: "city_or_almaty c = api_city_coords c"
  unfolding city_or_almaty_def api_city_coords_def city_tables_agree by (rule refl)

lemma task_coords_stored:
  "latitude t = Some la \<Longrightarrow> longitude t = Some lo \<Longrightarrow> la \<noteq> 0 \<Longrightarrow> lo \<noteq> 0 \<Longrightarrow>
   task_coords (task_geo_of t) t = \<lparr>lat = la, lng = lo\<rparr>"
  by (simp add: task_coords_def task_geo_of_def)

text \<open>C35: On every load, seedData moves a task from a Russian city to its Kazakh replacement together with that city's coordinates, so the volunteer's feed measures its distance from, and the map places it at, the new city; the two copies of the city table agree.\<close>

theorem seed_migrated_coords:
  assumes "t \<in> set (tasks st)" and "city_map (city t) = Some c"
  shows "\<exists>t'\<in>set (tasks (seedData now st)).
           task_id t' = task_id t \<and> city t' = c \<and> task_coords (task_geo_of t') t' = city_or_almaty c"
proof -
  let ?t' = "migrate_task t"
  have "?t' \<in> set (tasks (seedData now st))"
    using assms(1) by (auto simp: seedData_def Let_def)
  moreover have "task_coords (task_geo_of ?t') ?t' = city_or_almaty c"
    using assms(2) city_or_almaty_nonzero [of c]
    by (simp add: migrate_task_def task_coords_stored city_or_almaty_api)
  moreover have "task_id ?t' = task_id t \<and> city ?t' = c" using assms(2) by (simp add: migrate_task_def)
  ultimately show ?thesis by blast
qed

subsection \<open>Witnesses\<close>

theorem calculateDistance_correct_witness:
  "(0::real) = 0 \<and> \<bar>90 - 0\<bar> < (180::real) \<and> calculateDistance 0 0 90 0 = 6371 * (pi / 2)"
  using calculateDistance_correct [of 0 0 90 0] by simp

theorem seed_migrated_coords_witness:
  "seed_task ''9'' ''Help'' ''Moskva'' OPEN None 0 10
     \<in> set (tasks \<lparr>users = [], tasks = [seed_task ''9'' ''Help'' ''Moskva'' OPEN None 0 10], chat_messages = []\<rparr>) \<and>
   city_map (city (seed_task ''9'' ''Help'' ''Moskva'' OPEN None 0 10)) = Some ''Almaty'' \<and>
   (\<exists>t'\<in>set (tasks (seedData 0 \<lparr>users = [], tasks = [seed_task ''9'' ''Help'' ''Moskva'' OPEN None 0 10], chat_messages = []\<rparr>)).
      task_id t' = task_id (seed_task ''9'' ''Help'' ''Moskva'' OPEN None 0 10) \<and> city t' = ''Almaty'' \<and>
      task_coords (task_geo_of t') t' = city_or_almaty ''Almaty'')"
proof -
  have a: "seed_task ''9'' ''Help'' ''Moskva'' OPEN None 0 10
     \<in> set (tasks \<lparr>users = [], tasks = [seed_task ''9'' ''Help'' ''Moskva'' OPEN None 0 10], chat_messages = []\<rparr>)"
    by simp
  have b: "city_map (city (seed_task ''9'' ''Help'' ''Moskva'' OPEN None 0 10)) = Some ''Almaty''"
    by (simp add: seed_task_def city_map_def)
  show ?thesis using a b seed_migrated_coords [OF a b] by blast
qed

end
