(* ===== verification/MapView.thy ===== *)
theory MapView
  imports Geo Seed
begin

text \<open>
  The feed's map \<open>src/Volonter-Hub-main/src/components/MapView.jsx\<close>: from the user's
  position and the listed tasks it computes the bounding box of the embedded
  OpenStreetMap frame and its markers.  Coordinates are numbers, not the strings of
  the URL; the URL's formatting is not modelled.  The tasks it receives are the
  feed's tasks, each with the \<open>coordinates\<close> the dashboard attached (line 102 of
  \<open>UserDashboard.jsx\<close>), modelled by \<open>dash_item\<close>.
\<close>

record map_item =
  mi_latitude :: "real option"
  mi_longitude :: "real option"
  mi_coord_lat :: "real option"
  mi_coord_lng :: "real option"
  mi_city :: string

text \<open>Lines 17--25: the latitude a task contributes to the box.\<close>

definition item_lat :: "coords \<Rightarrow> map_item \<Rightarrow> real" where
  "item_lat u t =
    (if truthy_real (mi_latitude t) \<and> truthy_real (mi_longitude t) then the (mi_latitude t)
     else if truthy_real (mi_coord_lat t) then the (mi_coord_lat t)
     else if mi_city t \<noteq> [] then lat (city_or_almaty (mi_city t))
     else lat u)"

text \<open>Lines 26--34: the longitude.\<close>

definition item_lng :: "coords \<Rightarrow> map_item \<Rightarrow> real" where
  "item_lng u t =
    (if truthy_real (mi_latitude t) \<and> truthy_real (mi_longitude t) then the (mi_longitude t)
     else if truthy_real (mi_coord_lng t) then the (mi_coord_lng t)
     else if mi_city t \<noteq> [] then lng (city_or_almaty (mi_city t))
     else lng u)"

text \<open>Lines 46--50.\<close>

definition padding :: "real \<Rightarrow> real" where
  "padding d = (if d < 0.01 then 0.002 else if d < 0.05 then 0.005 else if d < 0.1 then 0.01 else 0.02)"

text \<open>The box \<open>(minLng, minLat, maxLng, maxLat)\<close> in the order of the \<open>bbox\<close> parameter.\<close>

type_synonym bbox = "real \<times> real \<times> real \<times> real"

text \<open>Lines 15--52 and 80--83: the padded box around the user and the tasks, or a close-up of the user.\<close>

definition map_bbox :: "coords \<Rightarrow> map_item list \<Rightarrow> bbox" where
  "map_bbox u ts =
    (if ts \<noteq> [] then
       (let lats = lat u # map (item_lat u) ts;
            lngs = lng u # map (item_lng u) ts;
            p = padding (max (Max (set lats) - Min (set lats)) (Max (set lngs) - Min (set lngs)))
        in (Min (set lngs) - p, Min (set lats) - p, Max (set lngs) + p, Max (set lats) + p))
     else (lng u - 0.001, lat u - 0.001, lng u + 0.001, lat u + 0.001))"

text \<open>Lines 58--68: a task's marker, if it has coordinates or a city.\<close>

definition item_marker :: "map_item \<Rightarrow> coords option" where
  "item_marker t =
    (if truthy_real (mi_latitude t) \<and> truthy_real (mi_longitude t)
     then Some \<lparr>lat = the (mi_latitude t), lng = the (mi_longitude t)\<rparr>
     else if truthy_real (mi_coord_lat t) \<and> truthy_real (mi_coord_lng t)
     then Some \<lparr>lat = the (mi_coord_lat t), lng = the (mi_coord_lng t)\<rparr>
     else if mi_city t \<noteq> [] then Some (city_or_almaty (mi_city t))
     else None)"

text \<open>Lines 71--85: the tasks' markers first, the user's last (the list is never empty).\<close>

definition map_markers :: "coords \<Rightarrow> map_item list \<Rightarrow> coords list" where
  "map_markers u ts = (if ts \<noteq> [] then List.map_filter item_marker ts @ [u] else [u])"

text \<open>Lines 4--10 and 87--111: the loading text without a position, else the frame.\<close>

definition map_view_render :: "coords option \<Rightarrow> map_item list \<Rightarrow> (bbox \<times> coords list) option" where
  "map_view_render uo ts = (case uo of None \<Rightarrow> None | Some u \<Rightarrow> Some (map_bbox u ts, map_markers u ts))"

text \<open>\<open>UserDashboard.jsx\<close> line 102: \<open>{...task, distance, coordinates: taskCoords}\<close>.\<close>

definition dash_item :: "task_geo \<Rightarrow> task \<Rightarrow> map_item" where
  "dash_item g t =
    \<lparr>mi_latitude = tg_latitude g, mi_longitude = tg_longitude g,
     mi_coord_lat = Some (lat (task_coords g t)), mi_coord_lng = Some (lng (task_coords g t)),
     mi_city = city t\<rparr>"

text \<open>A point lies in a box.\<close>

definition in_bbox :: "bbox \<Rightarrow> coords \<Rightarrow> bool" where
  "in_bbox b c \<longleftrightarrow>
    (case b of (w, s, e, n) \<Rightarrow> w \<le> lng c \<and> lng c \<le> e \<and> s \<le> lat c \<and> lat c \<le> n)"

subsection \<open>Properties\<close>

lemma task_coords_nonzero: "lat (task_coords g t) \<noteq> 0 \<and> lng (task_coords g t) \<noteq> 0"
  using city_or_almaty_nonzero [of "city t"]
  by (cases "tg_latitude g"; cases "tg_longitude g"; cases "tg_coord_lat g"; cases "tg_coord_lng g")
     (auto simp: task_coords_def)

lemma dash_item_marker:
  "item_marker (dash_item g t) = Some \<lparr>lat = item_lat u (dash_item g t), lng = item_lng u (dash_item g t)\<rparr>"
  using task_coords_nonzero [of g t]
  by (simp add: item_marker_def item_lat_def item_lng_def dash_item_def)

lemma padding_pos: "0 < padding d"
  by (simp add: padding_def)

lemma in_map_bbox:
  assumes "ts \<noteq> []" and "la \<in> set (lat u # map (item_lat u) ts)" and "lo \<in> set (lng u # map (item_lng u) ts)"
  shows "in_bbox (map_bbox u ts) \<lparr>lat = la, lng = lo\<rparr>"
proof -
  let ?lats = "lat u # map (item_lat u) ts" and ?lngs = "lng u # map (item_lng u) ts"
  have "Min (set ?lats) \<le> la" "la \<le> Max (set ?lats)" "Min (set ?lngs) \<le> lo" "lo \<le> Max (set ?lngs)"
    using assms(2,3) by (simp_all del: set_simps list.set_map)
  then show ?thesis using assms(1) padding_pos
    by (simp add: map_bbox_def in_bbox_def Let_def del: set_simps list.set_map)
       (smt (verit))
qed

text \<open>C29: On the feed's map every marker, of a task or of the user, lies inside the frame's bounding box, for the tasks as the dashboard hands them over.\<close>

theorem feed_markers_in_bbox:
  assumes "c \<in> set (map_markers u (map (\<lambda>t. dash_item (geo t) t) ts))"
  shows "in_bbox (map_bbox u (map (\<lambda>t. dash_item (geo t) t) ts)) c"
proof (cases "ts = []")
  case True
  then show ?thesis using assms by (simp add: map_markers_def map_bbox_def in_bbox_def)
next
  case False
  let ?is = "map (\<lambda>t. dash_item (geo t) t) ts"
  from assms False consider "c = u" | i where "i \<in> set ?is" "item_marker i = Some c"
    by (auto simp: map_markers_def)
  then show ?thesis
  proof cases
    case 1
    then show ?thesis using in_map_bbox [of ?is "lat u" u "lng u"] False by (simp add: in_bbox_def)
  next
    case 2
    then obtain t where t: "t \<in> set ts" "i = dash_item (geo t) t" by auto
    then have "c = \<lparr>lat = item_lat u i, lng = item_lng u i\<rparr>"
      using 2 dash_item_marker [of "geo t" t u] by simp
    then show ?thesis using in_map_bbox [of ?is "item_lat u i" u "item_lng u i"] False t(1) 2(1) by auto
  qed
qed

lemma marker_outside_bbox:
  "item_marker \<lparr>mi_latitude = None, mi_longitude = None, mi_coord_lat = Some 44, mi_coord_lng = None,
      mi_city = ''Astana''\<rparr> = Some \<lparr>lat = 51.1694, lng = 71.4491\<rparr> \<and>
   \<not> in_bbox (map_bbox \<lparr>lat = 43.2220, lng = 76.8512\<rparr>
      [\<lparr>mi_latitude = None, mi_longitude = None, mi_coord_lat = Some 44, mi_coord_lng = None,
        mi_city = ''Astana''\<rparr>]) \<lparr>lat = 51.1694, lng = 71.4491\<rparr>"
  by (simp add: item_marker_def map_bbox_def item_lat_def item_lng_def city_or_almaty_def
      cityCoordinates_def padding_def in_bbox_def Let_def)

theorem feed_markers_in_bbox_witness:
  "\<lparr>lat = 43.2220, lng = 76.8512\<rparr> \<in> set (map_markers \<lparr>lat = 43.2220, lng = 76.8512\<rparr>
      (map (\<lambda>t. dash_item \<lparr>tg_latitude = None, tg_longitude = None, tg_coord_lat = None, tg_coord_lng = None\<rparr> t)
        [hd (default_tasks 0)])) \<and>
   in_bbox (map_bbox \<lparr>lat = 43.2220, lng = 76.8512\<rparr>
      (map (\<lambda>t. dash_item \<lparr>tg_latitude = None, tg_longitude = None, tg_coord_lat = None, tg_coord_lng = None\<rparr> t)
        [hd (default_tasks 0)])) \<lparr>lat = 43.2220, lng = 76.8512\<rparr>"
proof -
  have m: "\<lparr>lat = 43.2220, lng = 76.8512\<rparr> \<in> set (map_markers \<lparr>lat = 43.2220, lng = 76.8512\<rparr>
      (map (\<lambda>t. dash_item \<lparr>tg_latitude = None, tg_longitude = None, tg_coord_lat = None, tg_coord_lng = None\<rparr> t)
        [hd (default_tasks 0)]))"
    by (simp add: map_markers_def)
  show ?thesis using m feed_markers_in_bbox [OF m] by simp
qed

end
