(* ===== verification/MapPicker.thy ===== *)
theory MapPicker
  imports MapView Chat
begin

text \<open>
  The location picker of the create-task form, \<open>src/src/components/MapPicker.jsx\<close>.
  Geocoding (lines 10--90) is modelled from the geocoder's answer: the formatting of a
  reverse-geocoding response and the choice of a search hit are functions of it; the
  answers themselves come from a server (\<open>geo_server\<close>), fixed for a run.

  The component is an event machine.  Its state \<open>picker\<close> holds the hooks of lines
  97--118; a world holds two copies of it, \<open>pw_cur\<close> (what the setters have made of it
  so far) and \<open>pw_seen\<close> (the state of the last render, which the handlers' closures
  read), the geocoder requests still running in \<open>pw_pending\<close>, and what the parent has
  been told through \<open>onLocationSelect\<close> and \<open>onAddressChange\<close>.  The ref
  \<open>coordsRef\<close> is always the current coordinates: every handler that sets the
  coordinates also writes the ref.  A \<open>Render\<close> event commits \<open>pw_cur\<close> and runs the
  effect of lines 121--138; a \<open>Resolve i\<close> event completes request \<open>i\<close>, in any order.
\<close>

subsection \<open>Geocoding (lines 10--90)\<close>

text \<open>
  The fields of Nominatim's \<open>address\<close> object that the code reads; an absent field is
  the empty string, falsy as \<open>undefined\<close> is.
\<close>

record osm_address =
  oa_road :: string
  oa_house_number :: string
  oa_house :: string
  oa_city :: string
  oa_town :: string
  oa_village :: string
  oa_municipality :: string
  oa_state :: string
  oa_region :: string

record geo_result =
  gr_display :: string
  gr_city :: string
  gr_address :: string

text \<open>\<open>a || b || ... || ''\<close> on strings.\<close>

definition first_truthy :: "string list \<Rightarrow> string" where
  "first_truthy xs = (case find (\<lambda>s. s \<noteq> []) xs of Some s \<Rightarrow> s | None \<Rightarrow> [])"

text \<open>\<open>address += (address ? ', ' : '') + x\<close>.\<close>

definition append_part :: "string \<Rightarrow> string \<Rightarrow> string" where
  "append_part a x = a @ (if a \<noteq> [] then '', '' else []) @ x"

text \<open>Lines 22--33: street, house, city and region.\<close>

definition format_address :: "osm_address \<Rightarrow> string" where
  "format_address addr =
    (let parts = (if oa_road addr \<noteq> [] then [oa_road addr] else []) @
                 (if oa_house_number addr \<noteq> [] then [oa_house_number addr] else []);
         parts = (if parts = [] \<and> oa_house addr \<noteq> [] then [oa_house addr] else parts);
         c = first_truthy [oa_city addr, oa_town addr, oa_village addr, oa_municipality addr];
         r = first_truthy [oa_state addr, oa_region addr];
         a = (case parts of [] \<Rightarrow> [] | p # ps \<Rightarrow> foldl append_part p ps);
         a = (if c \<noteq> [] then append_part a c else a)
     in if r \<noteq> [] \<and> r \<noteq> c then append_part a r else a)"

text \<open>
  Lines 10--53.  The response is \<open>None\<close> when the request or the JSON parse throws,
  else the \<open>address\<close> object (if any) and \<open>display_name\<close>; \<open>fx\<close> is \<open>toFixed(6)\<close>.
\<close>

definition reverseGeocode ::
  "(real \<Rightarrow> string) \<Rightarrow> (osm_address option \<times> string) option \<Rightarrow> real \<Rightarrow> real \<Rightarrow> geo_result" where
  "reverseGeocode fx resp la lo =
    (let fb = fx la @ '', '' @ fx lo in
     case resp of
       Some (Some addr, dn) \<Rightarrow>
         (let c = first_truthy [oa_city addr, oa_town addr, oa_village addr, oa_municipality addr];
              a = format_address addr
          in \<lparr>gr_display = first_truthy [a, dn, fb], gr_city = c, gr_address = first_truthy [a, dn, fb]\<rparr>)
     | _ \<Rightarrow> \<lparr>gr_display = fb, gr_city = [], gr_address = fb\<rparr>)"

record osm_place =
  op_display :: string
  op_lat :: real
  op_lon :: real
  op_country :: "string option"

text \<open>\<open>toLowerCase\<close> on ASCII letters.\<close>

definition lower_char :: "char \<Rightarrow> char" where
  "lower_char c = (if 65 \<le> (of_char c :: nat) \<and> (of_char c :: nat) \<le> 90 then char_of (of_char c + (32 :: nat)) else c)"

text \<open>\<open>String.prototype.includes\<close>.\<close>

fun includes_str :: "string \<Rightarrow> string \<Rightarrow> bool" where
  "includes_str p [] = (p = [])"
| "includes_str p (c # s) = (take (length p) (c # s) = p \<or> includes_str p s)"

text \<open>
  Lines 70--74: a hit in Kazakhstan.  The Cyrillic and the Latin spelling of the
  country's name transliterate to the same word.
\<close>

definition kz_place :: "osm_place \<Rightarrow> bool" where
  "kz_place p \<longleftrightarrow> includes_str ''kazakhstan'' (map lower_char (op_display p)) \<or> op_country p = Some ''kz''"

text \<open>Lines 56--90: the first hit in Kazakhstan, else the first hit; \<open>null\<close> without hits or on failure.\<close>

definition geocode :: "osm_place list option \<Rightarrow> (real \<times> real \<times> string) option" where
  "geocode resp =
    (case resp of
       Some (p # ps) \<Rightarrow>
         (let k = (case find kz_place (p # ps) of Some q \<Rightarrow> q | None \<Rightarrow> p)
          in Some (op_lat k, op_lon k, op_display k))
     | _ \<Rightarrow> None)"

text \<open>The geocoder's answers for a run: reverse lookups, searches, and \<open>toFixed(6)\<close>.\<close>

record geo_server =
  gs_reverse :: "real \<Rightarrow> real \<Rightarrow> (osm_address option \<times> string) option"
  gs_search :: "string \<Rightarrow> osm_place list option"
  gs_fixed :: "real \<Rightarrow> string"

definition rev_at :: "geo_server \<Rightarrow> coords \<Rightarrow> geo_result" where
  "rev_at srv c = reverseGeocode (gs_fixed srv) (gs_reverse srv (lat c) (lng c)) (lat c) (lng c)"

subsection \<open>Component state (lines 95--118)\<close>

record picker =
  pk_coords :: coords
  pk_address :: string
  pk_city :: string
  pk_selecting :: bool
  pk_loading_address :: bool
  pk_searching :: bool
  pk_zoom :: int
  pk_dragging :: bool
  pk_drag_start :: "real \<times> real"
  pk_map_key :: nat
  pk_user_selected :: bool

text \<open>
  A geocoder request still running, with what its continuation needs: the coordinates
  it asked about and, for a search, the zoom its closure saw.  \<open>RevInit c b\<close> is the
  mount effect's lookup; \<open>b\<close> says whether it reports to \<open>onAddressChange\<close>.
\<close>

datatype pk_request =
    RevInit coords bool
  | RevEffect coords
  | RevClick coords
  | RevMove coords
  | RevMouseUp coords
  | RevCurrent coords
  | RevShowAll
  | RevSearch string coords
  | GeocodeReq string int

record picker_world =
  pw_cur :: picker
  pw_seen :: picker
  pw_pending :: "pk_request list"
  pw_location :: "coords option"
  pw_reported :: "(string \<times> string) option"

text \<open>Lines 97--118: the first render's state.\<close>

definition picker_init :: "coords option \<Rightarrow> string \<Rightarrow> picker" where
  "picker_init il ia =
    \<lparr>pk_coords = (case il of Some c \<Rightarrow> c | None \<Rightarrow> BASE_COORDS), pk_address = ia, pk_city = [],
     pk_selecting = False, pk_loading_address = False, pk_searching = False, pk_zoom = 13,
     pk_dragging = False, pk_drag_start = (0, 0), pk_map_key = 0, pk_user_selected = False\<rparr>"

subsection \<open>Handlers\<close>

text \<open>
  Lines 185--192, repeated in \<open>moveMap\<close> (lines 288--295) and \<open>handleMouseMove\<close>
  (lines 334--341): the coordinates \<open>(dx, dy)\<close> pixels away from \<open>c\<close> at zoom \<open>z\<close>.
\<close>

definition pixel_offset :: "int \<Rightarrow> coords \<Rightarrow> real \<Rightarrow> real \<Rightarrow> coords" where
  "pixel_offset z c dx dy =
    (let mpp = 156543.03392 * cos (lat c * pi / 180) / 2 powr real_of_int z;
         latOffset = - (dy * mpp) / 111320;
         lngOffset = dx * mpp / (111320 * cos (lat c * pi / 180))
     in \<lparr>lat = lat c + latOffset, lng = lng c + lngOffset\<rparr>)"

text \<open>Lines 178--193: the point clicked at \<open>(x, y)\<close> in a \<open>w \<times> h\<close> map.\<close>

definition calculateCoordsFromClick :: "int \<Rightarrow> coords \<Rightarrow> real \<Rightarrow> real \<Rightarrow> real \<Rightarrow> real \<Rightarrow> coords" where
  "calculateCoordsFromClick z c x y w h = pixel_offset z c (x - w / 2) (y - h / 2)"

text \<open>Lines 249--254: the guard reads the rendered zoom, the update the latest one.\<close>

definition handleZoomIn :: "picker \<Rightarrow> picker \<Rightarrow> picker" where
  "handleZoomIn s c =
    (if pk_zoom s < 18 then c\<lparr>pk_zoom := pk_zoom c + 1, pk_map_key := pk_map_key c + 1\<rparr> else c)"

text \<open>Lines 256--261.\<close>

definition handleZoomOut :: "picker \<Rightarrow> picker \<Rightarrow> picker" where
  "handleZoomOut s c =
    (if 4 < pk_zoom s then c\<lparr>pk_zoom := pk_zoom c - 1, pk_map_key := pk_map_key c + 1\<rparr> else c)"

text \<open>Lines 263--270.\<close>

definition handleWheel :: "real \<Rightarrow> picker \<Rightarrow> picker \<Rightarrow> picker" where
  "handleWheel dy s c = (if dy < 0 then handleZoomIn s c else handleZoomOut s c)"

datatype direction = Up | Down | Left | Right

text \<open>Lines 272--319 up to the lookup: a move by 0.3 of the map's size.\<close>

definition moveMap :: "direction \<Rightarrow> real \<Rightarrow> real \<Rightarrow> picker \<Rightarrow> picker \<Rightarrow> picker" where
  "moveMap d w h s c =
    (let (dx, dy) = (case d of Up \<Rightarrow> (0, - h * 0.3) | Down \<Rightarrow> (0, h * 0.3)
                              | Left \<Rightarrow> (- w * 0.3, 0) | Right \<Rightarrow> (w * 0.3, 0))
     in c\<lparr>pk_coords := pixel_offset (pk_zoom s) (pk_coords c) dx dy, pk_map_key := pk_map_key c + 1,
          pk_user_selected := True, pk_loading_address := True\<rparr>)"

text \<open>Lines 199--246 up to the lookup; the overlay is only there in selection mode.\<close>

definition handleMapClick :: "real \<Rightarrow> real \<Rightarrow> real \<Rightarrow> real \<Rightarrow> picker \<Rightarrow> picker \<Rightarrow> picker option" where
  "handleMapClick x y w h s c =
    (if \<not> pk_selecting s then None
     else Some (c\<lparr>pk_user_selected := True,
                  pk_coords := calculateCoordsFromClick (pk_zoom s) (pk_coords c) x y w h,
                  pk_zoom := 15, pk_map_key := pk_map_key c + 1, pk_loading_address := True\<rparr>))"

text \<open>Lines 321--327.\<close>

definition handleMouseDown :: "nat \<Rightarrow> real \<Rightarrow> real \<Rightarrow> picker \<Rightarrow> picker \<Rightarrow> picker" where
  "handleMouseDown b x y s c =
    (if \<not> pk_selecting s \<and> b = 0 then c\<lparr>pk_dragging := True, pk_drag_start := (x, y)\<rparr> else c)"

text \<open>Lines 329--350: the document listener exists only while the rendered state drags.\<close>

definition handleMouseMove :: "real \<Rightarrow> real \<Rightarrow> picker \<Rightarrow> picker \<Rightarrow> picker" where
  "handleMouseMove x y s c =
    (if pk_dragging s \<and> \<not> pk_selecting s
     then c\<lparr>pk_coords := pixel_offset (pk_zoom s) (pk_coords c) (x - fst (pk_drag_start s)) (y - snd (pk_drag_start s)),
            pk_map_key := pk_map_key c + 1, pk_drag_start := (x, y)\<rparr>
     else c)"

text \<open>Lines 352--373 up to the lookup.\<close>

definition handleMouseUp :: "picker \<Rightarrow> picker \<Rightarrow> picker option" where
  "handleMouseUp s c =
    (if pk_dragging s then Some (c\<lparr>pk_dragging := False, pk_user_selected := True, pk_loading_address := True\<rparr>)
     else None)"

text \<open>Lines 397--433 up to the geocoder: blank queries are ignored.\<close>

definition handleAddressSearch :: "string \<Rightarrow> picker \<Rightarrow> picker \<Rightarrow> (picker \<times> pk_request) option" where
  "handleAddressSearch q s c =
    (if q = [] \<or> trim q = [] then None
     else Some (c\<lparr>pk_searching := True\<rparr>, GeocodeReq q (pk_zoom s)))"

text \<open>Lines 470--490 up to the lookup.\<close>

definition showAllCountry :: "picker \<Rightarrow> picker" where
  "showAllCountry c =
    c\<lparr>pk_coords := BASE_COORDS, pk_zoom := 5, pk_map_key := pk_map_key c + 1, pk_loading_address := True\<rparr>"

text \<open>Lines 443--468 up to the lookup: the browser's position callback.\<close>

definition located :: "coords \<Rightarrow> picker \<Rightarrow> picker" where
  "located p c =
    c\<lparr>pk_coords := p, pk_zoom := 15, pk_map_key := pk_map_key c + 1, pk_user_selected := True,
      pk_loading_address := True\<rparr>"

subsection \<open>Mount, requests and events\<close>

text \<open>
  Lines 140--172, the mount effect: an initial location is shown closer and looked up;
  else an initial address is searched; else the country's centre is looked up and,
  against the comment of lines 166--167, handed to \<open>onLocationSelect\<close> at once.  The
  closures of the mount effect see the first render's state.
\<close>

definition picker_mount :: "coords option \<Rightarrow> string \<Rightarrow> picker_world" where
  "picker_mount il ia =
    (let c0 = picker_init il ia;
         w0 = \<lparr>pw_cur = c0, pw_seen = c0, pw_pending = [], pw_location = None, pw_reported = None\<rparr>
     in case il of
          Some p \<Rightarrow> w0\<lparr>pw_cur := c0\<lparr>pk_coords := p, pk_zoom := 15\<rparr>, pw_pending := [RevInit p True]\<rparr>
        | None \<Rightarrow>
            (if ia \<noteq> []
             then (case handleAddressSearch ia c0 c0 of
                     None \<Rightarrow> w0
                   | Some (c', r) \<Rightarrow> w0\<lparr>pw_cur := c', pw_pending := [r]\<rparr>)
             else w0\<lparr>pw_pending := [RevInit BASE_COORDS False], pw_location := Some BASE_COORDS\<rparr>))"

text \<open>What a lookup's continuation writes: \<open>setAddress\<close>, \<open>setCity\<close>, \<open>setIsLoadingAddress(false)\<close>.\<close>

definition show_result :: "geo_result \<Rightarrow> picker \<Rightarrow> picker" where
  "show_result g c = c\<lparr>pk_address := gr_display g, pk_city := gr_city g, pk_loading_address := False\<rparr>"

text \<open>
  The continuations of the lookups, each run when its answer arrives; every one but
  the mount's writes the answer with \<open>show_result\<close> and reports it to the parent.
\<close>

text \<open>Lines 147--157 and 164--167: the mount's lookup; only the initial location's is reported.\<close>

definition cont_init :: "geo_server \<Rightarrow> coords \<Rightarrow> bool \<Rightarrow> picker_world \<Rightarrow> picker_world" where
  "cont_init srv p b w =
    (let g = rev_at srv p; c = pw_cur w in
     w\<lparr>pw_cur := c\<lparr>pk_address := gr_display g, pk_city := gr_city g\<rparr>,
       pw_reported := (if b then Some (gr_display g, gr_city g) else pw_reported w)\<rparr>)"

text \<open>Lines 123--136: the effect's lookup.\<close>

definition cont_effect :: "geo_server \<Rightarrow> coords \<Rightarrow> picker_world \<Rightarrow> picker_world" where
  "cont_effect srv p w =
    (let g = rev_at srv p in w\<lparr>pw_cur := show_result g (pw_cur w), pw_reported := Some (gr_display g, gr_city g)\<rparr>)"

text \<open>Lines 232--246: after a click, the clicked point goes to the form and selection mode ends.\<close>

definition cont_click :: "geo_server \<Rightarrow> coords \<Rightarrow> picker_world \<Rightarrow> picker_world" where
  "cont_click srv p w =
    (let g = rev_at srv p in
     w\<lparr>pw_cur := (show_result g (pw_cur w))\<lparr>pk_selecting := False\<rparr>, pw_location := Some p,
       pw_reported := Some (gr_display g, gr_city g)\<rparr>)"

text \<open>Lines 305--318: after a move, the new point goes to the form.\<close>

definition cont_move :: "geo_server \<Rightarrow> coords \<Rightarrow> picker_world \<Rightarrow> picker_world" where
  "cont_move srv p w =
    (let g = rev_at srv p in
     w\<lparr>pw_cur := show_result g (pw_cur w), pw_location := Some p, pw_reported := Some (gr_display g, gr_city g)\<rparr>)"

text \<open>Lines 359--373: after a drag, \<open>coordsRef\<close> as it is when the answer arrives goes to the form.\<close>

definition cont_mouseup :: "geo_server \<Rightarrow> coords \<Rightarrow> picker_world \<Rightarrow> picker_world" where
  "cont_mouseup srv p w =
    (let g = rev_at srv p in
     w\<lparr>pw_cur := show_result g (pw_cur w), pw_location := Some (pk_coords (pw_cur w)),
       pw_reported := Some (gr_display g, gr_city g)\<rparr>)"

text \<open>Lines 459--468: after "my place", the browser's position goes to the form.\<close>

definition cont_current :: "geo_server \<Rightarrow> coords \<Rightarrow> picker_world \<Rightarrow> picker_world" where
  "cont_current srv p w =
    (let g = rev_at srv p in
     w\<lparr>pw_cur := show_result g (pw_cur w), pw_location := Some p, pw_reported := Some (gr_display g, gr_city g)\<rparr>)"

text \<open>Lines 478--489: after "whole country", the centre goes to the form.\<close>

definition cont_showall :: "geo_server \<Rightarrow> picker_world \<Rightarrow> picker_world" where
  "cont_showall srv w =
    (let g = rev_at srv BASE_COORDS in
     w\<lparr>pw_cur := show_result g (pw_cur w), pw_location := Some BASE_COORDS,
       pw_reported := Some (gr_display g, gr_city g)\<rparr>)"

text \<open>Lines 419--427 and 431: the search's city lookup; the search ends.\<close>

definition cont_search :: "geo_server \<Rightarrow> string \<Rightarrow> coords \<Rightarrow> picker_world \<Rightarrow> picker_world" where
  "cont_search srv a p w =
    (let g = rev_at srv p in
     w\<lparr>pw_cur := (pw_cur w)\<lparr>pk_city := gr_city g, pk_searching := False\<rparr>, pw_reported := Some (a, gr_city g)\<rparr>)"

text \<open>
  Lines 400--418 and 428--431: the geocoder's answer.  A hit moves the point, raises a
  zoom below 13 (as the closure saw it) to 13, hands the point to the form and looks
  its city up; no hit ends the search with an alert.
\<close>

definition cont_geocode :: "geo_server \<Rightarrow> string \<Rightarrow> int \<Rightarrow> picker_world \<Rightarrow> picker_world" where
  "cont_geocode srv q z w =
    (let c = pw_cur w in
     case geocode (gs_search srv q) of
       None \<Rightarrow> w\<lparr>pw_cur := c\<lparr>pk_searching := False\<rparr>\<rparr>
     | Some (la, lo, a) \<Rightarrow>
         w\<lparr>pw_cur := c\<lparr>pk_coords := \<lparr>lat = la, lng = lo\<rparr>, pk_address := a,
                         pk_zoom := (if z < 13 then 13 else pk_zoom c), pk_map_key := pk_map_key c + 1,
                         pk_user_selected := True\<rparr>,
           pw_location := Some \<lparr>lat = la, lng = lo\<rparr>,
           pw_pending := pw_pending w @ [RevSearch a \<lparr>lat = la, lng = lo\<rparr>]\<rparr>)"

text \<open>A request's continuation.\<close>

definition resolve_req :: "geo_server \<Rightarrow> pk_request \<Rightarrow> picker_world \<Rightarrow> picker_world" where
  "resolve_req srv r w =
    (case r of
       RevInit p b \<Rightarrow> cont_init srv p b w
     | RevEffect p \<Rightarrow> cont_effect srv p w
     | RevClick p \<Rightarrow> cont_click srv p w
     | RevMove p \<Rightarrow> cont_move srv p w
     | RevMouseUp p \<Rightarrow> cont_mouseup srv p w
     | RevCurrent p \<Rightarrow> cont_current srv p w
     | RevShowAll \<Rightarrow> cont_showall srv w
     | RevSearch a p \<Rightarrow> cont_search srv a p w
     | GeocodeReq q z \<Rightarrow> cont_geocode srv q z w)"

text \<open>
  A render commits the current state and runs the effect of lines 121--138: it looks
  the coordinates up when the user has chosen a place and the coordinates or the
  choice changed, or when the parent re-rendered (the create-task form passes a new
  \<open>onAddressChange\<close> arrow on every render, lines 95--103 of \<open>CreateTaskForm.jsx\<close>).
\<close>

definition picker_commit :: "bool \<Rightarrow> picker_world \<Rightarrow> picker_world" where
  "picker_commit pr w =
    (let c = pw_cur w; s = pw_seen w;
         fire = pk_user_selected c \<and>
                (pk_coords c \<noteq> pk_coords s \<or> pk_user_selected c \<noteq> pk_user_selected s \<or> pr)
     in if fire
        then w\<lparr>pw_cur := c\<lparr>pk_loading_address := True\<rparr>, pw_seen := c,
               pw_pending := pw_pending w @ [RevEffect (pk_coords c)]\<rparr>
        else w\<lparr>pw_seen := c\<rparr>)"

text \<open>A search started by a handler (lines 397--403).\<close>

definition start_search :: "string \<Rightarrow> picker_world \<Rightarrow> picker_world" where
  "start_search q w =
    (case handleAddressSearch q (pw_seen w) (pw_cur w) of
       None \<Rightarrow> w
     | Some (c', r) \<Rightarrow> w\<lparr>pw_cur := c', pw_pending := pw_pending w @ [r]\<rparr>)"

datatype pk_event =
    ToggleSelect | ShowAll | Located "coords option" | MapClick real real real real
  | ZoomIn | ZoomOut | Wheel real | Move direction real real
  | MouseDown nat real real | MouseMove real real | MouseUp
  | AddressInput string | AddressBlur | AddressSubmit | FindButton
  | Render bool | Resolve nat

text \<open>
  One event.  The buttons of lines 522--545 and 660--711, the overlay's click (lines
  730--747), the container's and the document's mouse events, the wheel, the address
  input (lines 558--571), the form's submit (Enter, lines 436--442) and the find button
  (lines 578--585, disabled while searching or loading), a render, or a geocoder answer.
  The position callback of \<open>useCurrentLocation\<close> fires with the browser's position,
  or not at all on refusal (\<open>Located None\<close>).
\<close>

fun pk_step :: "geo_server \<Rightarrow> pk_event \<Rightarrow> picker_world \<Rightarrow> picker_world" where
  "pk_step srv ToggleSelect w = w\<lparr>pw_cur := (pw_cur w)\<lparr>pk_selecting := \<not> pk_selecting (pw_seen w)\<rparr>\<rparr>"
| "pk_step srv ShowAll w = w\<lparr>pw_cur := showAllCountry (pw_cur w), pw_pending := pw_pending w @ [RevShowAll]\<rparr>"
| "pk_step srv (Located None) w = w"
| "pk_step srv (Located (Some p)) w = w\<lparr>pw_cur := located p (pw_cur w), pw_pending := pw_pending w @ [RevCurrent p]\<rparr>"
| "pk_step srv (MapClick x y wd h) w =
    (case handleMapClick x y wd h (pw_seen w) (pw_cur w) of
       None \<Rightarrow> w
     | Some c' \<Rightarrow> w\<lparr>pw_cur := c', pw_pending := pw_pending w @ [RevClick (pk_coords c')]\<rparr>)"
| "pk_step srv ZoomIn w = w\<lparr>pw_cur := handleZoomIn (pw_seen w) (pw_cur w)\<rparr>"
| "pk_step srv ZoomOut w = w\<lparr>pw_cur := handleZoomOut (pw_seen w) (pw_cur w)\<rparr>"
| "pk_step srv (Wheel dy) w = w\<lparr>pw_cur := handleWheel dy (pw_seen w) (pw_cur w)\<rparr>"
| "pk_step srv (Move d wd h) w =
    (let c' = moveMap d wd h (pw_seen w) (pw_cur w)
     in w\<lparr>pw_cur := c', pw_pending := pw_pending w @ [RevMove (pk_coords c')]\<rparr>)"
| "pk_step srv (MouseDown b x y) w = w\<lparr>pw_cur := handleMouseDown b x y (pw_seen w) (pw_cur w)\<rparr>"
| "pk_step srv (MouseMove x y) w = w\<lparr>pw_cur := handleMouseMove x y (pw_seen w) (pw_cur w)\<rparr>"
| "pk_step srv MouseUp w =
    (case handleMouseUp (pw_seen w) (pw_cur w) of
       None \<Rightarrow> w
     | Some c' \<Rightarrow> w\<lparr>pw_cur := c', pw_pending := pw_pending w @ [RevMouseUp (pk_coords c')]\<rparr>)"
| "pk_step srv (AddressInput v) w = w\<lparr>pw_cur := (pw_cur w)\<lparr>pk_address := v\<rparr>\<rparr>"
| "pk_step srv AddressBlur w =
    (let a = pk_address (pw_seen w) in if a \<noteq> [] \<and> trim a \<noteq> [] then start_search a w else w)"
| "pk_step srv AddressSubmit w = start_search (first_truthy [pk_address (pw_cur w), pk_address (pw_seen w)]) w"
| "pk_step srv FindButton w =
    (if pk_searching (pw_seen w) \<or> pk_loading_address (pw_seen w) then w
     else start_search (first_truthy [pk_address (pw_cur w), pk_address (pw_seen w)]) w)"
| "pk_step srv (Render pr) w = picker_commit pr w"
| "pk_step srv (Resolve i) w =
    (if i < length (pw_pending w)
     then resolve_req srv (pw_pending w ! i)
            (w\<lparr>pw_pending := take i (pw_pending w) @ drop (Suc i) (pw_pending w)\<rparr>)
     else w)"

definition pk_run :: "geo_server \<Rightarrow> pk_event list \<Rightarrow> picker_world \<Rightarrow> picker_world" where
  "pk_run srv es w = fold (pk_step srv) es w"

text \<open>Events other than a render and a geocoder answer come from the user.\<close>

fun user_event :: "pk_event \<Rightarrow> bool" where
  "user_event (Render pr) = False"
| "user_event (Resolve i) = False"
| "user_event _ = True"

text \<open>A run in which every user event finds the world in the condition \<open>P\<close>.\<close>

fun run_when :: "(picker_world \<Rightarrow> bool) \<Rightarrow> geo_server \<Rightarrow> pk_event list \<Rightarrow> picker_world \<Rightarrow> bool" where
  "run_when P srv [] w = True"
| "run_when P srv (e # es) w = ((user_event e \<longrightarrow> P w) \<and> run_when P srv es (pk_step srv e w))"

subsection \<open>Rendering (lines 500--756)\<close>

text \<open>Lines 502--511: the whole country up to zoom 5, else a box around the point.\<close>

definition getBbox :: "picker \<Rightarrow> bbox" where
  "getBbox c =
    (if pk_zoom c \<le> 5 then (46, 40, 88, 55)
     else (let latRange = 360 / 2 powr real_of_int (pk_zoom c + 8);
               lngRange = latRange / cos (lat (pk_coords c) * pi / 180)
           in (lng (pk_coords c) - lngRange, lat (pk_coords c) - latRange,
               lng (pk_coords c) + lngRange, lat (pk_coords c) + latRange)))"

record picker_header =
  ph_select_label :: string
  ph_hint :: bool
  ph_spinner :: bool
  ph_find_disabled :: bool
  ph_find_label :: string

text \<open>Lines 514--598 (labels transliterated): the mode and action buttons, the hint and the address form.\<close>

definition picker_header_render :: "picker \<Rightarrow> picker_header" where
  "picker_header_render c =
    \<lparr>ph_select_label = (if pk_selecting c then ''Otmenit'' else ''Vybrat na karte''),
     ph_hint = pk_selecting c,
     ph_spinner = pk_loading_address c,
     ph_find_disabled = (pk_searching c \<or> pk_loading_address c),
     ph_find_label = (if pk_searching c then ''...'' else ''Naiti'')\<rparr>"

record picker_map =
  pm_bbox :: bbox
  pm_marker :: coords
  pm_frame_key :: "nat \<times> int"
  pm_zoom_in_disabled :: bool
  pm_zoom_out_disabled :: bool
  pm_zoom_label :: int
  pm_coords_label :: coords
  pm_overlay :: bool
  pm_selected :: "(string \<times> string option) option"

text \<open>
  Lines 599--757: the frame (keyed by map key and zoom), the zoom buttons and their
  disabled states, the zoom and coordinates indicator, the click overlay in selection
  mode, and the chosen address with its city.
\<close>

definition picker_map_render :: "picker \<Rightarrow> picker_map" where
  "picker_map_render c =
    \<lparr>pm_bbox = getBbox c,
     pm_marker = pk_coords c,
     pm_frame_key = (pk_map_key c, pk_zoom c),
     pm_zoom_in_disabled = (18 \<le> pk_zoom c),
     pm_zoom_out_disabled = (pk_zoom c \<le> 4),
     pm_zoom_label = pk_zoom c,
     pm_coords_label = pk_coords c,
     pm_overlay = pk_selecting c,
     pm_selected = (if pk_address c \<noteq> []
                    then Some (pk_address c, if pk_city c \<noteq> [] then Some (pk_city c) else None) else None)\<rparr>"

text \<open>Lines 512--757: the whole picker.\<close>

definition picker_render :: "picker \<Rightarrow> picker_header \<times> picker_map" where
  "picker_render c = (picker_header_render c, picker_map_render c)"

subsection \<open>Invariants\<close>

text \<open>The zoom range the buttons keep to (lines 249--261 and 669, 678).\<close>

definition zoom_ok :: "picker \<Rightarrow> bool" where
  "zoom_ok c \<longleftrightarrow> 4 \<le> pk_zoom c \<and> pk_zoom c \<le> 18"

text \<open>
  The requests whose continuation hands a position to \<open>onLocationSelect\<close> after the
  handler moved the point or ended a drag, the requests a user event starts, and the
  position a request will report.
\<close>

fun moving_req :: "pk_request \<Rightarrow> bool" where
  "moving_req (RevClick p) = True"
| "moving_req (RevMove p) = True"
| "moving_req (RevMouseUp p) = True"
| "moving_req (RevCurrent p) = True"
| "moving_req RevShowAll = True"
| "moving_req _ = False"

fun user_req :: "pk_request \<Rightarrow> bool" where
  "user_req (GeocodeReq q z) = True"
| "user_req r = moving_req r"

fun req_target :: "pk_request \<Rightarrow> coords option" where
  "req_target (RevClick p) = Some p"
| "req_target (RevMove p) = Some p"
| "req_target (RevCurrent p) = Some p"
| "req_target RevShowAll = Some BASE_COORDS"
| "req_target _ = None"

text \<open>The parent's location is unset or the point the picker shows.\<close>

definition location_agrees :: "picker_world \<Rightarrow> bool" where
  "location_agrees w \<longleftrightarrow> pw_location w = None \<or> pw_location w = Some (pk_coords (pw_cur w))"

definition loc_inv :: "picker_world \<Rightarrow> bool" where
  "loc_inv w \<longleftrightarrow>
    (\<forall>r\<in>set (pw_pending w). \<forall>p. req_target r = Some p \<longrightarrow> p = pk_coords (pw_cur w)) \<and>
    ((\<forall>r\<in>set (pw_pending w). \<not> moving_req r) \<and> \<not> pk_dragging (pw_cur w) \<longrightarrow> location_agrees w) \<and>
    length (filter user_req (pw_pending w)) \<le> 1"

text \<open>A world at rest: rendered, and no geocoder request running.\<close>

definition quiet :: "picker_world \<Rightarrow> bool" where
  "quiet w \<longleftrightarrow> pw_seen w = pw_cur w \<and> pw_pending w = []"

text \<open>A geocoder that never answers with data, for the concrete runs below.\<close>

definition srv0 :: geo_server where
  "srv0 = \<lparr>gs_reverse = (\<lambda>_ _. None), gs_search = (\<lambda>_. None), gs_fixed = (\<lambda>_. ''0'')\<rparr>"

subsection \<open>Properties\<close>

lemmas resolve_req_simps = resolve_req_def cont_init_def cont_effect_def cont_click_def cont_move_def
  cont_mouseup_def cont_current_def cont_showall_def cont_search_def cont_geocode_def

text \<open>An invariant of every step whose user events find the world in condition \<open>P\<close> holds along every such run.\<close>

lemma run_when_invariant:
  assumes step: "\<And>w e. I w \<Longrightarrow> (user_event e \<longrightarrow> P w) \<Longrightarrow> I (pk_step srv e w)"
  shows "run_when P srv es w \<Longrightarrow> I w \<Longrightarrow> I (pk_run srv es w)"
  by (induction es arbitrary: w) (simp_all add: pk_run_def step)

lemma resolve_req_seen [simp]: "pw_seen (resolve_req srv r w) = pw_seen w"
  by (simp add: resolve_req_simps Let_def split: pk_request.split option.split prod.split)

lemma resolve_req_zoom:
  "pk_zoom (pw_cur (resolve_req srv r w)) = pk_zoom (pw_cur w) \<or> pk_zoom (pw_cur (resolve_req srv r w)) = 13"
  by (simp add: resolve_req_simps show_result_def Let_def split: pk_request.split option.split prod.split)

lemma zoom_ok_13 [simp]: "pk_zoom c = 13 \<Longrightarrow> zoom_ok c"
  by (simp add: zoom_ok_def)

lemma start_search_zoom [simp]:
  "pk_zoom (pw_cur (start_search q w)) = pk_zoom (pw_cur w)" "pw_seen (start_search q w) = pw_seen w"
  by (simp_all add: start_search_def handleAddressSearch_def split: option.split)

lemma pk_step_zoom:
  assumes "zoom_ok (pw_cur w)" and "zoom_ok (pw_seen w)" and "user_event e \<longrightarrow> pw_seen w = pw_cur w"
  shows "zoom_ok (pw_cur (pk_step srv e w)) \<and> zoom_ok (pw_seen (pk_step srv e w))"
proof (cases e)
  case (Resolve i)
  then show ?thesis using assms resolve_req_zoom [of srv "pw_pending w ! i" "w\<lparr>pw_pending := take i (pw_pending w) @ drop (Suc i) (pw_pending w)\<rparr>"]
    by (auto simp: zoom_ok_def)
next
  case (Render pr)
  then show ?thesis using assms by (simp add: picker_commit_def Let_def zoom_ok_def)
next
  case (MapClick x y wd h)
  then show ?thesis using assms by (simp add: handleMapClick_def zoom_ok_def split: option.split)
next
  case MouseUp
  then show ?thesis using assms by (simp add: handleMouseUp_def zoom_ok_def split: option.split)
next
  case (Located po)
  then show ?thesis using assms by (cases po) (simp_all add: located_def zoom_ok_def)
next
  case (Wheel dy)
  then show ?thesis using assms by (auto simp: handleWheel_def handleZoomIn_def handleZoomOut_def zoom_ok_def)
qed (use assms in \<open>auto simp: zoom_ok_def handleZoomIn_def handleZoomOut_def moveMap_def showAllCountry_def
       handleMouseDown_def handleMouseMove_def Let_def split: prod.split direction.split\<close>)

lemma run_when_zoom:
  assumes "run_when (\<lambda>w. pw_seen w = pw_cur w) srv es w" and "zoom_ok (pw_cur w)" and "zoom_ok (pw_seen w)"
  shows "zoom_ok (pw_cur (pk_run srv es w))"
proof -
  have step: "zoom_ok (pw_cur (pk_step srv e v)) \<and> zoom_ok (pw_seen (pk_step srv e v))"
    if "zoom_ok (pw_cur v) \<and> zoom_ok (pw_seen v)" and "user_event e \<longrightarrow> pw_seen v = pw_cur v" for v e
    using that by (intro pk_step_zoom) simp_all
  have "zoom_ok (pw_cur (pk_run srv es w)) \<and> zoom_ok (pw_seen (pk_run srv es w))"
    using run_when_invariant [where I = "\<lambda>w. zoom_ok (pw_cur w) \<and> zoom_ok (pw_seen w)", OF step] assms
    by simp
  then show ?thesis by simp
qed

lemma picker_mount_zoom: "zoom_ok (pw_cur (picker_mount il ia)) \<and> zoom_ok (pw_seen (picker_mount il ia))"
  by (simp add: picker_mount_def picker_init_def zoom_ok_def handleAddressSearch_def Let_def
      split: option.split)

text \<open>C18: When every user event finds the picker rendered, its zoom stays between 4 and 18 whatever the clicks, wheel turns, moves, searches and geocoder answers: the zoom buttons' guards, the click, "my place" and "whole country" zooms and the search's zoom of 13 keep to the range of the disabled buttons.\<close>

theorem picker_zoom_in_range:
  assumes "run_when (\<lambda>w. pw_seen w = pw_cur w) srv es (picker_mount il ia)"
  shows "4 \<le> pk_zoom (pw_cur (pk_run srv es (picker_mount il ia))) \<and> pk_zoom (pw_cur (pk_run srv es (picker_mount il ia))) \<le> 18"
  using run_when_zoom [OF assms] picker_mount_zoom by (simp add: zoom_ok_def)

lemma loc_inv_mount: "loc_inv (picker_mount il ia)"
  by (cases il) (simp_all add: picker_mount_def picker_init_def loc_inv_def location_agrees_def
      handleAddressSearch_def Let_def split: option.split)

text \<open>A user event on a world at rest leaves at most one user request, with the point it shows.\<close>

lemma quiet_user_step:
  assumes "loc_inv w" and "quiet w" and "user_event e"
  shows "loc_inv (pk_step srv e w)"
proof -
  have q: "pw_seen w = pw_cur w" "pw_pending w = []" using assms(2) by (simp_all add: quiet_def)
  have ag: "\<not> pk_dragging (pw_cur w) \<Longrightarrow> location_agrees w" using assms(1) q by (simp add: loc_inv_def)
  show ?thesis
  proof (cases e)
    case (MouseMove x y)
    then show ?thesis using q ag by (auto simp: loc_inv_def handleMouseMove_def location_agrees_def)
  next
    case MouseUp
    then show ?thesis using q ag by (auto simp: loc_inv_def handleMouseUp_def location_agrees_def)
  next
    case (MouseDown b x y)
    then show ?thesis using q ag by (auto simp: loc_inv_def handleMouseDown_def location_agrees_def)
  next
    case (MapClick x y wd h)
    then show ?thesis using q ag by (auto simp: loc_inv_def handleMapClick_def location_agrees_def)
  next
    case (Located po)
    then show ?thesis using q ag by (cases po) (auto simp: loc_inv_def located_def location_agrees_def)
  next
    case AddressBlur
    then show ?thesis using q ag
      by (auto simp: loc_inv_def start_search_def handleAddressSearch_def location_agrees_def Let_def)
  next
    case AddressSubmit
    then show ?thesis using q ag
      by (auto simp: loc_inv_def start_search_def handleAddressSearch_def location_agrees_def)
  next
    case FindButton
    then show ?thesis using q ag
      by (auto simp: loc_inv_def start_search_def handleAddressSearch_def location_agrees_def)
  qed (use q ag assms(3) in \<open>auto simp: loc_inv_def location_agrees_def showAllCountry_def handleZoomIn_def
         handleZoomOut_def handleWheel_def moveMap_def Let_def split: prod.split\<close>)
qed

lemma req_target_user: "req_target r = Some p \<Longrightarrow> user_req r"
  by (cases r) simp_all

lemma moving_user: "moving_req r \<Longrightarrow> user_req r"
  by (cases r) simp_all

lemma commit_loc_inv: "loc_inv w \<Longrightarrow> loc_inv (picker_commit pr w)"
  by (auto simp: picker_commit_def loc_inv_def location_agrees_def Let_def)

lemma resolve_loc_inv:
  assumes inv: "loc_inv w" and i: "i < length (pw_pending w)"
  shows "loc_inv (pk_step srv (Resolve i) w)"
proof -
  define r where "r = pw_pending w ! i"
  define rest where "rest = take i (pw_pending w) @ drop (Suc i) (pw_pending w)"
  define w' where "w' = w\<lparr>pw_pending := rest\<rparr>"
  have step: "pk_step srv (Resolve i) w = resolve_req srv r w'" using i by (simp add: r_def rest_def w'_def)
  have r_in: "r \<in> set (pw_pending w)" using i by (simp add: r_def)
  have pend: "set (pw_pending w) = insert r (set rest)"
    unfolding rest_def r_def by (rule set_remove_nth [OF i])
  have cnt: "length (filter user_req (pw_pending w)) = length (filter user_req rest) + (if user_req r then 1 else 0)"
    unfolding rest_def r_def by (rule length_filter_remove_nth [OF i])
  have T: "\<And>r' p. r' \<in> set (pw_pending w) \<Longrightarrow> req_target r' = Some p \<Longrightarrow> p = pk_coords (pw_cur w)"
    and A: "(\<forall>r'\<in>set (pw_pending w). \<not> moving_req r') \<Longrightarrow> \<not> pk_dragging (pw_cur w) \<Longrightarrow> location_agrees w"
    and C: "length (filter user_req (pw_pending w)) \<le> 1"
    using inv by (auto simp: loc_inv_def)
  have T': "\<forall>r'\<in>set rest. \<forall>p. req_target r' = Some p \<longrightarrow> p = pk_coords (pw_cur w)" using T pend by blast
  have C': "length (filter user_req rest) \<le> 1" using C cnt by simp
  have solo: "user_req r \<Longrightarrow> \<forall>r'\<in>set rest. \<not> user_req r'"
  proof -
    assume "user_req r"
    then have "filter user_req rest = []" using C cnt by simp
    then show ?thesis by (simp add: filter_empty_conv)
  qed
  have quiet_case: "\<not> moving_req r \<Longrightarrow> (\<forall>r'\<in>set rest. \<not> moving_req r') \<Longrightarrow> \<not> pk_dragging (pw_cur w) \<Longrightarrow> location_agrees w"
    using A pend by simp
  show ?thesis
  proof (cases r)
    case (GeocodeReq q z)
    show ?thesis
    proof (cases "geocode (gs_search srv q)")
      case None
      then show ?thesis unfolding step using GeocodeReq T' C' quiet_case
        by (simp add: resolve_req_simps w'_def loc_inv_def location_agrees_def)
    next
      case (Some g)
      then obtain la lo a where g: "g = (la, lo, a)" by (cases g) auto
      have nu: "\<forall>r'\<in>set rest. \<not> user_req r'" using solo GeocodeReq by simp
      then have "\<forall>r'\<in>set rest. req_target r' = None \<and> \<not> moving_req r'"
        by (metis moving_user not_None_eq req_target_user)
      then show ?thesis unfolding step using GeocodeReq Some g nu
        by (simp add: resolve_req_simps w'_def loc_inv_def location_agrees_def filter_empty_conv Let_def)
    qed
  next
    case (RevInit p b)
    then show ?thesis unfolding step using T' C' quiet_case
      by (simp add: resolve_req_simps w'_def loc_inv_def location_agrees_def show_result_def Let_def)
  next
    case (RevEffect p)
    then show ?thesis unfolding step using T' C' quiet_case
      by (simp add: resolve_req_simps w'_def loc_inv_def location_agrees_def show_result_def Let_def)
  next
    case (RevSearch a p)
    then show ?thesis unfolding step using T' C' quiet_case
      by (simp add: resolve_req_simps w'_def loc_inv_def location_agrees_def show_result_def Let_def)
  next
    case (RevClick p)
    then show ?thesis unfolding step using T' C' T [OF r_in, of p]
      by (simp add: resolve_req_simps w'_def loc_inv_def location_agrees_def show_result_def Let_def)
  next
    case (RevMove p)
    then show ?thesis unfolding step using T' C' T [OF r_in, of p]
      by (simp add: resolve_req_simps w'_def loc_inv_def location_agrees_def show_result_def Let_def)
  next
    case (RevCurrent p)
    then show ?thesis unfolding step using T' C' T [OF r_in, of p]
      by (simp add: resolve_req_simps w'_def loc_inv_def location_agrees_def show_result_def Let_def)
  next
    case RevShowAll
    then show ?thesis unfolding step using T' C' T [OF r_in, of BASE_COORDS]
      by (simp add: resolve_req_simps w'_def loc_inv_def location_agrees_def show_result_def Let_def)
  next
    case (RevMouseUp p)
    then show ?thesis unfolding step using T' C' T [OF r_in, of p]
      by (simp add: resolve_req_simps w'_def loc_inv_def location_agrees_def show_result_def Let_def)
  qed
qed

lemma pk_step_loc_inv:
  assumes "loc_inv w" and "user_event e \<longrightarrow> quiet w"
  shows "loc_inv (pk_step srv e w)"
proof (cases "user_event e")
  case True
  then show ?thesis using quiet_user_step [of w e srv] assms by blast
next
  case False
  then consider pr where "e = Render pr" | i where "e = Resolve i" by (cases e) auto
  then show ?thesis
  proof cases
    case 1
    then show ?thesis using assms(1) by (simp add: commit_loc_inv)
  next
    case 2
    then show ?thesis using assms(1) resolve_loc_inv [of w i srv] by (cases "i < length (pw_pending w)") simp_all
  qed
qed

lemma run_when_loc_inv:
  "run_when quiet srv es w \<Longrightarrow> loc_inv w \<Longrightarrow> loc_inv (pk_run srv es w)"
  using run_when_invariant [where I = loc_inv and P = quiet, OF pk_step_loc_inv] by simp

text \<open>C26: When the user waits for each geocoder answer before the next action and the page has re-rendered, then whenever no request is running and no drag is under way, the location the picker handed to the form is the point the picker shows (or none was handed yet).\<close>

theorem picker_location_agrees:
  assumes "run_when quiet srv es (picker_mount il ia)"
    and "pw_pending (pk_run srv es (picker_mount il ia)) = []"
    and "\<not> pk_dragging (pw_cur (pk_run srv es (picker_mount il ia)))"
  shows "pw_location (pk_run srv es (picker_mount il ia)) = None \<or>
         pw_location (pk_run srv es (picker_mount il ia)) = Some (pk_coords (pw_cur (pk_run srv es (picker_mount il ia))))"
  using run_when_loc_inv [OF assms(1) loc_inv_mount] assms(2,3) by (simp add: loc_inv_def location_agrees_def)

lemma resolve_req_location: "pw_location w \<noteq> None \<Longrightarrow> pw_location (resolve_req srv r w) \<noteq> None"
  by (simp add: resolve_req_simps Let_def split: pk_request.split option.split prod.split)

lemma pk_step_location: "pw_location w \<noteq> None \<Longrightarrow> pw_location (pk_step srv e w) \<noteq> None"
proof (cases e)
  case (Located po)
  then show "pw_location w \<noteq> None \<Longrightarrow> ?thesis" by (cases po) simp_all
next
  case (Resolve i)
  then show "pw_location w \<noteq> None \<Longrightarrow> ?thesis" using resolve_req_location by (simp del: not_None_eq)
qed (simp_all add: picker_commit_def start_search_def Let_def split: option.split prod.split)

lemma mount_location_set:
  "pw_location (pk_run srv es (picker_mount None [])) \<noteq> None"
proof -
  have "pw_location (picker_mount None []) \<noteq> None" by (simp add: picker_mount_def Let_def)
  then show ?thesis unfolding pk_run_def
    by (induction es arbitrary: w rule: rev_induct) (simp_all add: pk_step_location)
qed

text \<open>
  Without a user event the picker never selects: renders fire no lookup, the mount's
  lookup changes only the address, and the location stays the one the mount handed over.
\<close>

lemma untouched_step:
  assumes "pw_location w = Some BASE_COORDS \<and> \<not> pk_user_selected (pw_cur w) \<and>
           (\<forall>r\<in>set (pw_pending w). \<exists>p b. r = RevInit p b)"
    and "user_event e \<longrightarrow> False"
  shows "pw_location (pk_step srv e w) = Some BASE_COORDS \<and> \<not> pk_user_selected (pw_cur (pk_step srv e w)) \<and>
         (\<forall>r\<in>set (pw_pending (pk_step srv e w)). \<exists>p b. r = RevInit p b)"
proof (cases e)
  case (Render pr)
  then show ?thesis using assms(1) by (simp add: picker_commit_def Let_def)
next
  case (Resolve i)
  show ?thesis
  proof (cases "i < length (pw_pending w)")
    case True
    then obtain p b where r: "pw_pending w ! i = RevInit p b" using assms(1) nth_mem by blast
    have "set (take i (pw_pending w) @ drop (Suc i) (pw_pending w)) \<subseteq> set (pw_pending w)"
      using set_remove_nth [OF True] by blast
    then show ?thesis using Resolve True r assms(1) by (auto simp: resolve_req_simps Let_def)
  qed (use Resolve assms(1) in simp)
qed (use assms(2) in simp_all)

lemma untouched_run:
  assumes "\<forall>e\<in>set es. \<not> user_event e"
    and "pw_location w = Some BASE_COORDS \<and> \<not> pk_user_selected (pw_cur w) \<and>
         (\<forall>r\<in>set (pw_pending w). \<exists>p b. r = RevInit p b)"
  shows "pw_location (pk_run srv es w) = Some BASE_COORDS"
  using assms
proof (induction es arbitrary: w)
  case (Cons e es)
  then show ?case using untouched_step [OF Cons.prems(2), of e srv] by (simp add: pk_run_def)
qed (simp add: pk_run_def)

lemma untouched_location:
  "\<forall>e\<in>set es. \<not> user_event e \<Longrightarrow> pw_location (pk_run srv es (picker_mount None [])) = Some BASE_COORDS"
  by (rule untouched_run) (auto simp: picker_mount_def picker_init_def Let_def)

lemma first_truthy_nonempty: "s \<in> set xs \<Longrightarrow> s \<noteq> [] \<Longrightarrow> first_truthy xs \<noteq> []"
proof (induction xs)
  case (Cons x xs)
  then show ?case by (cases "x = []") (auto simp: first_truthy_def)
qed simp

text \<open>Every lookup yields an address to show: the coordinates' text is the last fallback.\<close>

lemma reverseGeocode_display: "gr_display (reverseGeocode fx resp la lo) \<noteq> []"
proof -
  have "first_truthy [a, dn, fx la @ '', '' @ fx lo] \<noteq> []" for a dn
    by (rule first_truthy_nonempty [of "fx la @ '', '' @ fx lo"]) simp_all
  then show ?thesis by (simp add: reverseGeocode_def Let_def split: option.split prod.split)
qed

text \<open>A search hit in Kazakhstan is preferred to the hits before it.\<close>

lemma geocode_prefers_kz:
  assumes "find kz_place ps = Some q"
  shows "geocode (Some ps) = Some (op_lat q, op_lon q, op_display q)"
  using assms by (cases ps) (simp_all add: geocode_def)

text \<open>A disabled zoom button's handler would change nothing either.\<close>

lemma zoom_buttons_guarded:
  "pm_zoom_in_disabled (picker_map_render c) \<Longrightarrow> handleZoomIn c c = c"
  "pm_zoom_out_disabled (picker_map_render c) \<Longrightarrow> handleZoomOut c c = c"
  by (simp_all add: picker_map_render_def handleZoomIn_def handleZoomOut_def)

text \<open>
  Two turns of the wheel before React re-renders: both closures see zoom 17 and both
  add one, so the map is asked for zoom 19, beyond the buttons' limit.
\<close>

lemma wheel_race_exceeds:
  "pk_zoom (pw_cur (pk_run srv [Resolve 0, Render False, ZoomIn, Render False, ZoomIn, Render False, ZoomIn,
      Render False, ZoomIn, Render False, Wheel (-1), Wheel (-1)] (picker_mount None []))) = 19"
  by (simp add: pk_run_def picker_mount_def picker_init_def resolve_req_simps picker_commit_def handleZoomIn_def
      handleWheel_def Let_def)

text \<open>Two lookups answered in the other order: the form keeps the country's centre, the picker shows the user's position.\<close>

lemma picker_answers_out_of_order:
  assumes "p \<noteq> BASE_COORDS"
  shows "pw_location (pk_run srv [Resolve 0, Render False, ShowAll, Located (Some p), Resolve 1, Resolve 0]
            (picker_mount None [])) = Some BASE_COORDS \<and>
         pk_coords (pw_cur (pk_run srv [Resolve 0, Render False, ShowAll, Located (Some p), Resolve 1, Resolve 0]
            (picker_mount None []))) = p \<and>
         pw_pending (pk_run srv [Resolve 0, Render False, ShowAll, Located (Some p), Resolve 1, Resolve 0]
            (picker_mount None [])) = [] \<and>
         \<not> pk_dragging (pw_cur (pk_run srv [Resolve 0, Render False, ShowAll, Located (Some p), Resolve 1, Resolve 0]
            (picker_mount None [])))"
  using assms
  by (simp add: pk_run_def picker_mount_def picker_init_def resolve_req_simps picker_commit_def showAllCountry_def
      located_def show_result_def Let_def)


subsection \<open>Witnesses\<close>

theorem picker_zoom_in_range_witness:
  "run_when (\<lambda>w. pw_seen w = pw_cur w) srv0 [Render False, ZoomIn] (picker_mount None []) \<and>
   4 \<le> pk_zoom (pw_cur (pk_run srv0 [Render False, ZoomIn] (picker_mount None []))) \<and>
   pk_zoom (pw_cur (pk_run srv0 [Render False, ZoomIn] (picker_mount None []))) \<le> 18"
proof -
  have r: "run_when (\<lambda>w. pw_seen w = pw_cur w) srv0 [Render False, ZoomIn] (picker_mount None [])"
    by (simp add: picker_mount_def picker_init_def picker_commit_def Let_def)
  show ?thesis using r picker_zoom_in_range [OF r] by simp
qed

theorem picker_location_agrees_witness:
  "run_when quiet srv0 [Resolve 0, Render False, ShowAll, Resolve 0] (picker_mount None []) \<and>
   pw_pending (pk_run srv0 [Resolve 0, Render False, ShowAll, Resolve 0] (picker_mount None [])) = [] \<and>
   \<not> pk_dragging (pw_cur (pk_run srv0 [Resolve 0, Render False, ShowAll, Resolve 0] (picker_mount None []))) \<and>
   (pw_location (pk_run srv0 [Resolve 0, Render False, ShowAll, Resolve 0] (picker_mount None [])) = None \<or>
    pw_location (pk_run srv0 [Resolve 0, Render False, ShowAll, Resolve 0] (picker_mount None [])) =
      Some (pk_coords (pw_cur (pk_run srv0 [Resolve 0, Render False, ShowAll, Resolve 0] (picker_mount None [])))))"
proof -
  have r: "run_when quiet srv0 [Resolve 0, Render False, ShowAll, Resolve 0] (picker_mount None [])"
    by (simp add: quiet_def picker_mount_def picker_init_def picker_commit_def resolve_req_simps Let_def)
  have p: "pw_pending (pk_run srv0 [Resolve 0, Render False, ShowAll, Resolve 0] (picker_mount None [])) = []"
    by (simp add: pk_run_def picker_mount_def picker_init_def picker_commit_def resolve_req_simps showAllCountry_def
        Let_def show_result_def)
  have d: "\<not> pk_dragging (pw_cur (pk_run srv0 [Resolve 0, Render False, ShowAll, Resolve 0] (picker_mount None [])))"
    by (simp add: pk_run_def picker_mount_def picker_init_def picker_commit_def resolve_req_simps showAllCountry_def
        Let_def show_result_def)
  show ?thesis using r p d picker_location_agrees [OF r p d] by blast
qed

end
