(* ===== verification/LocationPicker.thy ===== *)
theory LocationPicker
  imports MapPicker
begin

text \<open>
  The second location widget, \<open>src/src/components/LocationPicker.jsx\<close>, which no
  component of the application imports.  It is modelled like \<open>MapPicker\<close>: a world
  holds the rendered and the current state, the debounce timer of the auto-search,
  the requests still running (geocoder, reverse geocoder, the browser's position,
  the auto-search), answered in any order by a fixed server, and what the parent
  received.  Coordinates are the pair \<open>[lat, lng]\<close> of the code.
\<close>

subsection \<open>Geocoding (lines 4--60)\<close>

text \<open>Lines 4--34 are the same search and choice of hit as \<open>geocode\<close> of \<open>MapPicker.jsx\<close>.\<close>

definition geocodeAddress :: "osm_place list option \<Rightarrow> (real \<times> real \<times> string) option" where
  "geocodeAddress resp = geocode resp"

text \<open>What the reverse lookup reads: \<open>display_name\<close> and the \<open>address\<close> fields, absent as \<open>''\<close>.\<close>

record lp_reverse =
  lr_display :: string
  lr_city :: string
  lr_town :: string
  lr_village :: string
  lr_county :: string

text \<open>Lines 37--60: the display name and the city, or \<open>null\<close> without a display name or on failure.\<close>

definition lp_reverseGeocode :: "lp_reverse option \<Rightarrow> (string \<times> string) option" where
  "lp_reverseGeocode resp =
    (case resp of
       Some r \<Rightarrow> (if lr_display r \<noteq> []
                 then Some (lr_display r, first_truthy [lr_city r, lr_town r, lr_village r, lr_county r])
                 else None)
     | None \<Rightarrow> None)"

text \<open>The answers of a run: searches (both \<open>geocodeAddress\<close> and the auto-search), reverse lookups, the browser's position (\<open>None\<close> on refusal).\<close>

record lp_server =
  ls_search :: "string \<Rightarrow> osm_place list option"
  ls_reverse :: "real \<Rightarrow> real \<Rightarrow> lp_reverse option"
  ls_position :: "coords option"

subsection \<open>State and requests\<close>

type_synonym suggestion = "string \<times> real \<times> real"

record lpicker =
  lp_address :: string
  lp_coordinates :: "real \<times> real"
  lp_searching :: bool
  lp_suggestions :: "suggestion list"
  lp_center :: "real \<times> real"

datatype lp_initial = NoInitial | ArrayInitial "real \<times> real" | ObjectInitial coords

text \<open>Lines 66--76.\<close>

definition getInitialCoords :: "lp_initial \<Rightarrow> real \<times> real" where
  "getInitialCoords il =
    (case il of
       ArrayInitial p \<Rightarrow> p
     | ObjectInitial c \<Rightarrow> (if lat c \<noteq> 0 \<and> lng c \<noteq> 0 then (lat c, lng c) else (43.2220, 76.8512))
     | NoInitial \<Rightarrow> (43.2220, 76.8512))"

text \<open>Lines 64--80.\<close>

definition lpicker_init :: "lp_initial \<Rightarrow> lpicker" where
  "lpicker_init il =
    \<lparr>lp_address = [], lp_coordinates = getInitialCoords il, lp_searching = False, lp_suggestions = [],
     lp_center = getInitialCoords il\<rparr>"

text \<open>What a caller of \<open>handleLocationSelect\<close> does after it returns (lines 135 and 174).\<close>

datatype lp_cont = KNone | KSetAddress string | KClearSuggestions

datatype lp_request = LGeocode string | LReverse real real lp_cont | LPosition | LSuggest string

record lp_world =
  lw_cur :: lpicker
  lw_seen :: lpicker
  lw_timer :: "string option"
  lw_pending :: "lp_request list"
  lw_location :: "coords option"
  lw_reported :: "(string \<times> string) option"

definition lp_mount :: "lp_initial \<Rightarrow> lp_world" where
  "lp_mount il =
    \<lparr>lw_cur = lpicker_init il, lw_seen = lpicker_init il, lw_timer = None, lw_pending = [],
     lw_location = None, lw_reported = None\<rparr>"

subsection \<open>Handlers\<close>

text \<open>Lines 83--89 up to the lookup.\<close>

definition handleLocationSelect :: "real \<Rightarrow> real \<Rightarrow> lp_cont \<Rightarrow> lp_world \<Rightarrow> lp_world" where
  "handleLocationSelect la lo k w =
    w\<lparr>lw_cur := (lw_cur w)\<lparr>lp_searching := True, lp_coordinates := (la, lo), lp_center := (la, lo)\<rparr>,
      lw_pending := lw_pending w @ [LReverse la lo k]\<rparr>"

text \<open>Lines 90--104 and the caller's rest: address and parent from the lookup if any, then \<open>onLocationSelect\<close>.\<close>

definition lp_after_select :: "lp_server \<Rightarrow> real \<Rightarrow> real \<Rightarrow> lp_cont \<Rightarrow> lp_world \<Rightarrow> lp_world" where
  "lp_after_select srv la lo k w =
    (let c = lw_cur w;
         w1 = (case lp_reverseGeocode (ls_reverse srv la lo) of
                 Some (dn, cty) \<Rightarrow> w\<lparr>lw_cur := c\<lparr>lp_address := dn\<rparr>, lw_reported := Some (dn, cty)\<rparr>
               | None \<Rightarrow> w);
         w2 = w1\<lparr>lw_location := Some \<lparr>lat = la, lng = lo\<rparr>,
                 lw_cur := (lw_cur w1)\<lparr>lp_searching := False\<rparr>\<rparr>
     in case k of
          KNone \<Rightarrow> w2
        | KSetAddress a \<Rightarrow> w2\<lparr>lw_cur := (lw_cur w2)\<lparr>lp_address := a\<rparr>\<rparr>
        | KClearSuggestions \<Rightarrow> w2\<lparr>lw_cur := (lw_cur w2)\<lparr>lp_suggestions := []\<rparr>\<rparr>)"

text \<open>Lines 107--125, with a browser that has geolocation: the button starts the position request.\<close>

definition handleGetMyLocation :: "lp_world \<Rightarrow> lp_world" where
  "handleGetMyLocation w =
    w\<lparr>lw_cur := (lw_cur w)\<lparr>lp_searching := True\<rparr>, lw_pending := lw_pending w @ [LPosition]\<rparr>"

text \<open>Lines 128--132 up to the geocoder; the closure's address is the rendered one.\<close>

definition handleSearchAddress :: "lp_world \<Rightarrow> lp_world" where
  "handleSearchAddress w =
    (if trim (lp_address (lw_seen w)) = [] then w
     else w\<lparr>lw_cur := (lw_cur w)\<lparr>lp_searching := True\<rparr>,
            lw_pending := lw_pending w @ [LGeocode (lp_address (lw_seen w))]\<rparr>)"

text \<open>Lines 171--175: the chosen suggestion's name, then its position is selected.\<close>

definition handleSelectSuggestion :: "suggestion \<Rightarrow> lp_world \<Rightarrow> lp_world" where
  "handleSelectSuggestion sg w =
    (case sg of (dn, la, lo) \<Rightarrow>
       handleLocationSelect la lo KClearSuggestions (w\<lparr>lw_cur := (lw_cur w)\<lparr>lp_address := dn\<rparr>\<rparr>))"

text \<open>
  Lines 143--169: after a render whose address changed, the old timer is cleared and,
  for an address longer than three characters, a new one is set; else the
  suggestions are emptied.
\<close>

definition lp_commit :: "lp_world \<Rightarrow> lp_world" where
  "lp_commit w =
    (let c = lw_cur w in
     if lp_address c \<noteq> lp_address (lw_seen w)
     then (if 3 < length (lp_address c)
           then w\<lparr>lw_seen := c, lw_timer := Some (lp_address c)\<rparr>
           else w\<lparr>lw_cur := c\<lparr>lp_suggestions := []\<rparr>, lw_seen := c, lw_timer := None\<rparr>)
     else w\<lparr>lw_seen := c\<rparr>)"

text \<open>The answer to a request (lines 90--104, 110--120, 133--140 and 146--163).\<close>

definition lp_resolve :: "lp_server \<Rightarrow> lp_request \<Rightarrow> lp_world \<Rightarrow> lp_world" where
  "lp_resolve srv r w =
    (case r of
       LReverse la lo k \<Rightarrow> lp_after_select srv la lo k w
     | LPosition \<Rightarrow>
         (case ls_position srv of
            Some p \<Rightarrow> handleLocationSelect (lat p) (lng p) KNone w
          | None \<Rightarrow> w\<lparr>lw_cur := (lw_cur w)\<lparr>lp_searching := False\<rparr>\<rparr>)
     | LGeocode q \<Rightarrow>
         (case geocodeAddress (ls_search srv q) of
            Some (la, lo, dn) \<Rightarrow> handleLocationSelect la lo (KSetAddress dn) w
          | None \<Rightarrow> w\<lparr>lw_cur := (lw_cur w)\<lparr>lp_searching := False\<rparr>\<rparr>)
     | LSuggest q \<Rightarrow>
         (case ls_search srv q of
            Some ps \<Rightarrow> w\<lparr>lw_cur := (lw_cur w)\<lparr>lp_suggestions := map (\<lambda>p. (op_display p, op_lat p, op_lon p)) ps\<rparr>\<rparr>
          | None \<Rightarrow> w))"

datatype lp_event =
    LpInput string | LpFind | LpMyLocation | LpChoose nat | LpTimer | LpRender | LpResolve nat

text \<open>
  One event: the input (line 188), the find button (lines 194--200, disabled while
  searching or for a blank address), the position button (lines 202--215, disabled
  while searching), a suggestion's button (line 223), the debounce timer, a render,
  or an answer.
\<close>

fun lp_step :: "lp_server \<Rightarrow> lp_event \<Rightarrow> lp_world \<Rightarrow> lp_world" where
  "lp_step srv (LpInput v) w = w\<lparr>lw_cur := (lw_cur w)\<lparr>lp_address := v\<rparr>\<rparr>"
| "lp_step srv LpFind w =
    (if lp_searching (lw_seen w) \<or> trim (lp_address (lw_seen w)) = [] then w else handleSearchAddress w)"
| "lp_step srv LpMyLocation w = (if lp_searching (lw_seen w) then w else handleGetMyLocation w)"
| "lp_step srv (LpChoose i) w =
    (if i < length (lp_suggestions (lw_seen w)) then handleSelectSuggestion (lp_suggestions (lw_seen w) ! i) w else w)"
| "lp_step srv LpTimer w =
    (case lw_timer w of
       Some q \<Rightarrow> w\<lparr>lw_timer := None, lw_pending := lw_pending w @ [LSuggest q]\<rparr>
     | None \<Rightarrow> w)"
| "lp_step srv LpRender w = lp_commit w"
| "lp_step srv (LpResolve i) w =
    (if i < length (lw_pending w)
     then lp_resolve srv (lw_pending w ! i) (w\<lparr>lw_pending := take i (lw_pending w) @ drop (Suc i) (lw_pending w)\<rparr>)
     else w)"

definition lp_run :: "lp_server \<Rightarrow> lp_event list \<Rightarrow> lp_world \<Rightarrow> lp_world" where
  "lp_run srv es w = fold (lp_step srv) es w"

subsection \<open>Rendering (lines 177--284)\<close>

record lp_screen =
  lps_find_disabled :: bool
  lps_find_label :: string
  lps_locate_disabled :: bool
  lps_suggestions :: "string list"
  lps_bbox :: bbox
  lps_marker :: "real \<times> real"

definition lp_render :: "lpicker \<Rightarrow> lp_screen" where
  "lp_render c =
    (let (la, lo) = lp_coordinates c in
     \<lparr>lps_find_disabled = (lp_searching c \<or> trim (lp_address c) = []),
      lps_find_label = (if lp_searching c then ''Poisk...'' else ''Naiti''),
      lps_locate_disabled = lp_searching c,
      lps_suggestions = map fst (lp_suggestions c),
      lps_bbox = (lo - 0.002, la - 0.002, lo + 0.002, la + 0.002),
      lps_marker = (la, lo)\<rparr>)"

text \<open>A server that finds one place in Almaty for every query and has no reverse data.\<close>

definition lp_srv0 :: lp_server where
  "lp_srv0 =
    \<lparr>ls_search = (\<lambda>q. Some [\<lparr>op_display = ''Almaty, Kazakhstan'', op_lat = 43, op_lon = 77, op_country = Some ''kz''\<rparr>]),
     ls_reverse = (\<lambda>_ _. None), ls_position = None\<rparr>"

subsection \<open>Properties\<close>

text \<open>
  Whatever the reverse lookup answers, its continuation hands the selected position to
  \<open>onLocationSelect\<close> and ends the search state.
\<close>

lemma lp_after_select_location:
  "lw_location (lp_after_select srv la lo k w) = Some \<lparr>lat = la, lng = lo\<rparr> \<and>
   \<not> lp_searching (lw_cur (lp_after_select srv la lo k w))"
  by (cases k) (simp_all add: lp_after_select_def Let_def split: option.split prod.split)

text \<open>
  A search with the find button never closes the suggestion list: after typing, the
  auto-search's answer, the button and both lookups, the place is selected and the
  list of suggestions for the typed text is still shown.
\<close>

lemma lp_search_keeps_suggestions:
  "lw_location (lp_run lp_srv0 [LpInput ''Almaty'', LpRender, LpTimer, LpResolve 0, LpRender, LpFind,
      LpResolve 0, LpResolve 0, LpRender] (lp_mount NoInitial)) = Some \<lparr>lat = 43, lng = 77\<rparr> \<and>
   lps_suggestions (lp_render (lw_cur (lp_run lp_srv0 [LpInput ''Almaty'', LpRender, LpTimer, LpResolve 0, LpRender,
      LpFind, LpResolve 0, LpResolve 0, LpRender] (lp_mount NoInitial)))) = [''Almaty, Kazakhstan'']"
  by (simp add: lp_run_def lp_mount_def lpicker_init_def lp_commit_def lp_resolve_def lp_srv0_def
      handleSearchAddress_def handleLocationSelect_def lp_after_select_def lp_reverseGeocode_def geocodeAddress_def
      geocode_def kz_place_def lower_char_def lp_render_def trim_def js_space_def Let_def)

end
