(* ===== verification/Spec2Isabelle.thy ===== *)
theory Spec2Isabelle
  imports System ChatView Sidebar ProfileView Details UserDash TaskForms Upload MapPicker LocationPicker
begin

text \<open>
  \<^bold>\<open>VolunteerHub in Isabelle/HOL.\<close>
  VolunteerHub is a React single-page application in which users publish tasks with a
  reward in points, volunteers take and complete them, and an administrator moderates
  new tasks and reports.  There is no server: \<open>src/Volonter-Hub-main/src/services/mockApi.js\<close>
  keeps three JSON collections (users, tasks, chat messages) in \<open>localStorage\<close> and
  every API call reads them, mutates the objects it found and writes them back.  Two
  React contexts (\<open>src/src/contexts/AuthContext.jsx\<close>, \<open>TaskContext.jsx\<close>) hold the
  signed-in user and a cache of the task list; pages, cards and forms call the contexts.

  \<^bold>\<open>How the code is modelled.\<close>
  A shallow embedding.  JSON records are Isabelle records, absent keys and \<open>NaN\<close> are
  \<open>None\<close>, JavaScript numbers are \<open>int\<close> (all values the code computes are integers:
  \<open>Math.floor(p * 0.5)\<close> is \<open>p div 2\<close>), strings are \<open>string\<close> with the Cyrillic
  literals transliterated, \<open>Array.find\<close> is \<open>find\<close>, and a mutation through the object
  \<open>find\<close> returned is \<open>update_first\<close>.  Every API operation is a function from the
  store it reads to the store it writes; a \<open>throw\<close> is the \<open>Inl\<close> of the sum type
  \<open>result\<close> and writes nothing.  The client state of a tab is the record \<open>session\<close>;
  a context operation maps store and session to store and session.  Awaits run in the
  order written; the artificial \<open>delay()\<close> of every API call is not modelled.  All
  definitions are executable and the witnesses evaluate them by \<open>simp\<close>.

  \<^bold>\<open>Theories.\<close>
  \<^item> \<open>Prelude\<close>: truthiness (\<open>truthy_str\<close>, \<open>or_zero\<close>), \<open>update_first\<close>, \<open>digit_string\<close>
    (\<open>String(Date.now())\<close>) and the shared list lemmas (\<open>find_update_first_key\<close>,
    \<open>sum_update_first\<close>, \<open>update_first_distinct_map\<close>).
  \<^item> \<open>Store\<close>: the records \<open>user\<close>, \<open>task\<close> (with its optional \<open>latitude\<close> and
    \<open>longitude\<close>, reals), \<open>coords\<close>, \<open>message\<close>, \<open>store\<close>, the \<open>status\<close>
    datatype (with \<open>Other\<close> for strings that are none of the six), \<open>api_error\<close>, the
    lookups \<open>find_task\<close>, \<open>find_user\<close>, \<open>balance\<close> and the object spread \<open>apply_patch\<close>.
  \<^item> \<open>Seed\<close>: \<open>seedData\<close> (mockApi.js lines 116--165), run on every module load: the
    default accounts are upserted, tasks in a Russian city moved to a Kazakh one with that
    city's coordinates (\<open>migrate_task\<close>, \<open>api_cityCoordinates\<close>), the default tasks with
    their coordinates written to an empty store.  C12 shows the load resets the seeded
    users' balances to 200.
  \<^item> \<open>Lifecycle\<close>: \<open>getTasks\<close>, \<open>createTask\<close> (escrow of the reward), \<open>updateTaskStatus\<close>
    (claim check, report, payout on DONE) and \<open>abandonTask\<close> (penalty moved from the
    volunteer to the creator), mockApi.js lines 205--322.  C1--C11: the functional
    behaviour on every branch, the errors, and the defects (double payout, no transition
    table, silent missing task, points not conserved).
  \<^item> \<open>Ledger\<close>: the specification's ledger as a map \<open>uid \<rightharpoonup> int\<close> with three bookings,
    \<open>ledger_of\<close> as abstraction function and the refinement lemmas C13 and C15
    (\<open>ledger_of (op st) = booking (ledger_of st)\<close>) and \<open>createTask_refines\<close>;
    non-negativity per operation.
  \<^item> \<open>Auth\<close>: \<open>login\<close>, \<open>register\<close>, \<open>getUsers\<close>, \<open>updateUser\<close> (C16, C17, C19: login's
    result stated over the users' fields, the register/login round trip, \<open>updateUser\<close> can set any balance; the lemma
    \<open>updateUser_profile_keeps_ledger\<close>: the profile patch keeps the ledger).
  \<^item> \<open>Chat\<close>: \<open>getChatMessages\<close>, \<open>sendChatMessage\<close> and the send handler, task list and
    preview of \<open>ChatSidebar.jsx\<close> (C20, C21; the lemma \<open>sidebar_send_trimmed\<close>:
    only trimmed, non-blank text is stored).
  \<^item> \<open>Session\<close>: \<open>AuthContext\<close> and \<open>TaskContext\<close>.  C23: the locally patched task
    cache stays equal to the store (\<open>coherent\<close>) under distinct ids; C24: the shown
    balance stays fresh (\<open>points_fresh\<close>).
  \<^item> \<open>TaskCard\<close>: the card's handlers and render conditions and the details modal's
    contact cards.  C25: the admin's reject-report button always fails; the lemma
    \<open>take_button_succeeds\<close>: a shown take button succeeds; C27: who sees contacts; the lemma \<open>moderation_buttons\<close>: which
    statuses get moderation.
  \<^item> \<open>Details\<close>: the whole details modal, composed from the contact cards, and the
    card's own state and body; the lemma \<open>details_report_unguarded\<close>: the modal shows
    the report the card hides.
  \<^item> \<open>UserDash\<close>: the volunteer's dashboard as a component (tab, sort and location
    state, the distance badge, the rendered tabs).  C22: the metre badge is shown exactly
    below 1 km, is bounded by 1000, and reads 1000 exactly from 0.9995 km on.
  \<^item> \<open>Dashboards\<close>: tab filters, the stable sorts of the feed, the admin lists, the page's
    unused lower-case handlers (C30; the lemma \<open>feed_is_takeable\<close>: every task of the
    feed shows the take button).
  \<^item> \<open>Forms\<close>: the submit handlers of the login, register, profile, create-task and
    report forms with the browser's validation as guard.  C32: a zero balance lets a
    user publish a task of up to 1000 points for free; the lemma
    \<open>form_create_escrows\<close>: otherwise the form escrows exactly the reward.
  \<^item> \<open>AuthPages\<close>: the login and registration pages as components, with the API's
    error messages (\<open>api_message\<close>); lemmas: the demo login of user 1 reaches the
    dashboard, a taken login shows the API's message and changes nothing.
  \<^item> \<open>TaskForms\<close>: the create-task page's error line and navigation, the report modal,
    and the admin dashboard's loading of the user list.
  \<^item> \<open>Upload\<close>: the photo widget \<open>ImageUpload.jsx\<close> with its \<open>FileReader\<close> completions as
    explicit event sequences, and its render.  C28: sequential use never exceeds \<open>maxImages\<close>; the lemma
    \<open>upload_overlap_exceeds\<close>: two overlapping drops of five photos give ten.
  \<^item> \<open>System\<close>: the application as an inductive step relation \<open>ui_step\<close> on store and
    session, one rule per interface event (the card's buttons, the form submits, a chat
    message, logout, a refetch and a page reload that reruns \<open>seedData\<close>), and
    \<open>reach\<close>, the states reachable from a first visit.  C34 (by rule induction over a
    per-event preservation lemma): in every reachable state only the six known statuses
    are stored, a task without a volunteer's status has no assignee, balances and rewards
    are non-negative, ids are distinct and a signed-in tab's cache is the stored list;
    C36: a shown take button can always be pressed with success.
  \<^item> \<open>Shell\<close>: \<open>App.jsx\<close> (\<open>AppContent\<close>'s routes, \<open>PrivateRoute\<close>, the error boundary
    around a throwing chat page), \<open>Navbar.jsx\<close>, \<open>ThemeContext.jsx\<close> and \<open>ChatContext.jsx\<close>.
    A route renders a view or redirects; \<open>resolve n\<close> follows at most \<open>n\<close> route
    evaluations, \<open>None\<close> when they run out.  C37: three evaluations always suffice (an
    unknown path redirects to the root, the root to the login page or the dashboard, and
    those render), so resolution terminates for every path; C38: no private page is
    rendered without a signed-in user.  The lemma \<open>boundary_sticky\<close>: after a chat page
    throws, every path shows the error screen until the reload button.
  \<^item> \<open>ChatView\<close>: the chat page \<open>Chat.jsx\<close>: its state record, the loading effect, the
    send handler and the render.  C39: a user who takes no part in a task is turned away
    by the loading effect but still gets the send form and can post into the task's
    chat; C40: the shown list stays equal to \<open>getChatMessages\<close> across a send.
    \<open>chat_page\<close> is \<open>App.jsx\<close>'s \<open>ChatPage\<close>, which mounts the page with the cached task;
    the lemma \<open>outsider_route_chat\<close> follows an outsider from the path \<open>/chat/k\<close> to
    the enabled send button.
  \<^item> \<open>Sidebar\<close>: the dashboard's chat sidebar \<open>ChatSidebar.jsx\<close>: its state record, the
    chat-list effect with its dependencies \<open>[user, userTasks.length]\<close>, message loading,
    the send and submit handlers and the rendered list and window.  C31: the local
    update after a send is equivalent to reloading from the store; the lemma
    \<open>sidebar_stale_chats\<close> shows the list going stale when the user's chat tasks change
    but not their number.
  \<^item> \<open>ProfileView\<close>: the profile page \<open>Profile.jsx\<close> as a component (state record, edit,
    input, cancel and submit handlers, render).  The lemma \<open>profile_save_roundtrip\<close>:
    a saved form comes back unchanged through \<open>updateUser\<close> and the context.
  \<^item> \<open>Geo\<close>: \<open>utils/geolocation.js\<close> (\<open>BASE_COORDS\<close>, \<open>getDistanceFromLatLonInKm\<close>
    with its zero-coordinate guard and rounding, \<open>getUserLocation\<close>) and the dashboard's
    own \<open>calculateDistance\<close>, city table and task-coordinate fallback, over reals with
    \<open>sin\<close>, \<open>cos\<close>, \<open>sqrt\<close> and an \<open>atan2\<close> written from \<open>arctan\<close>.  C14: the haversine
    term stays in [0, 1], so every distance lies in [0, 6371 pi] km, and along a
    meridian the distance is the arc length (\<open>atan2_half_angle\<close>); lemmas: the two
    formulas agree up to the rounding, the distance is symmetric and 0 on equal points,
    the dashboard's city table is the API's.  \<open>task_geo_of\<close> reads a stored task's
    coordinates as the feed does; C35: a task migrated by \<open>seedData\<close> is shown at its
    new city, not at the old one's position.
  \<^item> \<open>MapView\<close>: the feed's map \<open>MapView.jsx\<close>, its padded bounding box and its markers,
    and \<open>dash_item\<close>, the task as the dashboard hands it over.  C29: every marker lies in
    the box; the lemma \<open>marker_outside_bbox\<close>: an item whose \<open>coordinates\<close> carry only a
    latitude puts its marker outside.
  \<^item> \<open>MapPicker\<close>: the location picker \<open>MapPicker.jsx\<close> as an event machine.  A world
    holds the state of the last render (\<open>pw_seen\<close>, what handlers' closures read), the
    current state (\<open>pw_cur\<close>, what setters wrote; \<open>coordsRef\<close> is its coordinates),
    the geocoder requests still running (\<open>pw_pending\<close>, answered by \<open>Resolve i\<close> in any
    order, from a fixed server \<open>geo_server\<close>), and what \<open>onLocationSelect\<close> and
    \<open>onAddressChange\<close> last received.  \<open>pk_step\<close> has one equation per button, listener,
    input, render (with the reverse-geocoding effect) and answer; an answer runs the
    continuation (\<open>cont_init\<close>, \<open>cont_click\<close>, ..., \<open>cont_geocode\<close>) of the handler whose
    request it answers, the code after its \<open>await\<close>.  \<open>picker_render\<close> is the header
    (address, buttons, search) and the map (tile, marker, zoom).  \<open>run_when P\<close> says every
    user event finds the world in condition \<open>P\<close>.  C18: when every user event finds the
    picker rendered, its zoom stays in 4..18 (the lemma \<open>wheel_race_exceeds\<close>: two wheel
    turns before a re-render reach 19); C26: when the user waits for each answer, the
    form's location is the point shown (the lemma \<open>picker_answers_out_of_order\<close>:
    answers in the other order leave them apart); lemmas on the geocoding: every lookup
    yields a non-empty address, a hit in Kazakhstan is preferred; \<open>untouched_location\<close>:
    without a user event the location stays the country's centre.
  \<^item> \<open>LocationPicker\<close>: the second location widget \<open>LocationPicker.jsx\<close>, which no
    component imports, modelled in the same way (rendered and current state, the
    debounce timer of the auto-search, pending requests answered in any order).  Lemmas:
    every reverse lookup's continuation hands the position to the parent; a search with
    the find button leaves the suggestion list open.
  \<^item> This theory: \<open>form_with_picker\<close>, the create-task form's location as the picker
    sets it.  C33: the picker sets it on mount, so the form's missing-location check
    never fires; the lemma \<open>untouched_picker_task_at_centre\<close>: a task submitted without
    touching the map is stored at (48, 66).

  \<^bold>\<open>Not modelled.\<close>
  Floating-point rounding and \<open>NaN\<close> in the distance and map code (numbers are
  reals), the browser's geolocation API (a position is an argument), Nominatim itself
  (its answers are the function \<open>geo_server\<close>) and the string formatting of map URLs,
  the file reading of \<open>ImageUpload.jsx\<close> (a preview is a given field), markup and styling, the
  Tailwind configuration, the 3-second chat polling (one load is one step), the chat page's
  scroll effect, the router's normalisation of paths, and JSON parse failures of
  corrupt \<open>localStorage\<close> contents.  The \<open>value\<close> objects of \<open>AuthProvider\<close> and
  \<open>TaskProvider\<close> only bundle the modelled state and operations for \<open>useAuth\<close> and
  \<open>useTasks\<close>; the model calls the operations directly.  Two tabs sharing
  the storage are not modelled as concurrent processes: \<open>ui_step\<close> is the events of
  one tab, and a reload starts the tab afresh.
\<close>

subsection \<open>The create-task form and its location picker\<close>

text \<open>
  \<open>CreateTaskForm.jsx\<close> lines 16 and 91--94: the form's \<open>location\<close> is the last
  position the picker handed to \<open>onLocationSelect\<close>; the submit handler's check
  \<open>!location\<close> tests \<open>cf_location\<close> against \<open>None\<close>.
\<close>

definition form_with_picker :: "create_form \<Rightarrow> picker_world \<Rightarrow> create_form" where
  "form_with_picker f w = f\<lparr>cf_location := pw_location w\<rparr>"

text \<open>C33: The create-task form mounts its picker with no location and no address, and the picker then hands it the country's centre at once, so whatever the user does on the map, submitting the form never stops at "please choose the task's location": that check of the form is dead code, and a task may be published at the country's centre.\<close>

theorem create_form_location_always_set:
  "snd (snd (create_submit now (form_with_picker f (pk_run srv es (picker_mount None []))) st s)) \<noteq> LocationMissing"
proof -
  obtain p where "pw_location (pk_run srv es (picker_mount None [])) = Some p"
    using mount_location_set by blast
  then show ?thesis
    by (simp add: create_submit_def form_with_picker_def split: sum.split prod.split)
qed

text \<open>
  A form submitted while the picker has only mounted and looked its centre up (no user
  event on the map) publishes the task at the centre of Kazakhstan, latitude 48 and
  longitude 66.
\<close>

lemma untouched_picker_task_at_centre:
  assumes "\<forall>e\<in>set es. \<not> user_event e"
    and "create_submit now (form_with_picker f (pk_run srv es (picker_mount None []))) st s = (st', s', Created t)"
  shows "latitude t = Some 48 \<and> longitude t = Some 66"
proof -
  have "pw_location (pk_run srv es (picker_mount None [])) = Some BASE_COORDS"
    using assms(1) by (rule untouched_location)
  then show ?thesis using assms(2)
    by (auto simp: create_submit_def form_with_picker_def ctx_createTask_def createTask_def new_task_def
        form_task_data_def BASE_COORDS_def Let_def split: if_splits sum.splits prod.splits option.splits)
qed

end
